(* ===== verification/Prelude.thy ===== *)
theory Prelude
  imports Complex_Main "HOL-Library.Signed_Division" "HOL-Library.Sublist"
begin

text \<open>
  Shared vocabulary of the development: the Go runtime notions that every component of the
  controller uses.

  \<^item> Machine integers: a Go \<open>int32\<close> or \<open>int64\<close> is an \<open>int\<close>; every conversion
    or arithmetic operation of the source that can leave the range is followed by
    \<open>int32\<close> or \<open>int64\<close>, the two's complement wrap-around.  Go's integer quotient
    truncates, which is \<open>sdiv\<close> of the library.
  \<^item> Panics and errors: a Go function that can panic or change state is a value of
    \<open>('s, 'a) go\<close>, a state transformer that ends with \<open>Ret\<close> or \<open>Panic\<close>; a Go
    \<open>error\<close> is a value and travels in a sum (\<open>Inl\<close> is the error).
  \<^item> \<open>wp\<close>, the weakest precondition of such a program, with one rewrite rule per
    combinator (collection \<open>go_wp\<close>), carries the proofs about stateful code.
  \<^item> Strings, decimal printing and time stamps (nanoseconds).
\<close>

named_theorems go_defs \<open>definitions of the combinators of the state and panic monad\<close>
named_theorems go_wp \<open>weakest precondition rules of the combinators\<close>
named_theorems go_int \<open>wrap-around facts of machine integers\<close>

section \<open>Machine integers\<close>

definition int32 :: "int \<Rightarrow> int" where
  "int32 x = signed_take_bit 31 x"

definition int64 :: "int \<Rightarrow> int" where
  "int64 x = signed_take_bit 63 x"

definition fits32 :: "int \<Rightarrow> bool" where
  "fits32 x \<longleftrightarrow> - (2 ^ 31) \<le> x \<and> x < 2 ^ 31"

definition fits64 :: "int \<Rightarrow> bool" where
  "fits64 x \<longleftrightarrow> - (2 ^ 63) \<le> x \<and> x < 2 ^ 63"

lemma int32_id [go_int]: "fits32 x \<Longrightarrow> int32 x = x"
  unfolding int32_def fits32_def by (intro signed_take_bit_int_eq_self) auto

lemma int64_id [go_int]: "fits64 x \<Longrightarrow> int64 x = x"
  unfolding int64_def fits64_def by (intro signed_take_bit_int_eq_self) auto

lemma fits32_int32 [simp]: "fits32 (int32 x)"
  using signed_take_bit_int_greater_eq_minus_exp [of 31 x] signed_take_bit_int_less_exp [of 31 x]
  by (simp add: int32_def fits32_def)

lemma fits64_int64 [simp]: "fits64 (int64 x)"
  using signed_take_bit_int_greater_eq_minus_exp [of 63 x] signed_take_bit_int_less_exp [of 63 x]
  by (simp add: int64_def fits64_def)

lemma int32_zero [simp]: "int32 0 = 0"
  by (simp add: int32_def)

lemma fits32_fits64: "fits32 x \<Longrightarrow> fits64 x"
  by (simp add: fits32_def fits64_def)

lemma fits64_below: "0 \<le> x \<Longrightarrow> x \<le> y \<Longrightarrow> fits64 y \<Longrightarrow> fits64 x"
  by (simp add: fits64_def)

lemma fits32_sandwich: "fits32 a \<Longrightarrow> fits32 b \<Longrightarrow> a \<le> x \<Longrightarrow> x \<le> b \<Longrightarrow> fits32 x"
  by (simp add: fits32_def)

lemma sdiv_nonneg_pos: "0 \<le> (a::int) \<Longrightarrow> 0 < b \<Longrightarrow> a sdiv b = a div b"
  by (auto simp: signed_divide_int_def sgn_if abs_if)

section \<open>Panics, state and the weakest precondition\<close>

datatype go_panic = NilDereference | IntegerDivideByZero | SliceBoundsOutOfRange

datatype 'a outcome = Ret 'a | Panic go_panic

type_synonym ('s, 'a) go = "'s \<Rightarrow> 'a outcome \<times> 's"

definition go_return :: "'a \<Rightarrow> ('s, 'a) go" where
  [go_defs]: "go_return a = (\<lambda>s. (Ret a, s))"

definition go_bind :: "('s, 'a) go \<Rightarrow> ('a \<Rightarrow> ('s, 'b) go) \<Rightarrow> ('s, 'b) go" where
  [go_defs]: "go_bind m f = (\<lambda>s. case m s of
     (Ret a, s') \<Rightarrow> f a s'
   | (Panic p, s') \<Rightarrow> (Panic p, s'))"

definition go_panic :: "go_panic \<Rightarrow> ('s, 'a) go" where
  [go_defs]: "go_panic p = (\<lambda>s. (Panic p, s))"

definition go_get :: "('s \<Rightarrow> 'a) \<Rightarrow> ('s, 'a) go" where
  [go_defs]: "go_get f = (\<lambda>s. (Ret (f s), s))"

definition go_modify :: "('s \<Rightarrow> 's) \<Rightarrow> ('s, unit) go" where
  [go_defs]: "go_modify f = (\<lambda>s. (Ret (), f s))"

text \<open>\<open>*p\<close>: a nil pointer dereference panics.\<close>

definition deref :: "'a option \<Rightarrow> ('s, 'a) go" where
  [go_defs]: "deref p = (case p of None \<Rightarrow> go_panic NilDereference | Some x \<Rightarrow> go_return x)"

text \<open>A call of code outside the repository whose outcome may be a panic.\<close>

definition go_lift :: "'a outcome \<Rightarrow> ('s, 'a) go" where
  [go_defs]: "go_lift r = (\<lambda>s. (r, s))"

text \<open>\<open>defer func() { recover() }\<close>: a panic ends the call, which returns \<open>h\<close>'s value.\<close>

definition go_recover :: "('s, 'a) go \<Rightarrow> (go_panic \<Rightarrow> ('s, 'a) go) \<Rightarrow> ('s, 'a) go" where
  [go_defs]: "go_recover m h = (\<lambda>s. case m s of
     (Ret a, s') \<Rightarrow> (Ret a, s')
   | (Panic p, s') \<Rightarrow> h p s')"

text \<open>\<open>defer d()\<close>: \<open>d\<close> runs whichever way \<open>m\<close> ends.\<close>

definition go_finally :: "('s, 'a) go \<Rightarrow> ('s, unit) go \<Rightarrow> ('s, 'a) go" where
  [go_defs]: "go_finally m d = (\<lambda>s. case m s of (r, s') \<Rightarrow> (case d s' of
     (Ret _, s'') \<Rightarrow> (r, s'')
   | (Panic p, s'') \<Rightarrow> (Panic p, s'')))"

definition wp :: "('s, 'a) go \<Rightarrow> ('a \<Rightarrow> 's \<Rightarrow> bool) \<Rightarrow> (go_panic \<Rightarrow> 's \<Rightarrow> bool) \<Rightarrow> 's \<Rightarrow> bool" where
  "wp m Q R s = (case m s of (Ret a, s') \<Rightarrow> Q a s' | (Panic p, s') \<Rightarrow> R p s')"

lemma wp_return [go_wp]: "wp (go_return a) Q R s = Q a s"
  by (simp add: wp_def go_defs)

lemma wp_return_eq: "wp (go_return a) Q R = Q a"
  by (simp add: fun_eq_iff wp_return)

lemma wp_bind [go_wp]: "wp (go_bind m f) Q R s = wp m (\<lambda>a. wp (f a) Q R) R s"
  by (simp add: wp_def go_defs split: prod.splits outcome.splits)

lemma wp_panic [go_wp]: "wp (go_panic p) Q R s = R p s"
  by (simp add: wp_def go_defs)

lemma wp_get [go_wp]: "wp (go_get f) Q R s = Q (f s) s"
  by (simp add: wp_def go_defs)

lemma wp_modify [go_wp]: "wp (go_modify f) Q R s = Q () (f s)"
  by (simp add: wp_def go_defs)

lemma wp_deref [go_wp]:
  "wp (deref p) Q R s = (case p of None \<Rightarrow> R NilDereference s | Some x \<Rightarrow> Q x s)"
  by (simp add: wp_def go_defs split: option.splits)

lemma wp_lift [go_wp]:
  "wp (go_lift r) Q R s = (case r of Ret a \<Rightarrow> Q a s | Panic p \<Rightarrow> R p s)"
  by (simp add: wp_def go_defs)

lemma wp_recover [go_wp]:
  "wp (go_recover m h) Q R s = wp m Q (\<lambda>p. wp (h p) Q R) s"
  by (simp add: wp_def go_defs split: prod.splits outcome.splits)

lemma wp_finally [go_wp]:
  "wp (go_finally m d) Q R s = wp m (\<lambda>a. wp d (\<lambda>_. Q a) R) (\<lambda>p. wp d (\<lambda>_. R p) R) s"
  by (simp add: wp_def go_defs split: prod.splits outcome.splits)

lemma wp_if [go_wp]: "wp (if c then m else n) Q R s = (if c then wp m Q R s else wp n Q R s)"
  by simp

lemma wp_option [go_wp]:
  "wp (case x of None \<Rightarrow> m | Some y \<Rightarrow> n y) Q R s =
     (case x of None \<Rightarrow> wp m Q R s | Some y \<Rightarrow> wp (n y) Q R s)"
  by (simp split: option.splits)

lemma wp_sum [go_wp]:
  "wp (case x of Inl e \<Rightarrow> m e | Inr y \<Rightarrow> n y) Q R s =
     (case x of Inl e \<Rightarrow> wp (m e) Q R s | Inr y \<Rightarrow> wp (n y) Q R s)"
  by (simp split: sum.splits)

lemma wp_prod [go_wp]:
  "wp (case x of (a, b) \<Rightarrow> m a b) Q R s = (case x of (a, b) \<Rightarrow> wp (m a b) Q R s)"
  by (simp split: prod.splits)

lemma wp_mono:
  assumes "wp m Q R s" and "\<And>a s'. Q a s' \<Longrightarrow> Q' a s'" and "\<And>p s'. R p s' \<Longrightarrow> R' p s'"
  shows "wp m Q' R' s"
  using assms by (auto simp: wp_def split: prod.splits outcome.splits)

lemma wp_conj: "wp m (\<lambda>a s'. Q a s' \<and> Q' a s') (\<lambda>p s'. R p s' \<and> R' p s') s \<longleftrightarrow>
    wp m Q R s \<and> wp m Q' R' s"
  by (auto simp: wp_def split: prod.splits outcome.splits)

lemma wp_phase:
  "wp m (\<lambda>_. P) R s \<Longrightarrow> (\<And>a s'. P s' \<Longrightarrow> wp (f a) Q R s') \<Longrightarrow> wp (go_bind m f) Q R s"
  unfolding wp_bind by (erule wp_mono)

lemma wp_phase2:
  "wp m P R s \<Longrightarrow> (\<And>a s'. P a s' \<Longrightarrow> wp (f a) Q R s') \<Longrightarrow> wp (go_bind m f) Q R s"
  unfolding wp_bind by (erule wp_mono)

lemma wpD_Ret: "wp m Q R s \<Longrightarrow> m s = (Ret a, s') \<Longrightarrow> Q a s'"
  by (simp add: wp_def)

lemma wpD_Panic: "wp m Q R s \<Longrightarrow> m s = (Panic p, s') \<Longrightarrow> R p s'"
  by (simp add: wp_def)

lemma wpI: "(\<And>a s'. m s = (Ret a, s') \<Longrightarrow> Q a s') \<Longrightarrow>
    (\<And>p s'. m s = (Panic p, s') \<Longrightarrow> R p s') \<Longrightarrow> wp m Q R s"
  by (auto simp: wp_def split: prod.splits outcome.splits)

text \<open>\<open>for _, x := range xs\<close> with the loop variables in an accumulator.\<close>

fun go_fold :: "('a \<Rightarrow> 'b \<Rightarrow> ('s, 'b) go) \<Rightarrow> 'a list \<Rightarrow> 'b \<Rightarrow> ('s, 'b) go" where
  "go_fold f [] acc = go_return acc"
| "go_fold f (x # xs) acc = go_bind (f x acc) (\<lambda>acc'. go_fold f xs acc')"

lemma wp_fold_inv:
  assumes "I acc s"
    and "\<And>x acc s. x \<in> set xs \<Longrightarrow> I acc s \<Longrightarrow> wp (f x acc) I R s"
  shows "wp (go_fold f xs acc) I R s"
  using assms
proof (induction xs arbitrary: acc s)
  case Nil
  then show ?case by (simp add: go_wp)
next
  case (Cons x xs)
  have "wp (f x acc) I R s"
    using Cons.prems by simp
  then show ?case
    by (simp add: go_wp, elim wp_mono) (auto intro!: Cons.IH Cons.prems(2))
qed

section \<open>Strings, errors and time\<close>

text \<open>
  A Go \<open>error\<close>: its text, and whether \<open>apierrors.IsNotFound\<close> holds of it (the only
  other thing the code asks of an error).  \<open>wrap_error\<close> is \<open>fmt.Errorf\<close> with \<open>%w\<close>.
\<close>

record go_error =
  Error :: string
  IsNotFound :: bool

definition errorf :: "string \<Rightarrow> go_error" where
  "errorf msg = \<lparr>Error = msg, IsNotFound = False\<rparr>"

definition wrap_error :: "string \<Rightarrow> go_error \<Rightarrow> go_error" where
  "wrap_error msg e = \<lparr>Error = msg @ Error e, IsNotFound = IsNotFound e\<rparr>"

lemma Error_errorf [simp]: "Error (errorf m) = m"
  by (simp add: errorf_def)

lemma Error_wrap_error [simp]: "Error (wrap_error m e) = m @ Error e"
  by (simp add: wrap_error_def)

text \<open>\<open>strings.Contains\<close>\<close>

definition contains :: "string \<Rightarrow> string \<Rightarrow> bool" where
  "contains s sub \<longleftrightarrow> sublist sub s"

text \<open>\<open>%d\<close>\<close>

fun show_nat :: "nat \<Rightarrow> string" where
  "show_nat n = (if n < 10 then [char_of (48 + n)] else show_nat (n div 10) @ [char_of (48 + n mod 10)])"

declare show_nat.simps [simp del]

definition show_int :: "int \<Rightarrow> string" where
  "show_int i = (if i < 0 then CHR ''-'' # show_nat (nat (- i)) else show_nat (nat i))"

text \<open>\<open>%q\<close>: quotes, with the quote, the backslash and the common control characters escaped.\<close>

definition quote_char :: "char \<Rightarrow> string" where
  "quote_char c = (if c = CHR 0x22 then [CHR 0x5C, CHR 0x22] else if c = CHR 0x5C then [CHR 0x5C, CHR 0x5C]
     else if c = CHR 0x0A then [CHR 0x5C, CHR ''n''] else if c = CHR 0x0D then [CHR 0x5C, CHR ''r'']
     else if c = CHR 0x09 then [CHR 0x5C, CHR ''t''] else [c])"

definition quote :: "string \<Rightarrow> string" where
  "quote s = CHR 0x22 # concat (map quote_char s) @ [CHR 0x22]"

text \<open>\<open>strconv.ParseBool\<close>\<close>

definition ParseBool :: "string \<Rightarrow> go_error + bool" where
  "ParseBool s =
     (if s \<in> {''1'', ''t'', ''T'', ''true'', ''TRUE'', ''True''} then Inr True
      else if s \<in> {''0'', ''f'', ''F'', ''false'', ''FALSE'', ''False''} then Inr False
      else Inl (errorf (''strconv.ParseBool: parsing '' @ quote s @ '': invalid syntax'')))"

text \<open>\<open>strings.LastIndex(s, c)\<close> for a one-character string, as a prefix: \<open>None\<close> for -1.\<close>

fun before_last :: "char \<Rightarrow> string \<Rightarrow> string option" where
  "before_last c [] = None"
| "before_last c (x # xs) = (case before_last c xs of
      Some p \<Rightarrow> Some (x # p)
    | None \<Rightarrow> if x = c then Some [] else None)"

lemma before_last_Some: "before_last c (p @ c # q) = Some p" if "c \<notin> set q"
proof -
  have "before_last c q = None"
    using that by (induction q) auto
  then show ?thesis by (induction p) auto
qed

lemma before_last_None_iff: "before_last c xs = None \<longleftrightarrow> c \<notin> set xs"
  by (induction xs) (auto split: option.splits)

text \<open>
  A \<open>time.Time\<close> is a number of nanoseconds, a \<open>time.Duration\<close> an \<open>int64\<close> number of
  them.  \<open>t.Sub(u)\<close> saturates at the range of a duration.  The zero time is midnight,
  January 1 of year 1.
\<close>

type_synonym time = int
type_synonym duration = int

definition zero_time :: time where
  "zero_time = - 62135596800 * 1000000000"

definition seconds :: "int \<Rightarrow> duration" where
  "seconds n = int64 (n * 1000000000)"

definition time_sub :: "time \<Rightarrow> time \<Rightarrow> duration" where
  "time_sub t u = max (- (2 ^ 63)) (min (2 ^ 63 - 1) (t - u))"

lemma seconds_eq: "fits32 n \<Longrightarrow> seconds n = n * 1000000000"
  unfolding seconds_def by (rule int64_id) (simp add: fits32_def fits64_def)

lemma fits64_time_sub: "fits64 (time_sub t u)"
  by (simp add: time_sub_def fits64_def)

lemma time_sub_pos_iff: "0 < time_sub t u \<longleftrightarrow> u < t"
  by (auto simp: time_sub_def max_def min_def)

lemma go_bind_Ret:
  assumes "go_bind m f s = (Ret y, s')"
  obtains x s1 where "m s = (Ret x, s1)" "f x s1 = (Ret y, s')"
  using assms by (auto simp: go_bind_def split: prod.splits outcome.splits)

end
