(* ===== verification/Float64.thy ===== *)
theory Float64
  imports Prelude "HOL-Library.Log_Nat"
begin

text \<open>
  The part of Go's \<open>float64\<close> (IEEE 754 binary64, round to nearest, ties to even) and of the
  \<open>math\<close> package that the controller uses.  A finite value is the rational number it
  denotes.  The two zeros are identified: the sign of a zero is only visible to a division by
  it, and every divisor of the program is a conversion of an integer, which is never the
  negative zero.

  \<open>rnd_rat\<close> rounds a rational to the nearest multiple of the unit in the last place; the
  locale \<open>rounding\<close> states what the clients need of it (it is monotone and exact on integers
  up to \<open>2 ^ 53\<close>, with a relative error of at most \<open>2 ^ -53\<close>), and derives that floor and
  ceiling of a rounded quotient of integers are the integer quotients.
\<close>

named_theorems f64_defs \<open>definitions of the binary64 operations\<close>

section \<open>Rounding\<close>

definition rne :: "rat \<Rightarrow> int" where
  "rne x = (let f = \<lfloor>x\<rfloor>; d = x - of_int f in
     if d < 1 / 2 then f else if d > 1 / 2 then f + 1 else if even f then f else f + 1)"

definition ilog2 :: "rat \<Rightarrow> int" where
  "ilog2 x = (case quotient_of x of (p, q) \<Rightarrow>
     let k = bitlen p - bitlen q in if 2 powi k \<le> x then k else k - 1)"

definition ulp_exp :: "rat \<Rightarrow> int" where
  "ulp_exp x = max (- 1074) (ilog2 \<bar>x\<bar> - 52)"

definition rnd_rat :: "rat \<Rightarrow> rat" where
  "rnd_rat x = (if x = 0 then 0 else
     let u = 2 powi (ulp_exp x) in of_int (rne (x / u)) * u)"

lemma rne_of_int [simp]: "rne (of_int n) = n"
  by (simp add: rne_def)

lemma rne_error: "\<bar>of_int (rne x) - x\<bar> \<le> 1 / 2"
proof -
  define f where "f = \<lfloor>x\<rfloor>"
  have "of_int f \<le> x" and "x < of_int f + 1"
    unfolding f_def by linarith+
  then show ?thesis
    by (auto simp: rne_def f_def [symmetric] Let_def abs_if)
qed

lemma rne_minus: "rne (- x) = - rne x"
proof (cases "x = of_int \<lfloor>x\<rfloor>")
  case True
  then show ?thesis by (metis of_int_minus rne_of_int)
next
  case False
  define f where "f = \<lfloor>x\<rfloor>"
  have "of_int f < x" and "x < of_int f + 1"
    using False unfolding f_def by linarith+
  then have "\<lfloor>- x\<rfloor> = - f - 1"
    by (intro floor_unique) auto
  then show ?thesis
    by (auto simp: rne_def f_def [symmetric] Let_def)
qed

lemma rne_mono: "x \<le> y \<Longrightarrow> rne x \<le> rne y"
proof -
  assume le: "x \<le> y"
  then have fl: "\<lfloor>x\<rfloor> \<le> \<lfloor>y\<rfloor>" by (rule floor_mono)
  show ?thesis
  proof (cases "\<lfloor>x\<rfloor> = \<lfloor>y\<rfloor>")
    case True
    then show ?thesis using le by (auto simp: rne_def Let_def)
  next
    case False
    with fl have "\<lfloor>x\<rfloor> + 1 \<le> \<lfloor>y\<rfloor>" by simp
    then show ?thesis by (auto simp: rne_def Let_def)
  qed
qed

lemma powi_pos [simp]: "(0::rat) < 2 powi k"
  by (simp add: zero_less_power_int)

lemma powi_le_iff: "(2::rat) powi a \<le> 2 powi b \<longleftrightarrow> a \<le> b"
  using power_int_increasing [of a b "2::rat"] power_int_strict_increasing [of b a "2::rat"]
  by (cases "a \<le> b") auto

lemma powi_less_iff: "(2::rat) powi a < 2 powi b \<longleftrightarrow> a < b"
  using powi_le_iff [of b a] by (simp add: not_le [symmetric])

lemma bitlen_powi:
  assumes "0 < p"
  shows "2 powi (bitlen p - 1) \<le> (of_int p :: rat)" and "(of_int p :: rat) < 2 powi (bitlen p)"
proof -
  have b: "2 ^ nat (bitlen p - 1) \<le> p" "p < 2 ^ nat (bitlen p)" and pos: "0 < bitlen p"
    using assms bitlen_bounds [of p] bitlen_nonneg [of p] bitlen_eq_zero_iff [of p] by auto
  have "(of_int (2 ^ nat (bitlen p - 1)) :: rat) \<le> of_int p"
    using b(1) by (simp only: of_int_le_iff)
  then show "2 powi (bitlen p - 1) \<le> (of_int p :: rat)"
    using pos by (simp add: power_int_def)
  have "(of_int p :: rat) < of_int (2 ^ nat (bitlen p))"
    using b(2) by (simp only: of_int_less_iff)
  then show "(of_int p :: rat) < 2 powi (bitlen p)"
    using pos by (simp add: power_int_def)
qed

lemma ilog2_bounds:
  assumes "0 < x"
  shows "2 powi (ilog2 x) \<le> x" and "x < 2 powi (ilog2 x + 1)"
proof -
  obtain p q where pq: "quotient_of x = (p, q)" by (cases "quotient_of x")
  then have q: "0 < q" and x: "x = of_int p / of_int q"
    using quotient_of_denom_pos quotient_of_div by auto
  with assms have p: "0 < p"
    by (simp add: zero_less_divide_iff)
  define k where "k = bitlen p - bitlen q"
  note bp = bitlen_powi [OF p] and bq = bitlen_powi [OF q]
  have "x < 2 powi (bitlen p) / 2 powi (bitlen q - 1)"
    unfolding x using bp bq p q by (intro frac_less) auto
  also have "\<dots> = 2 powi (k + 1)"
    by (simp add: k_def power_int_diff [symmetric] algebra_simps)
  finally have hi: "x < 2 powi (k + 1)" .
  have "2 powi (bitlen p - 1) / 2 powi (bitlen q) < x"
    unfolding x using bp bq p q by (intro frac_less2) auto
  moreover have "2 powi (bitlen p - 1) / 2 powi (bitlen q) = (2::rat) powi (k - 1)"
    by (simp add: k_def power_int_diff [symmetric] algebra_simps)
  ultimately have lo: "2 powi (k - 1) < x" by simp
  have ilog: "ilog2 x = (if 2 powi k \<le> x then k else k - 1)"
    by (simp add: ilog2_def pq k_def Let_def)
  show "2 powi (ilog2 x) \<le> x" and "x < 2 powi (ilog2 x + 1)"
    using hi lo by (auto simp: ilog)
qed

lemma ilog2_mono: "0 < x \<Longrightarrow> x \<le> y \<Longrightarrow> ilog2 x \<le> ilog2 y"
proof -
  assume x: "0 < x" and le: "x \<le> y"
  have "2 powi (ilog2 x) < (2::rat) powi (ilog2 y + 1)"
    using ilog2_bounds [of x] ilog2_bounds [of y] x le by linarith
  then show "ilog2 x \<le> ilog2 y" by (simp add: powi_less_iff)
qed

lemma rnd_rat_0 [simp]: "rnd_rat 0 = 0"
  by (simp add: rnd_rat_def)

lemma rnd_rat_error: "\<bar>rnd_rat x - x\<bar> \<le> 2 powi (ulp_exp x) / 2"
proof (cases "x = 0")
  case False
  define u :: rat where "u = 2 powi (ulp_exp x)"
  have u: "0 < u" by (simp add: u_def)
  have "rnd_rat x - x = (of_int (rne (x / u)) - x / u) * u"
    using False u by (simp add: rnd_rat_def u_def [symmetric] Let_def left_diff_distrib)
  then have "\<bar>rnd_rat x - x\<bar> = \<bar>of_int (rne (x / u)) - x / u\<bar> * u"
    using u by (simp add: abs_mult)
  also have "\<dots> \<le> 1 / 2 * u"
    using rne_error u by (intro mult_right_mono) auto
  finally show ?thesis by (simp add: u_def)
qed simp

text \<open>A value of magnitude below \<open>2 ^ (e + 53)\<close> on the grid of width \<open>2 ^ e\<close> is representable.\<close>

lemma ulp_exp_le:
  assumes "x \<noteq> 0" and "- 1074 \<le> e" and "\<bar>x\<bar> < 2 powi (e + 53)"
  shows "ulp_exp x \<le> e"
proof -
  have "2 powi (ilog2 \<bar>x\<bar>) < (2::rat) powi (e + 53)"
    using ilog2_bounds [of "\<bar>x\<bar>"] assms by auto
  then have "ilog2 \<bar>x\<bar> < e + 53" by (simp only: powi_less_iff)
  then show ?thesis using assms by (simp add: ulp_exp_def)
qed

lemma rnd_rat_grid:
  assumes "- 1074 \<le> e" and "x = of_int n * 2 powi e" and "\<bar>x\<bar> < 2 powi (e + 53)"
  shows "rnd_rat x = x"
proof (cases "x = 0")
  case False
  have le: "ulp_exp x \<le> e" using ulp_exp_le False assms by blast
  define d where "d = nat (e - ulp_exp x)"
  have "(2::rat) powi e = 2 powi (ulp_exp x) * 2 ^ d"
    using le by (simp add: d_def power_int_add [symmetric] power_int_of_nat [symmetric])
  then have "x / 2 powi (ulp_exp x) = of_int (n * 2 ^ d)"
    using assms(2) by (simp add: field_simps)
  then show ?thesis
    using False by (simp only: rnd_rat_def Let_def rne_of_int) (simp add: field_simps)
qed simp

lemma rnd_rat_int: "\<bar>n\<bar> \<le> 2 ^ 53 \<Longrightarrow> rnd_rat (of_int n) = of_int n"
proof -
  assume n: "\<bar>n\<bar> \<le> 2 ^ 53"
  show ?thesis
  proof (cases "\<bar>n\<bar> = 2 ^ 53")
    case True
    then have "n = 2 ^ 53 \<or> n = - (2 ^ 53)" by linarith
    then have "of_int n = of_int (n div 2) * (2::rat) powi 1" and "\<bar>of_int n\<bar> < (2::rat) powi (1 + 53)"
      by auto
    then show ?thesis by (intro rnd_rat_grid [of 1 _ "n div 2"]) auto
  next
    case False
    with n have "\<bar>n\<bar> < 2 ^ 53" by simp
    then have "of_int \<bar>n\<bar> < (of_int (2 ^ 53) :: rat)" by (simp only: of_int_less_iff)
    then show ?thesis by (intro rnd_rat_grid [of 0 _ n]) auto
  qed
qed

lemma rnd_rat_minus: "rnd_rat (- x) = - rnd_rat x"
  by (simp add: rnd_rat_def ulp_exp_def rne_minus Let_def)

text \<open>Rounding does not cross a grid point that is at least as coarse as the unit in the last place.\<close>

lemma grid_on_ulp:
  assumes "ulp_exp x \<le> e"
  shows "\<exists>k. of_int n * (2::rat) powi e = of_int k * 2 powi (ulp_exp x)"
proof -
  have "(2::rat) powi e = 2 powi (ulp_exp x) * of_int (2 ^ nat (e - ulp_exp x))"
    using assms by (simp add: power_int_add [symmetric] power_int_of_nat [symmetric])
  then show ?thesis by (intro exI [of _ "n * 2 ^ nat (e - ulp_exp x)"]) simp
qed

lemma rnd_rat_le_grid:
  assumes "x \<noteq> 0" and "ulp_exp x \<le> e" and "x \<le> of_int n * 2 powi e"
  shows "rnd_rat x \<le> of_int n * 2 powi e"
proof -
  define u :: rat where "u = 2 powi (ulp_exp x)"
  have u: "0 < u" by (simp add: u_def)
  obtain k where k: "of_int n * (2::rat) powi e = of_int k * u"
    using grid_on_ulp [OF assms(2)] u_def by blast
  have "x / u \<le> of_int k"
    using assms(3) u by (simp add: k field_simps)
  then have "rne (x / u) \<le> k"
    using rne_mono rne_of_int by metis
  then show ?thesis
    using u assms(1) by (simp add: k rnd_rat_def u_def [symmetric] Let_def mult_right_mono)
qed

lemma rnd_rat_ge_grid:
  assumes "x \<noteq> 0" and "ulp_exp x \<le> e" and "of_int n * 2 powi e \<le> x"
  shows "of_int n * 2 powi e \<le> rnd_rat x"
proof -
  have "rnd_rat (- x) \<le> of_int (- n) * 2 powi e"
    using assms by (intro rnd_rat_le_grid) (auto simp: ulp_exp_def)
  then show ?thesis by (simp add: rnd_rat_minus)
qed

lemma rnd_rat_mono_pos:
  assumes "0 < x" and "x \<le> y"
  shows "rnd_rat x \<le> rnd_rat y"
proof (cases "ulp_exp x = ulp_exp y")
  case True
  then show ?thesis
    using assms by (auto simp: rnd_rat_def Let_def intro!: mult_right_mono rne_mono divide_right_mono)
next
  case False
  have "ilog2 x \<le> ilog2 y" using assms by (intro ilog2_mono)
  with False assms have y: "ulp_exp y = ilog2 y - 52" and lt: "ilog2 x + 1 \<le> ilog2 y"
    and x: "ulp_exp x \<le> ilog2 y"
    by (auto simp: ulp_exp_def max_def split: if_splits)
  have "x \<le> 2 powi (ilog2 x + 1)" using ilog2_bounds [of x] assms by simp
  also have "\<dots> \<le> (2::rat) powi (ilog2 y)" using lt by (simp only: powi_le_iff)
  finally have "rnd_rat x \<le> of_int 1 * 2 powi (ilog2 y)"
    using assms x by (intro rnd_rat_le_grid) auto
  also have "\<dots> \<le> rnd_rat y"
    using assms y ilog2_bounds [of y] by (intro rnd_rat_ge_grid) auto
  finally show ?thesis .
qed

lemma rnd_rat_nonneg: "0 \<le> x \<Longrightarrow> 0 \<le> rnd_rat x"
  using rnd_rat_ge_grid [of x "ulp_exp x" 0] by (cases "x = 0") auto

lemma rnd_rat_mono: "x \<le> y \<Longrightarrow> rnd_rat x \<le> rnd_rat y"
proof -
  assume le: "x \<le> y"
  consider "0 < x" | "y < 0" | "x \<le> 0" "0 \<le> y" by linarith
  then show ?thesis
  proof cases
    case 1
    then show ?thesis using le by (rule rnd_rat_mono_pos)
  next
    case 2
    then have "rnd_rat (- y) \<le> rnd_rat (- x)" using le by (intro rnd_rat_mono_pos) auto
    then show ?thesis by (simp add: rnd_rat_minus)
  next
    case 3
    then have "0 \<le> rnd_rat (- x)" and "0 \<le> rnd_rat y" by (auto intro: rnd_rat_nonneg)
    then show ?thesis by (simp add: rnd_rat_minus)
  qed
qed

lemma rnd_rat_relative_error:
  assumes "2 powi (- 1022) \<le> \<bar>x\<bar>"
  shows "\<bar>rnd_rat x - x\<bar> \<le> \<bar>x\<bar> * 2 powi (- 53)"
proof -
  have x: "0 < \<bar>x\<bar>" using assms powi_pos [of "- 1022"] by linarith
  have "2 powi (- 1022) < (2::rat) powi (ilog2 \<bar>x\<bar> + 1)"
    using assms ilog2_bounds(2) [OF x] by linarith
  then have "ulp_exp x = ilog2 \<bar>x\<bar> - 52"
    by (simp only: powi_less_iff) (simp add: ulp_exp_def)
  then have "\<bar>rnd_rat x - x\<bar> \<le> 2 powi (ilog2 \<bar>x\<bar>) * 2 powi (- 53)"
    using rnd_rat_error [of x] by (simp add: power_int_diff power_int_minus)
  also have "\<dots> \<le> \<bar>x\<bar> * 2 powi (- 53)"
    using ilog2_bounds(1) [OF x] by (intro mult_right_mono) auto
  finally show ?thesis .
qed

lemma rnd_rat_le_fine:
  assumes "x \<le> of_int n * 2 powi e" and "- 1074 \<le> e" and "\<bar>of_int n * 2 powi e :: rat\<bar> < 2 powi (e + 53)"
  shows "rnd_rat x \<le> of_int n * 2 powi e"
  using rnd_rat_mono [OF assms(1)] rnd_rat_grid [of e _ n] assms by simp

lemma rnd_rat_ge_fine:
  assumes "of_int n * 2 powi e \<le> x" and "- 1074 \<le> e" and "\<bar>of_int n * 2 powi e :: rat\<bar> < 2 powi (e + 53)"
  shows "of_int n * 2 powi e \<le> rnd_rat x"
  using rnd_rat_mono [OF assms(1)] rnd_rat_grid [of e _ n] assms by simp

section \<open>What clients need of rounding\<close>

text \<open>
  A rounding that is monotone, exact on small integers and of relative error \<open>2 ^ -53\<close>: all that the
  facts about quotients use.
\<close>

locale rounding =
  fixes rd :: "rat \<Rightarrow> rat"
  assumes mono: "x \<le> y \<Longrightarrow> rd x \<le> rd y"
    and exact: "\<bar>n\<bar> \<le> 2 ^ 53 \<Longrightarrow> rd (of_int n) = of_int n"
    and relative_error: "2 powi (- 1022) \<le> \<bar>x\<bar> \<Longrightarrow> \<bar>rd x - x\<bar> \<le> \<bar>x\<bar> * 2 powi (- 53)"
begin

lemma le_int: "x \<le> of_int n \<Longrightarrow> \<bar>n\<bar> \<le> 2 ^ 53 \<Longrightarrow> rd x \<le> of_int n"
  using mono exact by metis

lemma ge_int: "of_int n \<le> x \<Longrightarrow> \<bar>n\<bar> \<le> 2 ^ 53 \<Longrightarrow> of_int n \<le> rd x"
  using mono exact by metis

lemma quotient_error:
  assumes "0 < p" and "p < 2 ^ 53" and "0 < q" and "q < 2 ^ 64"
  shows "\<bar>rd (of_int p / of_int q) - of_int p / of_int q\<bar> < 1 / of_int q"
proof -
  define x :: rat where "x = of_int p / of_int q"
  have q: "(of_int q :: rat) < 2 ^ 64"
    using assms(4) by (metis of_int_less_iff of_int_numeral of_int_power)
  have "2 powi (- 1022) \<le> (2::rat) powi (- 64)" by (simp only: powi_le_iff)
  also have "\<dots> = 1 / 2 ^ 64" by (simp add: power_int_minus field_simps)
  also have "\<dots> \<le> x"
    unfolding x_def using q assms by (intro frac_le) (auto simp del: power_numeral)
  finally have "\<bar>rd x - x\<bar> \<le> \<bar>x\<bar> * 2 powi (- 53)"
    by (intro relative_error) simp
  also have "\<dots> = of_int p / 2 ^ 53 / of_int q"
    using assms by (simp add: x_def power_int_minus field_simps)
  also have "\<dots> < 1 / of_int q"
  proof (rule divide_strict_right_mono)
    have "(of_int p :: rat) < 2 ^ 53"
      using assms(2) by (metis of_int_less_iff of_int_numeral of_int_power)
    then show "(of_int p :: rat) / 2 ^ 53 < 1" by simp
  qed (use assms in simp)
  finally show ?thesis by (simp add: x_def)
qed

text \<open>Floor and ceiling of a rounded quotient are those of the exact quotient.\<close>

lemma floor_quotient:
  assumes "0 \<le> p" and "p < 2 ^ 53" and "0 < q" and "q < 2 ^ 64"
  shows "\<lfloor>rd (of_int p / of_int q)\<rfloor> = p div q"
proof (cases "p = 0")
  case True
  then show ?thesis using exact [of 0] by simp
next
  case False
  define x :: rat where "x = of_int p / of_int q"
  have q: "(0::rat) < of_int q" using assms by simp
  have le: "p div q \<le> p" using assms using zdiv_mono2 [of p 1 q] by simp
  have mod: "of_int p = of_int (p div q) * (of_int q :: rat) + of_int (p mod q)"
    by (metis div_mult_mod_eq of_int_add of_int_mult)
  have "of_int (p mod q) \<le> (of_int (q - 1) :: rat)"
    using assms pos_mod_bound [of q p] by (subst of_int_le_iff) simp
  then have "(of_int p + 1) / of_int q \<le> (of_int (p div q) + 1 :: rat)"
    using q by (simp add: pos_divide_le_eq) (simp add: mod algebra_simps)
  then have hi: "x \<le> of_int (p div q) + 1 - 1 / of_int q"
    by (simp add: x_def add_divide_distrib)
  have "of_int (p div q) \<le> x"
    using q assms pos_mod_sign [of q p] by (simp add: x_def mod field_simps)
  then have "of_int (p div q) \<le> rd x"
    using assms le pos_imp_zdiv_nonneg_iff [of q p] by (intro ge_int) auto
  moreover have "rd x < of_int (p div q) + 1"
    using quotient_error [of p q] assms False hi by (simp add: x_def [symmetric] abs_less_iff)
  ultimately show ?thesis
    unfolding x_def by (intro floor_unique) auto
qed

lemma ceiling_quotient:
  assumes "0 \<le> p" and "p < 2 ^ 53" and "0 < q" and "q < 2 ^ 64"
  shows "\<lceil>rd (of_int p / of_int q)\<rceil> = (p + q - 1) div q"
proof (cases "p = 0")
  case True
  then show ?thesis using exact [of 0] assms by (simp add: div_pos_pos_trivial)
next
  case False
  define x :: rat where "x = of_int p / of_int q"
  define c where "c = (p + q - 1) div q"
  have q: "(0::rat) < of_int q" using assms by simp
  have c: "p \<le> c * q" "(c - 1) * q + 1 \<le> p"
  proof -
    define m where "m = (p + q - 1) mod q"
    have "c * q + m = p + q - 1" unfolding c_def m_def by (rule div_mult_mod_eq)
    moreover have "0 \<le> m" "m < q" using assms by (simp_all add: m_def)
    ultimately show "p \<le> c * q" "(c - 1) * q + 1 \<le> p" by (simp_all add: left_diff_distrib)
  qed
  have cp: "0 \<le> c" "c \<le> p"
  proof -
    show "0 \<le> c" unfolding c_def using assms by (intro pos_imp_zdiv_nonneg_iff [THEN iffD2]) auto
    have "(c - 1) * 1 \<le> (c - 1) * q \<or> c \<le> 0"
      using assms mult_left_mono [of 1 q "c - 1"] by (cases "c \<le> 0") auto
    then show "c \<le> p" using c assms by auto
  qed
  have "of_int p \<le> (of_int (c * q) :: rat)" using c(1) by (simp only: of_int_le_iff)
  then have "x \<le> of_int c" using q by (simp add: x_def field_simps)
  then have up: "rd x \<le> of_int c"
    using assms cp by (intro le_int) auto
  have "(of_int ((c - 1) * q + 1) :: rat) \<le> of_int p" using c(2) by (simp only: of_int_le_iff)
  then have "of_int c - 1 \<le> (of_int p - 1 :: rat) / of_int q"
    using q by (simp add: pos_le_divide_eq)
  then have "of_int c - 1 + 1 / of_int q \<le> x"
    by (simp add: x_def diff_divide_distrib)
  then have "of_int c - 1 < rd x"
    using quotient_error [of p q] assms False by (simp add: x_def [symmetric] abs_less_iff)
  with up show ?thesis
    unfolding x_def c_def [symmetric] by (intro ceiling_unique) auto
qed

end

interpretation rnd: rounding rnd_rat
  by unfold_locales (fact rnd_rat_mono rnd_rat_int rnd_rat_relative_error)+

section \<open>binary64 values and the operations of the program\<close>

datatype f64 = NaN | PosInf | NegInf | Fin rat

definition rnd :: "rat \<Rightarrow> f64" where
  [f64_defs]: "rnd x = (let r = rnd_rat x in
     if 2 ^ 1024 \<le> r then PosInf else if r \<le> - (2 ^ 1024) then NegInf else Fin r)"

text \<open>\<open>float64(n)\<close>\<close>

definition float64 :: "int \<Rightarrow> f64" where
  [f64_defs]: "float64 n = rnd (of_int n)"

fun f64_neg :: "f64 \<Rightarrow> f64" where
  "f64_neg NaN = NaN"
| "f64_neg PosInf = NegInf"
| "f64_neg NegInf = PosInf"
| "f64_neg (Fin a) = Fin (- a)"

fun f64_add :: "f64 \<Rightarrow> f64 \<Rightarrow> f64" where
  "f64_add (Fin a) (Fin b) = rnd (a + b)"
| "f64_add NaN _ = NaN"
| "f64_add _ NaN = NaN"
| "f64_add PosInf NegInf = NaN"
| "f64_add NegInf PosInf = NaN"
| "f64_add PosInf _ = PosInf"
| "f64_add NegInf _ = NegInf"
| "f64_add (Fin _) PosInf = PosInf"
| "f64_add (Fin _) NegInf = NegInf"

definition f64_sub :: "f64 \<Rightarrow> f64 \<Rightarrow> f64" where
  [f64_defs]: "f64_sub a b = f64_add a (f64_neg b)"

definition f64_inf_of_sign :: "rat \<Rightarrow> f64" where
  [f64_defs]: "f64_inf_of_sign s = (if s = 0 then NaN else if 0 < s then PosInf else NegInf)"

fun f64_sign :: "f64 \<Rightarrow> rat" where
  "f64_sign NaN = 0"
| "f64_sign PosInf = 1"
| "f64_sign NegInf = - 1"
| "f64_sign (Fin a) = sgn a"

fun f64_mul :: "f64 \<Rightarrow> f64 \<Rightarrow> f64" where
  "f64_mul (Fin a) (Fin b) = rnd (a * b)"
| "f64_mul a b = f64_inf_of_sign (f64_sign a * f64_sign b)"

fun f64_div :: "f64 \<Rightarrow> f64 \<Rightarrow> f64" where
  "f64_div (Fin a) (Fin b) = (if b = 0 then f64_inf_of_sign a else rnd (a / b))"
| "f64_div (Fin a) NaN = NaN"
| "f64_div (Fin a) _ = Fin 0"
| "f64_div NaN _ = NaN"
| "f64_div a (Fin b) = (if b < 0 then f64_neg a else a)"
| "f64_div _ _ = NaN"

fun f64_less :: "f64 \<Rightarrow> f64 \<Rightarrow> bool" where
  "f64_less (Fin a) (Fin b) = (a < b)"
| "f64_less NaN _ = False"
| "f64_less _ NaN = False"
| "f64_less NegInf b = (b \<noteq> NegInf)"
| "f64_less _ NegInf = False"
| "f64_less PosInf _ = False"
| "f64_less (Fin _) PosInf = True"

declare f64_add.simps [simp del, f64_defs]
declare f64_mul.simps [simp del, f64_defs]
declare f64_div.simps [simp del, f64_defs]

text \<open>\<open>math.Floor\<close>, \<open>math.Ceil\<close>, \<open>math.Mod\<close>, \<open>math.Max\<close>, \<open>math.Min\<close>\<close>

fun math_Floor :: "f64 \<Rightarrow> f64" where
  "math_Floor (Fin a) = Fin (of_int \<lfloor>a\<rfloor>)"
| "math_Floor a = a"

fun math_Ceil :: "f64 \<Rightarrow> f64" where
  "math_Ceil (Fin a) = Fin (of_int \<lceil>a\<rceil>)"
| "math_Ceil a = a"

definition trunc :: "rat \<Rightarrow> int" where
  "trunc a = (if 0 \<le> a then \<lfloor>a\<rfloor> else \<lceil>a\<rceil>)"

fun math_Mod :: "f64 \<Rightarrow> f64 \<Rightarrow> f64" where
  "math_Mod (Fin a) (Fin b) = (if b = 0 then NaN else Fin (a - b * of_int (trunc (a / b))))"
| "math_Mod (Fin a) NaN = NaN"
| "math_Mod (Fin a) _ = Fin a"
| "math_Mod _ _ = NaN"

definition math_Max :: "f64 \<Rightarrow> f64 \<Rightarrow> f64" where
  [f64_defs]: "math_Max x y = (if x = PosInf \<or> y = PosInf then PosInf
     else if x = NaN \<or> y = NaN then NaN
     else if f64_less y x then x else y)"

definition math_Min :: "f64 \<Rightarrow> f64 \<Rightarrow> f64" where
  [f64_defs]: "math_Min x y = (if x = NegInf \<or> y = NegInf then NegInf
     else if x = NaN \<or> y = NaN then NaN
     else if f64_less x y then x else y)"

text \<open>
  \<open>int32(f)\<close> and \<open>int64(f)\<close> drop the fraction.  Where the value does not fit, the language
  leaves the result to the implementation: it is some integer of the type, and nothing more is
  known of it here.
\<close>

definition int32_of_f64 :: "f64 \<Rightarrow> int" where
  "int32_of_f64 x = (case x of
     Fin a \<Rightarrow> if fits32 (trunc a) then trunc a else int32 (undefined x)
   | _ \<Rightarrow> int32 (undefined x))"

definition int64_of_f64 :: "f64 \<Rightarrow> int" where
  "int64_of_f64 x = (case x of
     Fin a \<Rightarrow> if fits64 (trunc a) then trunc a else int64 (undefined x)
   | _ \<Rightarrow> int64 (undefined x))"

lemma fits32_int32_of_f64 [simp]: "fits32 (int32_of_f64 x)"
  by (simp add: int32_of_f64_def split: f64.splits)

lemma int32_of_f64_Fin [simp]: "fits32 (trunc a) \<Longrightarrow> int32_of_f64 (Fin a) = trunc a"
  by (simp add: int32_of_f64_def)

lemma int64_of_f64_Fin [simp]: "fits64 (trunc a) \<Longrightarrow> int64_of_f64 (Fin a) = trunc a"
  by (simp add: int64_of_f64_def)

lemma trunc_of_int [simp]: "trunc (of_int n) = n"
  by (simp add: trunc_def)

lemma rnd_Fin: "\<bar>x\<bar> \<le> 2 ^ 100 \<Longrightarrow> rnd x = Fin (rnd_rat x)"
proof -
  assume x: "\<bar>x\<bar> \<le> 2 ^ 100"
  have e: "rnd_rat (2 ^ 100) = 2 ^ 100"
    by (rule rnd_rat_grid [of 100 _ 1]) auto
  have "rnd_rat x \<le> 2 ^ 100"
    using rnd_rat_mono [of x "2 ^ 100"] x by (simp only: e abs_le_iff)
  moreover have "- (2 ^ 100) \<le> rnd_rat x"
    using rnd_rat_mono [of "- (2 ^ 100)" x] x by (simp only: e rnd_rat_minus abs_le_iff) linarith
  ultimately show ?thesis by (simp add: rnd_def Let_def)
qed

lemma rnd_int: "\<bar>n\<bar> \<le> 2 ^ 53 \<Longrightarrow> rnd (of_int n) = Fin (of_int n)"
proof -
  assume n: "\<bar>n\<bar> \<le> 2 ^ 53"
  then have "(of_int \<bar>n\<bar> :: rat) \<le> of_int (2 ^ 53)" by (simp only: of_int_le_iff)
  then have "\<bar>of_int n\<bar> \<le> (2 ^ 100 :: rat)" by simp
  then show ?thesis by (simp add: rnd_Fin rnd_rat_int [OF n])
qed

lemma float64_exact: "\<bar>n\<bar> \<le> 2 ^ 53 \<Longrightarrow> float64 n = Fin (of_int n)"
  by (simp add: float64_def rnd_int)

lemma float64_int32: "fits32 n \<Longrightarrow> float64 n = Fin (of_int n)"
  by (rule float64_exact) (simp add: fits32_def abs_le_iff)

lemma f64_mul_int:
  "\<bar>m * n\<bar> \<le> 2 ^ 53 \<Longrightarrow> f64_mul (Fin (of_int m)) (Fin (of_int n)) = Fin (of_int (m * n))"
  using rnd_int [of "m * n"] by (simp add: f64_mul.simps)

end
