(* ===== verification/Math32.thy ===== *)
theory Math32
  imports Float64
begin

text \<open>
  The package \<open>pkg/math32\<close>: minimum, maximum and capping of \<open>int32\<close> values, and the
  conversions from \<open>float64\<close>.  The lemmas say when the float-based functions compute the
  exact integer functions: \<open>Ceil32\<close> and \<open>Floor32\<close> of a quotient of integers below
  \<open>2 ^ 53\<close> are the integer quotients rounded up and down, and \<open>Mod32\<close> is the integer
  remainder of Go.
\<close>

definition Max32 :: "int \<Rightarrow> int \<Rightarrow> int" where
  "Max32 x y = (if x < y then y else x)"

definition Min32 :: "int \<Rightarrow> int \<Rightarrow> int" where
  "Min32 x y = (if x > y then y else x)"

definition Cap32 :: "int \<Rightarrow> int \<Rightarrow> int \<Rightarrow> int" where
  "Cap32 x a b = Max32 a (Min32 x b)"

definition Floor32 :: "f64 \<Rightarrow> int" where
  "Floor32 a = int32_of_f64 (math_Floor a)"

definition Ceil32 :: "f64 \<Rightarrow> int" where
  "Ceil32 a = int32_of_f64 (math_Ceil a)"

definition Mod32 :: "int \<Rightarrow> int \<Rightarrow> int" where
  "Mod32 x y = int32_of_f64 (math_Mod (float64 x) (float64 y))"

lemma Max32_max: "Max32 x y = max x y"
  by (simp add: Max32_def max_def)

lemma Min32_min: "Min32 x y = min x y"
  by (simp add: Min32_def min_def)

lemma Cap32_range: "a \<le> b \<Longrightarrow> a \<le> Cap32 x a b \<and> Cap32 x a b \<le> b"
  by (simp add: Cap32_def Max32_max Min32_min)

lemma Cap32_inside: "a \<le> x \<Longrightarrow> x \<le> b \<Longrightarrow> Cap32 x a b = x"
  by (simp add: Cap32_def Max32_max Min32_min)

lemma Cap32_mono: "x \<le> y \<Longrightarrow> Cap32 x a b \<le> Cap32 y a b"
  by (simp add: Cap32_def Max32_max Min32_min)

lemma fits32_Cap32: "fits32 a \<Longrightarrow> fits32 b \<Longrightarrow> fits32 x \<Longrightarrow> fits32 (Cap32 x a b)"
  by (simp add: Cap32_def Max32_def Min32_def)

text \<open>Quotients of magnitude at most \<open>2 ^ 100\<close> do not overflow.\<close>

lemma f64_div_int:
  assumes "\<bar>p\<bar> \<le> 2 ^ 53" and "0 < q"
  shows "f64_div (Fin (of_int p)) (Fin (of_int q)) = Fin (rnd_rat (of_int p / of_int q))"
proof -
  have q: "(1::rat) \<le> of_int q" using assms(2) by simp
  have p: "\<bar>of_int p :: rat\<bar> \<le> 2 ^ 53"
    using assms(1) by (metis of_int_abs of_int_le_iff of_int_numeral of_int_power)
  have "\<bar>of_int p / of_int q :: rat\<bar> = \<bar>of_int p\<bar> / of_int q" using q by simp
  also have "\<dots> \<le> \<bar>of_int p\<bar> / 1" using q by (intro divide_left_mono) auto
  also have "\<dots> \<le> 2 ^ 100" using p by simp
  finally show ?thesis using assms(2) by (simp add: f64_div.simps rnd_Fin)
qed

lemma Ceil32_quotient:
  assumes "0 \<le> p" "p < 2 ^ 53" "0 < q" "q < 2 ^ 64" "fits32 ((p + q - 1) div q)"
  shows "Ceil32 (f64_div (Fin (of_int p)) (Fin (of_int q))) = (p + q - 1) div q"
  using assms by (simp add: Ceil32_def f64_div_int rnd.ceiling_quotient)

lemma Floor32_quotient:
  assumes "0 \<le> p" "p < 2 ^ 53" "0 < q" "q < 2 ^ 64" "fits32 (p div q)"
  shows "Floor32 (f64_div (Fin (of_int p)) (Fin (of_int q))) = p div q"
  using assms by (simp add: Floor32_def f64_div_int rnd.floor_quotient)

lemma trunc_quotient: "b \<noteq> 0 \<Longrightarrow> trunc (of_int a / of_int b) = a sdiv b"
proof -
  assume b: "b \<noteq> 0"
  have floor: "\<lfloor>of_int (p :: int) / of_int q :: rat\<rfloor> = p div q" for p q
    by (rule floor_divide_of_int_eq)
  have pos: "0 \<le> (of_int a / of_int b :: rat) \<longleftrightarrow> 0 \<le> a * b"
    by (simp add: zero_le_divide_iff zero_le_mult_iff)
  show ?thesis
  proof (cases "0 \<le> a * b")
    case True
    then have "a sdiv b = a div b"
      using b by (cases "a = 0"; cases "0 < a"; cases "0 < b")
        (auto simp: signed_divide_int_def zero_le_mult_iff)
    then show ?thesis using True pos by (simp add: trunc_def floor)
  next
    case False
    then have "a sdiv b = - ((- a) div b)"
      by (cases "0 < a"; cases "0 < b")
        (auto simp: signed_divide_int_def zero_le_mult_iff div_minus_right)
    moreover have "\<lceil>of_int a / of_int b :: rat\<rceil> = - ((- a) div b)"
      using floor [of "- a" b] by (simp add: ceiling_def)
    ultimately show ?thesis using False pos by (simp add: trunc_def)
  qed
qed

lemma Mod32_smod:
  assumes "fits32 x" "fits32 y" "y \<noteq> 0"
  shows "Mod32 x y = x smod y"
proof -
  have "math_Mod (float64 x) (float64 y) = Fin (of_int (x smod y))"
    using assms minus_mult_sdiv_eq_smod [of x y, symmetric]
    by (simp add: float64_int32 trunc_quotient)
  moreover have "fits32 (x smod y)"
    using assms smod_int_range [of y x] by (auto simp: fits32_def abs_if split: if_splits)
  ultimately show ?thesis by (simp add: Mod32_def)
qed

lemma Mod32_nonneg: "fits32 x \<Longrightarrow> fits32 y \<Longrightarrow> 0 \<le> x \<Longrightarrow> 0 < y \<Longrightarrow> Mod32 x y = x mod y"
  by (simp add: Mod32_smod smod_mod_positive)

end
