(* ===== verification/Api_Types.thy ===== *)
theory Api_Types
  imports Math32 "HOL-Library.List_Lexorder" "HOL-Library.Char_ord"
begin

text \<open>
  The data of \<open>apis/datadoghq/v1alpha1\<close>: the WatermarkPodAutoscaler object with its
  specification and status, and the constants of the package.  A Go pointer is an option, a
  slice a list, a \<open>map[string]string\<close> an association list.

  Kubernetes libraries are not part of the repository.  A \<open>resource.Quantity\<close> is known by
  what the code reads of it (\<open>MilliValue\<close>, \<open>Value\<close>, \<open>String\<close>), a label selector by its
  \<open>MatchLabels\<close> and its printed form, and the library functions the code calls are the
  fields of the record \<open>k8s_lib\<close>, an argument of the definitions that use them.
  \<open>quantity_lib_ok\<close> states the documented behaviour of the quantity constructors.
\<close>

section \<open>Kubernetes library types\<close>

record quantity =
  MilliValue :: int
  Value :: int
  qty_String :: string

record label_selector =
  MatchLabels :: "(string \<times> string) list"
  sel_String :: string

record condition =
  cond_Type :: string
  cond_Status :: string
  LastTransitionTime :: time
  Reason :: string
  Message :: string

text \<open>\<open>corev1.ConditionStatus\<close> and the condition types of \<open>autoscalingv2\<close> the code uses\<close>

definition ConditionTrue :: string where [simp]: "ConditionTrue = ''True''"
definition ConditionFalse :: string where [simp]: "ConditionFalse = ''False''"
definition AbleToScale :: string where [simp]: "AbleToScale = ''AbleToScale''"
definition ScalingActive :: string where [simp]: "ScalingActive = ''ScalingActive''"
definition ScalingLimited :: string where [simp]: "ScalingLimited = ''ScalingLimited''"

section \<open>The custom resource\<close>

record CrossVersionObjectReference =
  ref_Kind :: string
  ref_Name :: string
  ref_APIVersion :: string

record TLSConfig =
  CAFile :: string
  CertFile :: string
  KeyFile :: string
  ServerName :: string
  InsecureSkipVerify :: bool
  MinVersion :: string
  MaxVersion :: string

record RecommenderSpec =
  reco_URL :: string
  reco_TLSConfig :: "TLSConfig option"
  reco_Settings :: "(string \<times> string) list"
  reco_TargetType :: string
  reco_HighWatermark :: "quantity option"
  reco_LowWatermark :: "quantity option"

record ExternalMetricSource =
  ext_MetricName :: string
  ext_MetricSelector :: "label_selector option"
  ext_HighWatermark :: "quantity option"
  ext_LowWatermark :: "quantity option"

record ResourceMetricSource =
  res_Name :: string
  res_MetricSelector :: "label_selector option"
  res_HighWatermark :: "quantity option"
  res_LowWatermark :: "quantity option"

definition ExternalMetricSourceType :: string where
  [simp]: "ExternalMetricSourceType = ''External''"
definition ResourceMetricSourceType :: string where
  [simp]: "ResourceMetricSourceType = ''Resource''"

record MetricSpec =
  ms_Type :: string
  ms_External :: "ExternalMetricSource option"
  ms_Resource :: "ResourceMetricSource option"

definition ConvergeUpwards :: string where [simp]: "ConvergeUpwards = ''highwatermark''"
definition ConvergeDownwards :: string where [simp]: "ConvergeDownwards = ''lowwatermark''"

record WatermarkPodAutoscalerSpec =
  DownscaleForbiddenWindowSeconds :: int
  UpscaleForbiddenWindowSeconds :: int
  ScaleUpLimitFactor :: "quantity option"
  UpscaleDelayAboveWatermarkSeconds :: int
  ScaleDownLimitFactor :: "quantity option"
  DownscaleDelayBelowWatermarkSeconds :: int
  ReplicaScalingAbsoluteModulo :: "int option"
  ConvergeTowardsWatermark :: string
  Tolerance :: quantity
  Algorithm :: string
  DryRun :: bool
  TolerateZero :: bool
  ScaleTargetRef :: CrossVersionObjectReference
  Metrics :: "MetricSpec list"
  Recommender :: "RecommenderSpec option"
  MinReplicas :: "int option"
  MinAvailableReplicaPercentage :: int
  MaxReplicas :: int
  ReadinessDelaySeconds :: int

record ExternalMetricStatus =
  exs_MetricName :: string
  exs_MetricSelector :: "label_selector option"
  exs_CurrentValue :: quantity
  exs_CurrentAverageValue :: "quantity option"

record ResourceMetricStatus =
  rss_Name :: string
  rss_CurrentAverageUtilization :: "int option"
  rss_CurrentAverageValue :: quantity

record MetricStatus =
  mst_Type :: string
  mst_Resource :: "ResourceMetricStatus option"
  mst_External :: "ExternalMetricStatus option"

record WatermarkPodAutoscalerStatus =
  ObservedGeneration :: "int option"
  LastScaleTime :: "time option"
  ScalingEventsCount :: int
  CurrentReplicas :: int
  DesiredReplicas :: int
  CurrentMetrics :: "MetricStatus list"
  Conditions :: "condition list"
  LastConditionType :: string
  LastConditionState :: string

text \<open>The object's metadata is reduced to the fields the code touches.\<close>

record WatermarkPodAutoscaler =
  wpa_Name :: string
  wpa_Namespace :: string
  Annotations :: "(string \<times> string) list"
  wpa_Labels :: "(string \<times> string) list"
  Finalizers :: "string list"
  DeletionTimestamp :: "time option"
  Spec :: WatermarkPodAutoscalerSpec
  Status :: WatermarkPodAutoscalerStatus

text \<open>A signed field of the specification holds a value of its Go type.\<close>

definition spec_typed :: "WatermarkPodAutoscalerSpec \<Rightarrow> bool" where
  "spec_typed sp \<longleftrightarrow>
     fits32 (DownscaleForbiddenWindowSeconds sp) \<and> fits32 (UpscaleForbiddenWindowSeconds sp) \<and>
     fits32 (UpscaleDelayAboveWatermarkSeconds sp) \<and> fits32 (DownscaleDelayBelowWatermarkSeconds sp) \<and>
     pred_option fits32 (ReplicaScalingAbsoluteModulo sp) \<and> pred_option fits32 (MinReplicas sp) \<and>
     fits32 (MinAvailableReplicaPercentage sp) \<and> fits32 (MaxReplicas sp) \<and>
     fits32 (ReadinessDelaySeconds sp)"

section \<open>Condition types and reasons\<close>

definition DryRunCondition :: string where [simp]: "DryRunCondition = ''DryRun''"
definition BelowLowWatermark :: string where [simp]: "BelowLowWatermark = ''BelowLowWatermark''"
definition AboveHighWatermark :: string where [simp]: "AboveHighWatermark = ''AboveHighWatermark''"
definition ConvergeToWatermark :: string where [simp]: "ConvergeToWatermark = ''ConvergeToWatermark''"
definition ScalingBlocked :: string where [simp]: "ScalingBlocked = ''ScalingBlocked''"

definition ConditionReasonSuccessfulGetScale :: string where
  [simp]: "ConditionReasonSuccessfulGetScale = ''SucceededGetScale''"
definition ConditionReasonScalingDisabled :: string where
  [simp]: "ConditionReasonScalingDisabled = ''ScalingDisabled''"
definition ConditionReasonSuccessfulScale :: string where
  [simp]: "ConditionReasonSuccessfulScale = ''SuccessfulScale''"
definition ConditionReasonFailedScale :: string where
  [simp]: "ConditionReasonFailedScale = ''FailedScale''"
definition ConditionReasonReadyForScale :: string where
  [simp]: "ConditionReasonReadyForScale = ''ReadyForScale''"
definition ConditionReasonFailedUpdateReplicasStatus :: string where
  [simp]: "ConditionReasonFailedUpdateReplicasStatus = ''FailedUpdateReplicas''"
definition ConditionReasonBackOffDownscale :: string where
  [simp]: "ConditionReasonBackOffDownscale = ''BackoffDownscale''"
definition ConditionReasonBackOffUpscale :: string where
  [simp]: "ConditionReasonBackOffUpscale = ''BackoffUpscale''"
definition ConditionReasonBackOff :: string where
  [simp]: "ConditionReasonBackOff = ''BackoffBoth''"
definition ConditionReasonFailedGetExternalMetrics :: string where
  [simp]: "ConditionReasonFailedGetExternalMetrics = ''FailedGetExternalMetric''"
definition ConditionReasonFailedGetResourceMetric :: string where
  [simp]: "ConditionReasonFailedGetResourceMetric = ''FailedGetResourceMetric''"
definition ConditionValidMetricFound :: string where
  [simp]: "ConditionValidMetricFound = ''ValidMetricFound''"
definition ConditionReasonNotScaling :: string where
  [simp]: "ConditionReasonNotScaling = ''NotScaling''"
definition ReasonFailedSpecCheck :: string where
  [simp]: "ReasonFailedSpecCheck = ''FailedSpecCheck''"
definition ReasonScaling :: string where [simp]: "ReasonScaling = ''Scaling''"
definition ReasonFailedScale :: string where [simp]: "ReasonFailedScale = ''FailedScale''"
definition ReasonFailedUpdateReplicasStatus :: string where
  [simp]: "ReasonFailedUpdateReplicasStatus = ''FailedUpdateReplicas''"
definition ReasonFailedUpdateStatus :: string where
  [simp]: "ReasonFailedUpdateStatus = ''FailedUpdateStatus''"
definition ReasonFailedProcessWPA :: string where
  [simp]: "ReasonFailedProcessWPA = ''FailedProcessWPA''"
definition ReasonDatadogMonitorOK :: string where
  [simp]: "ReasonDatadogMonitorOK = ''DatadogMonitorOK''"
definition ReasonDatadogMonitorNotOK :: string where
  [simp]: "ReasonDatadogMonitorNotOK = ''DatadogMonitorNotOK''"
definition ReasonFailedGetDatadogMonitor :: string where
  [simp]: "ReasonFailedGetDatadogMonitor = ''FailedGetDatadogMonitor''"

section \<open>Library functions and printing\<close>

record k8s_lib =
  NewMilliQuantity :: "int \<Rightarrow> quantity"
  NewQuantity :: "int \<Rightarrow> quantity"
  labels_Parse :: "string \<Rightarrow> go_error + string"
  LabelSelectorAsSelector :: "label_selector option \<Rightarrow> go_error + string"
  NewAggregate :: "go_error list \<Rightarrow> go_error option"
  DeepEqualStatus :: "WatermarkPodAutoscalerStatus \<Rightarrow> WatermarkPodAutoscalerStatus \<Rightarrow> bool"
  DeepEqualSpec :: "WatermarkPodAutoscalerSpec \<Rightarrow> WatermarkPodAutoscalerSpec \<Rightarrow> bool"
  ParseGroupVersion :: "string \<Rightarrow> go_error + string"
  show_Time :: "time option \<Rightarrow> string"

definition quantity_lib_ok :: "k8s_lib \<Rightarrow> bool" where
  "quantity_lib_ok lib \<longleftrightarrow>
     (\<forall>n. fits64 n \<longrightarrow> MilliValue (NewMilliQuantity lib n) = n) \<and>
     (\<forall>n. fits64 (1000 * n) \<longrightarrow> MilliValue (NewQuantity lib n) = 1000 * n)"

text \<open>\<open>%v\<close> of a \<open>map[string]string\<close>: the keys in increasing order.\<close>

definition show_map :: "(string \<times> string) list \<Rightarrow> string" where
  "show_map m = ''map['' @
     concat (case sort_key fst m of
        [] \<Rightarrow> []
      | kv # kvs \<Rightarrow> (fst kv @ '':'' @ snd kv) # map (\<lambda>(k, v). '' '' @ k @ '':'' @ v) kvs) @ '']''"

text \<open>\<open>%.0f\<close>: the nearest integer, ties to even.\<close>

definition show_f0 :: "f64 \<Rightarrow> string" where
  "show_f0 x = (case x of NaN \<Rightarrow> ''NaN'' | PosInf \<Rightarrow> ''+Inf'' | NegInf \<Rightarrow> ''-Inf''
     | Fin a \<Rightarrow> if a < 0 \<and> rne a = 0 then ''-0'' else show_int (rne a))"

end
