(* ===== verification/Tls.thy ===== *)
theory Tls
  imports Api_Types
begin

text \<open>
  The data of \<open>controllers/datadoghq/tls.go\<close>: the TLS configuration that is built for a
  recommender, the entries of the certificate cache, and the functions on them that touch no state.

  Of a \<open>tls.Config\<close> the model keeps the fields the code sets.  A \<open>tls.Certificate\<close> is known by an
  identity and the expiry of its leaf, which the library may leave out.  The callback
  \<open>GetClientCertificate\<close> is represented by the two file names it is closed over.
\<close>

record tls_certificate =
  cert_id :: string
  leaf_NotAfter :: "time option"

record tlsCacheEntry =
  certificate :: "tls_certificate option"
  entry_err :: "go_error option"
  lastUpdate :: time
  lastAccess :: time

record tls_Config =
  tls_MinVersion :: int
  tls_MaxVersion :: int
  tls_ServerName :: string
  tls_RootCAs :: "string option"
  tls_GetClientCertificate :: "(string \<times> string) option"

definition certificateCacheTimeout :: duration where
  "certificateCacheTimeout = 10 * 60 * 1000000000"

definition certificateCacheExpirationTimeout :: duration where
  "certificateCacheExpirationTimeout = 10 * 60 * 1000000000"

definition TLSVersions :: "(string \<times> int) list" where
  "TLSVersions = [(''TLS13'', 0x0304), (''TLS12'', 0x0303), (''TLS11'', 0x0302), (''TLS10'', 0x0301)]"

definition toTLSVersion :: "string \<Rightarrow> go_error + int" where
  "toTLSVersion version = (case map_of TLSVersions version of
     Some v \<Rightarrow> Inr v
   | None \<Rightarrow> Inl (errorf (''unknown TLS version: '' @ version)))"

definition isExpired :: "tlsCacheEntry \<Rightarrow> time \<Rightarrow> duration \<Rightarrow> bool" where
  "isExpired c now duration \<longleftrightarrow> now > lastUpdate c + duration"

text \<open>The certificate is dereferenced: \<open>None\<close> is the panic.\<close>

definition isCertificateExpired :: "tlsCacheEntry \<Rightarrow> time \<Rightarrow> bool outcome" where
  "isCertificateExpired c now = (case certificate c of
     None \<Rightarrow> Panic NilDereference
   | Some cert \<Rightarrow> Ret (case leaf_NotAfter cert of None \<Rightarrow> False | Some t \<Rightarrow> now > t))"

definition mergeTLSConfig :: "TLSConfig option \<Rightarrow> TLSConfig option \<Rightarrow> TLSConfig option" where
  "mergeTLSConfig defaults recommender =
     (case defaults of None \<Rightarrow> recommender
      | Some d \<Rightarrow> (case recommender of None \<Rightarrow> Some d
        | Some r \<Rightarrow> Some (r\<lparr>
            CAFile := (if CAFile r = [] then CAFile d else CAFile r),
            CertFile := (if CertFile r = [] then CertFile d else CertFile r),
            KeyFile := (if KeyFile r = [] then KeyFile d else KeyFile r)\<rparr>)))"

text \<open>
  \<open>buildTLSConfig\<close>, given the content of the CA file (\<open>Inl\<close> when it cannot be read, which the code
  ignores) and \<open>AppendCertsFromPEM\<close> of the library.
\<close>

definition tls_version :: "string \<Rightarrow> string \<Rightarrow> string \<Rightarrow> go_error + int" where
  "tls_version what shown v = (if v = [] then Inr 0 else case toTLSVersion v of
     Inl e \<Rightarrow> Inl (wrap_error (''invalid '' @ what @ '' TLS version '' @ quote shown @ '': '') e)
   | Inr n \<Rightarrow> Inr n)"

definition buildTLSConfig ::
  "(string \<Rightarrow> bool) \<Rightarrow> go_error + string \<Rightarrow> TLSConfig \<Rightarrow> go_error + tls_Config" where
  "buildTLSConfig AppendCertsFromPEM caPEM config =
     (case tls_version ''minimum'' (MinVersion config) (MinVersion config) of Inl e \<Rightarrow> Inl e | Inr minVersion \<Rightarrow>
      case tls_version ''maximum'' (MinVersion config) (MaxVersion config) of Inl e \<Rightarrow> Inl e | Inr maxVersion \<Rightarrow>
      case (if CAFile config = [] then Inr None else case caPEM of
              Inl _ \<Rightarrow> Inr None
            | Inr pem \<Rightarrow> if AppendCertsFromPEM pem then Inr (Some pem)
                else Inl (errorf ''failed to append root CA to pool'')) of
        Inl e \<Rightarrow> Inl e
      | Inr rootCA \<Rightarrow> Inr \<lparr>tls_MinVersion = minVersion, tls_MaxVersion = maxVersion,
          tls_ServerName = ServerName config, tls_RootCAs = rootCA, tls_GetClientCertificate = None\<rparr>)"

section \<open>Facts\<close>

lemma mergeTLSConfig_None [simp]: "mergeTLSConfig None r = r" "mergeTLSConfig d None = d"
  by (simp_all add: mergeTLSConfig_def split: option.splits)

text \<open>Merging is associative, so that layers of defaults can be combined in any grouping.\<close>

lemma mergeTLSConfig_assoc:
  "mergeTLSConfig a (mergeTLSConfig b c) = mergeTLSConfig (mergeTLSConfig a b) c"
  by (simp add: mergeTLSConfig_def split: option.splits)

lemma toTLSVersion_Inr: "toTLSVersion v = Inr n \<Longrightarrow> 0x0301 \<le> n \<and> n \<le> 0x0304"
  by (auto simp: toTLSVersion_def TLSVersions_def split: option.splits if_splits)

text \<open>The configuration that is used does not depend on \<open>InsecureSkipVerify\<close>.\<close>

lemma buildTLSConfig_ignores_skip_verify:
  "buildTLSConfig app ca (c\<lparr>InsecureSkipVerify := b\<rparr>) = buildTLSConfig app ca c"
  unfolding buildTLSConfig_def by (simp cong: sum.case_cong)

end
