(* ===== verification/Prom_Vectors.thy ===== *)
theory Prom_Vectors
  imports Prelude "HOL-Library.AList"
begin

text \<open>
  The Prometheus vectors that \<open>controllers/datadoghq/metrics.go\<close> declares: their label names
  and the label values the code uses.  \<open>With\<close> of the Prometheus client panics on labels that
  are not exactly the declared ones, and \<open>Delete\<close> of such labels deletes nothing:
  \<open>well_labelled\<close> is the condition for both to act.
\<close>

type_synonym prom_labels = "(string \<times> string) list"

datatype prom_vec =
    Upscale | Downscale | ValueGauge | Highwm | HighwmV2 | TransitionCountdown
  | LifecycleControlStatus | Lowwm | LowwmV2 | ReplicaProposal | ReplicaEffective
  | RestrictedScaling | ReplicaMin | ReplicaMax | DryRunGauge | ScalingActiveGauge | LabelsInfo
  | RequestDuration | RequestsTotal | RequestErrorsTotal | ResponseInflight | ConditionsGauge

definition subsystem :: string where "subsystem = ''wpa_controller''"

definition wpaNamePromLabel :: string where [simp]: "wpaNamePromLabel = ''wpa_name''"
definition wpaNamespacePromLabel :: string where [simp]: "wpaNamespacePromLabel = ''wpa_namespace''"
definition resourceNamePromLabel :: string where [simp]: "resourceNamePromLabel = ''resource_name''"
definition targetNamePromLabel :: string where [simp]: "targetNamePromLabel = ''target_name''"
definition resourceKindPromLabel :: string where [simp]: "resourceKindPromLabel = ''resource_kind''"
definition resourceNamespacePromLabel :: string where
  [simp]: "resourceNamespacePromLabel = ''resource_namespace''"
definition namespacePromLabel :: string where [simp]: "namespacePromLabel = ''namespace''"
definition metricNamePromLabel :: string where [simp]: "metricNamePromLabel = ''metric_name''"
definition reasonPromLabel :: string where [simp]: "reasonPromLabel = ''reason''"
definition transitionPromLabel :: string where [simp]: "transitionPromLabel = ''transition''"
definition lifecycleStatus :: string where [simp]: "lifecycleStatus = ''lifecycle_status''"
definition monitorName :: string where [simp]: "monitorName = ''monitor_name''"
definition monitorNamespace :: string where [simp]: "monitorNamespace = ''monitor_namespace''"
definition clientPromLabel :: string where [simp]: "clientPromLabel = ''client''"
definition methodPromLabel :: string where [simp]: "methodPromLabel = ''method''"
definition codePromLabel :: string where [simp]: "codePromLabel = ''code''"
definition conditionPromLabel :: string where [simp]: "conditionPromLabel = ''condition''"
definition downscaleCappingPromLabelVal :: string where
  [simp]: "downscaleCappingPromLabelVal = ''downscale_capping''"
definition upscaleCappingPromLabelVal :: string where
  [simp]: "upscaleCappingPromLabelVal = ''upscale_capping''"
definition withinBoundsPromLabelVal :: string where
  [simp]: "withinBoundsPromLabelVal = ''within_bounds''"

definition reasonValues :: "string list" where
  "reasonValues = [downscaleCappingPromLabelVal, upscaleCappingPromLabelVal, withinBoundsPromLabelVal]"

definition defaultPromLabels :: "string list" where
  "defaultPromLabels = [wpaNamePromLabel, wpaNamespacePromLabel, resourceNamespacePromLabel,
     resourceNamePromLabel, resourceKindPromLabel, targetNamePromLabel, namespacePromLabel]"

text \<open>The name and the label names of every vector; \<open>extra\<close> is \<open>extraPromLabels\<close>.\<close>

fun prom_desc :: "string list \<Rightarrow> prom_vec \<Rightarrow> string \<times> string list" where
  "prom_desc extra Upscale = (subsystem @ ''_upscale_replicas_total'', defaultPromLabels)"
| "prom_desc extra Downscale = (subsystem @ ''_downscale_replicas_total'', defaultPromLabels)"
| "prom_desc extra ValueGauge = (subsystem @ ''_value'', defaultPromLabels @ [metricNamePromLabel])"
| "prom_desc extra Highwm = (subsystem @ ''_high_watermak'', defaultPromLabels @ [metricNamePromLabel])"
| "prom_desc extra HighwmV2 = (subsystem @ ''_high_watermark'', defaultPromLabels @ [metricNamePromLabel])"
| "prom_desc extra TransitionCountdown =
     (subsystem @ ''_transition_countdown'', defaultPromLabels @ [transitionPromLabel])"
| "prom_desc extra LifecycleControlStatus =
     (subsystem @ ''_lifecycle_control_status'',
      [wpaNamePromLabel, wpaNamespacePromLabel, lifecycleStatus, monitorName, monitorNamespace])"
| "prom_desc extra Lowwm = (subsystem @ ''_low_watermak'', defaultPromLabels @ [metricNamePromLabel])"
| "prom_desc extra LowwmV2 = (subsystem @ ''_low_watermark'', defaultPromLabels @ [metricNamePromLabel])"
| "prom_desc extra ReplicaProposal =
     (subsystem @ ''_replicas_scaling_proposal'', defaultPromLabels @ [metricNamePromLabel])"
| "prom_desc extra ReplicaEffective = (subsystem @ ''_replicas_scaling_effective'', defaultPromLabels)"
| "prom_desc extra RestrictedScaling =
     (subsystem @ ''_restricted_scaling'', defaultPromLabels @ [reasonPromLabel])"
| "prom_desc extra ReplicaMin = (subsystem @ ''_min_replicas'', defaultPromLabels)"
| "prom_desc extra ReplicaMax = (subsystem @ ''_max_replicas'', defaultPromLabels)"
| "prom_desc extra DryRunGauge = (subsystem @ ''_dry_run'', defaultPromLabels)"
| "prom_desc extra ScalingActiveGauge = (subsystem @ ''_scaling_active'', defaultPromLabels)"
| "prom_desc extra LabelsInfo =
     (subsystem @ ''_labels_info'', extra @
      [wpaNamePromLabel, wpaNamespacePromLabel, resourceNamespacePromLabel, namespacePromLabel])"
| "prom_desc extra RequestDuration =
     (''http_client_request_duration_seconds'', [clientPromLabel, methodPromLabel, codePromLabel])"
| "prom_desc extra RequestsTotal =
     (''http_client_requests_total'', [clientPromLabel, methodPromLabel, codePromLabel])"
| "prom_desc extra RequestErrorsTotal = (''http_client_requests_errors_total'', [clientPromLabel])"
| "prom_desc extra ResponseInflight = (''http_client_requests_inflight'', [clientPromLabel])"
| "prom_desc extra ConditionsGauge =
     (subsystem @ ''_conditions'', defaultPromLabels @ [conditionPromLabel])"

text \<open>The vectors registered by \<open>init()\<close>, in its order.\<close>

definition registered :: "prom_vec list" where
  "registered = [Upscale, Downscale, ValueGauge, Highwm, HighwmV2, Lowwm, LowwmV2, ReplicaProposal,
     ReplicaEffective, RestrictedScaling, TransitionCountdown, LifecycleControlStatus, ReplicaMin,
     ReplicaMax, DryRunGauge, ScalingActiveGauge, LabelsInfo, RequestDuration, RequestsTotal,
     RequestErrorsTotal, ResponseInflight, ConditionsGauge]"

definition well_labelled :: "string list \<Rightarrow> prom_vec \<Rightarrow> prom_labels \<Rightarrow> bool" where
  "well_labelled extra v ls \<longleftrightarrow> set (map fst ls) = set (snd (prom_desc extra v))"

lemma registered_all: "v \<in> set registered"
  by (cases v) (simp_all add: registered_def)

end
