(* ===== verification/World.thy ===== *)
theory World
  imports Tls Prom_Vectors
begin

text \<open>
  The state of one worker of the controller.

  \<open>wpa\<close> is the object under reconciliation (Go passes one pointer to it everywhere), \<open>clock\<close>
  gives the successive readings of \<open>time.Now()\<close> and \<open>ticks\<close> counts those already taken.
  \<open>trace\<close> is the sequence of calls the program has made to code outside the repository that
  changes something there: Prometheus vectors, events, writes to the API server and to the
  scale subresource.  A call that only reads (the API server, a metrics API, a file, an HTTP reply)
  is \<open>go_read f\<close>: its outcome is \<open>f n\<close> for the \<open>n\<close>-th read, so that what is outside
  may change in any way between two reads.  \<open>certCache\<close> is the certificate cache of the recommender client
  and \<open>transportTLS\<close> the TLS configuration of the HTTP transport that all recommenders share.
  Logging and tracing have no effect on the program and are left out.
\<close>

text \<open>The \<open>Scale\<close> subresource of the target\<close>

record scale =
  scale_Name :: string
  scale_Namespace :: string
  scale_SpecReplicas :: int
  scale_StatusReplicas :: int
  scale_Selector :: string

datatype effect =
    PromSet prom_vec prom_labels f64
  | PromAdd prom_vec prom_labels f64
  | PromDelete prom_vec prom_labels
  | Eventf "string option" string string string
  | ClientUpdate WatermarkPodAutoscaler
  | StatusUpdate WatermarkPodAutoscaler
  | ScaleUpdate string scale

record world =
  wpa :: WatermarkPodAutoscaler
  clock :: "nat \<Rightarrow> time"
  ticks :: nat
  reads :: nat
  extraPromLabels :: "string list"
  certCache :: "(string \<times> tlsCacheEntry) list"
  transportTLS :: "tls_Config option"
  trace :: "effect list"

type_synonym 'a prog = "(world, 'a) go"

section \<open>Primitive steps\<close>

definition emit :: "effect \<Rightarrow> unit prog" where
  [go_defs]: "emit e = go_modify (\<lambda>s. s\<lparr>trace := trace s @ [e]\<rparr>)"

definition go_now :: "time prog" where
  [go_defs]: "go_now = (\<lambda>s. (Ret (clock s (ticks s)), s\<lparr>ticks := Suc (ticks s)\<rparr>))"

definition go_read :: "(nat \<Rightarrow> 'a outcome) \<Rightarrow> 'a prog" where
  [go_defs]: "go_read f = (\<lambda>s. (f (reads s), s\<lparr>reads := Suc (reads s)\<rparr>))"

definition modify_wpa :: "(WatermarkPodAutoscaler \<Rightarrow> WatermarkPodAutoscaler) \<Rightarrow> unit prog" where
  [go_defs]: "modify_wpa f = go_modify (\<lambda>s. s\<lparr>wpa := f (wpa s)\<rparr>)"

definition modify_status ::
  "(WatermarkPodAutoscalerStatus \<Rightarrow> WatermarkPodAutoscalerStatus) \<Rightarrow> unit prog" where
  [go_defs]: "modify_status f = modify_wpa (\<lambda>w. w\<lparr>Status := f (Status w)\<rparr>)"

lemma wp_emit [go_wp]: "wp (emit e) Q R s = Q () (s\<lparr>trace := trace s @ [e]\<rparr>)"
  by (simp add: emit_def go_wp)

lemma wp_now [go_wp]: "wp go_now Q R s = Q (clock s (ticks s)) (s\<lparr>ticks := Suc (ticks s)\<rparr>)"
  by (simp add: wp_def go_now_def)

lemma wp_read [go_wp]:
  "wp (go_read f) Q R s = (case f (reads s) of
     Ret a \<Rightarrow> Q a (s\<lparr>reads := Suc (reads s)\<rparr>) | Panic p \<Rightarrow> R p (s\<lparr>reads := Suc (reads s)\<rparr>))"
  by (simp add: wp_def go_read_def)

lemma wp_modify_wpa [go_wp]: "wp (modify_wpa f) Q R s = Q () (s\<lparr>wpa := f (wpa s)\<rparr>)"
  by (simp add: modify_wpa_def go_wp)

lemma wp_modify_status [go_wp]:
  "wp (modify_status f) Q R s = Q () (s\<lparr>wpa := (wpa s)\<lparr>Status := f (Status (wpa s))\<rparr>\<rparr>)"
  by (simp add: modify_status_def go_wp)

section \<open>Frame conditions\<close>

text \<open>
  \<open>frame s s'\<close>: nothing but the conditions in the status of the object, the counters of clock
  readings and reads, the TLS state and the trace has changed, the trace has only grown, and every new entry is an event, a Prometheus deletion or
  a Prometheus update with the declared labels (\<open>quiet\<close>): nothing was written to the API
  server, and no vector was called with labels it panics on.
\<close>

fun quiet :: "string list \<Rightarrow> effect \<Rightarrow> bool" where
  "quiet extra (PromSet v ls _) = well_labelled extra v ls"
| "quiet extra (PromAdd v ls _) = well_labelled extra v ls"
| "quiet extra (PromDelete _ _) = True"
| "quiet extra (Eventf _ _ _ _) = True"
| "quiet extra (ClientUpdate _) = False"
| "quiet extra (StatusUpdate _) = False"
| "quiet extra (ScaleUpdate _ _) = False"

definition status_rest :: "WatermarkPodAutoscalerStatus \<Rightarrow> WatermarkPodAutoscalerStatus" where
  "status_rest st = st\<lparr>Conditions := [], LastConditionType := [], LastConditionState := []\<rparr>"

definition frame :: "world \<Rightarrow> world \<Rightarrow> bool" where
  "frame s s' \<longleftrightarrow>
     (\<exists>st. wpa s' = (wpa s)\<lparr>Status := st\<rparr> \<and> status_rest st = status_rest (Status (wpa s))) \<and> clock s' = clock s \<and>
     extraPromLabels s' = extraPromLabels s \<and> ticks s \<le> ticks s' \<and> reads s \<le> reads s' \<and>
     (\<exists>es. trace s' = trace s @ es \<and> list_all (quiet (extraPromLabels s)) es)"

lemma frame_refl [simp, intro]: "frame s s"
  by (auto simp: frame_def intro: exI [of _ "Status (wpa s)"])

lemma frame_trans [trans]: "frame s t \<Longrightarrow> frame t u \<Longrightarrow> frame s u"
  by (fastforce simp: frame_def)

lemma frame_Spec: "frame s s' \<Longrightarrow> Spec (wpa s') = Spec (wpa s)"
  by (auto simp: frame_def)

lemma frame_status_rest:
  "frame s s' \<Longrightarrow> status_rest (Status (wpa s')) = status_rest (Status (wpa s))"
  by (auto simp: frame_def)

lemma status_rest_fields:
  assumes "status_rest a = status_rest b"
  shows "LastScaleTime a = LastScaleTime b" "ScalingEventsCount a = ScalingEventsCount b"
    "CurrentReplicas a = CurrentReplicas b" "DesiredReplicas a = DesiredReplicas b" "CurrentMetrics a = CurrentMetrics b"
  using assms by (cases a; cases b; simp add: status_rest_def)+

lemmas frame_status_fields = frame_status_rest [THEN status_rest_fields(1)] frame_status_rest [THEN status_rest_fields(2)]
  frame_status_rest [THEN status_rest_fields(3)] frame_status_rest [THEN status_rest_fields(4)]
  frame_status_rest [THEN status_rest_fields(5)]

lemma frame_meta:
  "frame s s' \<Longrightarrow> wpa_Name (wpa s') = wpa_Name (wpa s) \<and>
     wpa_Namespace (wpa s') = wpa_Namespace (wpa s) \<and> Annotations (wpa s') = Annotations (wpa s)"
  by (auto simp: frame_def)

lemma frame_emit: "quiet (extraPromLabels t) e \<Longrightarrow> frame s t \<Longrightarrow> frame s (t\<lparr>trace := trace t @ [e]\<rparr>)"
  by (auto simp: frame_def)

lemma frame_now: "frame s t \<Longrightarrow> frame s (t\<lparr>ticks := Suc (ticks t)\<rparr>)"
  by (auto simp: frame_def)

lemma frame_reads: "frame s t \<Longrightarrow> frame s (t\<lparr>reads := Suc (reads t)\<rparr>)"
  by (auto simp: frame_def)

lemma frame_tls:
  "frame s t \<Longrightarrow> frame s (t\<lparr>certCache := c\<rparr>)" "frame s t \<Longrightarrow> frame s (t\<lparr>transportTLS := x\<rparr>)"
  by (auto simp: frame_def)

lemma frame_status:
  "frame s t \<Longrightarrow> status_rest st = status_rest (Status (wpa t)) \<Longrightarrow> frame s (t\<lparr>wpa := (wpa t)\<lparr>Status := st\<rparr>\<rparr>)"
  by (fastforce simp: frame_def)

text \<open>
  \<open>framed m\<close>: however \<open>m\<close> ends, it stays within the frame.  The rules follow the structure of
  the program text, so that a definition is shown to be framed by unfolding it and applying
  them (collection \<open>framed_intros\<close>).
\<close>

definition framed :: "'a prog \<Rightarrow> bool" where
  "framed m \<longleftrightarrow> (\<forall>s. wp m (\<lambda>_. frame s) (\<lambda>_. frame s) s)"

named_theorems framed_intros \<open>compositional rules for framed programs\<close>

lemma framedD: "framed m \<Longrightarrow> m s = (r, s') \<Longrightarrow> frame s s'"
  by (cases r) (auto simp: framed_def wp_def dest: spec [of _ s])

lemma framedI: "(\<And>s r s'. m s = (r, s') \<Longrightarrow> frame s s') \<Longrightarrow> framed m"
  by (auto simp: framed_def wp_def split: prod.splits outcome.splits)

lemma framed_bind [framed_intros]: "framed m \<Longrightarrow> (\<And>a. framed (f a)) \<Longrightarrow> framed (go_bind m f)"
proof (rule framedI)
  fix s r s' assume m: "framed m" and f: "\<And>a. framed (f a)" and run: "go_bind m f s = (r, s')"
  obtain r1 s1 where 1: "m s = (r1, s1)" by fastforce
  then have "frame s s1" using m by (rule framedD [rotated])
  moreover have "frame s1 s'" using run 1 f
    by (cases r1) (auto simp: go_bind_def dest: framedD)
  ultimately show "frame s s'" by (rule frame_trans)
qed

lemma framed_pure [framed_intros]:
  "framed (go_return a)" "framed (go_panic p)" "framed (go_get g)" "framed (go_lift r)"
  by (auto intro!: framedI simp: go_defs)

lemma framed_deref [framed_intros]: "framed (deref p)"
  by (cases p) (auto simp: deref_def intro: framed_intros)

lemma framed_emit [framed_intros]: "(\<And>extra. quiet extra e) \<Longrightarrow> framed (emit e)"
  by (auto intro!: framedI frame_emit simp: go_defs)

lemma framed_emit_extra:
  "(\<And>extra. quiet extra (e extra)) \<Longrightarrow>
    framed (go_bind (go_get extraPromLabels) (\<lambda>extra. emit (e extra)))"
  by (auto intro!: framedI frame_emit simp: go_defs)

lemma framed_now [framed_intros]: "framed go_now"
  by (auto intro!: framedI frame_now simp: go_now_def)

lemma framed_read [framed_intros]: "framed (go_read f)"
  by (auto intro!: framedI frame_reads simp: go_read_def)

lemma framed_tls [framed_intros]:
  "framed (go_modify (\<lambda>s. s\<lparr>certCache := c s\<rparr>))" "framed (go_modify (\<lambda>s. s\<lparr>transportTLS := x s\<rparr>))"
  by (auto intro!: framedI frame_tls simp: go_defs)

lemma framed_modify_status [framed_intros]:
  "(\<And>st. status_rest (f st) = status_rest st) \<Longrightarrow> framed (modify_status f)"
  by (auto intro!: framedI frame_status simp: go_defs)

lemma framed_if [framed_intros]: "framed m \<Longrightarrow> framed n \<Longrightarrow> framed (if c then m else n)"
  by simp

lemma framed_option [framed_intros]:
  "framed m \<Longrightarrow> (\<And>y. framed (n y)) \<Longrightarrow> framed (case x of None \<Rightarrow> m | Some y \<Rightarrow> n y)"
  by (cases x) auto

lemma framed_sum [framed_intros]:
  "(\<And>e. framed (m e)) \<Longrightarrow> (\<And>y. framed (n y)) \<Longrightarrow> framed (case x of Inl e \<Rightarrow> m e | Inr y \<Rightarrow> n y)"
  by (cases x) auto

lemma framed_prod [framed_intros]:
  "(\<And>a b. framed (m a b)) \<Longrightarrow> framed (case x of (a, b) \<Rightarrow> m a b)"
  by (cases x) auto

lemma framed_let [framed_intros]: "(\<And>y. framed (m y)) \<Longrightarrow> framed (let y = x in m y)"
  by simp

lemma framed_recover [framed_intros]: "framed m \<Longrightarrow> (\<And>p. framed (h p)) \<Longrightarrow> framed (go_recover m h)"
  by (rule framedI) (auto simp: go_recover_def split: prod.splits outcome.splits
      dest!: framedD intro: frame_trans)

lemma framed_fold [framed_intros]:
  "(\<And>x acc. framed (f x acc)) \<Longrightarrow> framed (go_fold f xs acc)"
  by (induction xs arbitrary: acc) (auto intro: framed_intros)

section \<open>Invariants of programs\<close>

text \<open>
  \<open>preserves P m\<close>: \<open>P\<close> holds after \<open>m\<close> if it held before, however \<open>m\<close> ends.  \<open>keeps_wpa m\<close>: \<open>m\<close> does not
  touch the object, as clients of outside services do not.
\<close>

definition preserves :: "(world \<Rightarrow> bool) \<Rightarrow> 'a prog \<Rightarrow> bool" where
  "preserves P m \<longleftrightarrow> (\<forall>s. P s \<longrightarrow> wp m (\<lambda>_. P) (\<lambda>_. P) s)"

named_theorems preserves_intros \<open>compositional rules for invariants of programs\<close>

lemma preservesD: "preserves P m \<Longrightarrow> m s = (r, s') \<Longrightarrow> P s \<Longrightarrow> P s'"
  by (cases r) (auto simp: preserves_def wp_def dest: spec [of _ s])

lemma preservesI: "(\<And>s r s'. m s = (r, s') \<Longrightarrow> P s \<Longrightarrow> P s') \<Longrightarrow> preserves P m"
  by (auto simp: preserves_def wp_def split: prod.splits outcome.splits)

lemma preserves_bind [preserves_intros]:
  "preserves P m \<Longrightarrow> (\<And>a. preserves P (f a)) \<Longrightarrow> preserves P (go_bind m f)"
  by (auto simp: preserves_def wp_bind elim!: wp_mono)

lemma preserves_pure [preserves_intros]:
  "preserves P (go_return a)" "preserves P (go_panic p)" "preserves P (go_get g)" "preserves P (go_lift r)"
  by (auto intro!: preservesI simp: go_defs)

lemma preserves_deref [preserves_intros]: "preserves P (deref p)"
  by (cases p) (auto simp: deref_def intro: preserves_intros)

lemma preserves_branch [preserves_intros]:
  "preserves P m \<Longrightarrow> preserves P n \<Longrightarrow> preserves P (if c then m else n)"
  "preserves P m \<Longrightarrow> (\<And>y. preserves P (g y)) \<Longrightarrow> preserves P (case x of None \<Rightarrow> m | Some y \<Rightarrow> g y)"
  "(\<And>e. preserves P (h e)) \<Longrightarrow> (\<And>y. preserves P (k y)) \<Longrightarrow>
     preserves P (case z of Inl e \<Rightarrow> h e | Inr y \<Rightarrow> k y)"
  by (auto split: option.splits sum.splits)

lemma preserves_prod [preserves_intros]:
  "(\<And>a b. preserves P (m a b)) \<Longrightarrow> preserves P (case x of (a, b) \<Rightarrow> m a b)"
  by (cases x) auto

lemma preserves_let [preserves_intros]: "(\<And>y. preserves P (m y)) \<Longrightarrow> preserves P (let y = x in m y)"
  by simp

lemma preserves_fold [preserves_intros]:
  "(\<And>x acc. preserves P (f x acc)) \<Longrightarrow> preserves P (go_fold f xs acc)"
  by (induction xs arbitrary: acc) (auto intro: preserves_intros)

definition keeps_wpa :: "'a prog \<Rightarrow> bool" where
  "keeps_wpa m \<longleftrightarrow> (\<forall>w. preserves (\<lambda>s. wpa s = w) m)"

lemma keeps_wpaD: "keeps_wpa m \<Longrightarrow> m s = (r, s') \<Longrightarrow> wpa s' = wpa s"
  unfolding keeps_wpa_def by (drule spec [of _ "wpa s"]) (auto dest: preservesD)

lemma keeps_wpa_preserves: "keeps_wpa m \<Longrightarrow> preserves (\<lambda>s. P (wpa s)) m"
  by (rule preservesI) (simp add: keeps_wpaD)

lemma preserves_wpa_steps [preserves_intros]:
  "preserves (\<lambda>s. P (wpa s)) (emit e)" "preserves (\<lambda>s. P (wpa s)) go_now" "preserves (\<lambda>s. P (wpa s)) (go_read f)"
  "preserves (\<lambda>s. P (wpa s)) (go_modify (\<lambda>s. s\<lparr>certCache := c s\<rparr>))"
  "preserves (\<lambda>s. P (wpa s)) (go_modify (\<lambda>s. s\<lparr>transportTLS := x s\<rparr>))"
  by (auto intro!: preservesI simp: go_defs)

lemma preserves_wp: "preserves P m \<Longrightarrow> P s \<Longrightarrow> wp m (\<lambda>_. P) (\<lambda>_ _. True) s"
  by (rule wpI) (auto dest: preservesD)

lemma framed_wp: "framed m \<Longrightarrow> wp m (\<lambda>_. frame s) (\<lambda>_. frame s) s"
  by (simp add: framed_def)

end
