(* ===== verification/Rest_Metrics.thy ===== *)
theory Rest_Metrics
  imports World
begin

text \<open>
  The metrics client of \<open>third_party/kubernetes/pkg/controller/podautoscaler/metrics\<close>
  (\<open>interfaces.go\<close>, \<open>rest_metrics_client.go\<close>): it asks the metrics APIs of the cluster and brings
  their answers into one form.  The API clients themselves are library code: the record
  \<open>metrics_api\<close> holds their calls, each an arbitrary reading of the world outside.

  The locale \<open>metrics_client\<close> is what the replica calculator relies on; the REST client is an
  instance for every API.
\<close>

section \<open>Data\<close>

text \<open>One entry of \<open>PodMetricsInfo\<close>, a map from pod names\<close>

record PodMetric =
  pm_Timestamp :: time
  pm_Window :: duration
  pm_Value :: int

type_synonym PodMetricsInfo = "(string \<times> PodMetric) list"

text \<open>The items of the three APIs, as far as the code reads them\<close>

record ContainerMetrics =
  ctr_Name :: string
  ctr_Usage :: "(string \<times> quantity) list"

record PodMetricsItem =
  pmi_Name :: string
  pmi_Namespace :: string
  pmi_Timestamp :: time
  pmi_Window :: duration
  pmi_Containers :: "ContainerMetrics list"

record MetricValue =
  mv_DescribedObjectName :: string
  mv_Timestamp :: time
  mv_WindowSeconds :: "int option"
  mv_Value :: quantity

record ExternalMetricValue =
  emv_Timestamp :: time
  emv_Value :: quantity

record metrics_api =
  PodMetricses_List :: "string \<Rightarrow> string \<Rightarrow> nat \<Rightarrow> (go_error + PodMetricsItem list) outcome"
  GetForObjects :: "string \<Rightarrow> string \<Rightarrow> string \<Rightarrow> string \<Rightarrow> nat \<Rightarrow> (go_error + MetricValue list) outcome"
  RootScoped_GetForObject :: "string \<times> string \<Rightarrow> string \<Rightarrow> string \<Rightarrow> string \<Rightarrow> nat \<Rightarrow> (go_error + MetricValue) outcome"
  Namespaced_GetForObject :: "string \<Rightarrow> string \<times> string \<Rightarrow> string \<Rightarrow> string \<Rightarrow> string \<Rightarrow> nat \<Rightarrow> (go_error + MetricValue) outcome"
  ExternalMetrics_List :: "string \<Rightarrow> string \<Rightarrow> string \<Rightarrow> nat \<Rightarrow> (go_error + ExternalMetricValue list) outcome"

definition metricServerDefaultMetricWindow :: duration where
  "metricServerDefaultMetricWindow = 60 * 1000000000"

section \<open>Resource metrics\<close>

text \<open>The first container with the given name, and its usage of the resource if it reports one.\<close>

definition container_metric :: "string \<Rightarrow> string \<Rightarrow> PodMetricsItem \<Rightarrow> PodMetricsInfo \<Rightarrow> PodMetricsInfo option" where
  "container_metric resource container m res =
     (case find (\<lambda>c. ctr_Name c = container) (pmi_Containers m) of
        None \<Rightarrow> None
      | Some c \<Rightarrow> Some (case map_of (ctr_Usage c) resource of
          None \<Rightarrow> res
        | Some val \<Rightarrow> AList.update (pmi_Name m) \<lparr>pm_Timestamp = pmi_Timestamp m,
            pm_Window = pmi_Window m, pm_Value = MilliValue val\<rparr> res))"

fun container_metrics_loop ::
  "string \<Rightarrow> string \<Rightarrow> PodMetricsItem list \<Rightarrow> PodMetricsInfo \<Rightarrow> go_error + PodMetricsInfo" where
  "container_metrics_loop resource container [] res = Inr res"
| "container_metrics_loop resource container (m # ms) res =
     (case container_metric resource container m res of
        None \<Rightarrow> Inl (errorf (''container '' @ container @ '' not present in metrics for pod '' @
          pmi_Namespace m @ ''/'' @ pmi_Name m))
      | Some res' \<Rightarrow> container_metrics_loop resource container ms res')"

definition getContainerMetrics :: "PodMetricsItem list \<Rightarrow> string \<Rightarrow> string \<Rightarrow> go_error + PodMetricsInfo" where
  "getContainerMetrics rawMetrics resource container =
     container_metrics_loop resource container rawMetrics []"

text \<open>The sum over the containers, \<open>None\<close> as soon as one does not report the resource.\<close>

fun container_sum :: "string \<Rightarrow> ContainerMetrics list \<Rightarrow> int \<Rightarrow> int option" where
  "container_sum resource [] podSum = Some podSum"
| "container_sum resource (c # cs) podSum = (case map_of (ctr_Usage c) resource of
     None \<Rightarrow> None
   | Some resValue \<Rightarrow> container_sum resource cs (int64 (podSum + MilliValue resValue)))"

definition pod_metric :: "string \<Rightarrow> PodMetricsItem \<Rightarrow> PodMetricsInfo \<Rightarrow> PodMetricsInfo" where
  "pod_metric resource m res =
     (if pmi_Containers m = [] then res else case container_sum resource (pmi_Containers m) 0 of
        None \<Rightarrow> res
      | Some podSum \<Rightarrow> AList.update (pmi_Name m) \<lparr>pm_Timestamp = pmi_Timestamp m,
          pm_Window = pmi_Window m, pm_Value = podSum\<rparr> res)"

definition getPodMetrics :: "PodMetricsItem list \<Rightarrow> string \<Rightarrow> PodMetricsInfo" where
  "getPodMetrics rawMetrics resource = fold (pod_metric resource) rawMetrics []"

definition GetResourceMetric ::
  "metrics_api \<Rightarrow> string \<Rightarrow> string \<Rightarrow> string \<Rightarrow> string \<Rightarrow> (go_error + PodMetricsInfo \<times> time) prog" where
  "GetResourceMetric api resource namespace selector container =
     go_bind (go_read (PodMetricses_List api namespace selector)) (\<lambda>r. go_return (case r of
       Inl e \<Rightarrow> Inl (wrap_error ''unable to fetch metrics from resource metrics API: '' e)
     | Inr items \<Rightarrow> (case items of
         [] \<Rightarrow> Inl (errorf ''no metrics returned from resource metrics API'')
       | m # _ \<Rightarrow> (case (if container \<noteq> [] then getContainerMetrics items resource container
                     else Inr (getPodMetrics items resource)) of
           Inl e \<Rightarrow> Inl (wrap_error ''failed to get container metrics: '' e)
         | Inr res \<Rightarrow> Inr (res, pmi_Timestamp m)))))"

section \<open>Custom and external metrics\<close>

definition raw_metric :: "MetricValue \<Rightarrow> PodMetricsInfo \<Rightarrow> PodMetricsInfo" where
  "raw_metric m res = AList.update (mv_DescribedObjectName m)
     \<lparr>pm_Timestamp = mv_Timestamp m,
      pm_Window = (case mv_WindowSeconds m of None \<Rightarrow> metricServerDefaultMetricWindow | Some w \<Rightarrow> seconds w),
      pm_Value = MilliValue (mv_Value m)\<rparr> res"

definition GetRawMetric ::
  "metrics_api \<Rightarrow> string \<Rightarrow> string \<Rightarrow> string \<Rightarrow> string \<Rightarrow> (go_error + PodMetricsInfo \<times> time) prog" where
  "GetRawMetric api metricName namespace selector metricSelector =
     go_bind (go_read (GetForObjects api namespace selector metricName metricSelector)) (\<lambda>r.
     go_return (case r of
       Inl e \<Rightarrow> Inl (wrap_error ''unable to fetch metrics from custom metrics API: '' e)
     | Inr items \<Rightarrow> (case items of
         [] \<Rightarrow> Inl (errorf ''no metrics returned from custom metrics API'')
       | m # _ \<Rightarrow> Inr (fold raw_metric items [], mv_Timestamp m))))"

definition GetObjectMetric ::
  "k8s_lib \<Rightarrow> metrics_api \<Rightarrow> string \<Rightarrow> string \<Rightarrow> CrossVersionObjectReference \<Rightarrow> string \<Rightarrow>
   (go_error + int \<times> time) prog" where
  "GetObjectMetric lib api metricName namespace objectRef metricSelector =
     (let group = (case ParseGroupVersion lib (ref_APIVersion objectRef) of Inl _ \<Rightarrow> [] | Inr g \<Rightarrow> g);
          kind = ref_Kind objectRef in
      go_bind (go_read (if kind = ''Namespace'' \<and> group = []
        then RootScoped_GetForObject api (group, kind) namespace metricName metricSelector
        else Namespaced_GetForObject api namespace (group, kind) (ref_Name objectRef) metricName metricSelector)) (\<lambda>r.
      go_return (case r of
        Inl e \<Rightarrow> Inl (wrap_error ''unable to fetch metrics from custom metrics API: '' e)
      | Inr m \<Rightarrow> Inr (MilliValue (mv_Value m), mv_Timestamp m))))"

definition GetExternalMetric ::
  "metrics_api \<Rightarrow> string \<Rightarrow> string \<Rightarrow> string \<Rightarrow> (go_error + int list \<times> time) prog" where
  "GetExternalMetric api metricName namespace selector =
     go_bind (go_read (ExternalMetrics_List api namespace metricName selector)) (\<lambda>r.
     go_return (case r of
       Inl e \<Rightarrow> Inl (wrap_error ''unable to fetch metrics from external metrics API: '' e)
     | Inr items \<Rightarrow> (case items of
         [] \<Rightarrow> Inl (errorf ''no metrics returned from external metrics API'')
       | m # _ \<Rightarrow> Inr (map (\<lambda>i. MilliValue (emv_Value i)) items, emv_Timestamp m))))"

section \<open>Facts\<close>

lemma container_sum_Some:
  "container_sum resource cs acc = Some v \<Longrightarrow> fits64 acc \<Longrightarrow> fits64 v \<and>
    list_all (\<lambda>c. map_of (ctr_Usage c) resource \<noteq> None) cs"
  by (induction cs arbitrary: acc) (auto split: option.splits)

lemma container_sum_eq:
  "container_sum resource cs acc =
    (if list_all (\<lambda>c. map_of (ctr_Usage c) resource \<noteq> None) cs
     then Some (fold (\<lambda>c a. int64 (a + MilliValue (the (map_of (ctr_Usage c) resource)))) cs acc) else None)"
  by (induction cs arbitrary: acc) (auto split: option.splits)

lemma int64_add_int64 [simp]: "int64 (int64 a + b) = int64 (a + b)"
  unfolding int64_def
  using signed_take_bit_add [of 63 "signed_take_bit 63 a" b] signed_take_bit_add [of 63 a b] by simp

text \<open>The wrap-around of a running sum can be delayed to its end.\<close>

lemma fold_int64_sum: "fits64 acc \<Longrightarrow> fold (\<lambda>x a. int64 (a + f x)) xs acc = int64 (acc + sum_list (map f xs))"
  by (induction xs arbitrary: acc) (simp_all add: int64_id add.assoc)

lemma distinct_pod_metric: "distinct (map fst res) \<Longrightarrow> distinct (map fst (pod_metric r m res))"
  by (simp add: pod_metric_def distinct_update split: option.splits)

lemma distinct_getPodMetrics: "distinct (map fst (getPodMetrics ms r))"
proof -
  have "distinct (map fst acc) \<Longrightarrow> distinct (map fst (fold (pod_metric r) ms acc))" for acc
    by (induction ms arbitrary: acc) (simp_all add: distinct_pod_metric)
  then show ?thesis by (simp add: getPodMetrics_def)
qed

lemma distinct_container_metrics:
  "container_metrics_loop r c ms acc = Inr res \<Longrightarrow> distinct (map fst acc) \<Longrightarrow> distinct (map fst res)"
  by (induction ms arbitrary: acc)
    (auto simp: container_metric_def distinct_update split: option.splits)

lemma distinct_getContainerMetrics: "getContainerMetrics ms r c = Inr res \<Longrightarrow> distinct (map fst res)"
  unfolding getContainerMetrics_def by (erule distinct_container_metrics) simp

text \<open>A pod is reported exactly when it has containers and all of them report the resource.\<close>

lemma keys_getPodMetrics:
  "fst ` set (getPodMetrics ms r) = pmi_Name ` {m \<in> set ms. pmi_Containers m \<noteq> [] \<and>
     list_all (\<lambda>c. map_of (ctr_Usage c) r \<noteq> None) (pmi_Containers m)}"
proof -
  have step: "fst ` set (pod_metric r m acc) = fst ` set acc \<union> pmi_Name ` {m' \<in> {m}. pmi_Containers m' \<noteq> [] \<and>
     list_all (\<lambda>c. map_of (ctr_Usage c) r \<noteq> None) (pmi_Containers m')}" for m acc
    by (auto simp: pod_metric_def container_sum_eq dom_update)
  have "fst ` set (fold (pod_metric r) ms acc) = fst ` set acc \<union> pmi_Name ` {m \<in> set ms. pmi_Containers m \<noteq> [] \<and>
     list_all (\<lambda>c. map_of (ctr_Usage c) r \<noteq> None) (pmi_Containers m)}" for acc
    by (induction ms arbitrary: acc) (auto simp: step)
  then show ?thesis by (simp add: getPodMetrics_def)
qed

text \<open>Steps that touch only the key of their element do not disturb each other.\<close>

lemma map_of_fold_key:
  assumes other: "\<And>x acc n. n \<noteq> key x \<Longrightarrow> map_of (f x acc) n = map_of acc n"
    and "distinct (map key xs)" "x \<in> set xs"
  shows "\<exists>acc'. map_of acc' (key x) = map_of acc (key x) \<and> map_of (fold f xs acc) (key x) = map_of (f x acc') (key x)"
proof -
  obtain ys zs where xs: "xs = ys @ x # zs" using assms(3) by (meson split_list)
  have skip: "map_of (fold f us acc) (key x) = map_of acc (key x)" if "key x \<notin> key ` set us" for us acc
    using that by (induction us arbitrary: acc) (auto simp: other)
  show ?thesis
    using assms(2) by (intro exI [of _ "fold f ys acc"]) (auto simp: xs skip)
qed

lemma pod_metric_lookup:
  "map_of (pod_metric r m acc) n = (if pmi_Name m = n \<and> pmi_Containers m \<noteq> [] \<and> list_all (\<lambda>c. map_of (ctr_Usage c) r \<noteq> None) (pmi_Containers m)
     then Some \<lparr>pm_Timestamp = pmi_Timestamp m, pm_Window = pmi_Window m,
       pm_Value = int64 (\<Sum>c\<leftarrow>pmi_Containers m. MilliValue (the (map_of (ctr_Usage c) r)))\<rparr>
     else map_of acc n)"
  using fold_int64_sum [of 0 "\<lambda>c. MilliValue (the (map_of (ctr_Usage c) r))" "pmi_Containers m"]
  by (simp add: pod_metric_def container_sum_eq update_conv' fits64_def)

section \<open>What the calculator relies on\<close>

locale metrics_client =
  fixes external :: "string \<Rightarrow> string \<Rightarrow> string \<Rightarrow> (go_error + int list \<times> time) prog"
    and resource :: "string \<Rightarrow> string \<Rightarrow> string \<Rightarrow> string \<Rightarrow> (go_error + PodMetricsInfo \<times> time) prog"
  assumes external_framed: "framed (external m ns sel)" "keeps_wpa (external m ns sel)"
    and resource_framed: "framed (resource r ns sel c)" "keeps_wpa (resource r ns sel c)"
    and external_nonempty: "external m ns sel s = (Ret (Inr (vs, t)), s') \<Longrightarrow> vs \<noteq> []"
    and resource_distinct: "resource r ns sel c s = (Ret (Inr (ms, t)), s') \<Longrightarrow> distinct (map fst ms)"

lemma framed_rest [framed_intros]:
  "framed (GetExternalMetric api m ns sel)" "framed (GetResourceMetric api r ns sel c)"
  "framed (GetRawMetric api m ns sel msel)" "framed (GetObjectMetric lib api m ns ref msel)"
  unfolding GetExternalMetric_def GetResourceMetric_def GetRawMetric_def GetObjectMetric_def Let_def
  by (intro framed_intros)+

lemma keeps_wpa_rest:
  "keeps_wpa (GetExternalMetric api m ns sel)" "keeps_wpa (GetResourceMetric api r ns sel c)"
  unfolding keeps_wpa_def GetExternalMetric_def GetResourceMetric_def by (intro allI preserves_intros)+

interpretation rest: metrics_client "GetExternalMetric api" "GetResourceMetric api" for api
proof unfold_locales
  fix m ns sel s vs t s'
  assume "GetExternalMetric api m ns sel s = (Ret (Inr (vs, t)), s')"
  then show "vs \<noteq> []"
    by (auto simp: GetExternalMetric_def go_defs split: outcome.splits sum.splits list.splits prod.splits)
next
  fix r ns sel c s ms t s'
  assume "GetResourceMetric api r ns sel c s = (Ret (Inr (ms, t)), s')"
  then show "distinct (map fst ms)"
    by (auto simp: GetResourceMetric_def go_defs distinct_getPodMetrics
        dest: distinct_getContainerMetrics split: outcome.splits sum.splits list.splits prod.splits if_splits)
qed (intro framed_intros keeps_wpa_rest)+

end
