(* ===== verification/Pods.thy ===== *)
theory Pods
  imports Rest_Metrics
begin

text \<open>
  The pods of the scale target (\<open>replica_calculator.go\<close>): which of them belong to the target
  (\<open>checkOwnerRef\<close>), how many count as ready (\<open>getReadyPodsCount\<close>) and which of them a resource
  metric is taken from (\<open>groupPods\<close>, \<open>removeMetricsForPods\<close>).  A \<open>corev1.Pod\<close> is reduced to the
  fields the code reads.

  The facts at the end are what the replica computation relies on: the number of ready pods
  and of pods of other targets never exceeds the number of pods, so that the share of ready pods is
  a quotient by a positive number.
\<close>

section \<open>Data\<close>

record OwnerReference =
  own_Kind :: string
  own_Name :: string

record PodCondition =
  pc_Type :: string
  pc_Status :: string
  pc_LastTransitionTime :: time

record PodStatus =
  Phase :: string
  pod_Conditions :: "PodCondition list"
  StartTime :: "time option"

record Pod =
  pod_Name :: string
  pod_Namespace :: string
  OwnerReferences :: "OwnerReference list"
  pod_DeletionTimestamp :: "time option"
  pod_Status :: PodStatus

definition PodPending :: string where [simp]: "PodPending = ''Pending''"
definition PodRunning :: string where [simp]: "PodRunning = ''Running''"
definition PodSucceeded :: string where [simp]: "PodSucceeded = ''Succeeded''"
definition PodFailed :: string where [simp]: "PodFailed = ''Failed''"
definition PodReady :: string where [simp]: "PodReady = ''Ready''"
definition ResourceCPU :: string where [simp]: "ResourceCPU = ''cpu''"
definition replicaSetKind :: string where [simp]: "replicaSetKind = ''ReplicaSet''"
definition skipOwnerCheckAnnotationKey :: string where
  [simp]: "skipOwnerCheckAnnotationKey = ''wpa.datadoghq.com/skip-owner-check''"

section \<open>Operations\<close>

fun find_pod_condition :: "int \<Rightarrow> PodCondition list \<Rightarrow> string \<Rightarrow> int \<times> PodCondition option" where
  "find_pod_condition i [] t = (- 1, None)"
| "find_pod_condition i (c # cs) t =
     (if pc_Type c = t then (i, Some c) else find_pod_condition (i + 1) cs t)"

definition getPodCondition :: "PodStatus option \<Rightarrow> string \<Rightarrow> int \<times> PodCondition option" where
  "getPodCondition status conditionType = (case status of
     None \<Rightarrow> (- 1, None)
   | Some st \<Rightarrow> find_pod_condition 0 (pod_Conditions st) conditionType)"

definition shouldSkipOwnerCheck :: "WatermarkPodAutoscaler \<Rightarrow> bool" where
  "shouldSkipOwnerCheck w \<longleftrightarrow> map_of (Annotations w) skipOwnerCheckAnnotationKey = Some ''true''"

definition mainOwnerRef :: "OwnerReference \<Rightarrow> string" where
  "mainOwnerRef ow = (if own_Kind ow = replicaSetKind
     then (case before_last CHR ''-'' (own_Name ow) of None \<Rightarrow> own_Name ow | Some p \<Rightarrow> p)
     else own_Name ow)"

fun checkOwnerRef :: "OwnerReference list \<Rightarrow> string \<Rightarrow> bool" where
  "checkOwnerRef [] targetName = False"
| "checkOwnerRef (ow # os) targetName =
     (if mainOwnerRef ow = targetName then True else checkOwnerRef os targetName)"

text \<open>One round of the loop of \<open>getReadyPodsCount\<close>; the counters are \<open>toleratedAsReadyPodCount\<close> and
  \<open>incorrectTargetPodsCount\<close>.\<close>

definition count_pod ::
  "string \<Rightarrow> duration \<Rightarrow> bool \<Rightarrow> Pod \<Rightarrow> int \<times> int \<Rightarrow> (int \<times> int) prog" where
  "count_pod targetName readinessDelay skipOwnerCheck pod acc =
     (let (tolerated, incorrect) = acc; st = pod_Status pod in
      if \<not> skipOwnerCheck \<and> \<not> checkOwnerRef (OwnerReferences pod) targetName then
        go_return (tolerated, incorrect + 1)
      else if Phase st = PodFailed \<or> Phase st = PodSucceeded then
        go_return (tolerated, incorrect + 1)
      else case snd (getPodCondition (Some st) PodReady) of
        None \<Rightarrow> go_return acc
      | Some condition \<Rightarrow>
          if StartTime st = None \<or> pod_DeletionTimestamp pod \<noteq> None then go_return acc
          else if Phase st = PodRunning \<and> pc_Status condition = ConditionTrue then
            go_return (tolerated + 1, incorrect)
          else if Phase st = PodPending then
            go_bind go_now (\<lambda>now.
            if time_sub now (pc_LastTransitionTime condition) < readinessDelay
            then go_return (tolerated + 1, incorrect) else go_return acc)
          else go_return acc)"

definition getReadyPodsCount ::
  "string \<Rightarrow> Pod list \<Rightarrow> duration \<Rightarrow> bool \<Rightarrow> (int \<times> int \<times> go_error option) prog" where
  "getReadyPodsCount targetName podList readinessDelay skipOwnerCheck =
     go_bind (go_fold (count_pod targetName readinessDelay skipOwnerCheck) podList (0, 0))
       (\<lambda>(tolerated, incorrect).
     if tolerated = 0 then
       go_return (0, int32 incorrect, Some (errorf (''among the '' @ show_int (int (length podList)) @
         '' pods, none is ready. Skipping recommendation'')))
     else go_return (int32 tolerated, int32 incorrect, None))"

text \<open>One round of the loop of \<open>groupPods\<close>.\<close>

definition ignore_cpu :: "duration \<Rightarrow> PodStatus \<Rightarrow> bool" where
  "ignore_cpu delayOfInitialReadinessStatus st =
     (case (snd (getPodCondition (Some st) PodReady), StartTime st) of
        (Some condition, Some start) \<Rightarrow>
          pc_Status condition = ConditionFalse \<or>
          start + delayOfInitialReadinessStatus > pc_LastTransitionTime condition
      | _ \<Rightarrow> True)"

definition group_pod ::
  "string \<Rightarrow> PodMetricsInfo \<Rightarrow> string \<Rightarrow> duration \<Rightarrow> bool \<Rightarrow> Pod \<Rightarrow> string set \<times> string set \<Rightarrow>
   string set \<times> string set" where
  "group_pod targetName metrics resource delay skipOwnerCheck pod acc =
     (let (readyPods, ignoredPods) = acc; st = pod_Status pod; name = pod_Name pod in
      if \<not> skipOwnerCheck \<and> \<not> checkOwnerRef (OwnerReferences pod) targetName then acc
      else if Phase st = PodFailed then (readyPods, insert name ignoredPods)
      else if Phase st = PodPending then (readyPods, insert name ignoredPods)
      else if map_of metrics name = None then acc
      else if resource = ResourceCPU \<and> ignore_cpu delay st then (readyPods, insert name ignoredPods)
      else (insert name readyPods, ignoredPods))"

definition groupPods ::
  "Pod list \<Rightarrow> string \<Rightarrow> PodMetricsInfo \<Rightarrow> string \<Rightarrow> duration \<Rightarrow> bool \<Rightarrow> string set \<times> string set" where
  "groupPods podList targetName metrics resource delay skipOwnerCheck =
     fold (group_pod targetName metrics resource delay skipOwnerCheck) podList ({}, {})"

definition removeMetricsForPods :: "PodMetricsInfo \<Rightarrow> string set \<Rightarrow> PodMetricsInfo" where
  "removeMetricsForPods metrics pods = filter (\<lambda>m. fst m \<notin> pods) metrics"

section \<open>Owners\<close>

lemma checkOwnerRef_iff: "checkOwnerRef os t \<longleftrightarrow> (\<exists>ow\<in>set os. mainOwnerRef ow = t)"
  by (induction os) auto

text \<open>The replica sets of a deployment are named after it, with a suffix without a hyphen.\<close>

lemma mainOwnerRef_deployment:
  "CHR ''-'' \<notin> set hash \<Longrightarrow>
    mainOwnerRef \<lparr>own_Kind = ''ReplicaSet'', own_Name = dep @ CHR ''-'' # hash\<rparr> = dep"
  by (simp add: mainOwnerRef_def before_last_Some)

section \<open>Counting ready pods\<close>

lemma framed_count_pod [framed_intros]: "framed (count_pod t d sk p acc)"
  unfolding count_pod_def Let_def by (intro framed_intros)

lemma framed_getReadyPodsCount [framed_intros]: "framed (getReadyPodsCount t ps d sk)"
  unfolding getReadyPodsCount_def by (intro framed_intros)

text \<open>Whether a pod is ready when the clock shows \<open>now\<close>, and whether it is left out of the count.\<close>

definition of_other_target :: "string \<Rightarrow> bool \<Rightarrow> Pod \<Rightarrow> bool" where
  "of_other_target target skip pod \<longleftrightarrow>
     (\<not> skip \<and> (\<forall>ow\<in>set (OwnerReferences pod). mainOwnerRef ow \<noteq> target)) \<or>
     Phase (pod_Status pod) \<in> {''Failed'', ''Succeeded''}"

lemma wp_count_pod:
  "wp (count_pod t d sk p acc) (\<lambda>acc' _. case (acc, acc') of ((a, b), (a', b')) \<Rightarrow>
     (if of_other_target t sk p then a' = a \<and> b' = b + 1
      else (a' = a \<or> a' = a + 1) \<and> b' = b)) (\<lambda>_ _. False) s"
  by (auto simp: count_pod_def Let_def go_wp of_other_target_def checkOwnerRef_iff
      split: option.splits prod.splits)

lemma wp_count_pods:
  "wp (go_fold (count_pod t d sk) ps (a, b))
     (\<lambda>(a', b') _. b' = b + int (length (filter (of_other_target t sk) ps)) \<and> a \<le> a' \<and>
        (a' - a) + (b' - b) \<le> int (length ps)) (\<lambda>_ _. False) s"
proof (induction ps arbitrary: a b s)
  case (Cons p ps)
  show ?case
    unfolding go_fold.simps
    by (rule wp_phase2 [OF wp_count_pod]) (auto intro!: wp_mono [OF Cons.IH] split: if_splits prod.splits)
qed (simp add: go_wp)

text \<open>What the callers divide by is positive, and the number of ready pods is not above it.\<close>

lemma wp_getReadyPodsCount:
  assumes "length ps < 2 ^ 31"
  shows "wp (getReadyPodsCount t ps d sk)
     (\<lambda>(ready, incorrect, err) _. incorrect = int (length (filter (of_other_target t sk) ps)) \<and>
        (case err of None \<Rightarrow> 1 \<le> ready \<and> ready + incorrect \<le> int (length ps) | Some _ \<Rightarrow> ready = 0))
     (\<lambda>_ _. False) s"
  unfolding getReadyPodsCount_def
  by (rule wp_phase2 [OF wp_count_pods])
    (use assms in \<open>auto simp: go_wp int32_id fits32_def split: prod.splits\<close>)

section \<open>Grouping pods for a resource metric\<close>

lemma group_pod_cases:
  assumes "group_pod t m res d sk p (a, b) = (a', b')"
  obtains "a' = a" "b' = b" | "a' = insert (pod_Name p) a" "b' = b" "pod_Name p \<in> fst ` set m"
    | "a' = a" "b' = insert (pod_Name p) b"
  using assms by (auto simp: group_pod_def Let_def map_of_eq_None_iff split: if_splits)

lemma group_pods_names:
  "fold (group_pod t m res d sk) ps (a, b) = (r, i) \<Longrightarrow>
    r \<union> i \<subseteq> a \<union> b \<union> pod_Name ` set ps \<and> r \<subseteq> a \<union> fst ` set m"
proof (induction ps arbitrary: a b)
  case (Cons p ps)
  obtain a' b' where ab: "group_pod t m res d sk p (a, b) = (a', b')" by fastforce
  have IH: "r \<union> i \<subseteq> a' \<union> b' \<union> pod_Name ` set ps \<and> r \<subseteq> a' \<union> fst ` set m"
    using Cons.prems by (intro Cons.IH) (simp add: ab)
  show ?case
    using ab by (rule group_pod_cases) (use IH in auto)
qed simp

lemma groupPods_names:
  "groupPods ps t m res d sk = (r, i) \<Longrightarrow> r \<union> i \<subseteq> pod_Name ` set ps \<and> r \<subseteq> fst ` set m"
  unfolding groupPods_def by (drule group_pods_names) simp

lemma groupPods_disjoint:
  assumes "distinct (map pod_Name ps)" "groupPods ps t m res d sk = (r, i)"
  shows "r \<inter> i = {}"
proof -
  have "r \<inter> i = {}" if "distinct (map pod_Name ps)" "(a \<union> b) \<inter> pod_Name ` set ps = {}" "a \<inter> b = {}"
    "fold (group_pod t m res d sk) ps (a, b) = (r, i)" for a b r i
    using that
  proof (induction ps arbitrary: a b)
    case (Cons p ps)
    obtain a' b' where ab: "group_pod t m res d sk p (a, b) = (a', b')" by fastforce
    have IH: "(a' \<union> b') \<inter> pod_Name ` set ps = {} \<Longrightarrow> a' \<inter> b' = {} \<Longrightarrow> r \<inter> i = {}"
      using Cons.prems by (intro Cons.IH [of a' b']) (simp_all add: ab)
    show ?case
      using ab by (rule group_pod_cases) (rule IH; use Cons.prems in auto)+
  qed auto
  from this [of "{}" "{}"] show ?thesis using assms by (simp add: groupPods_def)
qed

text \<open>With distinct names the two groups together are not larger than the list.\<close>

lemma groupPods_card:
  assumes "distinct (map pod_Name ps)" "groupPods ps t m res d sk = (r, i)"
  shows "card r + card i \<le> length ps" "finite r" "finite i"
proof -
  have sub: "r \<union> i \<subseteq> pod_Name ` set ps" using groupPods_names [OF assms(2)] by simp
  then show fin: "finite r" "finite i" by (auto intro: finite_subset)
  have "card r + card i = card (r \<union> i)"
    using groupPods_disjoint [OF assms] fin by (simp add: card_Un_disjoint)
  also have "\<dots> \<le> card (pod_Name ` set ps)" using sub by (intro card_mono) auto
  also have "\<dots> \<le> length ps" using card_image_le [of "set ps" pod_Name] card_length [of ps] by simp
  finally show "card r + card i \<le> length ps" .
qed

text \<open>Both groups in closed form\<close>

definition owned_pod :: "string \<Rightarrow> bool \<Rightarrow> Pod \<Rightarrow> bool" where
  "owned_pod target skip p \<longleftrightarrow> skip \<or> (\<exists>ow \<in> set (OwnerReferences p). mainOwnerRef ow = target)"

definition not_started :: "Pod \<Rightarrow> bool" where
  "not_started p \<longleftrightarrow> Phase (pod_Status p) \<in> {''Failed'', ''Pending''}"

lemma group_pods_exact:
  "fold (group_pod t m res d skip) ps (a, b) =
     (a \<union> {pod_Name p |p. p \<in> set ps \<and> owned_pod t skip p \<and> \<not> not_started p \<and> pod_Name p \<in> fst ` set m \<and> \<not> (res = ''cpu'' \<and> ignore_cpu d (pod_Status p))},
      b \<union> {pod_Name p |p. p \<in> set ps \<and> owned_pod t skip p \<and> (not_started p \<or> pod_Name p \<in> fst ` set m \<and> res = ''cpu'' \<and> ignore_cpu d (pod_Status p))})"
proof (induction ps arbitrary: a b)
  case (Cons p ps)
  obtain a' b' where ab: "group_pod t m res d skip p (a, b) = (a', b')" by fastforce
  show ?case
    unfolding fold.simps comp_apply ab Cons.IH using ab
    by (auto simp: group_pod_def Let_def checkOwnerRef_iff owned_pod_def not_started_def map_of_eq_None_iff image_iff split: if_splits)
qed simp

end
