(* ===== verification/Tls_Cache.thy ===== *)
theory Tls_Cache
  imports World
begin

text \<open>
  The certificate cache of \<open>controllers/datadoghq/tls.go\<close>: the callback that serves a client
  certificate and reloads it, the retry loop around \<open>tls.LoadX509KeyPair\<close>, the eviction loop, and
  the transport whose TLS configuration is replaced for each request.

  The cache is also a state machine: \<open>cache_step\<close> has one step per use of the callback and one
  per round of the eviction loop, which runs in a goroutine of its own.  Both are taken as atomic: the
  callback releases its lock while it loads the files, so that two uses at a time may both load them, and the later one wins.
\<close>

text \<open>Files, certificates and PEM parsing are outside.\<close>

record tls_env =
  ReadFile :: "string \<Rightarrow> nat \<Rightarrow> go_error + string"
  LoadX509KeyPair :: "string \<Rightarrow> string \<Rightarrow> nat \<Rightarrow> go_error + tls_certificate"
  AppendCertsFromPEM :: "string \<Rightarrow> bool"

section \<open>Operations\<close>

definition keyMismatch :: string where
  "keyMismatch = ''tls: private key does not match public key''"

text \<open>
  \<open>retryLoadingX09Keypair\<close>: the loop has \<open>left\<close> of its \<open>attempts\<close> rounds to go and \<open>err\<close> is the last
  error.  Sleeping between the rounds only lets time pass.
\<close>

definition attempts_error :: "nat \<Rightarrow> go_error option \<Rightarrow> go_error" where
  "attempts_error attempts err =
     (let msg = ''impossible to load a matching certificate and key after '' @
        show_nat attempts @ '' attempts, last error: '' in
      case err of None \<Rightarrow> errorf (msg @ ''%!w(<nil>)'') | Some e \<Rightarrow> wrap_error msg e)"

fun retry_keypair ::
  "tls_env \<Rightarrow> nat \<Rightarrow> nat \<Rightarrow> string \<Rightarrow> string \<Rightarrow> go_error option \<Rightarrow> (go_error + tls_certificate) prog" where
  "retry_keypair env attempts 0 certFile keyFile err =
     go_return (Inl (attempts_error attempts err))"
| "retry_keypair env attempts (Suc left) certFile keyFile err =
     go_bind (go_read (\<lambda>n. Ret (LoadX509KeyPair env certFile keyFile n))) (\<lambda>r. case r of
       Inr cert \<Rightarrow> go_return (Inr cert)
     | Inl e \<Rightarrow> if Error e \<noteq> keyMismatch then go_return (Inl e)
         else retry_keypair env attempts left certFile keyFile (Some e))"

definition retryLoadingX09Keypair ::
  "tls_env \<Rightarrow> nat \<Rightarrow> string \<Rightarrow> string \<Rightarrow> (go_error + tls_certificate) prog" where
  "retryLoadingX09Keypair env attempts certFile keyFile =
     retry_keypair env attempts attempts certFile keyFile None"

text \<open>Whether the callback loads the files again.\<close>

definition needs_reload :: "tlsCacheEntry option \<Rightarrow> time \<Rightarrow> bool outcome" where
  "needs_reload entry now = (case entry of
     None \<Rightarrow> Ret True
   | Some e \<Rightarrow>
       if entry_err e \<noteq> None then Ret False
       else if isExpired e now certificateCacheTimeout then Ret True
       else isCertificateExpired e now)"

definition GetClientCertificate ::
  "tls_env \<Rightarrow> string \<Rightarrow> string \<Rightarrow> (tls_certificate option \<times> go_error option) prog" where
  "GetClientCertificate env certFile keyFile =
     go_bind go_now (\<lambda>now.
     go_bind (go_get (\<lambda>s. map_of (certCache s) certFile)) (\<lambda>found.
     go_bind (go_lift (needs_reload found now)) (\<lambda>reload.
     if reload then
       go_bind (retryLoadingX09Keypair env 5 certFile keyFile) (\<lambda>r.
       let entry = (case r of
           Inr cert \<Rightarrow> \<lparr>certificate = Some cert, entry_err = None, lastUpdate = now, lastAccess = now\<rparr>
         | Inl e \<Rightarrow> \<lparr>certificate = None, entry_err = Some e, lastUpdate = now, lastAccess = now\<rparr>) in
       go_bind (go_modify (\<lambda>s. s\<lparr>certCache := AList.update certFile entry (certCache s)\<rparr>)) (\<lambda>_.
       go_return (certificate entry, entry_err entry)))
     else
       go_bind (deref found) (\<lambda>e.
       go_bind (go_modify (\<lambda>s. s\<lparr>certCache := AList.update certFile (e\<lparr>lastAccess := now\<rparr>) (certCache s)\<rparr>)) (\<lambda>_.
       go_return (certificate e, entry_err e))))))"

text \<open>One round of \<open>run\<close>.\<close>

definition evict :: "time \<Rightarrow> (string \<times> tlsCacheEntry) list \<Rightarrow> (string \<times> tlsCacheEntry) list" where
  "evict now cache = filter (\<lambda>(_, e). \<not> now > lastAccess e + certificateCacheExpirationTimeout) cache"

definition NewCertificateReloadingTransport :: "tls_env \<Rightarrow> TLSConfig \<Rightarrow> go_error option prog" where
  "NewCertificateReloadingTransport env config =
     go_bind (if CAFile config = [] then go_return (Inr []) else go_read (\<lambda>n. Ret (ReadFile env (CAFile config) n))) (\<lambda>caPEM.
     case buildTLSConfig (AppendCertsFromPEM env) caPEM config of
       Inl e \<Rightarrow> go_return (Some (wrap_error ''failed to create TLS client: '' e))
     | Inr tlsConfig \<Rightarrow>
         go_bind (go_modify (\<lambda>s. s\<lparr>transportTLS :=
           Some (tlsConfig\<lparr>tls_GetClientCertificate := Some (CertFile config, KeyFile config)\<rparr>)\<rparr>)) (\<lambda>_.
         go_return None))"

lemma framed_retry_keypair [framed_intros]: "framed (retry_keypair env n k c ky err)"
  by (induction k arbitrary: err) (auto intro!: framed_intros)

lemma framed_GetClientCertificate [framed_intros]: "framed (GetClientCertificate env c k)"
  unfolding GetClientCertificate_def retryLoadingX09Keypair_def Let_def by (intro framed_intros)

lemma keeps_wpa_retry [preserves_intros]: "preserves (\<lambda>s. P (wpa s)) (retry_keypair env n k c ky err)"
  by (induction k arbitrary: err) (auto intro!: preserves_intros)

lemma keeps_wpa_GetClientCertificate [preserves_intros]:
  "preserves (\<lambda>s. P (wpa s)) (GetClientCertificate env c k)"
  unfolding GetClientCertificate_def retryLoadingX09Keypair_def Let_def by (intro preserves_intros)

lemma keeps_wpa_NewTransport [preserves_intros]:
  "preserves (\<lambda>s. P (wpa s)) (NewCertificateReloadingTransport env cfg)"
  unfolding NewCertificateReloadingTransport_def by (intro preserves_intros)

lemma framed_NewCertificateReloadingTransport [framed_intros]:
  "framed (NewCertificateReloadingTransport env cfg)"
  unfolding NewCertificateReloadingTransport_def by (intro framed_intros)

section \<open>The retry loop\<close>

text \<open>The loop ends with a certificate, with an error that is not a mismatch, or after all attempts
  have failed with a mismatch; it never loads the files more often than that.\<close>

lemma retry_keypair_run:
  "\<exists>r k. retry_keypair env n left c ky err s = (Ret r, s\<lparr>reads := reads s + k\<rparr>) \<and> k \<le> left \<and>
     (\<forall>j < k - 1. \<exists>e. LoadX509KeyPair env c ky (reads s + j) = Inl e \<and> Error e = keyMismatch) \<and>
     (case r of
        Inr cert \<Rightarrow> 0 < k \<and> LoadX509KeyPair env c ky (reads s + k - 1) = Inr cert
      | Inl e \<Rightarrow> (0 < k \<and> LoadX509KeyPair env c ky (reads s + k - 1) = Inl e \<and> Error e \<noteq> keyMismatch) \<or>
          (k = left \<and> (\<forall>j < left. \<exists>e. LoadX509KeyPair env c ky (reads s + j) = Inl e \<and> Error e = keyMismatch)))"
proof (induction left arbitrary: s err)
  case 0
  show ?case
    by (intro exI [of _ "Inl (attempts_error n err)"] exI [of _ 0]) (simp add: go_return_def)
next
  case (Suc left)
  let ?s = "s\<lparr>reads := Suc (reads s)\<rparr>"
  show ?case
  proof (cases "LoadX509KeyPair env c ky (reads s)")
    case (Inr cert)
    then show ?thesis
      by (intro exI [of _ "Inr cert"] exI [of _ 1]) (simp add: go_bind_def go_read_def go_return_def)
  next
    case e: (Inl e)
    show ?thesis
    proof (cases "Error e = keyMismatch")
      case False
      then show ?thesis using e
        by (intro exI [of _ "Inl e"] exI [of _ 1]) (simp add: go_bind_def go_read_def go_return_def)
    next
      case True
      obtain r k where IH: "retry_keypair env n left c ky (Some e) ?s = (Ret r, ?s\<lparr>reads := reads ?s + k\<rparr>)"
        "k \<le> left"
        "\<forall>j < k - 1. \<exists>e. LoadX509KeyPair env c ky (reads ?s + j) = Inl e \<and> Error e = keyMismatch"
        "case r of
          Inr cert \<Rightarrow> 0 < k \<and> LoadX509KeyPair env c ky (reads ?s + k - 1) = Inr cert
        | Inl e \<Rightarrow> (0 < k \<and> LoadX509KeyPair env c ky (reads ?s + k - 1) = Inl e \<and> Error e \<noteq> keyMismatch) \<or>
            (k = left \<and> (\<forall>j < left. \<exists>e. LoadX509KeyPair env c ky (reads ?s + j) = Inl e \<and> Error e = keyMismatch))"
        using Suc.IH [of "Some e" ?s] by blast
      have shift: "\<exists>e. LoadX509KeyPair env c ky (reads s + j) = Inl e \<and> Error e = keyMismatch"
        if "\<forall>j < m. \<exists>e. LoadX509KeyPair env c ky (reads ?s + j) = Inl e \<and> Error e = keyMismatch" "j < Suc m" for m j
        using that e True by (cases j) auto
      have "retry_keypair env n (Suc left) c ky err s = (Ret r, s\<lparr>reads := reads s + Suc k\<rparr>)"
        using e True IH(1) by (simp add: go_bind_def go_read_def)
      moreover have "\<forall>j < Suc k - 1. \<exists>e. LoadX509KeyPair env c ky (reads s + j) = Inl e \<and> Error e = keyMismatch"
        using shift [OF IH(3)] e True by (cases k) auto
      ultimately show ?thesis
        using IH(2,4) shift by (intro exI [of _ r] exI [of _ "Suc k"]) (auto split: sum.splits)
    qed
  qed
qed

section \<open>The cache as a state machine\<close>

definition entry_ok :: "tlsCacheEntry \<Rightarrow> bool" where
  "entry_ok e \<longleftrightarrow> lastUpdate e \<le> lastAccess e \<and> (certificate e = None \<longleftrightarrow> entry_err e \<noteq> None)"

text \<open>The use of a cached entry at \<open>now\<close>, and the entry that a load at \<open>now\<close> leaves.\<close>

definition loaded :: "time \<Rightarrow> go_error + tls_certificate \<Rightarrow> tlsCacheEntry" where
  "loaded now r = (case r of
     Inr cert \<Rightarrow> \<lparr>certificate = Some cert, entry_err = None, lastUpdate = now, lastAccess = now\<rparr>
   | Inl e \<Rightarrow> \<lparr>certificate = None, entry_err = Some e, lastUpdate = now, lastAccess = now\<rparr>)"

inductive cache_step :: "time \<Rightarrow> (string \<times> tlsCacheEntry) list \<Rightarrow> (string \<times> tlsCacheEntry) list \<Rightarrow> bool" where
  Reload: "needs_reload (map_of cache f) now = Ret True \<Longrightarrow>
     cache_step now cache (AList.update f (loaded now r) cache)"
| Hit: "map_of cache f = Some e \<Longrightarrow> needs_reload (Some e) now = Ret False \<Longrightarrow>
     cache_step now cache (AList.update f (e\<lparr>lastAccess := now\<rparr>) cache)"
| Evict: "cache_step now cache (evict now cache)"

text \<open>Steps at times that do not decrease\<close>

inductive cache_run :: "time \<Rightarrow> (string \<times> tlsCacheEntry) list \<Rightarrow> bool" where
  New: "cache_run now []"
| Step: "cache_run t cache \<Longrightarrow> t \<le> now \<Longrightarrow> cache_step now cache cache' \<Longrightarrow> cache_run now cache'"

lemma map_of_update_filter: "map_of (evict now cache) f = Some e \<Longrightarrow> distinct (map fst cache) \<Longrightarrow>
    map_of cache f = Some e \<and> \<not> now > lastAccess e + certificateCacheExpirationTimeout"
  by (auto simp: evict_def dest!: map_of_SomeD)

lemma cache_run_bounds:
  "cache_run now cache \<Longrightarrow> distinct (map fst cache) \<and>
    (\<forall>f e. map_of cache f = Some e \<longrightarrow> entry_ok e \<and> lastAccess e \<le> now)"
proof (induction rule: cache_run.induct)
  case (Step t cache now cache')
  have IH: "distinct (map fst cache)" "\<And>f e. map_of cache f = Some e \<Longrightarrow> entry_ok e \<and> lastAccess e \<le> now"
    using Step.IH Step.hyps(2) by (blast, meson order_trans)
  show ?case
    using Step.hyps(3)
  proof (cases rule: cache_step.cases)
    case (Reload f r)
    then show ?thesis using IH
      by (auto simp: update_conv' distinct_update entry_ok_def loaded_def split: sum.splits if_splits)
  next
    case (Hit f e)
    then have "entry_ok (e\<lparr>lastAccess := now\<rparr>)" using IH(2) [of f e] by (auto simp: entry_ok_def)
    then show ?thesis using IH Hit by (auto simp: update_conv' distinct_update split: if_splits)
  next
    case Evict
    then have "distinct (map fst cache')" using IH(1) by (simp add: evict_def distinct_map_filter)
    then show ?thesis using IH Evict map_of_update_filter by blast
  qed
qed simp

text \<open>A cached error is never loaded again while it is in use.\<close>

lemma needs_reload_error: "entry_err e \<noteq> None \<Longrightarrow> needs_reload (Some e) now = Ret False"
  by (simp add: needs_reload_def)

lemma needs_reload_total: "entry_ok e \<Longrightarrow> \<exists>b. needs_reload (Some e) now = Ret b"
  by (auto simp: needs_reload_def entry_ok_def isCertificateExpired_def split: option.splits)

lemma distinct_evict: "distinct (map fst cache) \<Longrightarrow> distinct (map fst (evict now cache))"
  by (simp add: evict_def distinct_map_filter)

lemma evict_keeps:
  assumes "distinct (map fst cache)" "map_of cache f = Some e" "now \<le> lastAccess e + certificateCacheExpirationTimeout"
  shows "map_of (evict now cache) f = Some e"
  using assms by (auto simp: evict_def distinct_map_filter map_of_eq_Some_iff dest: map_of_SomeD)

lemma cached_error_stays:
  assumes "cache_step now cache cache'" "distinct (map fst cache)" "map_of cache f = Some e" "entry_err e = Some err"
    and "lastAccess e \<le> now" "now \<le> lastAccess e + certificateCacheExpirationTimeout"
  shows "\<exists>e'. map_of cache' f = Some e' \<and> entry_err e' = Some err \<and> lastAccess e \<le> lastAccess e'"
  using assms(1)
proof (cases rule: cache_step.cases)
  case (Reload g r)
  then have "g \<noteq> f" using assms(3,4) needs_reload_error [of e now] by auto
  then show ?thesis using Reload assms(3,4) by (simp add: update_conv')
next
  case (Hit g e')
  then show ?thesis using assms(3-5) by (cases "g = f") (auto simp: update_conv')
next
  case Evict
  then show ?thesis using assms(4) evict_keeps [OF assms(2,3,6)] by simp
qed

text \<open>A certificate that is not loaded again is at most ten minutes old and not past its expiry.\<close>

lemma needs_reload_False:
  "needs_reload (Some e) now = Ret False \<Longrightarrow> entry_err e = None \<Longrightarrow>
    now \<le> lastUpdate e + certificateCacheTimeout \<and>
    (\<exists>cert. certificate e = Some cert \<and> (\<forall>t. leaf_NotAfter cert = Some t \<longrightarrow> now \<le> t))"
  by (auto simp: needs_reload_def isExpired_def isCertificateExpired_def split: if_splits option.splits)

text \<open>The entry a request at \<open>now\<close> may be served from: it is marked as used, it holds a certificate or an error, and a certificate was loaded for this
  request, or is at most ten minutes old and not past its expiry.\<close>

definition serves :: "time \<Rightarrow> tlsCacheEntry \<Rightarrow> bool" where
  "serves now e \<longleftrightarrow> lastAccess e = now \<and> (certificate e = None \<longleftrightarrow> entry_err e \<noteq> None) \<and>
     (\<forall>cert. certificate e = Some cert \<longrightarrow> lastUpdate e = now \<or>
        (now \<le> lastUpdate e + certificateCacheTimeout \<and> (\<forall>t. leaf_NotAfter cert = Some t \<longrightarrow> now \<le> t)))"

lemma serves_loaded: "serves now (loaded now r)"
  by (auto simp: serves_def loaded_def split: sum.splits)

lemma serves_hit: "entry_ok e \<Longrightarrow> needs_reload (Some e) now = Ret False \<Longrightarrow> serves now (e\<lparr>lastAccess := now\<rparr>)"
  using needs_reload_False [of e now] by (auto simp: serves_def entry_ok_def)

text \<open>The callback is a step of the machine, and what it returns is the entry it leaves.\<close>

lemma GetClientCertificate_step:
  assumes "\<And>e. map_of (certCache s) f = Some e \<Longrightarrow> entry_ok e"
  obtains e s' where "GetClientCertificate env f k s = (Ret (certificate e, entry_err e), s')"
    "map_of (certCache s') f = Some e" "serves (clock s (ticks s)) e" "cache_step (clock s (ticks s)) (certCache s) (certCache s')"
proof -
  let ?now = "clock s (ticks s)" and ?s = "s\<lparr>ticks := Suc (ticks s)\<rparr>"
  obtain b where b: "needs_reload (map_of (certCache s) f) ?now = Ret b"
    using assms needs_reload_total by (cases "map_of (certCache s) f") (auto simp: needs_reload_def)
  show ?thesis
  proof (cases b)
    case True
    obtain r k' where r: "retryLoadingX09Keypair env 5 f k ?s = (Ret r, ?s\<lparr>reads := reads ?s + k'\<rparr>)"
      unfolding retryLoadingX09Keypair_def using retry_keypair_run by blast
    let ?c = "AList.update f (loaded ?now r) (certCache s)"
    have "GetClientCertificate env f k s =
        (Ret (certificate (loaded ?now r), entry_err (loaded ?now r)), ?s\<lparr>reads := reads ?s + k', certCache := ?c\<rparr>)"
      using b True r by (simp add: GetClientCertificate_def go_bind_def go_now_def go_get_def go_lift_def
          go_modify_def go_return_def loaded_def Let_def)
    moreover have "cache_step ?now (certCache s) ?c"
      using b True by (auto intro: cache_step.Reload)
    ultimately show ?thesis
      by (intro that [of "loaded ?now r"]) (auto simp: update_conv' serves_loaded)
  next
    case False
    then obtain e where e: "map_of (certCache s) f = Some e"
      using b by (cases "map_of (certCache s) f") (auto simp: needs_reload_def)
    let ?c = "AList.update f (e\<lparr>lastAccess := ?now\<rparr>) (certCache s)"
    have "GetClientCertificate env f k s = (Ret (certificate e, entry_err e), ?s\<lparr>certCache := ?c\<rparr>)"
      using b False e by (simp add: GetClientCertificate_def go_bind_def go_now_def go_get_def go_lift_def
          go_modify_def go_return_def deref_def)
    moreover have "cache_step ?now (certCache s) ?c"
      using b False e by (auto intro: cache_step.Hit)
    moreover have "serves ?now (e\<lparr>lastAccess := ?now\<rparr>)" using b False e assms by (simp add: serves_hit)
    ultimately show ?thesis
      by (intro that [of "e\<lparr>lastAccess := ?now\<rparr>"]) (auto simp: update_conv')
  qed
qed

lemma cache_run_entry:
  "cache_run now cache \<Longrightarrow> map_of cache f = Some e \<Longrightarrow> entry_ok e \<and> lastAccess e \<le> now"
  using cache_run_bounds by blast

end
