(* ===== verification/Prom_Metrics.thy ===== *)
theory Prom_Metrics
  imports World "HOL-Library.Multiset"
begin

text \<open>
  The functions of \<open>controllers/datadoghq/metrics.go\<close> and the metric name of a recommender
  (\<open>recommender.go\<close>).  \<open>cleanupAssociatedMetrics\<close> deletes the series of an object that is
  removed or whose specification changed; it dereferences the metric source that the metric's
  type announces.
\<close>

definition trackedConditions :: "string \<Rightarrow> string option" where
  "trackedConditions = map_of [(AbleToScale, ''able_to_scale''), (ScalingLimited, ''scaling_limited''),
     (ScalingBlocked, ''scaling_blocked'')]"

definition trackedConditionLabels :: "string list" where
  "trackedConditionLabels = [''able_to_scale'', ''scaling_limited'', ''scaling_blocked'']"

definition getPrometheusLabels :: "WatermarkPodAutoscaler \<Rightarrow> prom_labels" where
  "getPrometheusLabels w =
     [(wpaNamePromLabel, wpa_Name w), (wpaNamespacePromLabel, wpa_Namespace w),
      (resourceNamePromLabel, ref_Name (ScaleTargetRef (Spec w))),
      (resourceNamespacePromLabel, wpa_Namespace w),
      (resourceKindPromLabel, ref_Kind (ScaleTargetRef (Spec w))),
      (targetNamePromLabel, ref_Name (ScaleTargetRef (Spec w))),
      (namespacePromLabel, wpa_Namespace w)]"

definition boolToFloat64 :: "bool \<Rightarrow> f64" where
  "boolToFloat64 b = (if b then float64 1 else float64 0)"

definition metricNameForRecommender :: "WatermarkPodAutoscalerSpec \<Rightarrow> string" where
  "metricNameForRecommender sp = (case Recommender sp of
     None \<Rightarrow> []
   | Some r \<Rightarrow>
      (let settings = sort (map fst (reco_Settings r));
           args = ''targetType:'' @ reco_TargetType r @
             concat (map (\<lambda>k. '','' @ k @ '':'' @
               (case map_of (reco_Settings r) k of None \<Rightarrow> [] | Some v \<Rightarrow> v)) settings)
       in ''recommender{'' @ args @ ''}''))"

definition labelsInfoLabels :: "string list \<Rightarrow> prom_labels \<Rightarrow> WatermarkPodAutoscaler \<Rightarrow> prom_labels" where
  "labelsInfoLabels extra base w =
     fold (\<lambda>e ls. AList.update e (case map_of (wpa_Labels w) e of None \<Rightarrow> [] | Some v \<Rightarrow> v) ls) extra base"

definition cleanupForLabels :: "prom_labels \<Rightarrow> unit prog" where
  "cleanupForLabels labels =
     go_bind (emit (PromDelete Lowwm labels)) (\<lambda>_.
     go_bind (emit (PromDelete LowwmV2 labels)) (\<lambda>_.
     go_bind (emit (PromDelete ReplicaProposal labels)) (\<lambda>_.
     go_bind (emit (PromDelete Highwm labels)) (\<lambda>_.
     go_bind (emit (PromDelete HighwmV2 labels)) (\<lambda>_.
     go_bind (emit (PromDelete ValueGauge labels)) (\<lambda>_.
     go_bind (emit (PromDelete Upscale labels)) (\<lambda>_.
     emit (PromDelete Downscale labels))))))))"

text \<open>The part of \<open>cleanupAssociatedMetrics\<close> that is skipped when only metrics changed.\<close>

definition cleanup_object :: "WatermarkPodAutoscaler \<Rightarrow> unit prog" where
  "cleanup_object w =
    (let ls = getPrometheusLabels w in
     go_bind (emit (PromDelete ReplicaEffective ls)) (\<lambda>_.
     go_bind (emit (PromDelete ReplicaMin ls)) (\<lambda>_.
     go_bind (emit (PromDelete ReplicaMax ls)) (\<lambda>_.
     go_bind (go_fold (\<lambda>reason _. emit (PromDelete RestrictedScaling
         (AList.update reasonPromLabel reason ls))) reasonValues ()) (\<lambda>_.
     go_bind (emit (PromDelete TransitionCountdown (AList.update transitionPromLabel ''downscale'' ls))) (\<lambda>_.
     go_bind (emit (PromDelete TransitionCountdown (AList.update transitionPromLabel ''upscale'' ls))) (\<lambda>_.
     go_bind (go_get extraPromLabels) (\<lambda>extra.
     go_bind (emit (PromDelete LabelsInfo (labelsInfoLabels extra
         [(wpaNamePromLabel, wpa_Name w), (wpaNamespacePromLabel, wpa_Namespace w),
          (resourceNamespacePromLabel, wpa_Namespace w)] w))) (\<lambda>_.
     go_bind (emit (PromDelete DryRunGauge ls)) (\<lambda>_.
     go_bind (emit (PromDelete ScalingActiveGauge ls)) (\<lambda>_.
     go_fold (\<lambda>labelVal _. emit (PromDelete ConditionsGauge
         (AList.update conditionPromLabel labelVal ls))) trackedConditionLabels ())))))))))))"

definition cleanup_metric :: "WatermarkPodAutoscaler \<Rightarrow> MetricSpec \<Rightarrow> unit \<Rightarrow> unit prog" where
  "cleanup_metric w m _ =
     go_bind (if ms_Type m = ResourceMetricSourceType
              then go_bind (deref (ms_Resource m)) (\<lambda>r. go_return (res_Name r))
              else go_bind (deref (ms_External m)) (\<lambda>e. go_return (ext_MetricName e))) (\<lambda>name.
     cleanupForLabels (AList.update metricNamePromLabel name (getPrometheusLabels w)))"

definition cleanupAssociatedMetrics :: "WatermarkPodAutoscaler \<Rightarrow> bool \<Rightarrow> unit prog" where
  "cleanupAssociatedMetrics w onlyMetricsSpecific =
     go_bind (if \<not> onlyMetricsSpecific then cleanup_object w else go_return ()) (\<lambda>_.
     go_bind (go_fold (cleanup_metric w) (Metrics (Spec w)) ()) (\<lambda>_.
     go_bind (case Recommender (Spec w) of
         None \<Rightarrow> go_return ()
       | Some _ \<Rightarrow> cleanupForLabels (AList.update metricNamePromLabel
           (metricNameForRecommender (Spec w)) (getPrometheusLabels w))) (\<lambda>_.
     emit (PromDelete LifecycleControlStatus
       [(wpaNamePromLabel, wpa_Name w), (wpaNamespacePromLabel, wpa_Namespace w),
        (lifecycleStatus, ''blocked''), (monitorName, wpa_Name w), (monitorNamespace, wpa_Namespace w)]))))"

section \<open>Labels\<close>

lemma keys_getPrometheusLabels: "fst ` set (getPrometheusLabels w) = set defaultPromLabels"
  by (simp add: getPrometheusLabels_def defaultPromLabels_def insert_commute)

lemma well_labelled_base [simp]:
  "v \<in> {Upscale, Downscale, ReplicaEffective, ReplicaMin, ReplicaMax, DryRunGauge, ScalingActiveGauge} \<Longrightarrow>
    well_labelled extra v (getPrometheusLabels w)"
  by (auto simp: well_labelled_def keys_getPrometheusLabels)

lemma well_labelled_update [simp]:
  "well_labelled extra v (AList.update k x (getPrometheusLabels w)) \<longleftrightarrow>
     insert k (set defaultPromLabels) = set (snd (prom_desc extra v))"
  by (simp add: well_labelled_def dom_update keys_getPrometheusLabels)

lemma metricName_not_default: "metricNamePromLabel \<notin> set defaultPromLabels"
  by (simp add: defaultPromLabels_def)

lemma keys_labelsInfoLabels:
  "fst ` set (labelsInfoLabels extra base w) = fst ` set base \<union> set extra"
proof -
  have "fst ` set (fold (\<lambda>e ls. AList.update e (f e) ls) extra base) = fst ` set base \<union> set extra"
    for f :: "string \<Rightarrow> string"
    by (induction extra arbitrary: base) (auto simp: dom_update)
  then show ?thesis by (simp add: labelsInfoLabels_def)
qed

lemma framed_cleanupForLabels [framed_intros]: "framed (cleanupForLabels ls)"
  unfolding cleanupForLabels_def by (intro framed_intros) auto

lemma framed_cleanup_object [framed_intros]: "framed (cleanup_object w)"
  unfolding cleanup_object_def by (intro framed_intros) auto

lemma framed_cleanup_metric [framed_intros]: "framed (cleanup_metric w m u)"
  unfolding cleanup_metric_def by (intro framed_intros)

lemma framed_cleanupAssociatedMetrics [framed_intros]: "framed (cleanupAssociatedMetrics w b)"
  unfolding cleanupAssociatedMetrics_def by (intro framed_intros) auto

text \<open>The name of a recommender does not depend on the order in which the map is ranged over.\<close>

lemma metricName_settings_order:
  assumes "mset s = mset s'" and "distinct (map fst s)"
  shows "sort (map fst s) = sort (map fst s')" and "map_of s = map_of s'"
proof -
  show "sort (map fst s) = sort (map fst s')"
    by (rule properties_for_sort) (simp_all add: assms(1))
  have "distinct (map fst s')"
    using assms by (metis mset_eq_imp_distinct_iff mset_map)
  moreover have "set s = set s'" using assms(1) by (rule mset_eq_setD)
  ultimately show "map_of s = map_of s'"
    using assms(2) by (intro map_of_inject_set [THEN iffD2])
qed

section \<open>What a cleanup deletes\<close>

text \<open>
  The deletions of a run that can take effect: the others have labels that no series of the
  vector can have.
\<close>

definition effective_deletes :: "string list \<Rightarrow> effect list \<Rightarrow> (prom_vec \<times> prom_labels) list" where
  "effective_deletes extra es = concat (map (\<lambda>e. case e of
     PromDelete v ls \<Rightarrow> if well_labelled extra v ls then [(v, ls)] else [] | _ \<Rightarrow> []) es)"

text \<open>The name under which the series of a metric are kept; the source it is read from must be there.\<close>

definition named_metric :: "MetricSpec \<Rightarrow> bool" where
  "named_metric m \<longleftrightarrow> (if ms_Type m = ResourceMetricSourceType then ms_Resource m \<noteq> None else ms_External m \<noteq> None)"

definition metric_label :: "MetricSpec \<Rightarrow> string" where
  "metric_label m = (if ms_Type m = ResourceMetricSourceType then res_Name (the (ms_Resource m)) else ext_MetricName (the (ms_External m)))"

definition metric_labels :: "WatermarkPodAutoscaler \<Rightarrow> string list" where
  "metric_labels w = map metric_label (Metrics (Spec w)) @ (if Recommender (Spec w) = None then [] else [metricNameForRecommender (Spec w)])"

text \<open>The vectors whose series carry the metric's name\<close>

definition per_metric :: "prom_vec list" where
  "per_metric = [Lowwm, LowwmV2, ReplicaProposal, Highwm, HighwmV2, ValueGauge]"

lemma effective_append [simp]: "effective_deletes extra (xs @ ys) = effective_deletes extra xs @ effective_deletes extra ys"
  by (simp add: effective_deletes_def)

definition deletes_of :: "WatermarkPodAutoscaler \<Rightarrow> string \<Rightarrow> effect list" where
  "deletes_of w name = map (\<lambda>v. PromDelete v (AList.update metricNamePromLabel name (getPrometheusLabels w))) (per_metric @ [Upscale, Downscale])"

lemma run_cleanupForLabels:
  "cleanupForLabels (AList.update metricNamePromLabel name (getPrometheusLabels w)) s = (Ret (), s\<lparr>trace := trace s @ deletes_of w name\<rparr>)"
  by (simp add: cleanupForLabels_def go_defs deletes_of_def per_metric_def)

lemma run_cleanup_metrics:
  "list_all named_metric ms \<Longrightarrow> go_fold (cleanup_metric w) ms () s = (Ret (), s\<lparr>trace := trace s @ concat (map (\<lambda>m. deletes_of w (metric_label m)) ms)\<rparr>)"
proof (induction ms arbitrary: s)
  case (Cons m ms)
  have "cleanup_metric w m () s = (Ret (), s\<lparr>trace := trace s @ deletes_of w (metric_label m)\<rparr>)"
    using Cons.prems by (auto simp: cleanup_metric_def named_metric_def metric_label_def deref_def go_bind_def go_return_def run_cleanupForLabels
        simp del: metricNamePromLabel_def)
  then show ?case using Cons by (simp add: go_bind_def)
qed (simp add: go_return_def)

lemma labelled_with_metric:
  "v \<in> set (per_metric @ [Upscale, Downscale]) \<Longrightarrow>
    well_labelled extra v (AList.update metricNamePromLabel name (getPrometheusLabels w)) \<longleftrightarrow> v \<in> set per_metric"
  using metricName_not_default
  by (auto simp: per_metric_def simp del: metricNamePromLabel_def)

lemma effective_deletes_of:
  "effective_deletes extra (deletes_of w name) = map (\<lambda>v. (v, AList.update metricNamePromLabel name (getPrometheusLabels w))) per_metric"
proof -
  have map: "effective_deletes extra (map (\<lambda>v. PromDelete v ls) vs) = map (\<lambda>v. (v, ls)) (filter (\<lambda>v. well_labelled extra v ls) vs)" for ls vs
    by (induction vs) (simp_all add: effective_deletes_def)
  have "filter (\<lambda>v. well_labelled extra v (AList.update metricNamePromLabel name (getPrometheusLabels w))) (per_metric @ [Upscale, Downscale]) =
      filter (\<lambda>v. v \<in> set per_metric) (per_metric @ [Upscale, Downscale])"
    by (rule filter_cong) (simp_all only: labelled_with_metric)
  also have "\<dots> = per_metric" by (simp add: per_metric_def)
  finally show ?thesis by (simp only: deletes_of_def map)
qed

text \<open>What is deleted for the object as a whole: not the information on its labels, whose vector has one label more\<close>

definition object_deletes :: "WatermarkPodAutoscaler \<Rightarrow> (prom_vec \<times> prom_labels) list" where
  "object_deletes w = (let ls = getPrometheusLabels w in
     [(ReplicaEffective, ls), (ReplicaMin, ls), (ReplicaMax, ls)] @
     map (\<lambda>v. (RestrictedScaling, AList.update reasonPromLabel v ls)) reasonValues @
     map (\<lambda>v. (TransitionCountdown, AList.update transitionPromLabel v ls)) [''downscale'', ''upscale''] @
     [(DryRunGauge, ls), (ScalingActiveGauge, ls)] @
     map (\<lambda>v. (ConditionsGauge, AList.update conditionPromLabel v ls)) trackedConditionLabels)"

lemma labels_info_leak:
  "namespacePromLabel \<notin> set extra \<Longrightarrow> \<not> well_labelled extra LabelsInfo (labelsInfoLabels extra
         [(wpaNamePromLabel, wpa_Name w), (wpaNamespacePromLabel, wpa_Namespace w),
          (resourceNamespacePromLabel, wpa_Namespace w)] w)"
proof
  let ?base = "[(wpaNamePromLabel, wpa_Name w), (wpaNamespacePromLabel, wpa_Namespace w), (resourceNamespacePromLabel, wpa_Namespace w)]"
  assume extra: "namespacePromLabel \<notin> set extra" and "well_labelled extra LabelsInfo (labelsInfoLabels extra ?base w)"
  then have "fst ` set ?base \<union> set extra = set (snd (prom_desc extra LabelsInfo))"
    by (simp only: well_labelled_def keys_labelsInfoLabels set_map)
  moreover have "namespacePromLabel \<in> set (snd (prom_desc extra LabelsInfo))" by simp
  ultimately have "namespacePromLabel \<in> fst ` set ?base \<union> set extra" by simp
  then show False using extra by simp
qed

lemma labelled_updates [simp]:
  "well_labelled extra RestrictedScaling (AList.update reasonPromLabel x (getPrometheusLabels w))"
  "well_labelled extra TransitionCountdown (AList.update transitionPromLabel x (getPrometheusLabels w))"
  "well_labelled extra ConditionsGauge (AList.update conditionPromLabel x (getPrometheusLabels w))"
  unfolding well_labelled_update by simp_all

lemma run_cleanup_object:
  assumes "namespacePromLabel \<notin> set (extraPromLabels s)"
  shows "\<exists>es. cleanup_object w s = (Ret (), s\<lparr>trace := trace s @ es\<rparr>) \<and> effective_deletes (extraPromLabels s) es = object_deletes w"
proof -
  let ?es = "map (\<lambda>(v, ls). PromDelete v ls) (take 8 (object_deletes w)) @ [PromDelete LabelsInfo (labelsInfoLabels (extraPromLabels s)
         [(wpaNamePromLabel, wpa_Name w), (wpaNamespacePromLabel, wpa_Namespace w),
          (resourceNamespacePromLabel, wpa_Namespace w)] w)] @ map (\<lambda>(v, ls). PromDelete v ls) (drop 8 (object_deletes w))"
  have "cleanup_object w s = (Ret (), s\<lparr>trace := trace s @ ?es\<rparr>)"
    by (simp add: cleanup_object_def go_defs object_deletes_def reasonValues_def trackedConditionLabels_def Let_def)
  moreover have "effective_deletes (extraPromLabels s) ?es = object_deletes w"
    using labels_info_leak [OF assms, of w]
    by (simp add: effective_deletes_def object_deletes_def reasonValues_def trackedConditionLabels_def Let_def del: reasonPromLabel_def transitionPromLabel_def
        conditionPromLabel_def wpaNamePromLabel_def wpaNamespacePromLabel_def resourceNamespacePromLabel_def)
  ultimately show ?thesis by blast
qed


definition lifecycle_delete :: "WatermarkPodAutoscaler \<Rightarrow> prom_vec \<times> prom_labels" where
  "lifecycle_delete w = (LifecycleControlStatus, [(wpaNamePromLabel, wpa_Name w), (wpaNamespacePromLabel, wpa_Namespace w),
     (lifecycleStatus, ''blocked''), (monitorName, wpa_Name w), (monitorNamespace, wpa_Namespace w)])"

lemma effective_concat:
  "effective_deletes extra (concat (map (\<lambda>m. deletes_of w (f m)) ms)) =
     concat (map (\<lambda>m. map (\<lambda>v. (v, AList.update metricNamePromLabel (f m) (getPrometheusLabels w))) per_metric) ms)"
  by (induction ms) (simp_all add: effective_deletes_of, simp add: effective_deletes_def)

end
