(* ===== verification/Recommender.thy ===== *)
theory Recommender
  imports Tls_Cache Prom_Metrics
begin

text \<open>
  The recommender client (\<open>controllers/datadoghq/recommender.go\<close>): it sends the state of the
  workload to an HTTP service and reads a replica recommendation from the reply.

  URL parsing, JSON coding of the messages and the HTTP exchange are outside: \<open>reco_env\<close> holds them.
  The exchange may ask for a client certificate, which is the callback of the certificate cache; an
  error of the callback fails the exchange.  The counters that the Prometheus library keeps
  of the exchanges are not traced; the error counter is the code's own and is.
\<close>

section \<open>Messages\<close>

record ReplicaRecommendationRequest =
  rq_Namespace :: string
  rq_TargetRef :: "CrossVersionObjectReference option"
  rq_TargetCluster :: string
  rq_Recommender :: "RecommenderSpec option"
  rq_DesiredReplicas :: int
  rq_CurrentReplicas :: int
  rq_CurrentReadyReplicas :: int
  rq_MinReplicas :: int
  rq_MaxReplicas :: int

record ReplicaRecommendationResponse =
  rp_Replicas :: int
  rp_ReplicasLowerBound :: int
  rp_ReplicasUpperBound :: int
  rp_Timestamp :: time
  rp_Details :: string
  rp_ObservedTargetValue :: f64

text \<open>The protocol messages, as far as the code sets or reads them\<close>

record WorkloadRecommendationTarget =
  wt_Type :: string
  wt_TargetValue :: f64
  wt_UpperBound :: f64
  wt_LowerBound :: f64

record WorkloadRecommendationRequest =
  wr_DesiredReplicas :: int
  wr_CurrentReplicas :: "int option"
  wr_ReadyReplicas :: "int option"
  wr_Kind :: string
  wr_Name :: string
  wr_ApiVersion :: string
  wr_Namespace :: string
  wr_Cluster :: string
  wr_MinReplicas :: int
  wr_MaxReplicas :: int
  wr_Targets :: "WorkloadRecommendationTarget list"
  wr_Settings :: "(string \<times> string) list"

record WorkloadRecommendationReply =
  wrep_Error :: "(int \<times> string) option"
  wrep_TargetReplicas :: int
  wrep_LowerBoundReplicas :: "int option"
  wrep_UpperBoundReplicas :: "int option"
  wrep_Timestamp :: "time option"
  wrep_Reason :: string
  wrep_ObservedTargets :: "f64 list"

record http_response =
  StatusCode :: int
  Body :: "(string \<times> go_error option) option"

record reco_env =
  url_Parse :: "string \<Rightarrow> go_error + string \<times> string"
  protojson_Marshal :: "WorkloadRecommendationRequest \<Rightarrow> go_error + string"
  protojson_Unmarshal :: "string \<Rightarrow> go_error + WorkloadRecommendationReply"
  NewRequest :: "string \<Rightarrow> go_error option"
  is_http_Transport :: bool
  asks_certificate :: "string \<Rightarrow> tls_Config \<Rightarrow> nat \<Rightarrow> bool"
  http_RoundTrip :: "string \<Rightarrow> string \<Rightarrow> tls_Config option \<Rightarrow> tls_certificate option \<Rightarrow> nat \<Rightarrow> go_error + http_response"

section \<open>Building the messages\<close>

definition buildWorkloadRecommendationRequest ::
  "ReplicaRecommendationRequest \<Rightarrow> (go_error + WorkloadRecommendationRequest) prog" where
  "buildWorkloadRecommendationRequest request = (case rq_Recommender request of
     None \<Rightarrow> go_return (Inl (errorf ''recommender spec is required''))
   | Some reco \<Rightarrow>
      (let bound = (\<lambda>q. case q of None \<Rightarrow> float64 0
             | Some m \<Rightarrow> f64_div (float64 (MilliValue m)) (float64 1000)) in
       go_bind (deref (rq_TargetRef request)) (\<lambda>ref.
       go_return (Inr \<lparr>wr_DesiredReplicas = rq_DesiredReplicas request,
         wr_CurrentReplicas = Some (rq_CurrentReplicas request),
         wr_ReadyReplicas = Some (rq_CurrentReadyReplicas request),
         wr_Kind = ref_Kind ref, wr_Name = ref_Name ref, wr_ApiVersion = ref_APIVersion ref,
         wr_Namespace = rq_Namespace request, wr_Cluster = rq_TargetCluster request,
         wr_MinReplicas = rq_MinReplicas request, wr_MaxReplicas = rq_MaxReplicas request,
         wr_Targets = [\<lparr>wt_Type = reco_TargetType reco, wt_TargetValue = float64 0,
           wt_UpperBound = bound (reco_HighWatermark reco), wt_LowerBound = bound (reco_LowWatermark reco)\<rparr>],
         wr_Settings = reco_Settings reco\<rparr>))))"

definition buildReplicaRecommendationResponse ::
  "WorkloadRecommendationReply \<Rightarrow> go_error + ReplicaRecommendationResponse" where
  "buildReplicaRecommendationResponse reply = (case wrep_Error reply of
     Some (code, message) \<Rightarrow> Inl (errorf (''error from recommender: '' @ show_int code @ '' '' @ message))
   | None \<Rightarrow> Inr \<lparr>rp_Replicas = wrep_TargetReplicas reply,
       rp_ReplicasLowerBound = (case wrep_LowerBoundReplicas reply of None \<Rightarrow> 0 | Some n \<Rightarrow> n),
       rp_ReplicasUpperBound = (case wrep_UpperBoundReplicas reply of None \<Rightarrow> 0 | Some n \<Rightarrow> n),
       rp_Timestamp = (case wrep_Timestamp reply of None \<Rightarrow> 0 | Some t \<Rightarrow> t),
       rp_Details = wrep_Reason reply,
       rp_ObservedTargetValue = (case wrep_ObservedTargets reply of [] \<Rightarrow> float64 0 | v # _ \<Rightarrow> v)\<rparr>)"

section \<open>The exchange\<close>

text \<open>\<open>instrumentedClient\<close>: the transport that the copies of the client share gets the TLS configuration
  of this recommender, if it has one.\<close>

definition instrumentedClient :: "tls_env \<Rightarrow> reco_env \<Rightarrow> TLSConfig option \<Rightarrow> go_error option prog" where
  "instrumentedClient tenv env tlsConfig = (case tlsConfig of
     Some c \<Rightarrow>
       if is_http_Transport env then
         go_bind (NewCertificateReloadingTransport tenv c) (\<lambda>r. go_return (case r of
           Some e \<Rightarrow> Some (wrap_error ''impossible to setup TLS config: '' e)
         | None \<Rightarrow> None))
       else go_return None
   | None \<Rightarrow> go_return None)"

text \<open>\<open>InstrumentRoundTripperErrors\<close> around the exchange\<close>

definition round_trip ::
  "tls_env \<Rightarrow> reco_env \<Rightarrow> string \<Rightarrow> string \<Rightarrow> (go_error + http_response) prog" where
  "round_trip tenv env u payload =
     go_bind (go_get transportTLS) (\<lambda>tls.
     go_bind (go_read (\<lambda>n. Ret (case tls of None \<Rightarrow> False | Some cfg \<Rightarrow> asks_certificate env u cfg n))) (\<lambda>ask.
     case (if ask then Option.bind tls tls_GetClientCertificate else None) of
       None \<Rightarrow> go_read (\<lambda>n. Ret (http_RoundTrip env u payload tls None n))
     | Some (certFile, keyFile) \<Rightarrow>
         go_bind (GetClientCertificate tenv certFile keyFile) (\<lambda>(cert, err). case err of
           Some e \<Rightarrow> go_return (Inl e)
         | None \<Rightarrow> go_read (\<lambda>n. Ret (http_RoundTrip env u payload tls cert n)))))"

definition client_Do ::
  "tls_env \<Rightarrow> reco_env \<Rightarrow> string \<Rightarrow> string \<Rightarrow> string \<Rightarrow> (go_error + http_response) prog" where
  "client_Do tenv env recommender u payload =
     go_bind (round_trip tenv env u payload) (\<lambda>r.
     go_bind (case r of
         Inl _ \<Rightarrow> emit (PromAdd RequestErrorsTotal [(clientPromLabel, recommender)] (float64 1))
       | Inr _ \<Rightarrow> go_return ()) (\<lambda>_.
     go_return r))"

definition read_reply :: "reco_env \<Rightarrow> http_response \<Rightarrow> (go_error + ReplicaRecommendationResponse) prog" where
  "read_reply env resp =
     (if StatusCode resp \<noteq> 200 then
        go_return (Inl (errorf (''unexpected response code: '' @ show_int (StatusCode resp) @
          (case Body resp of None \<Rightarrow> [] | Some (b, _) \<Rightarrow> '' ('' @ take 100 b @ '')''))))
      else go_bind (deref (Body resp)) (\<lambda>(body, err). go_return (case err of
        Some e \<Rightarrow> Inl (wrap_error ''error reading response: '' e)
      | None \<Rightarrow> (case protojson_Unmarshal env body of
          Inl e \<Rightarrow> Inl (wrap_error ''error unmarshaling response: '' e)
        | Inr reply \<Rightarrow> buildReplicaRecommendationResponse reply))))"

definition GetReplicaRecommendation ::
  "tls_env \<Rightarrow> reco_env \<Rightarrow> TLSConfig option \<Rightarrow> ReplicaRecommendationRequest \<Rightarrow>
   (go_error + ReplicaRecommendationResponse) prog" where
  "GetReplicaRecommendation tenv env defaults request = (case rq_Recommender request of
     None \<Rightarrow> go_return (Inl (errorf ''recommender spec is required''))
   | Some reco \<Rightarrow> (case url_Parse env (reco_URL reco) of
       Inl e \<Rightarrow> go_return (Inl (wrap_error ''error parsing url: '' e))
     | Inr (scheme, u) \<Rightarrow>
       if scheme \<noteq> ''http'' \<and> scheme \<noteq> ''https'' then
         go_return (Inl (errorf ''only http and https schemes are supported''))
       else go_bind (buildWorkloadRecommendationRequest request) (\<lambda>b. case b of
         Inl e \<Rightarrow> go_return (Inl e)
       | Inr req \<Rightarrow> (case protojson_Marshal env req of
           Inl e \<Rightarrow> go_return (Inl (wrap_error ''error marshaling request: '' e))
         | Inr payload \<Rightarrow>
           go_bind (instrumentedClient tenv env (mergeTLSConfig defaults (reco_TLSConfig reco))) (\<lambda>c. case c of
             Some e \<Rightarrow> go_return (Inl (wrap_error ''error creating http client: '' e))
           | None \<Rightarrow> (case NewRequest env u of
               Some e \<Rightarrow> go_return (Inl (wrap_error ''error creating request: '' e))
             | None \<Rightarrow>
               go_bind (client_Do tenv env (reco_URL reco) u payload) (\<lambda>r. case r of
                 Inl e \<Rightarrow> go_return (Inl (wrap_error ''error sending request: '' e))
               | Inr resp \<Rightarrow> read_reply env resp)))))))"

section \<open>Facts\<close>

lemma framed_buildWorkloadRecommendationRequest [framed_intros]:
  "framed (buildWorkloadRecommendationRequest request)"
  unfolding buildWorkloadRecommendationRequest_def Let_def by (intro framed_intros)

lemma framed_round_trip [framed_intros]: "framed (round_trip tenv env u payload)"
  unfolding round_trip_def by (intro framed_intros)

lemma framed_client_Do [framed_intros]: "framed (client_Do tenv env reco u payload)"
  unfolding client_Do_def by (intro framed_intros) (simp add: well_labelled_def)

lemma framed_GetReplicaRecommendation [framed_intros]:
  "framed (GetReplicaRecommendation tenv env defaults request)"
  unfolding GetReplicaRecommendation_def instrumentedClient_def read_reply_def
  by (intro framed_intros)

lemma keeps_wpa_GetReplicaRecommendation:
  "keeps_wpa (GetReplicaRecommendation tenv env defaults request)"
  unfolding keeps_wpa_def GetReplicaRecommendation_def instrumentedClient_def read_reply_def client_Do_def
    round_trip_def buildWorkloadRecommendationRequest_def Let_def
  by (intro allI preserves_intros)

text \<open>The counts of a response come from the reply, where they are \<open>int32\<close>.\<close>

definition reply_typed :: "WorkloadRecommendationReply \<Rightarrow> bool" where
  "reply_typed r \<longleftrightarrow> fits32 (wrep_TargetReplicas r) \<and> pred_option fits32 (wrep_LowerBoundReplicas r) \<and>
     pred_option fits32 (wrep_UpperBoundReplicas r)"

lemma buildReplicaRecommendationResponse_fits:
  "reply_typed reply \<Longrightarrow> buildReplicaRecommendationResponse reply = Inr rp \<Longrightarrow>
    fits32 (rp_Replicas rp) \<and> fits32 (rp_ReplicasLowerBound rp) \<and> fits32 (rp_ReplicasUpperBound rp)"
  by (auto simp: buildReplicaRecommendationResponse_def reply_typed_def fits32_def split: option.splits)

text \<open>Without a TLS configuration of its own a recommender is asked with the one the last
  recommender left on the shared transport.\<close>

lemma instrumentedClient_None: "instrumentedClient tenv env None s = (Ret None, s)"
  by (simp add: instrumentedClient_def go_return_def)

text \<open>What a successful exchange has gone through\<close>

lemma read_reply_Inr:
  assumes "read_reply env resp s = (Ret (Inr rp), s')"
  shows "StatusCode resp = 200 \<and> (\<exists>body reply. Body resp = Some (body, None) \<and> protojson_Unmarshal env body = Inr reply \<and>
     buildReplicaRecommendationResponse reply = Inr rp)"
  using assms by (auto simp: read_reply_def deref_def go_bind_def go_return_def go_panic_def split: if_splits option.splits sum.splits prod.splits)

lemma client_Do_Inr:
  assumes "client_Do tenv env reco u payload s = (Ret (Inr resp), s')"
  shows "\<exists>tls cert n. http_RoundTrip env u payload tls cert n = Inr resp"
proof -
  obtain r s1 where r: "round_trip tenv env u payload s = (Ret r, s1)" "r = Inr resp"
    using assms unfolding client_Do_def by (auto elim!: go_bind_Ret simp: go_return_def)
  show ?thesis
    using r unfolding round_trip_def
    by (fastforce elim!: go_bind_Ret simp: go_return_def go_get_def go_read_def split: option.splits if_splits prod.splits)
qed

lemma buildRequest_Inr:
  assumes "buildWorkloadRecommendationRequest request s = (Ret (Inr req), s')"
  shows "wr_CurrentReplicas req = Some (rq_CurrentReplicas request) \<and> wr_ReadyReplicas req = Some (rq_CurrentReadyReplicas request) \<and>
    wr_MinReplicas req = rq_MinReplicas request \<and> wr_MaxReplicas req = rq_MaxReplicas request \<and> Some (wr_Name req) = map_option ref_Name (rq_TargetRef request)"
  using assms by (auto simp: buildWorkloadRecommendationRequest_def Let_def go_return_def deref_def go_panic_def elim!: go_bind_Ret split: option.splits)

end
