(* ===== verification/Conditions.thy ===== *)
theory Conditions
  imports Prom_Metrics
begin

text \<open>
  The status conditions of the object (\<open>setCondition\<close>, \<open>setConditionInList\<close>, \<open>getCondition\<close>
  of the controller) and \<open>setStatus\<close>.

  A condition's \<open>LastTransitionTime\<close> moves only when its status changes: the scaling delays
  rest on that.  The list is kept sorted by transition time, newest first.  \<open>sort.Slice\<close> runs
  an insertion sort on slices of at most twelve elements, which is stable, so \<open>sort_key\<close> is the
  same function there; the facts below use only that the result is a sorted permutation.

  The locale \<open>condition_store\<close> is what the other components rely on: after a set, a get
  returns what was set, every other type is untouched, and the invariant (each type at most
  once, newest first) is kept.
\<close>

section \<open>Operations\<close>

definition empty_condition :: "string \<Rightarrow> condition" where
  "empty_condition t = \<lparr>cond_Type = t, cond_Status = [], LastTransitionTime = zero_time,
     Reason = [], Message = []\<rparr>"

definition find_or_append :: "string \<Rightarrow> condition list \<Rightarrow> condition list" where
  "find_or_append t cs =
     (if t \<in> set (map cond_Type cs) then cs else cs @ [empty_condition t])"

definition first_index :: "string \<Rightarrow> condition list \<Rightarrow> nat" where
  "first_index t cs = length (takeWhile (\<lambda>c. cond_Type c \<noteq> t) cs)"

definition sort_conditions :: "condition list \<Rightarrow> condition list" where
  "sort_conditions cs = sort_key (\<lambda>c. - LastTransitionTime c) cs"

definition setConditionInList ::
  "condition list \<Rightarrow> string \<Rightarrow> string \<Rightarrow> string \<Rightarrow> string \<Rightarrow> condition list prog" where
  "setConditionInList inputList conditionType status reason message =
     (let resList = find_or_append conditionType inputList;
          i = first_index conditionType resList;
          existingCond = resList ! i
      in go_bind (if cond_Status existingCond \<noteq> status then go_now
                  else go_return (LastTransitionTime existingCond)) (\<lambda>t.
         go_return (sort_conditions (resList[i := existingCond\<lparr>LastTransitionTime := t,
            cond_Status := status, Reason := reason, Message := message\<rparr>]))))"

definition setCondition :: "string \<Rightarrow> string \<Rightarrow> string \<Rightarrow> string \<Rightarrow> unit prog" where
  "setCondition conditionType status reason message =
     go_bind (go_get (\<lambda>s. Conditions (Status (wpa s)))) (\<lambda>cs.
     go_bind (setConditionInList cs conditionType status reason message) (\<lambda>cs'.
     go_bind (modify_status (\<lambda>st. st\<lparr>Conditions := cs', LastConditionState := status,
         LastConditionType := conditionType\<rparr>)) (\<lambda>_.
     go_bind (go_get wpa) (\<lambda>w.
     case trackedConditions conditionType of
       None \<Rightarrow> go_return ()
     | Some labelVal \<Rightarrow> emit (PromSet ConditionsGauge
         (AList.update conditionPromLabel labelVal (getPrometheusLabels w))
         (if status = ConditionTrue then float64 1 else float64 0))))))"

fun find_condition :: "condition list \<Rightarrow> string \<Rightarrow> condition option" where
  "find_condition [] t = None"
| "find_condition (c # cs) t = (if cond_Type c = t then Some c else find_condition cs t)"

definition getCondition :: "WatermarkPodAutoscalerStatus \<Rightarrow> string \<Rightarrow> go_error + condition" where
  "getCondition st t = (case find_condition (Conditions st) t of
     Some c \<Rightarrow> Inr c
   | None \<Rightarrow> Inl (errorf (''condition '' @ t @ '' is not stored in the status'')))"

definition setStatus :: "int \<Rightarrow> int \<Rightarrow> MetricStatus list \<Rightarrow> bool \<Rightarrow> unit prog" where
  "setStatus currentReplicas desiredReplicas metricStatuses rescale =
     go_bind (modify_status (\<lambda>st. st\<lparr>CurrentReplicas := currentReplicas,
        DesiredReplicas := desiredReplicas, CurrentMetrics := metricStatuses\<rparr>)) (\<lambda>_.
     if rescale then
       go_bind go_now (\<lambda>now.
       modify_status (\<lambda>st. st\<lparr>LastScaleTime := Some now,
         ScalingEventsCount := int32 (ScalingEventsCount st + 1)\<rparr>))
     else go_return ())"

definition setCurrentReplicasInStatus :: "int \<Rightarrow> unit prog" where
  "setCurrentReplicasInStatus currentReplicas =
     go_bind (go_get (\<lambda>s. Status (wpa s))) (\<lambda>st.
     setStatus currentReplicas (DesiredReplicas st) (CurrentMetrics st) False)"

definition updateConditionsMetrics :: "unit prog" where
  "updateConditionsMetrics =
     go_bind (go_get wpa) (\<lambda>w.
     emit (PromSet ScalingActiveGauge (getPrometheusLabels w)
       (if list_ex (\<lambda>c. cond_Type c = ScalingActive \<and> cond_Status c = ConditionTrue) (Conditions (Status w))
        then float64 1 else float64 0)))"

section \<open>Lookup and the invariant\<close>

definition conditions_ok :: "condition list \<Rightarrow> bool" where
  "conditions_ok cs \<longleftrightarrow> distinct (map cond_Type cs) \<and> sorted_wrt (\<lambda>a b. LastTransitionTime a \<ge> LastTransitionTime b) cs"

lemma find_condition_Some:
  "distinct (map cond_Type cs) \<Longrightarrow> find_condition cs t = Some c \<longleftrightarrow> c \<in> set cs \<and> cond_Type c = t"
  by (induction cs) auto

lemma find_condition_None: "find_condition cs t = None \<longleftrightarrow> t \<notin> cond_Type ` set cs"
  by (induction cs) auto

lemma find_condition_mset:
  assumes "distinct (map cond_Type cs)" and "mset cs' = mset cs"
  shows "find_condition cs' t = find_condition cs t"
proof -
  have d: "distinct (map cond_Type cs')"
    using assms by (metis mset_eq_imp_distinct_iff mset_map)
  have "set cs' = set cs" using assms(2) by (rule mset_eq_setD)
  then have "find_condition cs' t = Some c \<longleftrightarrow> find_condition cs t = Some c" for c
    using find_condition_Some [OF assms(1)] find_condition_Some [OF d] by simp
  then show ?thesis
    by (cases "find_condition cs t"; cases "find_condition cs' t") auto
qed

lemma find_condition_append:
  "find_condition (xs @ ys) t = (case find_condition xs t of Some c \<Rightarrow> Some c | None \<Rightarrow> find_condition ys t)"
  by (induction xs) auto

lemma find_condition_update:
  assumes "distinct (map cond_Type cs)" "i < length cs" "cond_Type c = cond_Type (cs ! i)"
  shows "find_condition (cs[i := c]) t = (if t = cond_Type c then Some c else find_condition cs t)"
  using assms
proof (induction cs arbitrary: i)
  case (Cons a cs)
  show ?case
  proof (cases i)
    case (Suc j)
    with Cons.prems have "cond_Type a \<noteq> cond_Type c" by auto
    with Suc Cons show ?thesis by auto
  qed (use Cons.prems in auto)
qed simp

lemma first_index_less:
  "t \<in> set (map cond_Type cs) \<Longrightarrow> first_index t cs < length cs \<and> cond_Type (cs ! first_index t cs) = t"
  by (induction cs) (auto simp: first_index_def)

lemma distinct_find_or_append:
  "distinct (map cond_Type cs) \<Longrightarrow> distinct (map cond_Type (find_or_append t cs))"
  by (auto simp: find_or_append_def empty_condition_def)

lemma mset_sort_conditions: "mset (sort_conditions cs) = mset cs"
  by (simp add: sort_conditions_def)

lemma sorted_sort_conditions:
  "sorted_wrt (\<lambda>a b. LastTransitionTime a \<ge> LastTransitionTime b) (sort_conditions cs)"
proof -
  have "sorted (map (\<lambda>c. - LastTransitionTime c) (sort_conditions cs))"
    by (simp add: sort_conditions_def)
  then show ?thesis by (simp add: sorted_map)
qed

text \<open>The list that \<open>setConditionInList\<close> builds when the clock shows \<open>now\<close>.\<close>

definition set_in_list ::
  "time \<Rightarrow> condition list \<Rightarrow> string \<Rightarrow> string \<Rightarrow> string \<Rightarrow> string \<Rightarrow> condition list" where
  "set_in_list now cs t st reason msg =
     (let l = find_or_append t cs; i = first_index t l; c = l ! i in
      sort_conditions (l[i := c\<lparr>LastTransitionTime := (if cond_Status c \<noteq> st then now else LastTransitionTime c),
        cond_Status := st, Reason := reason, Message := msg\<rparr>]))"

definition old_condition :: "condition list \<Rightarrow> string \<Rightarrow> condition" where
  "old_condition cs t = (case find_condition cs t of Some c \<Rightarrow> c | None \<Rightarrow> empty_condition t)"

lemma find_or_append_lookup:
  "find_condition (find_or_append t cs) t' =
     (if t' = t then Some (old_condition cs t) else find_condition cs t')"
proof (cases "find_condition cs t")
  case None
  then have "t \<notin> cond_Type ` set cs" by (simp add: find_condition_None)
  with None show ?thesis
    by (auto simp: find_or_append_def old_condition_def find_condition_append empty_condition_def
        split: option.splits)
next
  case (Some c)
  then have "t \<in> cond_Type ` set cs" using find_condition_None [of cs t] by auto
  with Some show ?thesis by (simp add: find_or_append_def old_condition_def)
qed

lemma find_condition_first_index:
  "t \<in> set (map cond_Type cs) \<Longrightarrow> find_condition cs t = Some (cs ! first_index t cs)"
  by (induction cs) (auto simp: first_index_def)

lemma in_find_or_append: "t \<in> set (map cond_Type (find_or_append t cs))"
  by (auto simp: find_or_append_def empty_condition_def)

lemma set_in_list_lookup:
  assumes "distinct (map cond_Type cs)"
  shows "find_condition (set_in_list now cs t st r m) t' =
     (if t' = t then Some \<lparr>cond_Type = t, cond_Status = st,
        LastTransitionTime = (if cond_Status (old_condition cs t) = st
          then LastTransitionTime (old_condition cs t) else now), Reason = r, Message = m\<rparr>
      else find_condition cs t')"
proof -
  define l where "l = find_or_append t cs"
  define c where "c = old_condition cs t"
  have l: "l ! first_index t l = c" and i: "first_index t l < length l" and ty: "cond_Type c = t"
    using in_find_or_append [of t cs] find_condition_first_index [of t l] find_or_append_lookup [of t cs t]
      first_index_less [of t l] by (auto simp: l_def c_def)
  have d: "distinct (map cond_Type l)"
    using assms by (simp add: l_def distinct_find_or_append)
  let ?c = "c\<lparr>LastTransitionTime := (if cond_Status c \<noteq> st then now else LastTransitionTime c),
    cond_Status := st, Reason := r, Message := m\<rparr>"
  have d': "distinct (map cond_Type (l[first_index t l := ?c]))"
    using d l i by (simp add: map_update) (metis list_update_id nth_map)
  have "find_condition (set_in_list now cs t st r m) t' = find_condition (l[first_index t l := ?c]) t'"
    unfolding set_in_list_def Let_def l_def [symmetric] l
    by (rule find_condition_mset [OF d']) (rule mset_sort_conditions)
  also have "\<dots> = (if t' = t then Some ?c else find_condition l t')"
    using find_condition_update [OF d i, of ?c t'] l ty by simp
  finally show ?thesis
    using ty by (auto simp: l_def c_def find_or_append_lookup)
qed

lemma set_in_list_ok:
  assumes "distinct (map cond_Type cs)"
  shows "conditions_ok (set_in_list now cs t st r m)"
proof -
  define l where "l = find_or_append t cs"
  have d: "distinct (map cond_Type l)" using assms by (simp add: l_def distinct_find_or_append)
  have "distinct (map cond_Type (l[i := (l ! i)\<lparr>LastTransitionTime := x, cond_Status := st,
      Reason := r, Message := m\<rparr>]))" for i x
    using d by (cases "i < length l") (simp_all add: map_update list_update_beyond, metis list_update_id nth_map)
  then show ?thesis
    unfolding conditions_ok_def set_in_list_def Let_def l_def [symmetric]
    by (metis mset_eq_imp_distinct_iff mset_map mset_sort_conditions sorted_sort_conditions)
qed

lemma setConditionInList_run:
  "setConditionInList cs t st r m s =
     (Ret (set_in_list (clock s (ticks s)) cs t st r m),
      if cond_Status (old_condition cs t) = st then s else s\<lparr>ticks := Suc (ticks s)\<rparr>)"
proof -
  define l where "l = find_or_append t cs"
  have l: "l ! first_index t l = old_condition cs t"
    using in_find_or_append [of t cs] find_condition_first_index [of t l] find_or_append_lookup [of t cs t]
    by (auto simp: l_def)
  show ?thesis
    unfolding setConditionInList_def set_in_list_def Let_def l_def [symmetric] l
    by (simp add: go_defs)
qed

section \<open>The store as other components see it\<close>

definition cond_of :: "world \<Rightarrow> string \<Rightarrow> condition option" where
  "cond_of s t = find_condition (Conditions (Status (wpa s))) t"

definition store_ok :: "world \<Rightarrow> bool" where
  "store_ok s \<longleftrightarrow> conditions_ok (Conditions (Status (wpa s)))"

text \<open>The state after a \<open>setCondition\<close>, which never panics.\<close>

definition after_set :: "string \<Rightarrow> string \<Rightarrow> string \<Rightarrow> string \<Rightarrow> world \<Rightarrow> world" where
  "after_set t st r m s = snd (setCondition t st r m s)"

lemma setCondition_run: "setCondition t st r m s = (Ret (), after_set t st r m s)"
  unfolding after_set_def setCondition_def
  by (simp add: go_bind_def go_get_def setConditionInList_run modify_status_def modify_wpa_def
      go_modify_def emit_def go_return_def split: option.splits)

lemma wp_setCondition [go_wp]: "wp (setCondition t st r m) Q R s = Q () (after_set t st r m s)"
  by (simp add: wp_def setCondition_run)

lemma wp_setConditionInList:
  "wp (setConditionInList cs t st r m) Q R s =
     Q (set_in_list (clock s (ticks s)) cs t st r m)
       (if cond_Status (old_condition cs t) = st then s else s\<lparr>ticks := Suc (ticks s)\<rparr>)"
  by (simp add: wp_def setConditionInList_run)

lemma after_set_wpa:
  "wpa (after_set t st r m s) = (wpa s)\<lparr>Status := (Status (wpa s))\<lparr>
     Conditions := set_in_list (clock s (ticks s)) (Conditions (Status (wpa s))) t st r m,
     LastConditionState := st, LastConditionType := t\<rparr>\<rparr>"
  unfolding after_set_def setCondition_def
  by (simp add: go_bind_def go_get_def setConditionInList_run modify_status_def modify_wpa_def
      go_modify_def emit_def go_return_def split: option.splits)

lemma framed_setConditionInList [framed_intros]: "framed (setConditionInList cs t st r m)"
  unfolding setConditionInList_def Let_def by (intro framed_intros)

lemma framed_setCondition [framed_intros]: "framed (setCondition t st r m)"
  unfolding setCondition_def by (intro framed_intros) (auto simp: insert_commute status_rest_def)

lemma frame_after_set: "frame s (after_set t st r m s)"
  using framed_setCondition setCondition_run by (rule framedD)

lemma after_set_simps [simp]:
  "Spec (wpa (after_set t st r m s)) = Spec (wpa s)"
  "wpa_Name (wpa (after_set t st r m s)) = wpa_Name (wpa s)"
  "wpa_Namespace (wpa (after_set t st r m s)) = wpa_Namespace (wpa s)"
  "Annotations (wpa (after_set t st r m s)) = Annotations (wpa s)"
  "wpa_Labels (wpa (after_set t st r m s)) = wpa_Labels (wpa s)"
  "Finalizers (wpa (after_set t st r m s)) = Finalizers (wpa s)"
  "LastScaleTime (Status (wpa (after_set t st r m s))) = LastScaleTime (Status (wpa s))"
  "ScalingEventsCount (Status (wpa (after_set t st r m s))) = ScalingEventsCount (Status (wpa s))"
  "CurrentReplicas (Status (wpa (after_set t st r m s))) = CurrentReplicas (Status (wpa s))"
  "DesiredReplicas (Status (wpa (after_set t st r m s))) = DesiredReplicas (Status (wpa s))"
  "CurrentMetrics (Status (wpa (after_set t st r m s))) = CurrentMetrics (Status (wpa s))"
  "clock (after_set t st r m s) = clock s"
  "extraPromLabels (after_set t st r m s) = extraPromLabels s"
  using frame_after_set [of s t st r m] by (simp_all add: after_set_wpa frame_def)

lemma getPrometheusLabels_after_set [simp]:
  "getPrometheusLabels (wpa (after_set t st r m s)) = getPrometheusLabels (wpa s)"
  by (simp add: getPrometheusLabels_def)

lemma cond_of_after_set:
  "store_ok s \<Longrightarrow> cond_of (after_set t st r m s) t' =
     (if t' = t then Some \<lparr>cond_Type = t, cond_Status = st,
        LastTransitionTime = (case cond_of s t of
           Some c \<Rightarrow> if cond_Status c = st then LastTransitionTime c else clock s (ticks s)
         | None \<Rightarrow> if st = [] then zero_time else clock s (ticks s)), Reason = r, Message = m\<rparr>
      else cond_of s t')"
  by (simp add: cond_of_def store_ok_def conditions_ok_def after_set_wpa set_in_list_lookup old_condition_def
      empty_condition_def split: option.splits)

lemma store_ok_after_set [simp]: "store_ok s \<Longrightarrow> store_ok (after_set t st r m s)"
  by (simp add: store_ok_def after_set_wpa set_in_list_ok conditions_ok_def)
     (metis conditions_ok_def set_in_list_ok)

lemma ticks_after_set: "ticks s \<le> ticks (after_set t st r m s)"
  using frame_after_set [of s] by (simp add: frame_def)

lemma store_ok_wpa: "store_ok = (\<lambda>s. conditions_ok (Conditions (Status (wpa s))))"
  by (simp add: fun_eq_iff store_ok_def)

lemma preserves_store_setCondition [preserves_intros]: "preserves store_ok (setCondition t st r m)"
  by (rule preservesI) (auto simp: setCondition_run)

lemma preserves_store_steps [preserves_intros]:
  "preserves store_ok (emit e)" "preserves store_ok go_now" "preserves store_ok (go_read f)"
  unfolding store_ok_wpa by (intro preserves_intros)+

lemma keeps_wpa_store: "keeps_wpa m \<Longrightarrow> preserves store_ok m"
  unfolding store_ok_wpa by (rule keeps_wpa_preserves)

lemma preserves_store_setStatus [preserves_intros]:
  "preserves store_ok (setStatus cur des ms b)" "preserves store_ok (setCurrentReplicasInStatus cur)"
  by (auto intro!: preservesI simp: setStatus_def setCurrentReplicasInStatus_def store_ok_def go_defs
      modify_status_def modify_wpa_def go_now_def split: if_splits)

locale condition_store =
  fixes set_cond :: "string \<Rightarrow> string \<Rightarrow> string \<Rightarrow> string \<Rightarrow> unit prog"
    and get_cond :: "world \<Rightarrow> string \<Rightarrow> condition option"
    and invar :: "world \<Rightarrow> bool"
  assumes set_framed: "framed (set_cond t st r m)"
    and set_total: "wp (set_cond t st r m) (\<lambda>_ _. True) (\<lambda>_ _. False) s"
    and set_invar: "invar s \<Longrightarrow> wp (set_cond t st r m) (\<lambda>_. invar) (\<lambda>_ _. False) s"
    and get_set: "invar s \<Longrightarrow> wp (set_cond t st r m)
        (\<lambda>_ s'. \<exists>c. get_cond s' t = Some c \<and> cond_Status c = st \<and> Reason c = r \<and> Message c = m \<and>
           (if \<exists>c0. get_cond s t = Some c0 \<and> cond_Status c0 = st
            then LastTransitionTime c = LastTransitionTime (the (get_cond s t))
            else st \<noteq> [] \<longrightarrow> LastTransitionTime c = clock s (ticks s))) (\<lambda>_ _. False) s"
    and get_set_other: "invar s \<Longrightarrow> t' \<noteq> t \<Longrightarrow>
        wp (set_cond t st r m) (\<lambda>_ s'. get_cond s' t' = get_cond s t') (\<lambda>_ _. False) s"
begin

text \<open>A status that is set again keeps the time of the first transition, whatever is set in between
  on other types.\<close>

lemma transition_time_stable:
  assumes inv: "invar s" and t: "t' \<noteq> t" and st: "st \<noteq> []"
  shows "wp (go_bind (set_cond t st r m) (\<lambda>_. go_bind (set_cond t' st' r' m') (\<lambda>_. set_cond t st r2 m2)))
     (\<lambda>_ s'. \<exists>c. get_cond s' t = Some c \<and> cond_Status c = st \<and>
        LastTransitionTime c = (if \<exists>c0. get_cond s t = Some c0 \<and> cond_Status c0 = st
          then LastTransitionTime (the (get_cond s t)) else clock s (ticks s)))
     (\<lambda>_ _. False) s"
proof -
  let ?T = "if \<exists>c0. get_cond s t = Some c0 \<and> cond_Status c0 = st
    then LastTransitionTime (the (get_cond s t)) else clock s (ticks s)"
  let ?P = "\<lambda>s'. invar s' \<and> (\<exists>c. get_cond s' t = Some c \<and> cond_Status c = st \<and> LastTransitionTime c = ?T)"
  have 1: "wp (set_cond t st r m) (\<lambda>_. ?P) (\<lambda>_ _. False) s"
    by (rule wp_mono [OF wp_conj [THEN iffD2, OF conjI, OF set_invar [OF inv] get_set [OF inv]]])
      (auto simp: st split: if_splits)
  have 2: "wp (set_cond t' st' r' m') (\<lambda>_. ?P) (\<lambda>_ _. False) s1" if "?P s1" for s1
    by (rule wp_mono [OF wp_conj [THEN iffD2, OF conjI, OF set_invar get_set_other]])
      (use that t in auto)
  have 3: "wp (set_cond t st r2 m2) (\<lambda>_ s'. \<exists>c. get_cond s' t = Some c \<and> cond_Status c = st \<and>
      LastTransitionTime c = ?T) (\<lambda>_ _. False) s2" if P: "?P s2" for s2
  proof (rule wp_mono [OF get_set])
    show "invar s2" using P by simp
  qed (use P in \<open>auto split: if_splits\<close>)
  show ?thesis
    unfolding wp_bind by (rule wp_mono [OF 1], rule wp_mono [OF 2], assumption, rule 3) auto
qed

end

interpretation conds: condition_store setCondition cond_of store_ok
proof unfold_locales
  fix s t st r m
  assume ok: "store_ok s"
  show "wp (setCondition t st r m)
        (\<lambda>_ s'. \<exists>c. cond_of s' t = Some c \<and> cond_Status c = st \<and> Reason c = r \<and> Message c = m \<and>
           (if \<exists>c0. cond_of s t = Some c0 \<and> cond_Status c0 = st
            then LastTransitionTime c = LastTransitionTime (the (cond_of s t))
            else st \<noteq> [] \<longrightarrow> LastTransitionTime c = clock s (ticks s))) (\<lambda>_ _. False) s"
    by (auto simp: go_wp cond_of_after_set [OF ok] split: option.splits)
qed (auto simp: go_wp cond_of_after_set intro: framed_setCondition)

lemma getCondition_cond_of: "getCondition (Status (wpa s)) t = Inr c \<longleftrightarrow> cond_of s t = Some c"
  by (simp add: getCondition_def cond_of_def split: option.splits)

end
