(* ===== verification/Replica_Calculator.thy ===== *)
theory Replica_Calculator
  imports Pods Recommender Conditions
begin

text \<open>
  The replica calculator (\<open>controllers/datadoghq/replica_calculator.go\<close>): from the pods of the
  target and a metric (or a recommendation) to a proposed number of replicas, and to the position of
  the metric relative to its watermarks.

  The calculator's fields are interfaces: the metrics client, the recommender client and
  the pod lister are programs.  \<open>wpa\<close> is the object in the state, as everywhere.
\<close>

section \<open>Constants and data\<close>

definition aboveHighWatermarkAllowedMessage :: string where
  "aboveHighWatermarkAllowedMessage = ''Allow upscaling if the value stays over the Watermark''"
definition belowLowWatermarkAllowedMessage :: string where
  "belowLowWatermarkAllowedMessage = ''Allow downscaling if the value stays under the Watermark''"
definition convergeToHighWatermarkAllowedMessage :: string where
  "convergeToHighWatermarkAllowedMessage = ''Allow downscaling to converge to the High Watermark''"
definition convergeToLowWatermarkAllowedMessage :: string where
  "convergeToLowWatermarkAllowedMessage = ''Allow upscaling to converge to the Low Watermark''"
definition convergeToWatermarkStableRegime :: string where
  "convergeToWatermarkStableRegime = ''Converging to Watermark only allowed in stable regime''"
definition convergeToWatermarkUnstable :: string where
  "convergeToWatermarkUnstable = ''Proposal could lead to an unstable regime''"
definition convergedToWatermarkDisabled :: string where
  "convergedToWatermarkDisabled = ''Feature not enabled''"
definition aboveHighWatermarkReason :: string where
  "aboveHighWatermarkReason = ''Value above High Watermark''"
definition belowLowWatermarkReason :: string where
  "belowLowWatermarkReason = ''Value above Low Watermark''"
definition convergeToWatermarkAllowedReason :: string where
  "convergeToWatermarkAllowedReason = ''Value between Watermarks''"

record metricPosition =
  isAbove :: bool
  isBelow :: bool

record ReplicaCalculation =
  replicaCount :: int
  utilization :: int
  calc_timestamp :: time
  readyReplicas :: int
  pos :: metricPosition
  details :: string

record ReplicaCalculator =
  mc_GetExternalMetric :: "string \<Rightarrow> string \<Rightarrow> string \<Rightarrow> (go_error + int list \<times> time) prog"
  mc_GetResourceMetric :: "string \<Rightarrow> string \<Rightarrow> string \<Rightarrow> string \<Rightarrow> (go_error + PodMetricsInfo \<times> time) prog"
  recommenderClient :: "ReplicaRecommendationRequest \<Rightarrow> (go_error + ReplicaRecommendationResponse) prog"
  podLister :: "string \<Rightarrow> string option \<Rightarrow> (go_error + Pod list) prog"
  k8sClusterName :: string

section \<open>Rounding to the modulo\<close>

definition roundReplicaCountToAbsoluteModulo :: "int \<Rightarrow> int prog" where
  "roundReplicaCountToAbsoluteModulo proposal =
     go_bind (go_get (\<lambda>s. ReplicaScalingAbsoluteModulo (Spec (wpa s)))) (\<lambda>p.
     go_bind (deref p) (\<lambda>modulo.
     let remainder = Mod32 proposal modulo in
     go_return (if remainder > 0 then int32 (proposal + int32 (modulo - remainder)) else proposal)))"

definition adjustReplicaCountForUpscale :: "int \<Rightarrow> int \<Rightarrow> int prog" where
  "adjustReplicaCountForUpscale currentReplicas proposal =
     go_bind (roundReplicaCountToAbsoluteModulo proposal) (\<lambda>n.
     let n' = (if n < currentReplicas then currentReplicas else n) in
     go_bind (setCondition ConvergeToWatermark ConditionFalse convergeToHighWatermarkAllowedMessage
        convergeToWatermarkStableRegime) (\<lambda>_.
     go_return n'))"

definition adjustReplicaCountForDownscale :: "int \<Rightarrow> int \<Rightarrow> int prog" where
  "adjustReplicaCountForDownscale currentReplicas proposal =
     go_bind (roundReplicaCountToAbsoluteModulo proposal) (\<lambda>n.
     let n' = (if n > currentReplicas then currentReplicas else n) in
     go_bind (setCondition ConvergeToWatermark ConditionFalse convergeToWatermarkStableRegime
        convergeToWatermarkStableRegime) (\<lambda>_.
     go_return n'))"

definition getReplicaCountUpscale :: "int \<Rightarrow> int \<Rightarrow> f64 \<Rightarrow> quantity option \<Rightarrow> int prog" where
  "getReplicaCountUpscale currentReplicas currentReadyReplicas adjustedUsage highMark =
     go_bind (deref highMark) (\<lambda>hm.
     adjustReplicaCountForUpscale currentReplicas
       (Ceil32 (f64_div (f64_mul (float64 currentReadyReplicas) adjustedUsage) (float64 (MilliValue hm)))))"

definition getReplicaCountDownscale :: "int \<Rightarrow> int \<Rightarrow> f64 \<Rightarrow> quantity option \<Rightarrow> int prog" where
  "getReplicaCountDownscale currentReplicas currentReadyReplicas adjustedUsage lowMark =
     go_bind (deref lowMark) (\<lambda>lm.
     adjustReplicaCountForDownscale currentReplicas
       (Max32 (Floor32 (f64_div (f64_mul (float64 currentReadyReplicas) adjustedUsage) (float64 (MilliValue lm)))) 1))"

section \<open>Converging to a watermark\<close>

definition tryToConvergeToWatermark :: "string \<Rightarrow> int \<Rightarrow> int \<Rightarrow> int \<Rightarrow> int prog" where
  "tryToConvergeToWatermark convergingType currentReplicas lowerBoundReplicaCount upperBoundReplicaCount =
     go_bind (go_get (\<lambda>s. ReplicaScalingAbsoluteModulo (Spec (wpa s)))) (\<lambda>p.
     go_bind (deref p) (\<lambda>scaleBy.
     if convergingType = ConvergeUpwards then
       (let optimisedReplicaCount = Max32 (int32 (currentReplicas - scaleBy)) 1 in
        if optimisedReplicaCount < lowerBoundReplicaCount then
          go_bind (setCondition ConvergeToWatermark ConditionFalse convergeToHighWatermarkAllowedMessage
             convergeToWatermarkUnstable) (\<lambda>_. go_return currentReplicas)
        else go_bind (setCondition ConvergeToWatermark ConditionTrue convergeToHighWatermarkAllowedMessage
             convergeToWatermarkAllowedReason) (\<lambda>_. go_return optimisedReplicaCount))
     else if convergingType = ConvergeDownwards then
       (let optimisedReplicaCount = int32 (currentReplicas + scaleBy) in
        if optimisedReplicaCount > upperBoundReplicaCount then
          go_bind (setCondition ConvergeToWatermark ConditionFalse convergeToLowWatermarkAllowedMessage
             convergeToWatermarkUnstable) (\<lambda>_. go_return currentReplicas)
        else go_bind (setCondition ConvergeToWatermark ConditionTrue convergeToLowWatermarkAllowedMessage
             convergeToWatermarkAllowedReason) (\<lambda>_. go_return optimisedReplicaCount))
     else go_bind (setCondition ConvergeToWatermark ConditionFalse convergedToWatermarkDisabled
             convergeToWatermarkAllowedReason) (\<lambda>_. go_return currentReplicas)))"

definition tryToConvergeToWatermarkForUsage ::
  "string \<Rightarrow> int \<Rightarrow> int \<Rightarrow> f64 \<Rightarrow> quantity option \<Rightarrow> quantity option \<Rightarrow> int prog" where
  "tryToConvergeToWatermarkForUsage convergingType currentReplicas currentReadyReplicas adjustedUsage lowMark highMark =
     go_bind (go_get (\<lambda>s. Spec (wpa s))) (\<lambda>sp.
     let minReplicas = (case MinReplicas sp of Some m \<Rightarrow> if m > 0 then m else 1 | None \<Rightarrow> 1);
         maxReplicas = MaxReplicas sp in
     go_bind (deref highMark) (\<lambda>hm.
     let lowerBoundReplicaCount = (if MilliValue hm = 0 then currentReplicas
       else Cap32 (Ceil32 (f64_mul (f64_div (float64 currentReadyReplicas) (float64 (MilliValue hm))) adjustedUsage))
         minReplicas maxReplicas) in
     go_bind (deref lowMark) (\<lambda>lm.
     let upperBoundReplicaCount = (if MilliValue lm = 0 then currentReplicas
       else Cap32 (Floor32 (f64_mul (f64_div (float64 currentReadyReplicas) (float64 (MilliValue lm))) adjustedUsage))
         minReplicas maxReplicas) in
     tryToConvergeToWatermark convergingType currentReplicas lowerBoundReplicaCount upperBoundReplicaCount)))"

section \<open>From usage or recommendation to a proposal\<close>

text \<open>The watermarks widened by the tolerance, in \<open>int64\<close> arithmetic.\<close>

definition adjustedHM :: "int \<Rightarrow> int \<Rightarrow> int" where
  "adjustedHM hm tol = int64 (hm + int64 (hm * tol) sdiv 1000)"

definition adjustedLM :: "int \<Rightarrow> int \<Rightarrow> int" where
  "adjustedLM lm tol = int64 (lm - int64 (lm * tol) sdiv 1000)"

definition getReplicaCount ::
  "k8s_lib \<Rightarrow> int \<Rightarrow> int \<Rightarrow> string \<Rightarrow> f64 \<Rightarrow> quantity option \<Rightarrow> quantity option \<Rightarrow>
   (int \<times> int \<times> metricPosition) prog" where
  "getReplicaCount lib currentReplicas currentReadyReplicas name adjustedUsage lowMark highMark =
     go_bind (go_get wpa) (\<lambda>w.
     let utilizationQuantity = NewMilliQuantity lib (int64_of_f64 adjustedUsage);
         tol = MilliValue (Tolerance (Spec w)) in
     go_bind (deref highMark) (\<lambda>hm.
     go_bind (deref lowMark) (\<lambda>lm.
     let hi = float64 (adjustedHM (MilliValue hm) tol);
         lo = float64 (adjustedLM (MilliValue lm) tol);
         labelsWithReason = AList.update reasonPromLabel withinBoundsPromLabelVal (getPrometheusLabels w);
         labelsWithMetricName = AList.update metricNamePromLabel name (getPrometheusLabels w) in
     go_bind (emit (PromSet ValueGauge labelsWithMetricName adjustedUsage)) (\<lambda>_.
     if f64_less hi adjustedUsage then
       go_bind (emit (PromSet RestrictedScaling labelsWithReason (float64 0))) (\<lambda>_.
       go_bind (getReplicaCountUpscale currentReplicas currentReadyReplicas adjustedUsage highMark) (\<lambda>n.
       go_return (n, MilliValue utilizationQuantity, \<lparr>isAbove = True, isBelow = False\<rparr>)))
     else if f64_less adjustedUsage lo then
       go_bind (emit (PromSet RestrictedScaling labelsWithReason (float64 0))) (\<lambda>_.
       go_bind (getReplicaCountDownscale currentReplicas currentReadyReplicas adjustedUsage lowMark) (\<lambda>n.
       go_return (n, MilliValue utilizationQuantity, \<lparr>isAbove = False, isBelow = True\<rparr>)))
     else
       go_bind (tryToConvergeToWatermarkForUsage (ConvergeTowardsWatermark (Spec w)) currentReplicas
          currentReadyReplicas adjustedUsage lowMark highMark) (\<lambda>n.
       go_return (n, MilliValue utilizationQuantity, \<lparr>isAbove = False, isBelow = False\<rparr>))))))"

definition adjustReplicaCount :: "int \<Rightarrow> int \<Rightarrow> int \<Rightarrow> int \<Rightarrow> (int \<times> metricPosition) prog" where
  "adjustReplicaCount currentReplicas recommendedReplicaCount lowerBoundReplicas upperBoundReplicas =
     go_bind (go_get wpa) (\<lambda>w.
     let labelsWithReason = AList.update reasonPromLabel withinBoundsPromLabelVal (getPrometheusLabels w);
         position = \<lparr>isAbove = currentReplicas < lowerBoundReplicas, isBelow = currentReplicas > upperBoundReplicas\<rparr> in
     if recommendedReplicaCount > currentReplicas then
       go_bind (emit (PromSet RestrictedScaling labelsWithReason (float64 0))) (\<lambda>_.
       go_bind (adjustReplicaCountForUpscale currentReplicas recommendedReplicaCount) (\<lambda>n.
       go_return (n, position)))
     else if recommendedReplicaCount < currentReplicas then
       go_bind (emit (PromSet RestrictedScaling labelsWithReason (float64 0))) (\<lambda>_.
       go_bind (adjustReplicaCountForDownscale currentReplicas recommendedReplicaCount) (\<lambda>n.
       go_return (n, position)))
     else
       go_bind (tryToConvergeToWatermark (ConvergeTowardsWatermark (Spec w)) currentReplicas
          lowerBoundReplicas upperBoundReplicas) (\<lambda>n.
       go_return (n, \<lparr>isAbove = False, isBelow = False\<rparr>)))"

section \<open>The three calculations\<close>

text \<open>
  The first part of \<open>GetExternalMetricReplicas\<close> and of \<open>GetRecommenderReplicas\<close>, the same in both: list the
  pods of the target, count the ready ones, and give up if too few are available.
\<close>

definition show_selector :: "string option \<Rightarrow> string" where
  "show_selector lbl = (case lbl of None \<Rightarrow> ''<nil>'' | Some l \<Rightarrow> l)"

definition currentReadyReplicas :: "k8s_lib \<Rightarrow> ReplicaCalculator \<Rightarrow> scale \<Rightarrow> (go_error + int) prog" where
  "currentReadyReplicas lib c target =
     (let lbl = (case labels_Parse lib (scale_Selector target) of Inl _ \<Rightarrow> None | Inr l \<Rightarrow> Some l) in
      go_bind (podLister c (scale_Namespace target) lbl) (\<lambda>r. case r of
        Inl e \<Rightarrow> go_return (Inl (wrap_error ''unable to get pods while calculating replica count: '' e))
      | Inr podList \<Rightarrow>
        if podList = [] then
          go_return (Inl (errorf ''no pods returned by selector while calculating replica count''))
        else go_bind (go_get wpa) (\<lambda>w.
        go_bind (getReadyPodsCount (scale_Name target) podList (seconds (ReadinessDelaySeconds (Spec w)))
           (shouldSkipOwnerCheck w)) (\<lambda>(ready, incorrectTargetPodsCount, err). case err of
          Some e \<Rightarrow> go_return (Inl (wrap_error (''unable to get the number of ready pods across all namespaces for '' @
            show_selector lbl @ '': '') e))
        | None \<Rightarrow>
          let ready' = (if ready > scale_StatusReplicas target then scale_StatusReplicas target else ready);
              pods = int32 (int32 (int (length podList)) - incorrectTargetPodsCount) in
          if pods = 0 then go_panic IntegerDivideByZero
          else let ratioReadyPods = int32 (int32 (100 * ready') sdiv pods) in
          if ratioReadyPods < MinAvailableReplicaPercentage (Spec w) then
            go_return (Inl (errorf (show_int ratioReadyPods @ '' % of the pods are unready, will not autoscale '' @
              scale_Namespace target @ ''/'' @ scale_Name target)))
          else go_return (Inr ready')))))"

text \<open>What all three do when the metric cannot be read.\<close>

definition forget_metric :: "string \<Rightarrow> unit prog" where
  "forget_metric metricName =
     go_bind (go_get wpa) (\<lambda>w.
     let ls = (\<lambda>reason. AList.update reasonPromLabel reason (getPrometheusLabels w)) in
     go_bind (emit (PromDelete RestrictedScaling (ls upscaleCappingPromLabelVal))) (\<lambda>_.
     go_bind (emit (PromDelete RestrictedScaling (ls downscaleCappingPromLabelVal))) (\<lambda>_.
     go_bind (emit (PromDelete RestrictedScaling (ls withinBoundsPromLabelVal))) (\<lambda>_.
     emit (PromDelete ValueGauge [(wpaNamePromLabel, wpa_Name w), (metricNamePromLabel, metricName)])))))"

definition show_label_selector :: "label_selector option \<Rightarrow> string" where
  "show_label_selector sel = (case sel of None \<Rightarrow> ''nil'' | Some l \<Rightarrow> sel_String l)"

definition averaged :: "WatermarkPodAutoscalerSpec \<Rightarrow> int \<Rightarrow> f64" where
  "averaged sp ready = (if Algorithm sp = ''average'' then float64 ready else float64 1)"

definition GetExternalMetricReplicas ::
  "k8s_lib \<Rightarrow> ReplicaCalculator \<Rightarrow> scale \<Rightarrow> MetricSpec \<Rightarrow> (go_error + ReplicaCalculation) prog" where
  "GetExternalMetricReplicas lib c target metric =
     go_bind (currentReadyReplicas lib c target) (\<lambda>r. case r of Inl e \<Rightarrow> go_return (Inl e) | Inr ready \<Rightarrow>
     go_bind (deref (ms_External metric)) (\<lambda>ext.
     let metricName = ext_MetricName ext; selector = ext_MetricSelector ext in
     case LabelSelectorAsSelector lib selector of Inl e \<Rightarrow> go_return (Inl e) | Inr labelSelector \<Rightarrow>
     go_bind (go_get wpa) (\<lambda>w.
     go_bind (mc_GetExternalMetric c metricName (wpa_Namespace w) labelSelector) (\<lambda>m. case m of
       Inl e \<Rightarrow>
         go_bind (forget_metric metricName) (\<lambda>_.
         go_return (Inl (errorf (''unable to get external metric '' @ wpa_Namespace w @ ''/'' @ metricName @ ''/'' @
           show_label_selector selector @ '': '' @ Error e))))
     | Inr (metrics, timestamp) \<Rightarrow>
       let total = fold (\<lambda>v a. int64 (a + v)) metrics 0 in
       if total = 0 \<and> \<not> TolerateZero (Spec w) then
         go_return (Inr \<lparr>replicaCount = ready, utilization = 0, calc_timestamp = timestamp,
           readyReplicas = ready, pos = \<lparr>isAbove = False, isBelow = False\<rparr>, details = []\<rparr>)
       else
         go_bind (getReplicaCount lib (scale_SpecReplicas target) ready metricName
            (f64_div (float64 total) (averaged (Spec w) ready)) (ext_LowWatermark ext) (ext_HighWatermark ext))
           (\<lambda>(n, utilizationQuantity, metricPos).
         go_return (Inr \<lparr>replicaCount = n, utilization = utilizationQuantity, calc_timestamp = timestamp,
           readyReplicas = ready, pos = metricPos, details = []\<rparr>))))))"

definition GetResourceReplicas ::
  "k8s_lib \<Rightarrow> ReplicaCalculator \<Rightarrow> scale \<Rightarrow> MetricSpec \<Rightarrow> (go_error + ReplicaCalculation) prog" where
  "GetResourceReplicas lib c target metric =
     go_bind (deref (ms_Resource metric)) (\<lambda>res.
     let resourceName = res_Name res; selector = res_MetricSelector res in
     case LabelSelectorAsSelector lib selector of Inl e \<Rightarrow> go_return (Inl e) | Inr labelSelector \<Rightarrow>
     go_bind (go_get wpa) (\<lambda>w.
     let namespace = wpa_Namespace w in
     go_bind (mc_GetResourceMetric c resourceName namespace labelSelector []) (\<lambda>m. case m of
       Inl e \<Rightarrow>
         go_bind (forget_metric resourceName) (\<lambda>_.
         go_return (Inl (errorf (''unable to get resource metric '' @ namespace @ ''/'' @ resourceName @ ''/'' @
           show_label_selector selector @ '': '' @ Error e))))
     | Inr (metrics, timestamp) \<Rightarrow>
     case labels_Parse lib (scale_Selector target) of
       Inl e \<Rightarrow> go_return (Inl (wrap_error ''could not parse the labels of the target: '' e))
     | Inr lbl \<Rightarrow>
     go_bind (podLister c namespace (Some lbl)) (\<lambda>l. case l of
       Inl e \<Rightarrow> go_return (Inl (wrap_error ''unable to get pods while calculating replica count: '' e))
     | Inr podList \<Rightarrow>
       if podList = [] then
         go_return (Inl (errorf ''no pods returned by selector while calculating replica count''))
       else let (readyPods, ignoredPods) = groupPods podList (scale_Name target) metrics resourceName
                  (seconds (ReadinessDelaySeconds (Spec w))) (shouldSkipOwnerCheck w);
                readyPodCount = int (card readyPods);
                pods = int (length podList) - int (card ignoredPods) in
       if pods = 0 then go_panic IntegerDivideByZero
       else let ratioReadyPods = int32 ((100 * readyPodCount) sdiv pods) in
       if ratioReadyPods < MinAvailableReplicaPercentage (Spec w) then
         go_return (Inl (errorf (show_int ratioReadyPods @ '' % of the pods are unready, will not autoscale '' @
           scale_Namespace target @ ''/'' @ scale_Name target)))
       else let metrics' = removeMetricsForPods metrics ignoredPods in
       if metrics' = [] then go_return (Inl (errorf ''did not receive metrics for any ready pods''))
       else let total = fold (\<lambda>pm a. int64 (a + pm_Value (snd pm))) metrics' 0 in
         go_bind (getReplicaCount lib (scale_SpecReplicas target) (int32 readyPodCount) resourceName
            (f64_div (float64 total) (averaged (Spec w) readyPodCount)) (res_LowWatermark res) (res_HighWatermark res))
           (\<lambda>(n, utilizationQuantity, metricPos).
         go_return (Inr \<lparr>replicaCount = n, utilization = utilizationQuantity, calc_timestamp = timestamp,
           readyReplicas = int32 readyPodCount, pos = metricPos, details = []\<rparr>))))))"

definition GetRecommenderReplicas ::
  "k8s_lib \<Rightarrow> ReplicaCalculator \<Rightarrow> scale \<Rightarrow> (go_error + ReplicaCalculation) prog" where
  "GetRecommenderReplicas lib c target =
     go_bind (currentReadyReplicas lib c target) (\<lambda>r. case r of Inl e \<Rightarrow> go_return (Inl e) | Inr ready \<Rightarrow>
     go_bind (go_get wpa) (\<lambda>w.
     let metricName = metricNameForRecommender (Spec w);
         minReplicas = (case MinReplicas (Spec w) of None \<Rightarrow> 0 | Some m \<Rightarrow> m);
         request = \<lparr>rq_Namespace = wpa_Namespace w, rq_TargetRef = Some (ScaleTargetRef (Spec w)),
           rq_TargetCluster = k8sClusterName c, rq_Recommender = Recommender (Spec w),
           rq_DesiredReplicas = scale_SpecReplicas target, rq_CurrentReplicas = scale_SpecReplicas target,
           rq_CurrentReadyReplicas = ready, rq_MinReplicas = minReplicas, rq_MaxReplicas = MaxReplicas (Spec w)\<rparr> in
     go_bind (recommenderClient c request) (\<lambda>m. case m of
       Inl e \<Rightarrow>
         go_bind (forget_metric metricName) (\<lambda>_.
         go_return (Inl (errorf (''unable to get external recommendation '' @ metricName @ '': '' @ Error e))))
     | Inr reco \<Rightarrow>
       if rp_Replicas reco = 0 \<and> \<not> TolerateZero (Spec w) then
         go_return (Inr \<lparr>replicaCount = ready, utilization = 0, calc_timestamp = rp_Timestamp reco,
           readyReplicas = ready, pos = \<lparr>isAbove = False, isBelow = False\<rparr>, details = []\<rparr>)
       else
         let utilizationQuantity = int64_of_f64 (f64_mul (rp_ObservedTargetValue reco) (float64 1000)) in
         go_bind (emit (PromSet ValueGauge (AList.update metricNamePromLabel metricName (getPrometheusLabels w))
            (float64 utilizationQuantity))) (\<lambda>_.
         go_bind (adjustReplicaCount (scale_SpecReplicas target) (int32 (rp_Replicas reco))
            (int32 (rp_ReplicasLowerBound reco)) (int32 (rp_ReplicasUpperBound reco))) (\<lambda>(n, metricPos).
         go_return (Inr \<lparr>replicaCount = n, utilization = utilizationQuantity, calc_timestamp = rp_Timestamp reco,
           readyReplicas = ready, pos = metricPos, details = rp_Details reco\<rparr>))))))"

section \<open>Exact counts\<close>

text \<open>The integer functions the program computes with floats.\<close>

definition ceil_div :: "int \<Rightarrow> int \<Rightarrow> int" where
  "ceil_div p q = (p + q - 1) div q"

definition round_up :: "int \<Rightarrow> int \<Rightarrow> int" where
  "round_up m n = ceil_div n m * m"

lemma ceil_div_bounds:
  assumes "0 < q"
  shows "p \<le> ceil_div p q * q" "ceil_div p q * q < p + q"
proof -
  have "(p + q - 1) mod q + (p + q - 1) div q * q = p + q - 1" by (simp add: mult.commute)
  then show "p \<le> ceil_div p q * q" "ceil_div p q * q < p + q"
    using pos_mod_bound [OF assms, of "p + q - 1"] pos_mod_sign [OF assms, of "p + q - 1"]
    unfolding ceil_div_def by linarith+
qed

lemma round_up_bounds: "0 < m \<Longrightarrow> n \<le> round_up m n" "0 < m \<Longrightarrow> round_up m n < n + m"
  by (simp_all add: round_up_def ceil_div_bounds)

lemma round_up_dvd: "m dvd round_up m n"
  by (simp add: round_up_def)

lemma round_up_one [simp]: "round_up 1 n = n"
  by (simp add: round_up_def ceil_div_def)

lemma round_up_mod: "0 < m \<Longrightarrow> round_up m n = (if n mod m > 0 then n + (m - n mod m) else n)"
proof -
  assume m: "0 < m"
  have d: "n = n div m * m + n mod m" by simp
  have r: "0 \<le> n mod m" "n mod m < m" using m by simp_all
  show ?thesis
  proof (cases "n mod m = 0")
    case True
    then have "(n + m - 1) div m = n div m + (m - 1) div m"
      using m by (metis (no_types) add_diff_eq div_plus_div_distrib_dvd_left mod_0_imp_dvd)
    then show ?thesis using True m d by (simp add: round_up_def ceil_div_def div_pos_pos_trivial)
  next
    case False
    have "(n + m - 1) div m = n div m + 1"
      by (rule int_div_pos_eq [of _ _ _ "n mod m - 1"]) (use False r d in \<open>auto simp: algebra_simps\<close>)
    then show ?thesis using False r d by (simp add: round_up_def ceil_div_def algebra_simps)
  qed
qed

lemma ceil_div_nonneg: "0 \<le> p \<Longrightarrow> 0 < q \<Longrightarrow> 0 \<le> ceil_div p q"
  by (simp add: ceil_div_def pos_imp_zdiv_nonneg_iff)

lemma wp_round:
  assumes "ReplicaScalingAbsoluteModulo (Spec (wpa s)) = Some m" "1 \<le> m" "fits32 m" "0 \<le> n" "fits32 (n + m)"
  shows "wp (roundReplicaCountToAbsoluteModulo n) Q R s = Q (round_up m n) s"
proof -
  have n: "fits32 n" using assms by (simp add: fits32_def)
  have "Mod32 n m = n mod m" using assms n by (intro Mod32_nonneg) auto
  moreover have "fits32 (m - n mod m)" "fits32 (n + (m - n mod m))"
    using assms(2-5) pos_mod_bound [of m n] pos_mod_sign [of m n] unfolding fits32_def by linarith+
  ultimately show ?thesis
    using assms(1,2) round_up_mod [of m n] by (auto simp: roundReplicaCountToAbsoluteModulo_def go_wp Let_def int32_id)
qed

lemma wp_adjust_up:
  assumes "ReplicaScalingAbsoluteModulo (Spec (wpa s)) = Some m" "1 \<le> m" "fits32 m" "0 \<le> n" "fits32 (n + m)"
  shows "wp (adjustReplicaCountForUpscale cur n) Q R s =
     Q (max cur (round_up m n)) (after_set ConvergeToWatermark ConditionFalse
       convergeToHighWatermarkAllowedMessage convergeToWatermarkStableRegime s)"
  unfolding adjustReplicaCountForUpscale_def wp_bind wp_round [OF assms]
  by (simp add: go_wp Let_def max_def not_less)

lemma wp_adjust_down:
  assumes "ReplicaScalingAbsoluteModulo (Spec (wpa s)) = Some m" "1 \<le> m" "fits32 m" "0 \<le> n" "fits32 (n + m)"
  shows "wp (adjustReplicaCountForDownscale cur n) Q R s =
     Q (min cur (round_up m n)) (after_set ConvergeToWatermark ConditionFalse
       convergeToWatermarkStableRegime convergeToWatermarkStableRegime s)"
  unfolding adjustReplicaCountForDownscale_def wp_bind wp_round [OF assms]
  by (auto simp add: go_wp Let_def min_def)

text \<open>A whole number of milli-units per watermark: the float quotient is the exact one.\<close>

lemma usage_ceil:
  assumes "0 \<le> ready" "fits32 ready" "0 \<le> u" "u \<le> 2 ^ 53" "ready * u < 2 ^ 53" "0 < hm" "hm \<le> 2 ^ 53"
    "fits32 (ceil_div (ready * u) hm)"
  shows "Ceil32 (f64_div (f64_mul (float64 ready) (Fin (of_int u))) (float64 hm)) = ceil_div (ready * u) hm"
proof -
  have "f64_mul (float64 ready) (Fin (of_int u)) = Fin (of_int (ready * u))"
    using assms f64_mul_int [of ready u] by (simp add: float64_int32)
  then show ?thesis
    using assms Ceil32_quotient [of "ready * u" hm] by (simp add: float64_exact ceil_div_def)
qed

lemma usage_floor:
  assumes "0 \<le> ready" "fits32 ready" "0 \<le> u" "u \<le> 2 ^ 53" "ready * u < 2 ^ 53" "0 < lm" "lm \<le> 2 ^ 53"
    "fits32 (ready * u div lm)"
  shows "Floor32 (f64_div (f64_mul (float64 ready) (Fin (of_int u))) (float64 lm)) = ready * u div lm"
proof -
  have "f64_mul (float64 ready) (Fin (of_int u)) = Fin (of_int (ready * u))"
    using assms f64_mul_int [of ready u] by (simp add: float64_int32)
  then show ?thesis
    using assms Floor32_quotient [of "ready * u" lm] by (simp add: float64_exact)
qed

section \<open>Widened watermarks and proposals\<close>

lemma adjustedHM_eq:
  assumes "0 \<le> hm" "0 \<le> tol" "tol \<le> 1000" "hm \<le> 2 ^ 52"
  shows "adjustedHM hm tol = hm + hm * tol div 1000" "hm \<le> adjustedHM hm tol" "adjustedHM hm tol \<le> 2 * hm"
proof -
  have p: "0 \<le> hm * tol" "hm * tol \<le> hm * 1000" using assms by (auto intro: mult_left_mono)
  then have "fits64 (hm * tol)" by (rule fits64_below) (use assms in \<open>simp add: fits64_def\<close>)
  moreover have q: "0 \<le> hm * tol div 1000" "hm * tol div 1000 \<le> hm" using p by linarith+
  moreover have "fits64 (hm + hm * tol div 1000)" using q assms by (simp add: fits64_def)
  ultimately show *: "adjustedHM hm tol = hm + hm * tol div 1000"
    using p by (simp add: adjustedHM_def int64_id sdiv_nonneg_pos)
  show "hm \<le> adjustedHM hm tol" "adjustedHM hm tol \<le> 2 * hm" using q by (simp_all add: *)
qed

lemma adjustedLM_eq:
  assumes "0 \<le> lm" "0 \<le> tol" "tol \<le> 1000" "lm \<le> 2 ^ 52"
  shows "adjustedLM lm tol = lm - lm * tol div 1000" "0 \<le> adjustedLM lm tol" "adjustedLM lm tol \<le> lm"
proof -
  have p: "0 \<le> lm * tol" "lm * tol \<le> lm * 1000" using assms by (auto intro: mult_left_mono)
  then have "fits64 (lm * tol)" by (rule fits64_below) (use assms in \<open>simp add: fits64_def\<close>)
  moreover have q: "0 \<le> lm * tol div 1000" "lm * tol div 1000 \<le> lm" using p by linarith+
  moreover have "fits64 (lm - lm * tol div 1000)" using q assms by (simp add: fits64_def)
  ultimately show *: "adjustedLM lm tol = lm - lm * tol div 1000"
    using p by (simp add: adjustedLM_def int64_id sdiv_nonneg_pos)
  show "0 \<le> adjustedLM lm tol" "adjustedLM lm tol \<le> lm" using q by (simp_all add: *)
qed

text \<open>The range in which every float operation of the proposal is exact.\<close>

definition exact_range :: "WatermarkPodAutoscalerSpec \<Rightarrow> int \<Rightarrow> int \<Rightarrow> int \<Rightarrow> int \<Rightarrow> int \<Rightarrow> bool" where
  "exact_range sp m ready u lm hm \<longleftrightarrow>
     ReplicaScalingAbsoluteModulo sp = Some m \<and> 1 \<le> m \<and> 0 \<le> MilliValue (Tolerance sp) \<and>
     MilliValue (Tolerance sp) \<le> 1000 \<and> 1 \<le> ready \<and> fits32 ready \<and> 0 \<le> u \<and> ready * u < 2 ^ 53 \<and>
     0 < lm \<and> lm \<le> hm \<and> hm \<le> 2 ^ 52 \<and> ready * u div lm + 1 + m < 2 ^ 31"

lemma ceil_div_le: "0 < q \<Longrightarrow> ceil_div p q \<le> p div q + 1"
proof -
  assume q: "0 < q"
  have "(p + q - 1) div q \<le> (p + 1 * q) div q" using q by (intro zdiv_mono1) auto
  then show ?thesis using q by (simp add: ceil_div_def)
qed

lemma exact_rangeD:
  assumes "exact_range sp m ready u lm hm"
  shows "u \<le> 2 ^ 53" "fits32 (ready * u div lm)" "fits32 (ceil_div (ready * u) hm)"
    "fits32 (ceil_div (ready * u) hm + m)" "fits32 (max 1 (ready * u div lm) + m)" "fits32 m"
    "0 \<le> ready * u" "0 \<le> ready * u div lm"
proof -
  note a = assms [unfolded exact_range_def]
  show p: "0 \<le> ready * u" using a by simp
  have "1 * u \<le> ready * u" using a by (intro mult_right_mono) auto
  then show "u \<le> 2 ^ 53" using a by simp
  show l: "0 \<le> ready * u div lm" using a p by (simp add: pos_imp_zdiv_nonneg_iff)
  have h: "ready * u div hm \<le> ready * u div lm" using a p by (intro zdiv_mono2) auto
  have c: "0 \<le> ceil_div (ready * u) hm" "ceil_div (ready * u) hm \<le> ready * u div hm + 1"
    using a p by (auto intro: ceil_div_nonneg ceil_div_le)
  show "fits32 (ready * u div lm)" "fits32 (ceil_div (ready * u) hm)" "fits32 (ceil_div (ready * u) hm + m)"
    "fits32 (max 1 (ready * u div lm) + m)" "fits32 m"
    using a l h c by (auto simp: fits32_def)
qed

definition above_marks :: metricPosition where "above_marks = \<lparr>isAbove = True, isBelow = False\<rparr>"
definition below_marks :: metricPosition where "below_marks = \<lparr>isAbove = False, isBelow = True\<rparr>"
definition within_marks :: metricPosition where "within_marks = \<lparr>isAbove = False, isBelow = False\<rparr>"

lemmas position_defs = above_marks_def below_marks_def within_marks_def

definition upscale_target :: "int \<Rightarrow> int \<Rightarrow> int \<Rightarrow> int \<Rightarrow> int \<Rightarrow> int" where
  "upscale_target m cur ready u hm = max cur (round_up m (ceil_div (ready * u) hm))"

definition downscale_target :: "int \<Rightarrow> int \<Rightarrow> int \<Rightarrow> int \<Rightarrow> int \<Rightarrow> int" where
  "downscale_target m cur ready u lm = min cur (round_up m (max 1 (ready * u div lm)))"

lemma f64_less_int: "\<bar>a\<bar> \<le> 2 ^ 53 \<Longrightarrow> f64_less (float64 a) (Fin (of_int b)) \<longleftrightarrow> a < b"
  "\<bar>a\<bar> \<le> 2 ^ 53 \<Longrightarrow> f64_less (Fin (of_int b)) (float64 a) \<longleftrightarrow> b < a"
  by (simp_all add: float64_exact)

lemma wp_getReplicaCount:
  assumes ex: "exact_range (Spec (wpa s)) m ready u (MilliValue lm) (MilliValue hm)"
  shows "wp (getReplicaCount lib cur ready name (Fin (of_int u)) (Some lm) (Some hm)) Q R s =
    (let util = MilliValue (NewMilliQuantity lib (int64_of_f64 (Fin (of_int u))));
         tol = MilliValue (Tolerance (Spec (wpa s)));
         s1 = s\<lparr>trace := trace s @ [PromSet ValueGauge (AList.update metricNamePromLabel name
           (getPrometheusLabels (wpa s))) (Fin (of_int u))]\<rparr>;
         s2 = s1\<lparr>trace := trace s1 @ [PromSet RestrictedScaling (AList.update reasonPromLabel
           withinBoundsPromLabelVal (getPrometheusLabels (wpa s))) (float64 0)]\<rparr> in
     if u > adjustedHM (MilliValue hm) tol then
       Q (upscale_target m cur ready u (MilliValue hm), util, above_marks)
         (after_set ConvergeToWatermark ConditionFalse convergeToHighWatermarkAllowedMessage
            convergeToWatermarkStableRegime s2)
     else if u < adjustedLM (MilliValue lm) tol then
       Q (downscale_target m cur ready u (MilliValue lm), util, below_marks)
         (after_set ConvergeToWatermark ConditionFalse convergeToWatermarkStableRegime
            convergeToWatermarkStableRegime s2)
     else wp (tryToConvergeToWatermarkForUsage (ConvergeTowardsWatermark (Spec (wpa s))) cur ready
            (Fin (of_int u)) (Some lm) (Some hm)) (\<lambda>n. Q (n, util, within_marks)) R s1)"
proof -
  note e = ex [unfolded exact_range_def] and d = exact_rangeD [OF ex]
  let ?tol = "MilliValue (Tolerance (Spec (wpa s)))"
  have hm: "MilliValue hm \<le> adjustedHM (MilliValue hm) ?tol" "adjustedHM (MilliValue hm) ?tol \<le> 2 * MilliValue hm"
    and lm: "0 \<le> adjustedLM (MilliValue lm) ?tol" "adjustedLM (MilliValue lm) ?tol \<le> MilliValue lm"
    using e adjustedHM_eq [of "MilliValue hm" ?tol] adjustedLM_eq [of "MilliValue lm" ?tol] by auto
  have cmp: "f64_less (float64 (adjustedHM (MilliValue hm) ?tol)) (Fin (of_int u)) \<longleftrightarrow> adjustedHM (MilliValue hm) ?tol < u"
    "f64_less (Fin (of_int u)) (float64 (adjustedLM (MilliValue lm) ?tol)) \<longleftrightarrow> u < adjustedLM (MilliValue lm) ?tol"
    using e hm lm by (intro f64_less_int; simp)+
  have ceil: "Ceil32 (f64_div (f64_mul (float64 ready) (Fin (of_int u))) (float64 (MilliValue hm))) = ceil_div (ready * u) (MilliValue hm)"
    using e d by (intro usage_ceil) auto
  have floor: "Floor32 (f64_div (f64_mul (float64 ready) (Fin (of_int u))) (float64 (MilliValue lm))) = ready * u div MilliValue lm"
    using e d by (intro usage_floor) auto
  have c: "0 \<le> ceil_div (ready * u) (MilliValue hm)" using e d by (intro ceil_div_nonneg) auto
  have "ReplicaScalingAbsoluteModulo (Spec (wpa s')) = Some m" if "wpa s' = wpa s" for s' using e that by simp
  note up = wp_adjust_up [OF this _ d(6) c d(4), unfolded upscale_target_def [symmetric]]
    and down = wp_adjust_down [OF this _ d(6) _ d(5), unfolded downscale_target_def [symmetric]]
  show ?thesis
    unfolding getReplicaCount_def getReplicaCountUpscale_def getReplicaCountDownscale_def
    using e by (simp add: go_wp Let_def cmp ceil floor up down wp_return_eq Max32_max max.commute position_defs)
qed

section \<open>Converging\<close>

definition convergence_min :: "WatermarkPodAutoscalerSpec \<Rightarrow> int" where
  "convergence_min sp = (case MinReplicas sp of Some m \<Rightarrow> if m > 0 then m else 1 | None \<Rightarrow> 1)"

text \<open>One step of the modulo, never past a watermark's bound; \<open>None\<close> when the step is refused.\<close>

definition converge_step :: "string \<Rightarrow> int \<Rightarrow> int \<Rightarrow> int \<Rightarrow> int \<Rightarrow> int" where
  "converge_step ty m cur lo hi =
     (if ty = ConvergeUpwards then (if max (cur - m) 1 < lo then cur else max (cur - m) 1)
      else if ty = ConvergeDownwards then (if cur + m > hi then cur else cur + m)
      else cur)"

lemma wp_converge:
  assumes "ReplicaScalingAbsoluteModulo (Spec (wpa s)) = Some m" "fits32 (cur - m)" "fits32 (cur + m)"
  shows "wp (tryToConvergeToWatermark ty cur lo hi) (\<lambda>n s'. n = converge_step ty m cur lo hi) (\<lambda>_ _. False) s"
  using assms by (auto simp: tryToConvergeToWatermark_def go_wp Let_def converge_step_def int32_id Max32_max)

lemma wp_converge_usage:
  assumes "ReplicaScalingAbsoluteModulo (Spec (wpa s)) = Some m" "fits32 (cur - m)" "fits32 (cur + m)"
    and "MilliValue lm \<noteq> 0" "MilliValue hm \<noteq> 0" "convergence_min (Spec (wpa s)) \<le> MaxReplicas (Spec (wpa s))"
  shows "wp (tryToConvergeToWatermarkForUsage ty cur ready u (Some lm) (Some hm))
    (\<lambda>n s'. \<exists>lo hi. n = converge_step ty m cur lo hi \<and>
       convergence_min (Spec (wpa s)) \<le> lo \<and> hi \<le> MaxReplicas (Spec (wpa s))) (\<lambda>_ _. False) s"
proof -
  let ?mn = "convergence_min (Spec (wpa s))" and ?mx = "MaxReplicas (Spec (wpa s))"
  let ?lo = "Cap32 (Ceil32 (f64_mul (f64_div (float64 ready) (float64 (MilliValue hm))) u)) ?mn ?mx"
  let ?hi = "Cap32 (Floor32 (f64_mul (f64_div (float64 ready) (float64 (MilliValue lm))) u)) ?mn ?mx"
  have "wp (tryToConvergeToWatermark ty cur ?lo ?hi) (\<lambda>n s'. \<exists>lo hi. n = converge_step ty m cur lo hi \<and>
       ?mn \<le> lo \<and> hi \<le> ?mx) (\<lambda>_ _. False) s"
    by (rule wp_mono [OF wp_converge [OF assms(1-3)]]) (use Cap32_range [OF assms(6)] in auto)
  then show ?thesis
    using assms(4,5) by (simp add: tryToConvergeToWatermarkForUsage_def go_wp Let_def convergence_min_def)
qed

lemma converge_step_size:
  "1 \<le> m \<Longrightarrow> 1 \<le> cur \<Longrightarrow> \<bar>converge_step ty m cur lo hi - cur\<bar> \<le> m \<and> 1 \<le> converge_step ty m cur lo hi"
  by (auto simp: converge_step_def)

lemma converge_step_range:
  assumes "1 \<le> m" "1 \<le> mn" "mn \<le> cur" "cur \<le> mx" "mn \<le> lo" "hi \<le> mx"
  shows "mn \<le> converge_step ty m cur lo hi \<and> converge_step ty m cur lo hi \<le> mx"
  using assms by (auto simp: converge_step_def)

section \<open>Frames and invariants\<close>

lemmas calculator_defs = roundReplicaCountToAbsoluteModulo_def adjustReplicaCountForUpscale_def
  adjustReplicaCountForDownscale_def getReplicaCountUpscale_def getReplicaCountDownscale_def
  tryToConvergeToWatermark_def tryToConvergeToWatermarkForUsage_def adjustReplicaCount_def getReplicaCount_def
  forget_metric_def

lemma framed_tryToConverge [framed_intros]:
  "framed (tryToConvergeToWatermark ty cur lo hi)" "framed (tryToConvergeToWatermarkForUsage ty cur r u lm hm)"
  unfolding calculator_defs Let_def by (intro framed_intros)+

lemma framed_adjust [framed_intros]:
  "framed (adjustReplicaCountForUpscale cur n)" "framed (adjustReplicaCountForDownscale cur n)"
  "framed (adjustReplicaCount cur n lo hi)"
  unfolding calculator_defs Let_def by (intro framed_intros; auto simp: insert_commute defaultPromLabels_def)+

lemma framed_getReplicaCount [framed_intros]: "framed (getReplicaCount lib cur r name u lm hm)"
  unfolding getReplicaCount_def getReplicaCountUpscale_def getReplicaCountDownscale_def Let_def
  by (intro framed_intros; auto simp: insert_commute defaultPromLabels_def)

lemma framed_forget_metric [framed_intros]: "framed (forget_metric name)"
  unfolding forget_metric_def Let_def by (intro framed_intros) auto

lemma preserves_calculator [preserves_intros]:
  "preserves store_ok (getReplicaCount lib cur r name u lm hm)"
  "preserves store_ok (adjustReplicaCount cur n lo hi)" "preserves store_ok (forget_metric name)"
  unfolding calculator_defs Let_def by (intro preserves_intros)+

lemma preserves_getReadyPodsCount [preserves_intros]: "preserves store_ok (getReadyPodsCount t ps d sk)"
  unfolding getReadyPodsCount_def count_pod_def Let_def by (intro preserves_intros)

section \<open>Interfaces\<close>

text \<open>The clients of the calculator: they stay within the frame and leave the object alone.\<close>

locale calculator_clients =
  fixes c :: ReplicaCalculator
  assumes external_client: "framed (mc_GetExternalMetric c m ns sel)" "keeps_wpa (mc_GetExternalMetric c m ns sel)"
    and resource_client: "framed (mc_GetResourceMetric c r ns sel ctr)" "keeps_wpa (mc_GetResourceMetric c r ns sel ctr)"
    and recommender_client: "framed (recommenderClient c rq)" "keeps_wpa (recommenderClient c rq)"
    and pod_lister: "framed (podLister c ns lbl)" "keeps_wpa (podLister c ns lbl)"
begin

lemmas client_framed = external_client(1) resource_client(1) recommender_client(1) pod_lister(1)
lemmas client_store = external_client(2) [THEN keeps_wpa_store] resource_client(2) [THEN keeps_wpa_store]
  recommender_client(2) [THEN keeps_wpa_store] pod_lister(2) [THEN keeps_wpa_store]

lemma ready_framed: "framed (currentReadyReplicas lib c target)"
  unfolding currentReadyReplicas_def Let_def by (intro framed_intros client_framed)

lemma ready_store: "preserves store_ok (currentReadyReplicas lib c target)"
  unfolding currentReadyReplicas_def Let_def by (intro preserves_intros client_store)

lemma external_framed: "framed (GetExternalMetricReplicas lib c target metric)"
  unfolding GetExternalMetricReplicas_def Let_def by (intro framed_intros client_framed ready_framed)

lemma resource_framed: "framed (GetResourceReplicas lib c target metric)"
  unfolding GetResourceReplicas_def Let_def by (intro framed_intros client_framed)

lemma recommender_framed: "framed (GetRecommenderReplicas lib c target)"
  unfolding GetRecommenderReplicas_def Let_def
  by (intro framed_intros client_framed ready_framed) (auto simp: insert_commute defaultPromLabels_def)

lemma calculations_store:
  "preserves store_ok (GetExternalMetricReplicas lib c target metric)"
  "preserves store_ok (GetResourceReplicas lib c target metric)"
  "preserves store_ok (GetRecommenderReplicas lib c target)"
  unfolding GetExternalMetricReplicas_def GetResourceReplicas_def GetRecommenderReplicas_def Let_def
  by (intro preserves_intros client_store ready_store)+

end

text \<open>The interface the controller uses, and the laws it relies on.\<close>

record ReplicaCalculatorItf =
  itf_External :: "scale \<Rightarrow> MetricSpec \<Rightarrow> (go_error + ReplicaCalculation) prog"
  itf_Resource :: "scale \<Rightarrow> MetricSpec \<Rightarrow> (go_error + ReplicaCalculation) prog"
  itf_Recommender :: "scale \<Rightarrow> (go_error + ReplicaCalculation) prog"

locale replica_calculator =
  fixes rc :: ReplicaCalculatorItf
  assumes itf_framed: "framed (itf_External rc sc m)" "framed (itf_Resource rc sc m)" "framed (itf_Recommender rc sc)"
    and itf_store: "preserves store_ok (itf_External rc sc m)" "preserves store_ok (itf_Resource rc sc m)"
      "preserves store_ok (itf_Recommender rc sc)"

definition calculator_itf :: "k8s_lib \<Rightarrow> ReplicaCalculator \<Rightarrow> ReplicaCalculatorItf" where
  "calculator_itf lib c = \<lparr>itf_External = GetExternalMetricReplicas lib c,
     itf_Resource = GetResourceReplicas lib c, itf_Recommender = GetRecommenderReplicas lib c\<rparr>"

sublocale calculator_clients \<subseteq> replica_calculator "calculator_itf lib c" for lib
  by unfold_locales
    (simp_all add: calculator_itf_def external_framed resource_framed recommender_framed calculations_store)

text \<open>The calculator as \<open>SetupWithManager\<close> puts it together: the REST metrics client, the recommender
  client and the lister of the pod informer, whose cache is outside.\<close>

definition NewReplicaCalculator ::
  "metrics_api \<Rightarrow> (ReplicaRecommendationRequest \<Rightarrow> (go_error + ReplicaRecommendationResponse) prog) \<Rightarrow>
   (string \<Rightarrow> string option \<Rightarrow> nat \<Rightarrow> (go_error + Pod list) outcome) \<Rightarrow> string \<Rightarrow> ReplicaCalculator" where
  "NewReplicaCalculator api reco lister cluster =
     \<lparr>mc_GetExternalMetric = GetExternalMetric api, mc_GetResourceMetric = GetResourceMetric api,
      recommenderClient = reco, podLister = (\<lambda>ns lbl. go_read (lister ns lbl)), k8sClusterName = cluster\<rparr>"

interpretation deployed: calculator_clients
  "NewReplicaCalculator api (GetReplicaRecommendation tenv env defaults) lister cluster"
  for api tenv env defaults lister cluster
proof unfold_locales
  fix ns lbl
  show "keeps_wpa (podLister (NewReplicaCalculator api (GetReplicaRecommendation tenv env defaults) lister cluster) ns lbl)"
    unfolding keeps_wpa_def NewReplicaCalculator_def by (auto intro: preserves_intros)
qed (auto simp: NewReplicaCalculator_def intro: framed_intros keeps_wpa_GetReplicaRecommendation
    rest.external_framed(2) rest.resource_framed(2))

section \<open>Counting before proposing\<close>

text \<open>The share of available pods is never a division by zero.\<close>

lemma wp_currentReadyReplicas:
  assumes "podLister c (scale_Namespace target)
      (case labels_Parse lib (scale_Selector target) of Inl _ \<Rightarrow> None | Inr l \<Rightarrow> Some l) s = (Ret (Inr ps), s1)"
    and "length ps < 2 ^ 31" "0 \<le> scale_StatusReplicas target"
  shows "wp (currentReadyReplicas lib c target)
     (\<lambda>r _. case r of Inl _ \<Rightarrow> True
       | Inr n \<Rightarrow> 0 \<le> n \<and> n \<le> scale_StatusReplicas target \<and> n \<le> int (length ps)) (\<lambda>_ _. False) s"
proof -
  have count: "wp (getReadyPodsCount t ps d sk) (\<lambda>(ready, incorrect, err) _. 0 \<le> incorrect \<and>
      (case err of None \<Rightarrow> 1 \<le> ready \<and> ready + incorrect \<le> int (length ps) | Some _ \<Rightarrow> ready = 0)) (\<lambda>_ _. False) s2"
    for t d sk s2
    by (rule wp_mono [OF wp_getReadyPodsCount [OF assms(2)]]) auto
  have fits: "int32 (int (length ps)) = int (length ps)" using assms(2) by (simp add: int32_id fits32_def)
  show ?thesis
    unfolding currentReadyReplicas_def Let_def wp_bind
    apply (subst wp_def)
    apply (simp add: assms(1) go_wp fits)
    apply (intro impI)
    apply (rule wp_mono [OF count])
    using assms(2,3) by (auto simp: go_wp int32_id fits32_def split: option.splits)
qed

section \<open>Zero is not tolerated\<close>

text \<open>A sum of zero proposes the number of ready pods, whatever the target's replicas are.\<close>

lemma external_zero:
  assumes "currentReadyReplicas lib c target s = (Ret (Inr ready), s1)"
    and "ms_External metric = Some ext" "LabelSelectorAsSelector lib (ext_MetricSelector ext) = Inr sel"
    and "mc_GetExternalMetric c (ext_MetricName ext) (wpa_Namespace (wpa s1)) sel s1 = (Ret (Inr (vs, t)), s2)"
    and "int64 (sum_list vs) = 0" "\<not> TolerateZero (Spec (wpa s1))"
  shows "GetExternalMetricReplicas lib c target metric s =
     (Ret (Inr \<lparr>replicaCount = ready, utilization = 0, calc_timestamp = t, readyReplicas = ready,
        pos = within_marks, details = []\<rparr>), s2)"
proof -
  have "fold (\<lambda>v a. int64 (a + v)) vs 0 = 0"
    using assms(5) fold_int64_sum [of 0 "\<lambda>v. v" vs] by (simp add: fits64_def)
  then show ?thesis
    using assms by (simp add: GetExternalMetricReplicas_def go_bind_def go_get_def deref_def go_return_def
        Let_def within_marks_def)
qed

section \<open>A division by zero\<close>

lemma groupPods_all_pending:
  assumes "\<forall>p\<in>set ps. Phase (pod_Status p) = PodPending \<and> (sk \<or> checkOwnerRef (OwnerReferences p) t)"
  shows "groupPods ps t m res d sk = ({}, pod_Name ` set ps)"
proof -
  have "fold (group_pod t m res d sk) ps (a, b) = (a, b \<union> pod_Name ` set ps)" for a b
    using assms by (induction ps arbitrary: b) (auto simp: group_pod_def Let_def)
  then show ?thesis by (simp add: groupPods_def)
qed

lemma resource_all_pending:
  assumes "ms_Resource metric = Some res" "LabelSelectorAsSelector lib (res_MetricSelector res) = Inr sel"
    and "mc_GetResourceMetric c (res_Name res) (wpa_Namespace (wpa s)) sel [] s = (Ret (Inr (ms, t)), s1)"
    and "labels_Parse lib (scale_Selector target) = Inr lbl"
    and "podLister c (wpa_Namespace (wpa s)) (Some lbl) s1 = (Ret (Inr ps), s2)"
    and "ps \<noteq> []" "distinct (map pod_Name ps)"
    and "\<forall>p\<in>set ps. Phase (pod_Status p) = PodPending \<and>
      (shouldSkipOwnerCheck (wpa s) \<or> checkOwnerRef (OwnerReferences p) (scale_Name target))"
  shows "GetResourceReplicas lib c target metric s = (Panic IntegerDivideByZero, s2)"
proof -
  have "card (pod_Name ` set ps) = length ps"
    using assms(7) distinct_card [of "map pod_Name ps"] by simp
  then show ?thesis
    using assms(1-6) groupPods_all_pending [OF assms(8)]
    by (simp add: GetResourceReplicas_def go_bind_def go_get_def deref_def go_return_def go_panic_def Let_def)
qed

end
