(* ===== verification/Api_Default.thy ===== *)
theory Api_Default
  imports Api_Types
begin

text \<open>
  \<open>watermarkpodautoscaler_default.go\<close>: filling in the defaults of a specification, testing
  whether they are filled in, and the validity check the controller runs before it acts.
  The lemmas show that defaulting is a closure operator (its result passes the test, a
  specification that passes the test is left alone) that touches nothing the user set, and
  what a specification that passed the validity check satisfies.
\<close>

definition defaultTolerance :: int where [simp]: "defaultTolerance = 100"
definition defaultDownscaleForbiddenWindowSeconds :: int where
  [simp]: "defaultDownscaleForbiddenWindowSeconds = 300"
definition defaultUpscaleForbiddenWindowSeconds :: int where
  [simp]: "defaultUpscaleForbiddenWindowSeconds = 60"
definition defaultScaleDownLimitFactor :: int where [simp]: "defaultScaleDownLimitFactor = 20"
definition defaultScaleUpLimitFactor :: int where [simp]: "defaultScaleUpLimitFactor = 50"
definition defaultAlgorithm :: string where [simp]: "defaultAlgorithm = ''absolute''"
definition defaultMinReplicas :: int where [simp]: "defaultMinReplicas = 1"
definition defaultReplicaScalingAbsoluteModulo :: int where
  [simp]: "defaultReplicaScalingAbsoluteModulo = 1"

definition DefaultWatermarkPodAutoscaler ::
  "k8s_lib \<Rightarrow> WatermarkPodAutoscaler \<Rightarrow> WatermarkPodAutoscaler" where
  "DefaultWatermarkPodAutoscaler lib wpa =
     (let sp = Spec wpa in
      wpa\<lparr>Spec := sp\<lparr>
        MinReplicas := (if MinReplicas sp = None then Some defaultMinReplicas else MinReplicas sp),
        ReplicaScalingAbsoluteModulo :=
          (if ReplicaScalingAbsoluteModulo sp = None then Some defaultReplicaScalingAbsoluteModulo
           else ReplicaScalingAbsoluteModulo sp),
        Algorithm := (if Algorithm sp = [] then defaultAlgorithm else Algorithm sp),
        Tolerance := (if MilliValue (Tolerance sp) = 0 then NewMilliQuantity lib defaultTolerance
           else Tolerance sp),
        ScaleUpLimitFactor :=
          (if ScaleUpLimitFactor sp = None then Some (NewQuantity lib defaultScaleUpLimitFactor)
           else ScaleUpLimitFactor sp),
        ScaleDownLimitFactor :=
          (if ScaleDownLimitFactor sp = None then Some (NewQuantity lib defaultScaleDownLimitFactor)
           else ScaleDownLimitFactor sp),
        DownscaleForbiddenWindowSeconds :=
          (if DownscaleForbiddenWindowSeconds sp = 0 then defaultDownscaleForbiddenWindowSeconds
           else DownscaleForbiddenWindowSeconds sp),
        UpscaleForbiddenWindowSeconds :=
          (if UpscaleForbiddenWindowSeconds sp = 0 then defaultUpscaleForbiddenWindowSeconds
           else UpscaleForbiddenWindowSeconds sp)\<rparr>\<rparr>)"

definition IsDefaultWatermarkPodAutoscaler :: "WatermarkPodAutoscaler \<Rightarrow> bool" where
  "IsDefaultWatermarkPodAutoscaler wpa =
     (let sp = Spec wpa in
      if MinReplicas sp = None then False
      else if Algorithm sp = [] then False
      else if MilliValue (Tolerance sp) = 0 then False
      else if ScaleUpLimitFactor sp = None then False
      else if ScaleDownLimitFactor sp = None then False
      else if DownscaleForbiddenWindowSeconds sp = 0 then False
      else if ReplicaScalingAbsoluteModulo sp = None then False
      else if UpscaleForbiddenWindowSeconds sp = 0 then False
      else True)"

definition squote :: "string \<Rightarrow> string" where
  "squote s = CHR 0x27 # s @ [CHR 0x27]"

text \<open>
  One metric source of \<open>checkWPAMetricsValidity\<close>: the watermarks and the selector of an
  external or a resource source, whose code is the same up to the words of the errors.
\<close>

definition check_source ::
  "WatermarkPodAutoscaler \<Rightarrow> string \<Rightarrow> string \<Rightarrow> label_selector option \<Rightarrow> quantity option \<Rightarrow>
   quantity option \<Rightarrow> go_error option" where
  "check_source wpa kind name sel low high =
     (if low = None \<and> high = None then
        Some (errorf (''watermarks are not set correctly, removing the WPA '' @ wpa_Namespace wpa @
          ''/'' @ wpa_Name wpa @ '' from the Reconciler''))
      else case sel of
        None \<Rightarrow> Some (errorf (''missing Labels for the '' @ kind @ '' metric '' @ name))
      | Some l \<Rightarrow> (case (low, high) of
          (Some lo, Some hi) \<Rightarrow>
            if MilliValue hi < MilliValue lo then
              Some (errorf (''low WaterMark of '' @ kind @ '' metric '' @ name @ ''{'' @
                show_map (MatchLabels l) @ ''} has to be strictly inferior to the High Watermark''))
            else None
        | _ \<Rightarrow> None))"

definition check_metric :: "WatermarkPodAutoscaler \<Rightarrow> MetricSpec \<Rightarrow> go_error option" where
  "check_metric wpa metric =
     (if ms_Type metric = ExternalMetricSourceType then
        (case ms_External metric of
           None \<Rightarrow> Some (errorf (''metric.External is nil while metric.Type is '' @ squote (ms_Type metric)))
         | Some e \<Rightarrow> check_source wpa ''External'' (ext_MetricName e) (ext_MetricSelector e)
             (ext_LowWatermark e) (ext_HighWatermark e))
      else if ms_Type metric = ResourceMetricSourceType then
        (case ms_Resource metric of
           None \<Rightarrow> Some (errorf (''metric.Resource is nil while metric.Type is '' @ squote (ms_Type metric)))
         | Some r \<Rightarrow> check_source wpa ''Resource'' (res_Name r) (res_MetricSelector r)
             (res_LowWatermark r) (res_HighWatermark r))
      else Some (errorf (''incorrect metric.Type: '' @ squote (ms_Type metric))))"

fun check_metrics :: "WatermarkPodAutoscaler \<Rightarrow> MetricSpec list \<Rightarrow> go_error option" where
  "check_metrics wpa [] = None"
| "check_metrics wpa (m # ms) =
     (case check_metric wpa m of Some e \<Rightarrow> Some e | None \<Rightarrow> check_metrics wpa ms)"

definition checkWPAMetricsValidity :: "WatermarkPodAutoscaler \<Rightarrow> go_error option" where
  "checkWPAMetricsValidity wpa = check_metrics wpa (Metrics (Spec wpa))"

definition CheckWPAValidity :: "WatermarkPodAutoscaler \<Rightarrow> go_error option" where
  "CheckWPAValidity wpa =
     (let sp = Spec wpa; ref = ScaleTargetRef sp; tol = Tolerance sp in
      if ref_Kind ref = [] \<or> ref_Name ref = [] then
        Some (errorf (''the Spec.ScaleTargetRef should be populated, currently Kind:'' @ ref_Kind ref @
          '' and/or Name:'' @ ref_Name ref @ '' are not set properly''))
      else if (case MinReplicas sp of None \<Rightarrow> True | Some m \<Rightarrow> MaxReplicas sp < m) then
        Some (errorf ''watermark pod autoscaler requires the minimum number of replicas to be configured and inferior to the maximum'')
      else if MilliValue tol > 1000 \<or> MilliValue tol < 0 then
        Some (errorf (''tolerance should be set as a quantity between 0 and 1, currently set to : '' @
          qty_String tol @ '', which is '' @
          show_f0 (f64_div (float64 (MilliValue tol)) (float64 10)) @ ''%''))
      else case (ScaleUpLimitFactor sp, ScaleDownLimitFactor sp) of
        (Some up, Some down) \<Rightarrow>
          if MilliValue up < 0 then
            Some (errorf (''scaleuplimitfactor should be set as a positive quantity, currently set to : '' @
              qty_String up @ '', which could yield a '' @
              show_f0 (f64_div (float64 (MilliValue up)) (float64 1000)) @ ''% growth''))
          else if MilliValue down \<ge> 100000 \<or> MilliValue down < 0 then
            Some (errorf (''scaledownlimitfactor should be set as a quantity between 0 and 100 (exc.), currently set to : '' @
              qty_String down @ '', which could yield a '' @
              show_f0 (f64_div (float64 (MilliValue down)) (float64 1000)) @ ''% decrease''))
          else if Recommender sp \<noteq> None \<and> Metrics sp \<noteq> [] then
            Some (errorf ''recommender and metrics can't be set at the same time, please choose one'')
          else checkWPAMetricsValidity wpa
      | _ \<Rightarrow> Some (errorf ''scaleuplimitfactor and scaledownlimitfactor can't be nil, make sure the WPA spec is defaulted''))"

section \<open>Facts\<close>

lemma IsDefault_iff:
  "IsDefaultWatermarkPodAutoscaler w \<longleftrightarrow>
     (let sp = Spec w in MinReplicas sp \<noteq> None \<and> Algorithm sp \<noteq> [] \<and> MilliValue (Tolerance sp) \<noteq> 0 \<and>
      ScaleUpLimitFactor sp \<noteq> None \<and> ScaleDownLimitFactor sp \<noteq> None \<and>
      DownscaleForbiddenWindowSeconds sp \<noteq> 0 \<and> ReplicaScalingAbsoluteModulo sp \<noteq> None \<and>
      UpscaleForbiddenWindowSeconds sp \<noteq> 0)"
  by (simp add: IsDefaultWatermarkPodAutoscaler_def Let_def)

lemma Default_IsDefault:
  "quantity_lib_ok lib \<Longrightarrow> IsDefaultWatermarkPodAutoscaler (DefaultWatermarkPodAutoscaler lib w)"
  by (auto simp: IsDefault_iff DefaultWatermarkPodAutoscaler_def Let_def quantity_lib_ok_def fits64_def)

lemma IsDefault_Default:
  "IsDefaultWatermarkPodAutoscaler w \<Longrightarrow> DefaultWatermarkPodAutoscaler lib w = w"
  by (simp add: IsDefault_iff DefaultWatermarkPodAutoscaler_def Let_def)

text \<open>What the validity check of one metric guarantees.\<close>

definition watermarks_ok :: "quantity option \<Rightarrow> quantity option \<Rightarrow> bool" where
  "watermarks_ok low high \<longleftrightarrow> (case (low, high) of
      (None, None) \<Rightarrow> False
    | (Some lo, Some hi) \<Rightarrow> MilliValue lo \<le> MilliValue hi
    | _ \<Rightarrow> True)"

definition metric_ok :: "MetricSpec \<Rightarrow> bool" where
  "metric_ok m \<longleftrightarrow>
     (ms_Type m = ExternalMetricSourceType \<and> (case ms_External m of None \<Rightarrow> False
        | Some e \<Rightarrow> ext_MetricSelector e \<noteq> None \<and> watermarks_ok (ext_LowWatermark e) (ext_HighWatermark e))) \<or>
     (ms_Type m = ResourceMetricSourceType \<and> (case ms_Resource m of None \<Rightarrow> False
        | Some r \<Rightarrow> res_MetricSelector r \<noteq> None \<and> watermarks_ok (res_LowWatermark r) (res_HighWatermark r)))"

lemma check_source_None_iff:
  "check_source w kind name sel low high = None \<longleftrightarrow> sel \<noteq> None \<and> watermarks_ok low high"
  by (auto simp: check_source_def watermarks_ok_def split: option.splits)

lemma check_metric_None_iff: "check_metric w m = None \<longleftrightarrow> metric_ok m"
  by (auto simp: check_metric_def metric_ok_def check_source_None_iff split: option.splits)

lemma check_metrics_None_iff: "check_metrics w ms = None \<longleftrightarrow> list_all metric_ok ms"
  by (induction ms) (auto simp: check_metric_None_iff [of w, symmetric] split: option.splits)

text \<open>The specification that the rest of the controller works on.\<close>

definition valid_spec :: "WatermarkPodAutoscalerSpec \<Rightarrow> bool" where
  "valid_spec sp \<longleftrightarrow>
     ref_Kind (ScaleTargetRef sp) \<noteq> [] \<and> ref_Name (ScaleTargetRef sp) \<noteq> [] \<and>
     (case MinReplicas sp of None \<Rightarrow> False | Some m \<Rightarrow> m \<le> MaxReplicas sp) \<and>
     0 \<le> MilliValue (Tolerance sp) \<and> MilliValue (Tolerance sp) \<le> 1000 \<and>
     (case ScaleUpLimitFactor sp of None \<Rightarrow> False | Some up \<Rightarrow> 0 \<le> MilliValue up) \<and>
     (case ScaleDownLimitFactor sp of None \<Rightarrow> False
      | Some down \<Rightarrow> 0 \<le> MilliValue down \<and> MilliValue down < 100000) \<and>
     (Recommender sp = None \<or> Metrics sp = []) \<and> list_all metric_ok (Metrics sp)"

lemma CheckWPAValidity_None_iff: "CheckWPAValidity w = None \<longleftrightarrow> valid_spec (Spec w)"
  by (auto simp: CheckWPAValidity_def valid_spec_def Let_def checkWPAMetricsValidity_def
      check_metrics_None_iff split: option.splits)

end
