(* ===== verification/Scaling_Rules.thy ===== *)
theory Scaling_Rules
  imports Conditions Api_Default
begin

text \<open>
  The rules that turn a proposed replica count into the one that is applied
  (\<open>calculateScaleUpLimit\<close>, \<open>calculateScaleDownLimit\<close>, \<open>convertDesiredReplicasWithRules\<close>,
  \<open>normalizeDesiredReplicas\<close>).  \<open>normalized\<close> is the rule as a function of integers; the program
  computes it with floats, and \<open>wp_convert\<close> shows that it computes the same.
\<close>

section \<open>Velocity limits\<close>

text \<open>
  \<open>math.Max(1, math.Floor(float64(factor.MilliValue())/1000*float64(currentReplicas)/100))\<close>,
  the largest step in one scaling event.
\<close>

definition limit_step :: "quantity \<Rightarrow> int \<Rightarrow> f64" where
  "limit_step factor currentReplicas =
     math_Max (float64 1) (math_Floor (f64_div (f64_mul (f64_div (float64 (MilliValue factor)) (float64 1000))
       (float64 currentReplicas)) (float64 100)))"

definition calculateScaleUpLimit :: "WatermarkPodAutoscalerSpec \<Rightarrow> int \<Rightarrow> int prog" where
  "calculateScaleUpLimit sp currentReplicas =
     go_bind (deref (ScaleUpLimitFactor sp)) (\<lambda>factor.
     if Value factor = 0 then go_return currentReplicas
     else go_return (int32_of_f64 (f64_add (float64 currentReplicas) (limit_step factor currentReplicas))))"

definition calculateScaleDownLimit :: "WatermarkPodAutoscalerSpec \<Rightarrow> int \<Rightarrow> int prog" where
  "calculateScaleDownLimit sp currentReplicas =
     go_bind (deref (ScaleDownLimitFactor sp)) (\<lambda>factor.
     if Value factor = 0 then go_return currentReplicas
     else go_return (int32_of_f64 (f64_sub (float64 currentReplicas) (limit_step factor currentReplicas))))"

section \<open>Normalisation\<close>

definition desiredCountAcceptable :: string where
  "desiredCountAcceptable = ''the desired count is within the acceptable range''"

definition convertDesiredReplicasWithRules ::
  "int \<Rightarrow> int \<Rightarrow> int \<Rightarrow> int \<Rightarrow> int \<Rightarrow> (int \<times> string \<times> string) prog" where
  "convertDesiredReplicasWithRules currentReplicas desiredReplicas wpaMinReplicas wpaMaxReplicas readyReplicas =
     go_bind (go_get wpa) (\<lambda>w.
     go_bind (calculateScaleDownLimit (Spec w) currentReplicas) (\<lambda>scaleDownLimit.
     let (minimumAllowedReplicas, downscaleCapping, limitingCondition, limitingReason) =
       (if wpaMinReplicas = 0 then (1, False, [], [])
        else if desiredReplicas < scaleDownLimit then
          (let m = int32_of_f64 (math_Max (float64 scaleDownLimit) (float64 wpaMinReplicas))
           in (if readyReplicas < m \<and> readyReplicas > 0 then currentReplicas else m, True, ''ScaleDownLimit'',
               ''the desired replica count is decreasing faster than the maximum scale rate''))
        else (wpaMinReplicas, False, ''TooFewReplicas'',
          ''the desired replica count is below the minimum replica count''))
     in
     go_bind (if desiredReplicas < minimumAllowedReplicas
        then go_return (minimumAllowedReplicas, False, limitingCondition, limitingReason)
        else go_bind (calculateScaleUpLimit (Spec w) currentReplicas) (\<lambda>scaleUpLimit.
          let (maximumAllowedReplicas, upscaleCapping, condition, reason) =
            (if desiredReplicas > scaleUpLimit
             then (int32_of_f64 (math_Min (float64 scaleUpLimit) (float64 wpaMaxReplicas)), True, ''ScaleUpLimit'',
               ''the desired replica count is increasing faster than the maximum scale rate'')
             else (wpaMaxReplicas, False, ''TooManyReplicas'',
               ''the desired replica count is above the maximum replica count''))
          in if desiredReplicas > maximumAllowedReplicas
             then go_return (maximumAllowedReplicas, upscaleCapping, condition, reason)
             else go_return (desiredReplicas, upscaleCapping, ''DesiredWithinRange'', desiredCountAcceptable)))
       (\<lambda>(normalizedReplicas, upscaleCapping, condition, reason).
     go_bind (emit (PromSet RestrictedScaling
         (AList.update reasonPromLabel downscaleCappingPromLabelVal (getPrometheusLabels w))
         (boolToFloat64 downscaleCapping))) (\<lambda>_.
     go_bind (emit (PromSet RestrictedScaling
         (AList.update reasonPromLabel upscaleCappingPromLabelVal (getPrometheusLabels w))
         (boolToFloat64 upscaleCapping))) (\<lambda>_.
     go_return (normalizedReplicas, condition, reason))))))"

definition normalizeDesiredReplicas :: "int \<Rightarrow> int \<Rightarrow> int \<Rightarrow> int prog" where
  "normalizeDesiredReplicas currentReplicas prenormalizedDesiredReplicas readyReplicas =
     go_bind (go_get (\<lambda>s. Spec (wpa s))) (\<lambda>sp.
     let minReplicas = (case MinReplicas sp of Some m \<Rightarrow> m | None \<Rightarrow> 0) in
     go_bind (convertDesiredReplicasWithRules currentReplicas prenormalizedDesiredReplicas minReplicas
        (MaxReplicas sp) readyReplicas) (\<lambda>(desiredReplicas, condition, reason).
     go_bind (if desiredReplicas = prenormalizedDesiredReplicas
        then setCondition ScalingLimited ConditionFalse condition reason
        else setCondition ScalingLimited ConditionTrue condition reason) (\<lambda>_.
     go_return desiredReplicas)))"

section \<open>The largest step\<close>

lemma of_int_floor_Max: "math_Max (float64 1) (Fin (of_int k)) = Fin (of_int (max 1 k))"
  by (simp add: float64_int32 fits32_def math_Max_def max_def)

lemma limit_step_eq:
  assumes "0 \<le> MilliValue f" "MilliValue f \<le> 100000" "0 \<le> cur" "fits32 cur"
  shows "limit_step f cur = Fin (of_int (max 1 \<lfloor>rnd_rat (rnd_rat (rnd_rat (of_int (MilliValue f) / 1000) * of_int cur) / 100)\<rfloor>))"
proof -
  define x1 where "x1 = rnd_rat (of_int (MilliValue f) / 1000)"
  define x2 where "x2 = rnd_rat (x1 * of_int cur)"
  have x1: "0 \<le> x1" "x1 \<le> 100"
    using assms rnd.ge_int [of 0 "of_int (MilliValue f) / 1000"] rnd.le_int [of "of_int (MilliValue f) / 1000" 100]
    by (simp_all add: x1_def)
  have cur: "(0::rat) \<le> of_int cur" "(of_int cur::rat) \<le> 2 ^ 31"
    using assms of_int_le_iff [of cur "2 ^ 31", where ?'a = rat] by (simp_all add: fits32_def)
  have p: "0 \<le> x1 * of_int cur" "x1 * of_int cur \<le> 100 * 2 ^ 31"
    using x1 cur mult_mono [of x1 100 "of_int cur" "2 ^ 31"] by simp_all
  have x2: "0 \<le> x2" "x2 \<le> 100 * 2 ^ 31"
    using p rnd.ge_int [of 0 "x1 * of_int cur"] rnd.le_int [of "x1 * of_int cur" "100 * 2 ^ 31"]
    by (simp_all add: x2_def)
  have 1: "f64_div (float64 (MilliValue f)) (float64 1000) = Fin x1"
    using assms f64_div_int [of "MilliValue f" 1000] by (simp add: float64_exact x1_def)
  have 2: "f64_mul (Fin x1) (float64 cur) = Fin x2"
    using p by (simp add: float64_int32 assms f64_mul.simps rnd_Fin x2_def)
  have 3: "f64_div (Fin x2) (float64 100) = Fin (rnd_rat (x2 / 100))"
    using x2 by (simp add: float64_int32 fits32_def f64_div.simps rnd_Fin)
  show ?thesis
    unfolding limit_step_def 1 2 3 by (simp add: of_int_floor_Max x1_def x2_def)
qed

lemma limit_step_bounds:
  assumes "0 \<le> MilliValue f" "MilliValue f < 100000" "1 \<le> cur" "fits32 cur"
  obtains k where "limit_step f cur = Fin (of_int k)" "1 \<le> k" "k \<le> max 1 (cur - 1)"
proof -
  define x1 where "x1 = rnd_rat (of_int (MilliValue f) / 1000)"
  define x2 where "x2 = rnd_rat (x1 * of_int cur)"
  have e: "2 powi - 10 = (1 / 1024 :: rat)" "2 powi - 17 = (1 / 131072 :: rat)"
    by (simp_all add: power_int_minus)
  have cur: "(1::rat) \<le> of_int cur" "(of_int cur::rat) < 2 ^ 31"
    using assms of_int_less_iff [of cur "2 ^ 31", where ?'a = rat] by (simp_all add: fits32_def)
  have "MilliValue f \<le> 99999" using assms(2) by simp
  then have "(of_int (MilliValue f) :: rat) \<le> of_int 99999" by (simp only: of_int_le_iff)
  then have "x1 \<le> of_int 102399 * 2 powi - 10"
    unfolding x1_def by (intro rnd_rat_le_fine) (simp_all add: e)
  then have "x1 * of_int cur \<le> of_int (102399 * cur) * 2 powi - 10"
    using cur by (simp add: e)
  then have "x2 \<le> of_int (102399 * cur) * 2 powi - 10"
    unfolding x2_def by (intro rnd_rat_le_fine) (use cur in \<open>simp_all add: e\<close>)
  then have "x2 / 100 \<le> of_int (131071 * cur) * 2 powi - 17"
    using cur by (simp add: e)
  then have "rnd_rat (x2 / 100) \<le> of_int (131071 * cur) * 2 powi - 17"
    by (intro rnd_rat_le_fine) (use cur in \<open>simp_all add: e\<close>)
  also have "\<dots> < of_int cur" using cur by (simp add: e)
  finally have "\<lfloor>rnd_rat (x2 / 100)\<rfloor> < cur" by (simp add: floor_less_iff)
  then have "max 1 \<lfloor>rnd_rat (x2 / 100)\<rfloor> \<le> max 1 (cur - 1)" by simp
  then show ?thesis
    using assms limit_step_eq [of f cur] that by (simp add: x1_def x2_def)
qed

lemma limit_step_le:
  assumes "0 \<le> MilliValue f" "MilliValue f \<le> 100000" "1 \<le> cur" "fits32 cur"
  obtains k where "limit_step f cur = Fin (of_int k)" "1 \<le> k" "k \<le> cur"
proof -
  define x1 where "x1 = rnd_rat (of_int (MilliValue f) / 1000)"
  define x2 where "x2 = rnd_rat (x1 * of_int cur)"
  have "x1 \<le> 100"
    using assms rnd.le_int [of "of_int (MilliValue f) / 1000" 100] by (simp add: x1_def)
  then have "x1 * of_int cur \<le> of_int (100 * cur)" using assms(3) by simp
  then have "x2 \<le> of_int (100 * cur)"
    unfolding x2_def using assms(3,4) by (intro rnd.le_int) (simp_all add: fits32_def)
  then have "rnd_rat (x2 / 100) \<le> of_int cur"
    using assms(3,4) by (intro rnd.le_int) (simp_all add: fits32_def)
  then have "\<lfloor>rnd_rat (x2 / 100)\<rfloor> \<le> cur" by linarith
  then have "max 1 \<lfloor>rnd_rat (x2 / 100)\<rfloor> \<le> cur" using assms(3) by simp
  then show ?thesis
    using assms limit_step_eq [of f cur] that by (simp add: x1_def x2_def)
qed

text \<open>A whole percentage is computed exactly.\<close>

lemma limit_step_percent:
  assumes "MilliValue f = 1000 * p" "0 \<le> p" "0 \<le> cur" "fits32 cur" "1000 * p \<le> 2 ^ 53" "p * cur < 2 ^ 53"
  shows "limit_step f cur = Fin (of_int (max 1 (p * cur div 100)))"
proof -
  have 1: "f64_div (float64 (MilliValue f)) (float64 1000) = Fin (of_int p)"
    using assms f64_div_int [of "1000 * p" 1000] rnd.exact [of p] by (simp add: float64_exact)
  have 2: "f64_mul (Fin (of_int p)) (float64 cur) = Fin (of_int (p * cur))"
    using assms f64_mul_int [of p cur] by (simp add: float64_int32)
  have 3: "math_Floor (f64_div (Fin (of_int (p * cur))) (float64 100)) = Fin (of_int (p * cur div 100))"
    using assms f64_div_int [of "p * cur" 100] rnd.floor_quotient [of "p * cur" 100]
    by (simp add: float64_exact)
  show ?thesis
    unfolding limit_step_def 1 2 3 by (rule of_int_floor_Max)
qed

section \<open>Facts about the limits\<close>

definition up_limit :: "quantity \<Rightarrow> int \<Rightarrow> int" where
  "up_limit factor cur = (if Value factor = 0 then cur
     else int32_of_f64 (f64_add (float64 cur) (limit_step factor cur)))"

definition down_limit :: "quantity \<Rightarrow> int \<Rightarrow> int" where
  "down_limit factor cur = (if Value factor = 0 then cur
     else int32_of_f64 (f64_sub (float64 cur) (limit_step factor cur)))"

lemma wp_calculateScaleUpLimit [go_wp]:
  "wp (calculateScaleUpLimit sp cur) Q R s =
     (case ScaleUpLimitFactor sp of None \<Rightarrow> R NilDereference s | Some f \<Rightarrow> Q (up_limit f cur) s)"
  by (simp add: calculateScaleUpLimit_def up_limit_def go_wp split: option.splits)

lemma wp_calculateScaleDownLimit [go_wp]:
  "wp (calculateScaleDownLimit sp cur) Q R s =
     (case ScaleDownLimitFactor sp of None \<Rightarrow> R NilDereference s | Some f \<Rightarrow> Q (down_limit f cur) s)"
  by (simp add: calculateScaleDownLimit_def down_limit_def go_wp split: option.splits)

lemma up_limit_step:
  assumes "Value f \<noteq> 0" "limit_step f cur = Fin (of_int k)" "fits32 cur" "fits32 (cur + k)"
  shows "up_limit f cur = cur + k"
proof -
  have "rnd (of_int cur + of_int k) = Fin (of_int (cur + k))"
    using rnd_int [of "cur + k"] assms(4) by (simp add: fits32_def abs_le_iff)
  then show ?thesis
    using assms trunc_of_int [of "cur + k"] by (simp add: up_limit_def float64_int32 f64_add.simps del: trunc_of_int)
qed

lemma down_limit_step:
  assumes "Value f \<noteq> 0" "limit_step f cur = Fin (of_int k)" "fits32 cur" "fits32 (cur - k)"
  shows "down_limit f cur = cur - k"
proof -
  have "rnd (of_int cur - of_int k) = Fin (of_int (cur - k))"
    using rnd_int [of "cur - k"] assms(4) by (simp add: fits32_def abs_le_iff)
  then show ?thesis
    using assms trunc_of_int [of "cur - k"]
    by (simp add: down_limit_def float64_int32 f64_add.simps f64_sub_def del: trunc_of_int)
qed

lemma down_limit_range:
  assumes "0 \<le> MilliValue f" "MilliValue f < 100000" "1 \<le> cur" "fits32 cur"
  shows "0 \<le> down_limit f cur \<and> down_limit f cur \<le> cur \<and>
    (Value f \<noteq> 0 \<longrightarrow> down_limit f cur < cur) \<and> (Value f = 0 \<longrightarrow> down_limit f cur = cur) \<and>
    (2 \<le> cur \<longrightarrow> 1 \<le> down_limit f cur)"
proof (cases "Value f = 0")
  case True
  then show ?thesis using assms by (simp add: down_limit_def)
next
  case False
  obtain k where k: "limit_step f cur = Fin (of_int k)" "1 \<le> k" "k \<le> max 1 (cur - 1)"
    using assms by (rule limit_step_bounds)
  have "fits32 (cur - k)" using k assms by (auto simp: fits32_def)
  then show ?thesis using k False assms down_limit_step [OF False k(1)] by auto
qed

lemma up_limit_range:
  assumes "0 \<le> MilliValue f" "MilliValue f \<le> 100000" "1 \<le> cur" "cur < 2 ^ 30"
  shows "cur \<le> up_limit f cur \<and> up_limit f cur \<le> 2 * cur \<and>
    (Value f \<noteq> 0 \<longrightarrow> cur < up_limit f cur) \<and> (Value f = 0 \<longrightarrow> up_limit f cur = cur)"
proof (cases "Value f = 0")
  case True
  then show ?thesis using assms by (simp add: up_limit_def)
next
  case False
  have c: "fits32 cur" using assms by (simp add: fits32_def)
  obtain k where k: "limit_step f cur = Fin (of_int k)" "1 \<le> k" "k \<le> cur"
    using assms(1-3) c by (rule limit_step_le)
  have "fits32 (cur + k)" using k assms by (auto simp: fits32_def)
  then show ?thesis using k False c up_limit_step [OF False k(1)] by auto
qed

section \<open>Normalisation as a function\<close>

definition lower_limit :: "int \<Rightarrow> int \<Rightarrow> int \<Rightarrow> int \<Rightarrow> int \<Rightarrow> int" where
  "lower_limit down minR cur desired ready =
     (if minR = 0 then 1
      else if desired < down then
        (if ready < max down minR \<and> ready > 0 then cur else max down minR)
      else minR)"

definition upper_limit :: "int \<Rightarrow> int \<Rightarrow> int \<Rightarrow> int" where
  "upper_limit up maxR desired = (if desired > up then min up maxR else maxR)"

definition normalized :: "int \<Rightarrow> int \<Rightarrow> int \<Rightarrow> int \<Rightarrow> int \<Rightarrow> int \<Rightarrow> int \<Rightarrow> int" where
  "normalized down up minR maxR cur desired ready =
     (let lo = lower_limit down minR cur desired ready in
      if desired < lo then lo else min desired (upper_limit up maxR desired))"

lemma Max_int32: "fits32 a \<Longrightarrow> fits32 b \<Longrightarrow> int32_of_f64 (math_Max (float64 a) (float64 b)) = max a b"
  by (auto simp: float64_int32 math_Max_def max_def)

lemma Min_int32: "fits32 a \<Longrightarrow> fits32 b \<Longrightarrow> int32_of_f64 (math_Min (float64 a) (float64 b)) = min a b"
  by (auto simp: float64_int32 math_Min_def min_def)

lemma fits32_limits [simp]: "fits32 cur \<Longrightarrow> fits32 (up_limit f cur)" "fits32 cur \<Longrightarrow> fits32 (down_limit f cur)"
  by (simp_all add: up_limit_def down_limit_def)

lemma framed_calculateScaleLimits [framed_intros]:
  "framed (calculateScaleUpLimit sp cur)" "framed (calculateScaleDownLimit sp cur)"
  unfolding calculateScaleUpLimit_def calculateScaleDownLimit_def by (intro framed_intros)+

lemma framed_convert [framed_intros]: "framed (convertDesiredReplicasWithRules cur des lo hi ready)"
  unfolding convertDesiredReplicasWithRules_def by (intro framed_intros) (auto simp: insert_commute defaultPromLabels_def)

lemma framed_normalize [framed_intros]: "framed (normalizeDesiredReplicas cur des ready)"
  unfolding normalizeDesiredReplicas_def by (intro framed_intros)

text \<open>Which rule the result comes from, as it is reported in the condition.\<close>

definition limit_rule :: "int \<Rightarrow> int \<Rightarrow> int \<Rightarrow> int \<Rightarrow> int \<Rightarrow> int \<Rightarrow> int \<Rightarrow> string" where
  "limit_rule down up minR maxR cur desired ready =
     (if desired < lower_limit down minR cur desired ready then
        (if minR = 0 then [] else if desired < down then ''ScaleDownLimit'' else ''TooFewReplicas'')
      else if desired > upper_limit up maxR desired then
        (if desired > up then ''ScaleUpLimit'' else ''TooManyReplicas'')
      else ''DesiredWithinRange'')"

definition restricted :: "world \<Rightarrow> string \<Rightarrow> bool \<Rightarrow> effect" where
  "restricted s reason b = PromSet RestrictedScaling
     (AList.update reasonPromLabel reason (getPrometheusLabels (wpa s))) (boolToFloat64 b)"

definition after_convert :: "int \<Rightarrow> int \<Rightarrow> int \<Rightarrow> int \<Rightarrow> int \<Rightarrow> int \<Rightarrow> world \<Rightarrow> world" where
  "after_convert down up minR cur des ready s = s\<lparr>trace := trace s @ [
     restricted s downscaleCappingPromLabelVal (minR \<noteq> 0 \<and> des < down),
     restricted s upscaleCappingPromLabelVal (\<not> des < lower_limit down minR cur des ready \<and> des > up)]\<rparr>"

lemma wp_convert:
  assumes "ScaleUpLimitFactor (Spec (wpa s)) = Some up" "ScaleDownLimitFactor (Spec (wpa s)) = Some down"
    and fits: "fits32 cur" "fits32 minR" "fits32 maxR"
  shows "wp (convertDesiredReplicasWithRules cur des minR maxR ready)
     (\<lambda>(n, c, r) s'. n = normalized (down_limit down cur) (up_limit up cur) minR maxR cur des ready \<and>
        c = limit_rule (down_limit down cur) (up_limit up cur) minR maxR cur des ready \<and>
        s' = after_convert (down_limit down cur) (up_limit up cur) minR cur des ready s)
     (\<lambda>_ _. False) s"
proof -
  define dl ul where "dl = down_limit down cur" and "ul = up_limit up cur"
  have m: "int32_of_f64 (math_Max (float64 dl) (float64 minR)) = max dl minR"
    "int32_of_f64 (math_Min (float64 ul) (float64 maxR)) = min ul maxR"
    using fits by (simp_all add: dl_def ul_def Max_int32 Min_int32)
  note defs = convertDesiredReplicasWithRules_def after_convert_def normalized_def lower_limit_def
    upper_limit_def restricted_def limit_rule_def go_wp Let_def m
  consider "minR = 0" | "minR \<noteq> 0" "des < dl" "ready < max dl minR" "0 < ready" | "minR \<noteq> 0" "des < dl" "\<not> (ready < max dl minR \<and> 0 < ready)"
    | "minR \<noteq> 0" "\<not> des < dl" by blast
  then show ?thesis
    using assms(1,2) unfolding dl_def [symmetric] ul_def [symmetric]
    by cases (auto simp: defs dl_def [symmetric] ul_def [symmetric])
qed

section \<open>Arithmetic of the normalisation\<close>

lemma normalized_range:
  assumes "0 \<le> minR" "minR \<le> cur" "cur \<le> maxR" "1 \<le> cur" "down \<le> cur" "cur \<le> up"
    and "n = normalized down up minR maxR cur desired ready"
  shows "max 1 minR \<le> n" "n \<le> maxR" "n \<le> up" "minR \<noteq> 0 \<Longrightarrow> down \<le> n"
    "cur \<le> desired \<Longrightarrow> cur \<le> n \<and> n \<le> desired" "desired \<le> cur \<Longrightarrow> n \<le> cur"
  using assms by (auto simp: normalized_def lower_limit_def upper_limit_def min_def max_def Let_def)

lemma normalized_id:
  assumes "max 1 minR \<le> desired" "desired \<le> maxR" "down \<le> desired" "desired \<le> up"
  shows "normalized down up minR maxR cur desired ready = desired"
  using assms by (auto simp: normalized_def lower_limit_def upper_limit_def)

definition min_or_zero :: "WatermarkPodAutoscalerSpec \<Rightarrow> int" where
  "min_or_zero sp = (case MinReplicas sp of Some m \<Rightarrow> m | None \<Rightarrow> 0)"

lemma after_convert_wpa [simp]: "wpa (after_convert d u mi cur des ready s) = wpa s"
  by (simp add: after_convert_def)

lemma store_ok_after_convert [simp]: "store_ok (after_convert d u mi cur des ready s) = store_ok s"
  by (simp add: store_ok_def)

lemma wp_normalize:
  assumes "ScaleUpLimitFactor (Spec (wpa s)) = Some up" "ScaleDownLimitFactor (Spec (wpa s)) = Some down"
    and "fits32 cur" "spec_typed (Spec (wpa s))" "store_ok s"
    and n_def: "n = normalized (down_limit down cur) (up_limit up cur) (min_or_zero (Spec (wpa s)))
     (MaxReplicas (Spec (wpa s))) cur des ready"
  shows "wp (normalizeDesiredReplicas cur des ready)
     (\<lambda>r s'. r = n \<and> store_ok s' \<and> frame s s' \<and> (\<exists>c. cond_of s' ScalingLimited = Some c \<and>
        cond_Status c = (if n = des then ConditionFalse else ConditionTrue)))
     (\<lambda>_ _. False) s"
proof -
  let ?m = "min_or_zero (Spec (wpa s))" and ?x = "MaxReplicas (Spec (wpa s))"
  have f: "fits32 ?m" "fits32 ?x"
    using assms(4) by (auto simp: spec_typed_def min_or_zero_def fits32_def split: option.splits)
  have fr: "wp (convertDesiredReplicasWithRules cur des ?m ?x ready) (\<lambda>_. frame s) (\<lambda>_. frame s) s"
    using framed_convert by (simp add: framed_def)
  have c: "wp (convertDesiredReplicasWithRules cur des ?m ?x ready)
     (\<lambda>(r, _) s'. r = n \<and> store_ok s' \<and> frame s s') (\<lambda>_ _. False) s"
    by (rule wp_mono [OF wp_conj [THEN iffD2, OF conjI, OF wp_convert [OF assms(1-3) f] fr]])
      (use assms(5) in \<open>auto simp: n_def\<close>)
  show ?thesis
    unfolding normalizeDesiredReplicas_def go_wp Let_def min_or_zero_def [symmetric]
    by (rule wp_mono [OF c])
      (auto simp: go_wp cond_of_after_set intro: frame_trans [OF _ frame_after_set])
qed

end
