(* ===== verification/Scale_Decision.thy ===== *)
theory Scale_Decision
  imports Scaling_Rules
begin

text \<open>
  Whether a change of the replica count is applied now: \<open>canScaleAfterDelay\<close> and
  \<open>shouldScale\<close>.  \<open>wp_shouldScale\<close> is the decision as a formula: the direction's forbidden
  window has passed since the last scaling event, and the value has been out of bounds for the
  direction's delay, unless there is no delay or every metric is within its watermarks.
\<close>

section \<open>Whether to scale now\<close>

text \<open>\<open>time.Duration.Seconds()\<close>\<close>

definition duration_Seconds :: "duration \<Rightarrow> f64" where
  "duration_Seconds d =
     f64_add (float64 (d sdiv 1000000000)) (f64_div (float64 (d smod 1000000000)) (float64 1000000000))"

definition canScaleAfterDelay :: "bool \<Rightarrow> condition \<Rightarrow> int \<Rightarrow> bool \<Rightarrow> bool prog" where
  "canScaleAfterDelay isBackoff wasOutOfBounds decisionDelay isStable =
     (if decisionDelay = 0 \<or> isStable then go_return (\<not> isBackoff)
      else go_bind go_now (\<lambda>now.
        let scaleDelay = int32 (decisionDelay -
          int32_of_f64 (duration_Seconds (time_sub now (LastTransitionTime wasOutOfBounds))))
        in if scaleDelay > 0 \<or> cond_Status wasOutOfBounds \<noteq> ConditionTrue then go_return False
           else go_return (\<not> isBackoff)))"

text \<open>The value and the error of \<open>getCondition\<close>: on an error the empty condition is marked false.\<close>

definition condition_or_false :: "WatermarkPodAutoscalerStatus \<Rightarrow> string \<Rightarrow> condition" where
  "condition_or_false st t = (case getCondition st t of
     Inr c \<Rightarrow> c
   | Inl _ \<Rightarrow> (empty_condition [])\<lparr>cond_Status := ConditionFalse\<rparr>)"

definition shouldScale :: "int \<Rightarrow> int \<Rightarrow> time \<Rightarrow> bool \<Rightarrow> bool prog" where
  "shouldScale currentReplicas desiredReplicas timestamp isStable =
     go_bind (go_get wpa) (\<lambda>w.
     case LastScaleTime (Status w) of None \<Rightarrow> go_return True | Some lastScaleTime \<Rightarrow>
     let downscaleForbiddenWindow = seconds (DownscaleForbiddenWindowSeconds (Spec w));
         downscaleCountdown = duration_Seconds (time_sub (lastScaleTime + downscaleForbiddenWindow) timestamp);
         backoffDown = f64_less (float64 0) downscaleCountdown;
         downLabels = AList.update transitionPromLabel ''downscale'' (getPrometheusLabels w) in
     go_bind (if backoffDown then
         go_bind (emit (PromSet TransitionCountdown downLabels downscaleCountdown)) (\<lambda>_.
         setCondition AbleToScale ConditionFalse ConditionReasonBackOffDownscale
           ''the time since the previous scale is still within the downscale forbidden window'')
       else emit (PromSet TransitionCountdown downLabels (float64 0))) (\<lambda>_.
     let upscaleForbiddenWindow = seconds (UpscaleForbiddenWindowSeconds (Spec w));
         upscaleCountdown = duration_Seconds (time_sub (lastScaleTime + upscaleForbiddenWindow) timestamp);
         backoffUp = f64_less (float64 0) upscaleCountdown;
         upLabels = AList.update transitionPromLabel ''upscale'' (getPrometheusLabels w) in
     go_bind (if backoffUp then
         go_bind (emit (PromSet TransitionCountdown upLabels upscaleCountdown)) (\<lambda>_.
         if backoffDown then
           setCondition AbleToScale ConditionFalse ConditionReasonBackOff
             ''the time since the previous scale is still within both the downscale and upscale forbidden windows''
         else setCondition AbleToScale ConditionFalse ConditionReasonBackOffUpscale
             ''the time since the previous scale is still within the upscale forbidden window'')
       else emit (PromSet TransitionCountdown upLabels (float64 0))) (\<lambda>_.
     go_bind (go_get (\<lambda>s. Status (wpa s))) (\<lambda>st.
     let hasBeenAbove = condition_or_false st AboveHighWatermark;
         hasBeenBelow = condition_or_false st BelowLowWatermark in
     if desiredReplicas > currentReplicas then
       canScaleAfterDelay backoffUp hasBeenAbove (UpscaleDelayAboveWatermarkSeconds (Spec w)) isStable
     else if desiredReplicas < currentReplicas then
       canScaleAfterDelay backoffDown hasBeenBelow (DownscaleDelayBelowWatermarkSeconds (Spec w)) isStable
     else go_return False))))"

section \<open>Seconds of a duration\<close>

lemma duration_parts:
  assumes "fits64 d"
  shows "\<bar>d sdiv 1000000000\<bar> \<le> 2 ^ 34" "\<bar>d smod 1000000000\<bar> < 1000000000"
    "d = d sdiv 1000000000 * 1000000000 + d smod 1000000000"
    "0 \<le> d \<Longrightarrow> 0 \<le> d sdiv 1000000000 \<and> 0 \<le> d smod 1000000000"
    "d \<le> 0 \<Longrightarrow> d sdiv 1000000000 \<le> 0 \<and> d smod 1000000000 \<le> 0"
proof -
  have pos: "0 \<le> x \<Longrightarrow> x sdiv 1000000000 = x div 1000000000" for x :: int
    by (simp add: sdiv_nonneg_pos)
  have neg: "d < 0 \<Longrightarrow> d sdiv 1000000000 = - ((- d) div 1000000000)"
    by (simp add: signed_divide_int_def)
  have m: "d smod 1000000000 = d - d sdiv 1000000000 * 1000000000"
    using sdiv_mult_smod_eq [of d 1000000000] by linarith
  show "\<bar>d sdiv 1000000000\<bar> \<le> 2 ^ 34" "\<bar>d smod 1000000000\<bar> < 1000000000"
    "d = d sdiv 1000000000 * 1000000000 + d smod 1000000000"
    "0 \<le> d \<Longrightarrow> 0 \<le> d sdiv 1000000000 \<and> 0 \<le> d smod 1000000000"
    "d \<le> 0 \<Longrightarrow> d sdiv 1000000000 \<le> 0 \<and> d smod 1000000000 \<le> 0"
    using assms m pos [of d] neg by (cases "0 \<le> d"; simp add: fits64_def; linarith)+
qed

lemma duration_Seconds_eq:
  assumes "fits64 d"
  shows "duration_Seconds d = Fin (rnd_rat (of_int (d sdiv 1000000000) +
     rnd_rat (of_int (d smod 1000000000) / 1000000000)))"
proof -
  define q r where "q = d sdiv 1000000000" and "r = d smod 1000000000"
  have b: "\<bar>q\<bar> \<le> 2 ^ 34" "\<bar>r\<bar> < 1000000000"
    using duration_parts [OF assms] by (simp_all add: q_def r_def)
  have f: "\<bar>rnd_rat (of_int r / 1000000000)\<bar> \<le> 1"
    using b rnd.le_int [of "of_int r / 1000000000" 1] rnd.ge_int [of "-1" "of_int r / 1000000000"]
      of_int_less_iff [of r 1000000000, where ?'a = rat] of_int_less_iff [of "-1000000000" r, where ?'a = rat]
    by (simp add: abs_le_iff abs_less_iff)
  have q: "\<bar>of_int q :: rat\<bar> \<le> 2 ^ 34"
    using b(1) by (metis of_int_abs of_int_le_iff of_int_numeral of_int_power)
  have "\<bar>of_int q + rnd_rat (of_int r / 1000000000)\<bar> \<le> 2 ^ 100"
    using f q by (simp add: abs_le_iff)
  then show ?thesis
    using b f64_div_int [of r 1000000000]
    by (simp add: duration_Seconds_def q_def [symmetric] r_def [symmetric] float64_exact f64_add.simps rnd_Fin)
qed

lemma countdown_positive:
  assumes "fits64 d"
  shows "f64_less (float64 0) (duration_Seconds d) \<longleftrightarrow> 0 < d"
proof -
  define q r where "q = d sdiv 1000000000" and "r = d smod 1000000000"
  define f where "f = rnd_rat (of_int r / 1000000000)"
  note p = duration_parts [OF assms, folded q_def r_def]
  have "0 < rnd_rat (of_int q + f) \<longleftrightarrow> 0 < d"
  proof (cases "0 < d")
    case True
    then have q0: "0 \<le> q" and r0: "0 \<le> r" using p(4) by auto
    have f0: "0 \<le> f" unfolding f_def using r0 by (intro rnd_rat_nonneg) simp
    show ?thesis
    proof (cases "q = 0")
      case False
      then have "of_int 1 \<le> of_int q + f" using q0 f0 by simp
      then have "of_int 1 \<le> rnd_rat (of_int q + f)" by (rule rnd.ge_int) simp
      then show ?thesis using True by simp
    next
      case q: True
      then have "1 \<le> r" using True p(3) by simp
      then have "of_int 1 * 2 powi - 31 \<le> (of_int r / 1000000000 :: rat)"
        by (simp add: power_int_minus field_simps)
      then have f: "of_int 1 * 2 powi - 31 \<le> f"
        unfolding f_def by (rule rnd_rat_ge_fine) (simp_all add: power_int_minus)
      have "of_int 1 * 2 powi - 31 \<le> rnd_rat f"
        using f by (rule rnd_rat_ge_fine) (simp_all add: power_int_minus)
      then show ?thesis using True q by (simp add: power_int_minus less_le_trans [rotated])
    qed
  next
    case False
    then have q0: "q \<le> 0" and r0: "r \<le> 0" using p(5) by auto
    have "f \<le> of_int 0" unfolding f_def using r0 by (intro rnd.le_int) simp_all
    then have "of_int q + f \<le> of_int 0" using q0 by simp
    then have "rnd_rat (of_int q + f) \<le> of_int 0" by (rule rnd.le_int) simp
    then show ?thesis using False by simp
  qed
  then show ?thesis
    by (simp add: duration_Seconds_eq [OF assms] f_def q_def r_def float64_int32 fits32_def)
qed

text \<open>Up to \<open>2 ^ 22\<close> seconds the float has the whole number of seconds.\<close>

lemma whole_seconds:
  assumes "0 \<le> d" "d < 2 ^ 22 * 1000000000"
  shows "int32_of_f64 (duration_Seconds d) = d div 1000000000"
proof -
  define q r where "q = d sdiv 1000000000" and "r = d smod 1000000000"
  define f where "f = rnd_rat (of_int r / 1000000000)"
  have fits: "fits64 d" using assms by (simp add: fits64_def)
  note p = duration_parts [OF fits, folded q_def r_def]
  have q: "q = d div 1000000000" using assms(1) by (simp add: q_def sdiv_nonneg_pos)
  have qb: "0 \<le> q" "q < 2 ^ 22" using assms by (simp_all add: q pos_imp_zdiv_nonneg_iff div_less_iff_less_mult)
  have qr: "(of_int q :: rat) + 1 \<le> 2 ^ 22"
    using qb(2) of_int_le_iff [of "q + 1" "2 ^ 22", where ?'a = rat] by simp
  have r: "0 \<le> r" "r \<le> 999999999" using p(2,4) assms(1) by auto
  have e: "2 powi - 31 = (1 / 2147483648 :: rat)" by (simp add: power_int_minus)
  have "of_int r \<le> (of_int 999999999 :: rat)" using r(2) by (simp only: of_int_le_iff)
  then have "of_int r / 1000000000 \<le> (of_int (2 ^ 31 - 1) * 2 powi - 31 :: rat)" by (simp add: e)
  then have f: "f \<le> of_int (2 ^ 31 - 1) * 2 powi - 31"
    unfolding f_def by (rule rnd_rat_le_fine) (simp_all add: e)
  have f0: "0 \<le> f" unfolding f_def using r by (intro rnd_rat_nonneg) simp
  from f have u: "of_int q + f \<le> of_int (q * 2 ^ 31 + 2 ^ 31 - 1) * 2 powi - 31"
    by (simp add: e field_simps)
  have "rnd_rat (of_int q + f) \<le> of_int (q * 2 ^ 31 + 2 ^ 31 - 1) * 2 powi - 31"
    using u by (rule rnd_rat_le_fine) (use qb qr in \<open>simp_all add: e\<close>)
  then have hi: "rnd_rat (of_int q + f) < of_int q + 1"
    by (simp add: e field_simps)
  have lo: "of_int q \<le> rnd_rat (of_int q + f)"
    using f0 qb by (intro rnd.ge_int) simp_all
  have "trunc (rnd_rat (of_int q + f)) = q"
    using lo hi qb by (simp add: trunc_def floor_eq_iff)
  then show ?thesis
    using qb q by (simp add: duration_Seconds_eq [OF fits] f_def q_def r_def fits32_def)
qed

section \<open>The decision to scale\<close>

definition delay_elapsed :: "time \<Rightarrow> condition \<Rightarrow> int \<Rightarrow> bool" where
  "delay_elapsed now c delay \<longleftrightarrow> cond_Status c = ConditionTrue \<and>
     int32 (delay - int32_of_f64 (duration_Seconds (time_sub now (LastTransitionTime c)))) \<le> 0"

lemma delay_elapsed_iff:
  assumes "0 \<le> delay" "fits32 delay" "LastTransitionTime c \<le> now"
    "now - LastTransitionTime c < 2 ^ 22 * 1000000000"
  shows "delay_elapsed now c delay \<longleftrightarrow>
     cond_Status c = ConditionTrue \<and> LastTransitionTime c + delay * 1000000000 \<le> now"
proof -
  define d where "d = now - LastTransitionTime c"
  have d: "0 \<le> d" "d < 2 ^ 22 * 1000000000" using assms by (simp_all add: d_def)
  have sub: "time_sub now (LastTransitionTime c) = d"
    using d by (simp add: time_sub_def d_def [symmetric])
  have w: "int32_of_f64 (duration_Seconds d) = d div 1000000000"
    using d by (rule whole_seconds)
  have q: "0 \<le> d div 1000000000" "d div 1000000000 < 2 ^ 22"
    using d by (simp_all add: pos_imp_zdiv_nonneg_iff div_less_iff_less_mult)
  then have "fits32 (delay - d div 1000000000)" using assms by (simp add: fits32_def)
  then have "int32 (delay - d div 1000000000) \<le> 0 \<longleftrightarrow> delay * 1000000000 \<le> d"
    by (simp add: int32_id, linarith)
  then show ?thesis by (auto simp: delay_elapsed_def sub w) (simp_all add: d_def)
qed

lemma wp_canScaleAfterDelay [go_wp]:
  "wp (canScaleAfterDelay backoff c delay isStable) Q R s =
     (if delay = 0 \<or> isStable then Q (\<not> backoff) s
      else Q (\<not> backoff \<and> delay_elapsed (clock s (ticks s)) c delay) (s\<lparr>ticks := Suc (ticks s)\<rparr>))"
  by (auto simp: canScaleAfterDelay_def delay_elapsed_def go_wp Let_def)

lemma framed_canScaleAfterDelay [framed_intros]: "framed (canScaleAfterDelay b c d st)"
  unfolding canScaleAfterDelay_def Let_def by (intro framed_intros)

lemma framed_shouldScale [framed_intros]: "framed (shouldScale cur des ts isStable)"
  unfolding shouldScale_def Let_def
  by (intro framed_intros) (auto simp: insert_commute defaultPromLabels_def)

text \<open>The settings that govern a change in the direction from \<open>cur\<close> to \<open>des\<close>.\<close>

definition forbidden_window :: "WatermarkPodAutoscalerSpec \<Rightarrow> int \<Rightarrow> int \<Rightarrow> int" where
  "forbidden_window sp cur des =
     (if des > cur then UpscaleForbiddenWindowSeconds sp else DownscaleForbiddenWindowSeconds sp)"

definition watermark_delay :: "WatermarkPodAutoscalerSpec \<Rightarrow> int \<Rightarrow> int \<Rightarrow> int" where
  "watermark_delay sp cur des = (if des > cur then UpscaleDelayAboveWatermarkSeconds sp
     else DownscaleDelayBelowWatermarkSeconds sp)"

definition watermark_condition :: "int \<Rightarrow> int \<Rightarrow> string" where
  "watermark_condition cur des = (if des > cur then AboveHighWatermark else BelowLowWatermark)"

definition watermark_held :: "world \<Rightarrow> time \<Rightarrow> int \<Rightarrow> int \<Rightarrow> bool" where
  "watermark_held s now cur des \<longleftrightarrow> (case cond_of s (watermark_condition cur des) of
     None \<Rightarrow> False
   | Some c \<Rightarrow> delay_elapsed now c (watermark_delay (Spec (wpa s)) cur des))"

lemma backoff_iff:
  "fits32 w \<Longrightarrow> f64_less (float64 0) (duration_Seconds (time_sub (lastScale + seconds w) ts)) \<longleftrightarrow>
     ts < lastScale + w * 1000000000"
  by (simp add: countdown_positive fits64_time_sub time_sub_pos_iff seconds_eq)

lemma delay_condition_or_false:
  "delay_elapsed now (condition_or_false (Status (wpa s)) t) d \<longleftrightarrow>
     (case cond_of s t of None \<Rightarrow> False | Some c \<Rightarrow> delay_elapsed now c d)"
  by (simp add: condition_or_false_def getCondition_def cond_of_def delay_elapsed_def split: option.splits)

text \<open>Only the condition \<open>AbleToScale\<close> is written before the watermark conditions are read.\<close>

definition only_able :: "world \<Rightarrow> world \<Rightarrow> bool" where
  "only_able s s' \<longleftrightarrow> store_ok s' \<and> frame s s' \<and> (\<forall>t. t \<noteq> AbleToScale \<longrightarrow> cond_of s' t = cond_of s t)"

lemma only_able_steps:
  "store_ok s \<Longrightarrow> only_able s s"
  "only_able s s' \<Longrightarrow> only_able s (after_set AbleToScale st r m s')"
  "only_able s s' \<Longrightarrow> quiet (extraPromLabels s') e \<Longrightarrow> only_able s (s'\<lparr>trace := trace s' @ [e]\<rparr>)"
  by (auto simp: only_able_def cond_of_after_set intro: frame_trans [OF _ frame_after_set])
     (auto simp: cond_of_def store_ok_def intro: frame_emit)


lemma wp_shouldScale:
  assumes ok: "store_ok s" and ty: "spec_typed (Spec (wpa s))"
    and lastScale: "LastScaleTime (Status (wpa s)) = Some lastScale"
  shows "wp (shouldScale cur des ts isStable)
     (\<lambda>b s'. b \<longleftrightarrow> des \<noteq> cur \<and> lastScale + forbidden_window (Spec (wpa s)) cur des * 1000000000 \<le> ts \<and>
        (isStable \<or> watermark_delay (Spec (wpa s)) cur des = 0 \<or>
         watermark_held s (clock s (ticks s' - 1)) cur des))
     (\<lambda>_ _. False) s"
proof -
  have fits: "fits32 (DownscaleForbiddenWindowSeconds (Spec (wpa s)))"
    "fits32 (UpscaleForbiddenWindowSeconds (Spec (wpa s)))"
    using ty by (simp_all add: spec_typed_def)
  let ?b1 = "f64_less (float64 0) (duration_Seconds (time_sub (lastScale + seconds (DownscaleForbiddenWindowSeconds (Spec (wpa s)))) ts))"
  let ?b2 = "f64_less (float64 0) (duration_Seconds (time_sub (lastScale + seconds (UpscaleForbiddenWindowSeconds (Spec (wpa s)))) ts))"
  note b = backoff_iff [OF fits(1)] backoff_iff [OF fits(2)]
  have q: "quiet extra (PromSet TransitionCountdown (AList.update transitionPromLabel x (getPrometheusLabels w)) v)"
    for extra x w v by (auto simp: defaultPromLabels_def)
  have tail: "only_able s s2 \<Longrightarrow> wp (let hasBeenAbove = condition_or_false (Status (wpa s2)) AboveHighWatermark;
         hasBeenBelow = condition_or_false (Status (wpa s2)) BelowLowWatermark in
     if des > cur then
       canScaleAfterDelay ?b2 hasBeenAbove (UpscaleDelayAboveWatermarkSeconds (Spec (wpa s))) isStable
     else if des < cur then
       canScaleAfterDelay ?b1 hasBeenBelow (DownscaleDelayBelowWatermarkSeconds (Spec (wpa s))) isStable
     else go_return False) (\<lambda>b s'. b \<longleftrightarrow> des \<noteq> cur \<and> lastScale + forbidden_window (Spec (wpa s)) cur des * 1000000000 \<le> ts \<and>
        (isStable \<or> watermark_delay (Spec (wpa s)) cur des = 0 \<or>
         watermark_held s (clock s (ticks s' - 1)) cur des))
     (\<lambda>_ _. False) s2" for s2
    by (cases "des > cur"; cases "des < cur")
      (auto simp: Let_def go_wp b forbidden_window_def watermark_delay_def watermark_held_def
        delay_condition_or_false only_able_def watermark_condition_def frame_def split: option.splits)
  show ?thesis
    unfolding shouldScale_def wp_bind [of "go_get wpa"] wp_get lastScale option.case Let_def
  proof (rule wp_phase [where P = "only_able s"], goal_cases)
    case 1
    show ?case
      by (cases ?b1) (simp_all only: go_wp if_True if_False, (intro only_able_steps q ok)+)
  next
    case (2 _ s1)
    show ?case
    proof (rule wp_phase [where P = "only_able s"], goal_cases)
      case 1
      show ?case
        by (cases ?b2; cases ?b1) (simp_all only: go_wp if_True if_False, (intro only_able_steps q 2)+)
    next
      case (2 _ s2)
      then show ?case unfolding wp_bind wp_get by (rule tail [unfolded Let_def])
    qed
  qed
qed

end
