(* ===== verification/Compute.thy ===== *)
theory Compute
  imports Replica_Calculator Scale_Decision
begin

text \<open>
  The first half of the reconciler's work: \<open>computeReplicasForMetrics\<close>,
  \<open>computeReplicasWithRecommender\<close> and \<open>computeReplicas\<close>, which ask the replica calculator and combine
  its answers, and \<open>fillMissingWatermark\<close>, which prepares the specification for it.
\<close>

section \<open>Missing watermarks\<close>

definition fill_metric :: "MetricSpec \<Rightarrow> MetricSpec" where
  "fill_metric m =
     (if ms_Type m = ExternalMetricSourceType then m\<lparr>ms_External := map_option (\<lambda>e.
        e\<lparr>ext_LowWatermark := (if ext_LowWatermark e = None then ext_HighWatermark e else ext_LowWatermark e),
          ext_HighWatermark := (if ext_HighWatermark e = None then ext_LowWatermark e else ext_HighWatermark e)\<rparr>)
        (ms_External m)\<rparr>
      else if ms_Type m = ResourceMetricSourceType then m\<lparr>ms_Resource := map_option (\<lambda>r.
        r\<lparr>res_LowWatermark := (if res_LowWatermark r = None then res_HighWatermark r else res_LowWatermark r),
          res_HighWatermark := (if res_HighWatermark r = None then res_LowWatermark r else res_HighWatermark r)\<rparr>)
        (ms_Resource m)\<rparr>
      else m)"

definition fillMissingWatermark :: "unit prog" where
  "fillMissingWatermark =
     modify_wpa (\<lambda>w. w\<lparr>Spec := (Spec w)\<lparr>Metrics := map fill_metric (Metrics (Spec w))\<rparr>\<rparr>)"

section \<open>Metrics\<close>

text \<open>The named results of \<open>computeReplicasForMetrics\<close>\<close>

record computation =
  co_replicas :: int
  co_metric :: string
  co_statuses :: "MetricStatus list"
  co_timestamp :: time
  co_readyReplicas :: int
  co_isAbove :: bool
  co_isBelow :: bool

definition empty_MetricStatus :: MetricStatus where
  "empty_MetricStatus = \<lparr>mst_Type = [], mst_Resource = None, mst_External = None\<rparr>"

text \<open>The gauges of one metric\<close>

definition publish_metric :: "prom_labels \<Rightarrow> quantity \<Rightarrow> quantity \<Rightarrow> int \<Rightarrow> unit prog" where
  "publish_metric labels low high proposal =
     go_bind (emit (PromSet Lowwm labels (float64 (MilliValue low)))) (\<lambda>_.
     go_bind (emit (PromSet LowwmV2 labels (float64 (MilliValue low)))) (\<lambda>_.
     go_bind (emit (PromSet Highwm labels (float64 (MilliValue high)))) (\<lambda>_.
     go_bind (emit (PromSet HighwmV2 labels (float64 (MilliValue high)))) (\<lambda>_.
     emit (PromSet ReplicaProposal labels (float64 proposal))))))"

definition EventTypeWarning :: string where "EventTypeWarning = ''Warning''"
definition EventTypeNormal :: string where "EventTypeNormal = ''Normal''"

definition unable :: "string \<Rightarrow> string" where
  "unable e = ''the WPA was unable to compute the replica count: '' @ e"

text \<open>One proposal is kept if it is the first or the largest so far.\<close>

definition take_proposal :: "ReplicaCalculation \<Rightarrow> string \<Rightarrow> nat \<Rightarrow> MetricStatus \<Rightarrow> computation \<Rightarrow> computation" where
  "take_proposal calc name i status acc =
     (let acc' = acc\<lparr>co_isAbove := co_isAbove acc \<or> isAbove (pos calc),
            co_isBelow := co_isBelow acc \<or> isBelow (pos calc),
            co_statuses := (co_statuses acc)[i := status]\<rparr> in
      if co_replicas acc = 0 \<or> replicaCount calc > co_replicas acc then
        acc'\<lparr>co_timestamp := calc_timestamp calc, co_replicas := replicaCount calc, co_metric := name,
          co_readyReplicas := readyReplicas calc\<rparr>
      else acc')"

text \<open>The external and the resource branch of the loop\<close>

definition external_metric ::
  "k8s_lib \<Rightarrow> ReplicaCalculatorItf \<Rightarrow> scale \<Rightarrow> MetricSpec \<Rightarrow> nat \<Rightarrow> computation \<Rightarrow> (go_error + computation) prog" where
  "external_metric lib rc sc m i acc =
     go_bind (deref (ms_External m)) (\<lambda>e.
     case (ext_HighWatermark e, ext_LowWatermark e) of
       (Some high, Some low) \<Rightarrow>
         go_bind (deref (ext_MetricSelector e)) (\<lambda>sel.
         go_bind (go_get wpa) (\<lambda>w.
         let name = ext_MetricName e @ ''{'' @ show_map (MatchLabels sel) @ ''}'';
             labels = AList.update metricNamePromLabel (ext_MetricName e) (getPrometheusLabels w) in
         go_bind (itf_External rc sc m) (\<lambda>r. case r of
           Inl err \<Rightarrow>
             go_bind (emit (PromDelete ReplicaProposal labels)) (\<lambda>_.
             go_bind (emit (Eventf None EventTypeWarning ConditionReasonFailedGetExternalMetrics (Error err))) (\<lambda>_.
             go_bind (setCondition ScalingActive ConditionFalse ConditionReasonFailedGetExternalMetrics
                (unable (Error err))) (\<lambda>_.
             go_return (Inl (wrap_error (''failed to compute replicas based on external metric '' @
                ext_MetricName e @ '': '') err)))))
         | Inr calc \<Rightarrow>
             go_bind (publish_metric labels low high (replicaCount calc)) (\<lambda>_.
             go_return (Inr (take_proposal calc name i \<lparr>mst_Type = ExternalMetricSourceType, mst_Resource = None,
               mst_External = Some \<lparr>exs_MetricName = ext_MetricName e, exs_MetricSelector = ext_MetricSelector e,
                 exs_CurrentValue = NewMilliQuantity lib (utilization calc), exs_CurrentAverageValue = None\<rparr>\<rparr> acc))))))
     | _ \<Rightarrow>
         (let errMsg = ''invalid external metric source: the high watermark and the low watermark are required'' in
          go_bind (emit (Eventf None EventTypeWarning ''FailedGetExternalMetric'' errMsg)) (\<lambda>_.
          go_bind (setCondition ScalingActive ConditionFalse ConditionReasonFailedGetExternalMetrics
             (unable ''<nil>'')) (\<lambda>_.
          go_return (Inl (errorf errMsg))))))"

definition resource_metric ::
  "k8s_lib \<Rightarrow> ReplicaCalculatorItf \<Rightarrow> scale \<Rightarrow> MetricSpec \<Rightarrow> nat \<Rightarrow> computation \<Rightarrow> (go_error + computation) prog" where
  "resource_metric lib rc sc m i acc =
     go_bind (deref (ms_Resource m)) (\<lambda>res.
     case (res_HighWatermark res, res_LowWatermark res) of
       (Some high, Some low) \<Rightarrow>
         go_bind (deref (res_MetricSelector res)) (\<lambda>sel.
         go_bind (go_get wpa) (\<lambda>w.
         let name = res_Name res @ ''{'' @ show_map (MatchLabels sel) @ ''}'';
             labels = AList.update metricNamePromLabel (res_Name res) (getPrometheusLabels w) in
         go_bind (itf_Resource rc sc m) (\<lambda>r. case r of
           Inl err \<Rightarrow>
             go_bind (emit (PromDelete ReplicaProposal labels)) (\<lambda>_.
             go_bind (emit (Eventf None EventTypeWarning ConditionReasonFailedGetResourceMetric (Error err))) (\<lambda>_.
             go_bind (setCondition ScalingActive ConditionFalse ConditionReasonFailedGetResourceMetric
                (unable (Error err))) (\<lambda>_.
             go_return (Inl (wrap_error (''failed to get resource metric '' @ res_Name res @ '': '') err)))))
         | Inr calc \<Rightarrow>
             go_bind (publish_metric labels low high (replicaCount calc)) (\<lambda>_.
             go_return (Inr (take_proposal calc name i \<lparr>mst_Type = ResourceMetricSourceType,
               mst_Resource = Some \<lparr>rss_Name = res_Name res, rss_CurrentAverageUtilization = None,
                 rss_CurrentAverageValue = NewMilliQuantity lib (utilization calc)\<rparr>, mst_External = None\<rparr> acc))))))
     | _ \<Rightarrow>
         (let errMsg = ''invalid resource metric source: the high watermark and the low watermark are required'' in
          go_bind (emit (Eventf None EventTypeWarning ConditionReasonFailedGetResourceMetric errMsg)) (\<lambda>_.
          go_bind (setCondition ScalingActive ConditionFalse ConditionReasonFailedGetResourceMetric
             (unable ''<nil>'')) (\<lambda>_.
          go_return (Inl (errorf errMsg))))))"

fun metrics_loop ::
  "k8s_lib \<Rightarrow> ReplicaCalculatorItf \<Rightarrow> scale \<Rightarrow> nat \<Rightarrow> MetricSpec list \<Rightarrow> computation \<Rightarrow> (go_error + computation) prog" where
  "metrics_loop lib rc sc i [] acc = go_return (Inr acc)"
| "metrics_loop lib rc sc i (m # ms) acc =
     (if ms_External m = None \<and> ms_Resource m = None then metrics_loop lib rc sc (Suc i) ms acc
      else go_bind (if ms_Type m = ExternalMetricSourceType then external_metric lib rc sc m i acc
                    else if ms_Type m = ResourceMetricSourceType then resource_metric lib rc sc m i acc
                    else go_return (Inl (errorf (''metricSpec.Type:'' @ ms_Type m @ '' not supported''))))
        (\<lambda>r. case r of Inl e \<Rightarrow> go_return (Inl e) | Inr acc' \<Rightarrow> metrics_loop lib rc sc (Suc i) ms acc'))"

definition computeReplicasForMetrics ::
  "k8s_lib \<Rightarrow> ReplicaCalculatorItf \<Rightarrow> scale \<Rightarrow> (go_error + computation) prog" where
  "computeReplicasForMetrics lib rc sc =
     go_bind (go_get (\<lambda>s. Metrics (Spec (wpa s)))) (\<lambda>ms.
     metrics_loop lib rc sc 0 ms \<lparr>co_replicas = 0, co_metric = [],
       co_statuses = replicate (length ms) empty_MetricStatus, co_timestamp = zero_time, co_readyReplicas = 0,
       co_isAbove = False, co_isBelow = False\<rparr>)"

section \<open>Recommender\<close>

definition empty_selector :: label_selector where
  "empty_selector = \<lparr>MatchLabels = [], sel_String = ''&LabelSelector{MatchLabels:map[string]string{},MatchExpressions:[]LabelSelectorRequirement{},}''\<rparr>"

definition computeReplicasWithRecommender ::
  "k8s_lib \<Rightarrow> ReplicaCalculatorItf \<Rightarrow> scale \<Rightarrow> (go_error + computation \<times> string) prog" where
  "computeReplicasWithRecommender lib rc sc =
     go_bind (go_get wpa) (\<lambda>w. case Recommender (Spec w) of
       None \<Rightarrow> go_return (Inl (errorf ''recommender spec is nil''))
     | Some reco \<Rightarrow>
       let recommenderName = metricNameForRecommender (Spec w);
           labels = AList.update metricNamePromLabel recommenderName (getPrometheusLabels w) in
       go_bind (itf_Recommender rc sc) (\<lambda>r. case r of
         Inl err \<Rightarrow>
           go_bind (emit (PromDelete ReplicaProposal labels)) (\<lambda>_.
           go_bind (emit (Eventf None EventTypeWarning ConditionReasonFailedGetResourceMetric (Error err))) (\<lambda>_.
           go_bind (setCondition ScalingActive ConditionFalse ConditionReasonFailedGetResourceMetric
              (unable (Error err))) (\<lambda>_.
           go_return (Inl (wrap_error (''failed to get the recommendation from '' @ reco_URL reco @ '': '') err)))))
       | Inr calc \<Rightarrow>
           go_bind (deref (reco_LowWatermark reco)) (\<lambda>low.
           go_bind (emit (PromSet Lowwm labels (float64 (MilliValue low)))) (\<lambda>_.
           go_bind (emit (PromSet LowwmV2 labels (float64 (MilliValue low)))) (\<lambda>_.
           go_bind (deref (reco_HighWatermark reco)) (\<lambda>high.
           go_bind (emit (PromSet Highwm labels (float64 (MilliValue high)))) (\<lambda>_.
           go_bind (emit (PromSet HighwmV2 labels (float64 (MilliValue high)))) (\<lambda>_.
           go_bind (emit (PromSet ReplicaProposal labels (float64 (replicaCount calc)))) (\<lambda>_.
           go_return (Inr (\<lparr>co_replicas = replicaCount calc, co_metric = recommenderName,
             co_statuses = [\<lparr>mst_Type = ResourceMetricSourceType, mst_Resource = None, mst_External = Some
               \<lparr>exs_MetricName = recommenderName, exs_MetricSelector = Some empty_selector,
                exs_CurrentValue = NewMilliQuantity lib (utilization calc), exs_CurrentAverageValue = None\<rparr>\<rparr>],
             co_timestamp = calc_timestamp calc, co_readyReplicas = readyReplicas calc,
             co_isAbove = isAbove (pos calc), co_isBelow = isBelow (pos calc)\<rparr>, details calc)))))))))))"

section \<open>Both\<close>

definition status_of :: "bool \<Rightarrow> string" where
  "status_of b = (if b then ConditionTrue else ConditionFalse)"

definition computeReplicas ::
  "k8s_lib \<Rightarrow> ReplicaCalculatorItf \<Rightarrow> scale \<Rightarrow> (go_error + computation \<times> bool) prog" where
  "computeReplicas lib rc sc =
     go_bind (go_get wpa) (\<lambda>w.
     let labels = getPrometheusLabels w; sp = Spec w in
     go_bind (emit (PromSet ReplicaMin labels (case MinReplicas sp of None \<Rightarrow> float64 0 | Some m \<Rightarrow> float64 m))) (\<lambda>_.
     go_bind (emit (PromSet ReplicaMax labels (float64 (MaxReplicas sp)))) (\<lambda>_.
     go_bind (if Recommender sp \<noteq> None then computeReplicasWithRecommender lib rc sc
       else go_bind (computeReplicasForMetrics lib rc sc) (\<lambda>r. go_return (case r of
         Inl e \<Rightarrow> Inl e | Inr c \<Rightarrow> Inr (c, [])))) (\<lambda>r. case r of
       Inl e \<Rightarrow> go_return (Inl e)
     | Inr (c, reason) \<Rightarrow>
       go_bind (setCondition AboveHighWatermark (status_of (co_isAbove c)) aboveHighWatermarkReason
          aboveHighWatermarkAllowedMessage) (\<lambda>_.
       go_bind (setCondition BelowLowWatermark (status_of (co_isBelow c)) belowLowWatermarkReason
          belowLowWatermarkAllowedMessage) (\<lambda>_.
       go_bind (setCondition ScalingActive ConditionTrue ConditionValidMetricFound
          (''the WPA was able to successfully calculate a replica count from '' @ co_metric c @
           (if reason \<noteq> [] then '' because: '' @ reason else []))) (\<lambda>_.
       go_return (Inr (c, \<not> co_isAbove c \<and> \<not> co_isBelow c)))))))))"

section \<open>Facts about the watermarks\<close>

text \<open>After filling, a metric that passed validation has both watermarks.\<close>

definition filled :: "MetricSpec \<Rightarrow> bool" where
  "filled m \<longleftrightarrow>
     (ms_Type m = ExternalMetricSourceType \<and> (case ms_External m of None \<Rightarrow> False
        | Some e \<Rightarrow> ext_MetricSelector e \<noteq> None \<and> (\<exists>lo hi. ext_LowWatermark e = Some lo \<and> ext_HighWatermark e = Some hi \<and>
            MilliValue lo \<le> MilliValue hi))) \<or>
     (ms_Type m = ResourceMetricSourceType \<and> (case ms_Resource m of None \<Rightarrow> False
        | Some r \<Rightarrow> res_MetricSelector r \<noteq> None \<and> (\<exists>lo hi. res_LowWatermark r = Some lo \<and> res_HighWatermark r = Some hi \<and>
            MilliValue lo \<le> MilliValue hi)))"

lemma fill_metric_filled: "metric_ok m \<Longrightarrow> filled (fill_metric m)"
  by (cases "ms_External m"; cases "ms_Resource m")
    (auto simp: metric_ok_def filled_def fill_metric_def watermarks_ok_def split: option.split_asm)

lemma framed_publish_metric [framed_intros]:
  "framed (publish_metric (AList.update metricNamePromLabel n (getPrometheusLabels w)) lo hi p)"
  unfolding publish_metric_def by (intro framed_intros; auto simp: insert_commute defaultPromLabels_def)

lemma preserves_publish_metric [preserves_intros]: "preserves store_ok (publish_metric ls lo hi p)"
  unfolding publish_metric_def by (intro preserves_intros)

section \<open>Combining proposals\<close>

text \<open>The largest proposal; a proposal of zero is replaced by any later one.\<close>

definition combine :: "int list \<Rightarrow> int \<Rightarrow> int" where
  "combine ps r0 = fold (\<lambda>p r. if r = 0 \<or> p > r then p else r) ps r0"

lemma combine_max: "0 \<le> r0 \<Longrightarrow> \<forall>p\<in>set ps. 0 < p \<Longrightarrow> combine ps r0 = fold max ps r0"
  unfolding combine_def
proof (induction ps arbitrary: r0)
  case (Cons p ps)
  then have "(if r0 = 0 \<or> r0 < p then p else r0) = max p r0" by (auto simp: max_def)
  with Cons show ?case by (simp add: max.commute)
qed simp

lemma combine_Max:
  assumes "ps \<noteq> []" "\<forall>p\<in>set ps. 0 < p" shows "combine ps 0 = Max (set ps)"
proof -
  have "combine ps 0 = fold max ps 0" using assms(2) by (simp add: combine_max)
  also have "\<dots> = Max (set (0 # ps))" by (rule Max.set_eq_fold [symmetric])
  also have "\<dots> = max 0 (Max (set ps))" using assms(1) by simp
  also have "\<dots> = Max (set ps)"
  proof -
    have "Max (set ps) \<in> set ps" using assms(1) by (intro Max_in) auto
    then have "0 < Max (set ps)" using assms(2) by blast
    then show ?thesis by simp
  qed
  finally show ?thesis .
qed

definition absorbs :: "computation \<Rightarrow> ReplicaCalculation list \<Rightarrow> computation \<Rightarrow> bool" where
  "absorbs acc cs c \<longleftrightarrow>
     co_replicas c = combine (map replicaCount cs) (co_replicas acc) \<and>
     (co_replicas c = co_replicas acc \<and> co_readyReplicas c = co_readyReplicas acc \<or> (\<exists>x\<in>set cs. co_readyReplicas c = readyReplicas x)) \<and>
     (co_isAbove c \<longleftrightarrow> co_isAbove acc \<or> (\<exists>x\<in>set cs. isAbove (pos x))) \<and>
     (co_isBelow c \<longleftrightarrow> co_isBelow acc \<or> (\<exists>x\<in>set cs. isBelow (pos x))) \<and>
     length (co_statuses c) = length (co_statuses acc)"

lemma absorbs_refl: "absorbs acc [] acc"
  by (simp add: absorbs_def combine_def)

lemma absorbs_take: "absorbs (take_proposal calc n i st acc) cs c \<Longrightarrow> absorbs acc (calc # cs) c"
  by (auto simp: absorbs_def take_proposal_def combine_def Let_def)

text \<open>A metric of the loop contributes one calculation, or its failure ends the loop.\<close>

lemma wp_external_metric:
  assumes "\<And>calc name st s'. Q (Inr (take_proposal calc name i st acc)) s'" and "\<And>e s'. Q (Inl e) s'"
    and "\<And>p s'. R p s'"
  shows "wp (external_metric lib rc sc m i acc) Q R s"
proof -
  have r: "wp (itf_External rc sc m) (\<lambda>r. wp (case r of
           Inl err \<Rightarrow> f err | Inr calc \<Rightarrow> g calc) Q R) R s1"
    if "\<And>err s2. wp (f err) Q R s2" "\<And>calc s2. wp (g calc) Q R s2" for f g s1
    by (rule wpI) (use that assms(3) in \<open>auto split: sum.splits\<close>)
  show ?thesis
    unfolding external_metric_def publish_metric_def Let_def
    by (auto simp: go_wp assms intro!: r split: option.splits)
qed

lemma wp_resource_metric:
  assumes "\<And>calc name st s'. Q (Inr (take_proposal calc name i st acc)) s'" and "\<And>e s'. Q (Inl e) s'"
    and "\<And>p s'. R p s'"
  shows "wp (resource_metric lib rc sc m i acc) Q R s"
proof -
  have r: "wp (itf_Resource rc sc m) (\<lambda>r. wp (case r of
           Inl err \<Rightarrow> f err | Inr calc \<Rightarrow> g calc) Q R) R s1"
    if "\<And>err s2. wp (f err) Q R s2" "\<And>calc s2. wp (g calc) Q R s2" for f g s1
    by (rule wpI) (use that assms(3) in \<open>auto split: sum.splits\<close>)
  show ?thesis
    unfolding resource_metric_def publish_metric_def Let_def
    by (auto simp: go_wp assms intro!: r split: option.splits)
qed

definition effective :: "MetricSpec list \<Rightarrow> MetricSpec list" where
  "effective ms = filter (\<lambda>m. ms_External m \<noteq> None \<or> ms_Resource m \<noteq> None) ms"

lemma wp_metrics_loop:
  "wp (metrics_loop lib rc sc i ms acc) (\<lambda>r _. case r of Inl _ \<Rightarrow> True
     | Inr c \<Rightarrow> \<exists>cs. length cs = length (effective ms) \<and> absorbs acc cs c) (\<lambda>_ _. True) s"
proof (induction ms arbitrary: i acc s)
  case Nil
  then show ?case by (simp add: go_wp effective_def absorbs_refl)
next
  case (Cons m ms)
  show ?case
  proof (cases "ms_External m = None \<and> ms_Resource m = None")
    case True
    then have eff: "effective (m # ms) = effective ms" by (simp add: effective_def)
    show ?thesis unfolding eff metrics_loop.simps if_P [OF True] by (rule Cons.IH)
  next
    case False
    have rest: "wp (metrics_loop lib rc sc (Suc i) ms (take_proposal calc n i st acc))
      (\<lambda>r _. case r of Inl _ \<Rightarrow> True
       | Inr c \<Rightarrow> \<exists>cs. length cs = length (effective (m # ms)) \<and> absorbs acc cs c) (\<lambda>_ _. True) s'" for calc n st s'
    proof (rule wp_mono [OF Cons.IH])
      fix r :: "go_error + computation" and s''
      assume "case r of Inl _ \<Rightarrow> True | Inr c \<Rightarrow> \<exists>cs. length cs = length (effective ms) \<and>
        absorbs (take_proposal calc n i st acc) cs c"
      then show "case r of Inl _ \<Rightarrow> True | Inr c \<Rightarrow> \<exists>cs. length cs = length (effective (m # ms)) \<and> absorbs acc cs c"
      proof (cases r)
        case (Inr c)
        with \<open>case r of Inl _ \<Rightarrow> True | Inr c \<Rightarrow> _ c\<close> obtain cs where
          "length cs = length (effective ms)" "absorbs (take_proposal calc n i st acc) cs c" by auto
        then have "length (calc # cs) = length (effective (m # ms)) \<and> absorbs acc (calc # cs) c"
          using False absorbs_take by (auto simp: effective_def)
        then show ?thesis unfolding Inr sum.case by blast
      qed simp
    qed
    show ?thesis
      using False by (auto simp: go_wp rest intro!: wp_external_metric wp_resource_metric)
  qed
qed

section \<open>Frames, for every calculator\<close>

context replica_calculator
begin

lemma framed_external: "framed (external_metric l rc sc m i acc)"
  unfolding external_metric_def Let_def by (intro framed_intros itf_framed; simp)

lemma framed_resource: "framed (resource_metric l rc sc m i acc)"
  unfolding resource_metric_def Let_def by (intro framed_intros itf_framed; simp)

lemma framed_metrics_loop: "framed (metrics_loop l rc sc i ms acc)"
proof (induction ms arbitrary: i acc)
  case (Cons m ms)
  show ?case unfolding metrics_loop.simps by (intro framed_intros framed_external framed_resource Cons.IH)
qed (simp add: framed_intros)

lemma framed_with_recommender: "framed (computeReplicasWithRecommender l rc sc)"
  unfolding computeReplicasWithRecommender_def Let_def
  by (intro framed_intros itf_framed; auto simp: insert_commute defaultPromLabels_def)

lemma framed_computeReplicas: "framed (computeReplicas l rc sc)"
  unfolding computeReplicas_def computeReplicasForMetrics_def Let_def
  by (intro framed_intros framed_metrics_loop framed_with_recommender; simp)

lemma store_metrics_loop: "preserves store_ok (metrics_loop l rc sc i ms acc)"
proof (induction ms arbitrary: i acc)
  case (Cons m ms)
  show ?case unfolding metrics_loop.simps external_metric_def resource_metric_def Let_def
    by (intro preserves_intros itf_store Cons.IH)
qed (simp add: preserves_intros)

lemma store_computeReplicas: "preserves store_ok (computeReplicas l rc sc)"
  unfolding computeReplicas_def computeReplicasForMetrics_def computeReplicasWithRecommender_def Let_def
  by (intro preserves_intros itf_store store_metrics_loop)

text \<open>The stable regime and the watermark conditions agree with the positions of the metrics.\<close>

lemma computeReplicas_conditions:
  assumes "store_ok s"
  shows "wp (computeReplicas l rc sc) (\<lambda>r s'. case r of Inl _ \<Rightarrow> True
     | Inr (c, stableRegime) \<Rightarrow> stableRegime = (\<not> co_isAbove c \<and> \<not> co_isBelow c) \<and>
         (\<exists>x. cond_of s' AboveHighWatermark = Some x \<and> cond_Status x = status_of (co_isAbove c)) \<and>
         (\<exists>x. cond_of s' BelowLowWatermark = Some x \<and> cond_Status x = status_of (co_isBelow c)) \<and>
         (\<exists>x. cond_of s' ScalingActive = Some x \<and> cond_Status x = ConditionTrue)) (\<lambda>_ _. True) s"
proof -
  have ok_emit: "store_ok s \<Longrightarrow> wp (emit e) (\<lambda>_. store_ok) R s" for e R s
    by (simp add: go_wp store_ok_def)
  have main: "preserves store_ok (if b then computeReplicasWithRecommender l rc sc
       else go_bind (computeReplicasForMetrics l rc sc) (\<lambda>r. go_return (h r)))" for b h
    unfolding computeReplicasForMetrics_def computeReplicasWithRecommender_def Let_def
    by (intro preserves_intros itf_store store_metrics_loop)
  show ?thesis
    unfolding computeReplicas_def Let_def wp_bind [of "go_get wpa"] wp_get
  proof (rule wp_phase [where P = store_ok], rule ok_emit [OF assms], rule wp_phase [where P = store_ok],
      erule ok_emit, rule wp_phase [where P = store_ok])
    fix s' assume "store_ok s'"
    then show "wp (if Recommender (Spec (wpa s)) \<noteq> None then computeReplicasWithRecommender l rc sc
       else go_bind (computeReplicasForMetrics l rc sc)
         (\<lambda>r. go_return (case r of Inl e \<Rightarrow> Inl e | Inr c \<Rightarrow> Inr (c, [])))) (\<lambda>_. store_ok) (\<lambda>_ _. True) s'"
      by (rule preserves_wp [OF main])
  qed (auto simp: go_wp cond_of_after_set split: sum.splits)
qed

end

end
