(* ===== verification/Util_List.thy ===== *)
theory Util_List
  imports Prelude
begin

text \<open>
  \<open>pkg/util/list.go\<close>: membership in and removal from a slice of strings.

  \<open>RemoveString\<close> removes while it ranges over the same slice.  The range clause fixes the
  slice header (base and length \<open>n\<close>) once, but reads every element from the backing array,
  which the \<open>append\<close> of the body overwrites; and \<open>list\<close> itself is resliced, so that after a
  removal \<open>list[i+1:]\<close> can be out of bounds.  The model keeps the backing array and the length
  of \<open>list\<close> (its base never moves and its capacity is at least the backing array's length).
\<close>

definition ContainsString :: "string list \<Rightarrow> string \<Rightarrow> bool" where
  "ContainsString list s = list_ex (\<lambda>v. v = s) list"

text \<open>
  \<open>list = append(list[:i], list[i+1:]...)\<close> on backing array \<open>arr\<close> and length \<open>len\<close>:
  \<open>list[i+1:]\<close> panics when \<open>i + 1 > len\<close>; otherwise the elements behind \<open>i\<close> move down.
\<close>

definition remove_at :: "string list \<Rightarrow> nat \<Rightarrow> nat \<Rightarrow> (string list \<times> nat) outcome" where
  "remove_at arr len i =
     (if len < i + 1 then Panic SliceBoundsOutOfRange
      else Ret (take i arr @ take (len - (i + 1)) (drop (i + 1) arr) @ drop (len - 1) arr, len - 1))"

fun RemoveString_loop :: "string \<Rightarrow> nat list \<Rightarrow> string list \<Rightarrow> nat \<Rightarrow> (string list \<times> nat) outcome" where
  "RemoveString_loop s [] arr len = Ret (arr, len)"
| "RemoveString_loop s (i # is) arr len =
     (if arr ! i = s then
        (case remove_at arr len i of
           Ret (arr', len') \<Rightarrow> RemoveString_loop s is arr' len'
         | Panic p \<Rightarrow> Panic p)
      else RemoveString_loop s is arr len)"

definition RemoveString :: "string list \<Rightarrow> string \<Rightarrow> string list outcome" where
  "RemoveString list s =
     (case RemoveString_loop s [0..<length list] list (length list) of
        Ret (arr, len) \<Rightarrow> Ret (take len arr)
      | Panic p \<Rightarrow> Panic p)"

lemma ContainsString_iff: "ContainsString list s \<longleftrightarrow> s \<in> set list"
  by (auto simp: ContainsString_def list_ex_iff)

text \<open>Indices that do not hold \<open>s\<close> leave the slice alone.\<close>

lemma RemoveString_loop_skip:
  "\<forall>i \<in> set is. arr ! i \<noteq> s \<Longrightarrow> RemoveString_loop s is arr len = Ret (arr, len)"
  by (induction "is") auto

lemma RemoveString_absent: "s \<notin> set list \<Longrightarrow> RemoveString list s = Ret list"
proof -
  assume "s \<notin> set list"
  then have "\<forall>i \<in> set [0..<length list]. list ! i \<noteq> s"
    using nth_mem by fastforce
  then show ?thesis by (simp add: RemoveString_def RemoveString_loop_skip)
qed

lemma RemoveString_loop_append:
  "RemoveString_loop s (is @ js) arr len =
     (case RemoveString_loop s is arr len of
        Ret (arr', len') \<Rightarrow> RemoveString_loop s js arr' len'
      | Panic p \<Rightarrow> Panic p)"
  by (induction "is" arbitrary: arr len) (auto split: outcome.splits prod.splits)

text \<open>A string that occurs exactly once is removed, whatever its position.\<close>

lemma RemoveString_once:
  assumes "s \<notin> set xs" and "s \<notin> set ys"
  shows "RemoveString (xs @ s # ys) s = Ret (xs @ ys)"
proof -
  let ?l = "xs @ s # ys"
  let ?n = "length xs" and ?m = "length ys"
  have up: "[0..<length ?l] = [0..<?n] @ ?n # [Suc ?n..<Suc ?n + ?m]"
  proof -
    have "[0..<?n + Suc ?m] = [0..<?n] @ [?n..<?n + Suc ?m]"
      by (rule upt_add_eq_append) simp
    also have "[?n..<?n + Suc ?m] = ?n # [Suc ?n..<Suc ?n + ?m]"
      by (subst upt_conv_Cons) auto
    finally show ?thesis by simp
  qed
  have pre: "\<forall>i \<in> set [0..<?n]. ?l ! i \<noteq> s"
    using assms(1) by (auto simp: nth_append)
  define zs where "zs = ys @ drop (?n + ?m) ?l"
  have zs: "length zs = Suc ?m" "set zs \<subseteq> set ys" if "ys \<noteq> []"
    using that by (cases ys rule: rev_cases; simp add: zs_def)+
  have at: "remove_at ?l (Suc (?n + ?m)) ?n = Ret (xs @ zs, ?n + ?m)"
    by (simp add: remove_at_def zs_def)
  have post: "\<forall>i \<in> set [Suc ?n..<Suc (?n + ?m)]. (xs @ zs) ! i \<noteq> s"
  proof
    fix i assume "i \<in> set [Suc ?n..<Suc (?n + ?m)]"
    then have "ys \<noteq> []" and "\<not> i < ?n" and "i - ?n < Suc ?m" by auto
    then have "(xs @ zs) ! i \<in> set ys"
      using zs nth_mem [of "i - ?n" zs] by (auto simp: nth_append)
    with assms(2) show "(xs @ zs) ! i \<noteq> s" by auto
  qed
  have "RemoveString_loop s [0..<length ?l] ?l (length ?l) = Ret (xs @ zs, ?n + ?m)"
    unfolding up RemoveString_loop_append RemoveString_loop_skip [OF pre]
    by (simp add: at RemoveString_loop_skip [OF post] del: upt_Suc)
  then show ?thesis by (simp add: RemoveString_def zs_def)
qed

text \<open>The range clause still visits the last element of the original slice, which a removal leaves in the
  backing array: if it is the string again, the slice expression is out of bounds.\<close>

lemma remove_at_last:
  assumes "remove_at arr len i = Ret (arr', len')" "len \<le> length arr"
  shows "length arr' = length arr" "len' < length arr" "arr' ! (length arr - 1) = arr ! (length arr - 1)"
proof -
  have i: "i < len" "len' = len - 1" "arr' = take i arr @ take (len - (i + 1)) (drop (i + 1) arr) @ drop (len - 1) arr"
    using assms(1) by (auto simp: remove_at_def split: if_splits)
  show "length arr' = length arr" using i assms(2) by simp
  show "len' < length arr" using i assms(2) by simp
  show "arr' ! (length arr - 1) = arr ! (length arr - 1)"
    using i assms(2) by (cases "len = length arr") (auto simp: nth_append min_def)
qed

lemma RemoveString_loop_stale:
  assumes "len < length arr" "arr ! (length arr - 1) = s"
  shows "RemoveString_loop s (js @ [length arr - 1]) arr len = Panic SliceBoundsOutOfRange"
  using assms
proof (induction js arbitrary: arr len)
  case Nil
  then show ?case by (simp add: remove_at_def)
next
  case (Cons j js)
  show ?case
  proof (cases "remove_at arr len j")
    case (Ret r)
    obtain arr' len' where r: "r = (arr', len')" by fastforce
    note last = remove_at_last [OF Ret [unfolded r]]
    have "length arr' = length arr" "arr' ! (length arr - 1) = s" "len' < length arr"
      using last Cons.prems by auto
    then show ?thesis using Ret r Cons.prems Cons.IH [of len' arr'] Cons.IH [of len arr] by simp
  next
    case (Panic p)
    then show ?thesis using Cons by (simp add: remove_at_def split: if_splits)
  qed
qed

lemma RemoveString_twice:
  assumes "s \<notin> set xs"
  shows "RemoveString (xs @ s # zs @ [s]) s = Panic SliceBoundsOutOfRange"
proof -
  let ?l = "xs @ s # zs @ [s]"
  let ?n = "length xs"
  let ?k = "length xs + length zs + 1"
  have up: "[0..<length ?l] = [0..<?n] @ ?n # ([Suc ?n..<?k] @ [?k])"
  proof -
    have "[0..<?n + (length zs + 2)] = [0..<?n] @ [?n..<?n + (length zs + 2)]"
      by (rule upt_add_eq_append) simp
    also have "[?n..<?n + (length zs + 2)] = ?n # [Suc ?n..<?n + (length zs + 2)]"
      by (subst upt_conv_Cons) auto
    also have "[Suc ?n..<?n + (length zs + 2)] = [Suc ?n..<?k] @ [?k]" by simp
    finally show ?thesis by (simp del: upt_Suc)
  qed
  have pre: "\<forall>i \<in> set [0..<?n]. ?l ! i \<noteq> s" using assms by (auto simp: nth_append)
  obtain arr' len' where at: "remove_at ?l (length ?l) ?n = Ret (arr', len')" by (simp add: remove_at_def)
  have k: "length arr' - 1 = ?k" using remove_at_last(1) [OF at] by simp
  have "RemoveString_loop s ([Suc ?n..<?k] @ [length arr' - 1]) arr' len' = Panic SliceBoundsOutOfRange"
    using remove_at_last [OF at] by (intro RemoveString_loop_stale) (auto simp: nth_append)
  then have stale: "RemoveString_loop s ([Suc ?n..<?k] @ [?k]) arr' len' = Panic SliceBoundsOutOfRange"
    unfolding k .
  have "RemoveString_loop s [0..<length ?l] ?l (length ?l) = Panic SliceBoundsOutOfRange"
    unfolding up RemoveString_loop_append [of s "[0..<?n]"] RemoveString_loop_skip [OF pre] RemoveString_loop.simps outcome.case prod.case
    using at stale by simp
  then show "RemoveString ?l s = Panic SliceBoundsOutOfRange" by (simp add: RemoveString_def)
qed

end
