(* ===== verification/Reconcile.thy ===== *)
theory Reconcile
  imports Compute Api_Default Util_List
begin

text \<open>
  The reconciler (\<open>controllers/datadoghq/watermarkpodautoscaler_controller.go\<close> and
  \<open>finalizer.go\<close>).  \<open>Reconcile\<close> handles one request: it fetches the object, keeps its finalizer,
  sets defaults, validates the specification, consults the lifecycle monitor, and calls
  \<open>reconcileWPA\<close>, which reads the scale of the target, computes a replica count, decides, writes the
  scale and the status.

  The clients of the reconciler are the fields of \<open>reconciler\<close>: a read returns an arbitrary
  value for the \<open>n\<close>-th read; a write is an entry of the trace and its answer is such a read.  A write of
  the object also replaces the object in memory by the one the server returns.
\<close>

section \<open>The reconciler and its clients\<close>

record RESTMapping =
  GroupResource :: string
  GroupVersion :: string

text \<open>A \<open>DatadogMonitor\<close>, known by what \<open>unstructured.NestedString\<close> finds at \<open>status.monitorState\<close>\<close>

record monitor =
  monitorState :: string
  state_found :: bool
  state_err :: "go_error option"

record reconciler =
  lib :: k8s_lib
  Client_Get :: "string \<Rightarrow> string \<Rightarrow> nat \<Rightarrow> go_error + WatermarkPodAutoscaler"
  Client_GetMonitor :: "string \<Rightarrow> string \<Rightarrow> nat \<Rightarrow> go_error + monitor"
  Client_Update :: "WatermarkPodAutoscaler \<Rightarrow> nat \<Rightarrow> go_error + WatermarkPodAutoscaler"
  Status_Update :: "WatermarkPodAutoscaler \<Rightarrow> nat \<Rightarrow> go_error + WatermarkPodAutoscaler"
  Scales_Get :: "string \<Rightarrow> string \<Rightarrow> string \<Rightarrow> nat \<Rightarrow> go_error + scale"
  Scales_Update :: "string \<Rightarrow> string \<Rightarrow> scale \<Rightarrow> nat \<Rightarrow> go_error option"
  RESTMappings :: "string \<Rightarrow> string \<Rightarrow> nat \<Rightarrow> go_error + RESTMapping list"
  replicaCalc :: ReplicaCalculatorItf
  syncPeriod :: duration
  SkipNotScalingEvents :: bool

definition update_object :: "reconciler \<Rightarrow> WatermarkPodAutoscaler \<Rightarrow> (go_error + WatermarkPodAutoscaler) prog" where
  "update_object r w =
     go_bind (emit (ClientUpdate w)) (\<lambda>_. go_read (\<lambda>n. Ret (Client_Update r w n)))"

definition update_scale :: "reconciler \<Rightarrow> string \<Rightarrow> string \<Rightarrow> scale \<Rightarrow> go_error option prog" where
  "update_scale r ns gr sc =
     go_bind (emit (ScaleUpdate gr sc)) (\<lambda>_. go_read (\<lambda>n. Ret (Scales_Update r ns gr sc n)))"

definition updateWPAStatus :: "reconciler \<Rightarrow> go_error option prog" where
  "updateWPAStatus r =
     go_bind (go_get wpa) (\<lambda>w.
     go_bind (emit (StatusUpdate w)) (\<lambda>_.
     go_bind (go_read (\<lambda>n. Ret (Status_Update r w n))) (\<lambda>a. case a of
       Inl e \<Rightarrow> go_return (Some e)
     | Inr w' \<Rightarrow> go_bind (modify_wpa (\<lambda>_. w')) (\<lambda>_. go_return None))))"

definition updateStatusIfNeeded :: "reconciler \<Rightarrow> WatermarkPodAutoscalerStatus \<Rightarrow> go_error option prog" where
  "updateStatusIfNeeded r wpaStatus =
     go_bind (go_get wpa) (\<lambda>w.
     if DeepEqualStatus (lib r) wpaStatus (Status w) then go_return None else updateWPAStatus r)"

section \<open>The scale of the target\<close>

definition scaleNotFoundErr :: string where "scaleNotFoundErr = ''scale not found''"

definition requeueAfterForWPAErrors :: "go_error \<Rightarrow> duration" where
  "requeueAfterForWPAErrors err =
     (if contains (Error err) scaleNotFoundErr then 10 * 1000000000 else 1000000000)"

fun scale_loop ::
  "reconciler \<Rightarrow> string \<Rightarrow> string \<Rightarrow> RESTMapping list \<Rightarrow> string \<Rightarrow> go_error list \<Rightarrow>
   (scale option \<times> string \<times> go_error list) prog" where
  "scale_loop r namespace name [] targetGR errs = go_return (None, targetGR, errs)"
| "scale_loop r namespace name (m # ms) targetGR errs =
     go_bind (go_read (\<lambda>n. Ret (Scales_Get r namespace (GroupResource m) name n))) (\<lambda>a. case a of
       Inr sc \<Rightarrow> go_return (Some sc, GroupResource m, errs)
     | Inl e \<Rightarrow> scale_loop r namespace name ms (GroupResource m)
         (errs @ [wrap_error (''could not get scale for the GV '' @ GroupVersion m @ '', error: '') e]))"

definition getScaleForResourceMappings ::
  "reconciler \<Rightarrow> string \<Rightarrow> string \<Rightarrow> RESTMapping list \<Rightarrow> (scale option \<times> string \<times> go_error option) prog" where
  "getScaleForResourceMappings r namespace name mappings =
     go_bind (scale_loop r namespace name mappings [] []) (\<lambda>(sc, targetGR, errs).
     go_return (sc, targetGR,
       NewAggregate (lib r) (if sc = None then errs @ [errorf scaleNotFoundErr] else errs)))"

section \<open>Reconciling the replica count\<close>

text \<open>Info gauge, dry-run condition and gauge, and the condition that the scale was read\<close>

definition announce :: "unit prog" where
  "announce =
     go_bind (go_get wpa) (\<lambda>w.
     go_bind (go_get extraPromLabels) (\<lambda>extra.
     go_bind (emit (PromSet LabelsInfo (labelsInfoLabels extra
        [(wpaNamePromLabel, wpa_Name w), (wpaNamespacePromLabel, wpa_Namespace w),
         (resourceNamespacePromLabel, wpa_Namespace w), (namespacePromLabel, wpa_Namespace w)] w) (float64 1))) (\<lambda>_.
     go_bind (if DryRun (Spec w)
        then setCondition DryRunCondition ConditionTrue ''DryRun mode enabled'' ''Scaling changes won't be applied''
        else setCondition DryRunCondition ConditionFalse ''DryRun mode disabled'' ''Scaling changes can be applied'') (\<lambda>_.
     go_bind (emit (PromSet DryRunGauge (getPrometheusLabels w)
        (if DryRun (Spec w) then float64 1 else float64 0))) (\<lambda>_.
     setCondition AbleToScale ConditionTrue ConditionReasonSuccessfulGetScale
       ''the WPA controller was able to get the target's current scale'')))))"

text \<open>The branch taken when no replica count could be computed\<close>

definition compute_failed :: "reconciler \<Rightarrow> WatermarkPodAutoscalerStatus \<Rightarrow> int \<Rightarrow> go_error \<Rightarrow> go_error option prog" where
  "compute_failed r original currentReplicas err =
     go_bind (setCurrentReplicasInStatus currentReplicas) (\<lambda>_.
     go_bind (updateStatusIfNeeded r original) (\<lambda>err2. case err2 of
       Some e \<Rightarrow>
         go_bind (emit (Eventf None EventTypeWarning ConditionReasonFailedUpdateReplicasStatus (Error e))) (\<lambda>_.
         go_bind (setCondition AbleToScale ConditionFalse ConditionReasonFailedUpdateReplicasStatus
            (''the WPA controller was unable to update the number of replicas: '' @ Error err)) (\<lambda>_.
         go_return None))
     | None \<Rightarrow>
         go_bind (emit (Eventf None EventTypeWarning ''FailedComputeMetricsReplicas'' (Error err))) (\<lambda>_.
         go_return None)))"

text \<open>The \<open>switch\<close> that overrides the decision at the edges\<close>

record decision =
  de_desired :: int
  de_rescale :: bool
  de_reason :: string
  de_statuses :: "MetricStatus list"

definition override ::
  "WatermarkPodAutoscalerStatus \<Rightarrow> scale \<Rightarrow> decision \<Rightarrow> decision prog" where
  "override original sc d =
     go_bind (go_get (\<lambda>s. Spec (wpa s))) (\<lambda>sp.
     let specReplicas = scale_SpecReplicas sc in
     if specReplicas = 0 then
       go_bind (setCondition ScalingActive ConditionFalse ConditionReasonScalingDisabled
          ''scaling is disabled since the replica count of the target is zero'') (\<lambda>_.
       go_return (d\<lparr>de_desired := 0, de_rescale := False\<rparr>))
     else if specReplicas > MaxReplicas sp then
       go_return (d\<lparr>de_reason := ''Current number of replicas above Spec.MaxReplicas'',
         de_desired := MaxReplicas sp, de_rescale := True, de_statuses := CurrentMetrics original\<rparr>)
     else if (case MinReplicas sp of None \<Rightarrow> False | Some m \<Rightarrow> specReplicas < m) then
       go_return (d\<lparr>de_reason := ''Current number of replicas below Spec.MinReplicas'',
         de_desired := the (MinReplicas sp), de_rescale := True, de_statuses := CurrentMetrics original\<rparr>)
     else if scale_StatusReplicas sc = 0 then
       go_return (d\<lparr>de_reason := ''Current number of replicas must be greater than 0'',
         de_desired := 1, de_rescale := True, de_statuses := CurrentMetrics original\<rparr>)
     else go_return d)"

text \<open>The end of both branches: gauge, status, status update\<close>

definition finish ::
  "reconciler \<Rightarrow> WatermarkPodAutoscalerStatus \<Rightarrow> scale \<Rightarrow> decision \<Rightarrow> go_error option prog" where
  "finish r original sc d =
     go_bind (go_get wpa) (\<lambda>w.
     go_bind (emit (PromSet ReplicaEffective (getPrometheusLabels w) (float64 (de_desired d)))) (\<lambda>_.
     go_bind (setStatus (scale_StatusReplicas sc) (de_desired d) (de_statuses d) (de_rescale d)) (\<lambda>_.
     updateStatusIfNeeded r original)))"

definition scale_failed ::
  "reconciler \<Rightarrow> WatermarkPodAutoscalerStatus \<Rightarrow> scale \<Rightarrow> decision \<Rightarrow> go_error \<Rightarrow> go_error option prog" where
  "scale_failed r original sc d err =
     go_bind (emit (Eventf None EventTypeWarning ReasonFailedScale (''New size: '' @ show_int (de_desired d) @
        ''; reason: '' @ de_reason d @ ''; error: '' @ Error err))) (\<lambda>_.
     go_bind (setCondition AbleToScale ConditionFalse ConditionReasonFailedScale
        (''the WPA controller was unable to update the target scale: '' @ Error err)) (\<lambda>_.
     go_bind (setCurrentReplicasInStatus (scale_StatusReplicas sc)) (\<lambda>_.
     go_bind (updateStatusIfNeeded r original) (\<lambda>err2. case err2 of
       Some e \<Rightarrow>
         go_bind (emit (Eventf None EventTypeWarning ReasonFailedUpdateReplicasStatus (Error e))) (\<lambda>_.
         go_bind (setCondition AbleToScale ConditionFalse ConditionReasonFailedUpdateReplicasStatus
            (''the WPA controller was unable to update the number of replicas: '' @ Error e)) (\<lambda>_.
         go_return None))
     | None \<Rightarrow> go_return None))))"

definition rescale ::
  "reconciler \<Rightarrow> WatermarkPodAutoscalerStatus \<Rightarrow> string \<Rightarrow> scale \<Rightarrow> decision \<Rightarrow> go_error option prog" where
  "rescale r original targetGR sc d =
     go_bind (setCondition AbleToScale ConditionTrue ConditionReasonReadyForScale
        ''the last scaling time was sufficiently old as to warrant a new scale'') (\<lambda>_.
     go_bind (go_get wpa) (\<lambda>w.
     if DryRun (Spec w) then
       go_bind (setStatus (scale_StatusReplicas sc) (de_desired d) (de_statuses d) (de_rescale d)) (\<lambda>_.
       go_bind (emit (PromSet ReplicaEffective (getPrometheusLabels w) (float64 (de_desired d)))) (\<lambda>_.
       updateStatusIfNeeded r original))
     else
       go_bind (update_scale r (wpa_Namespace w) targetGR (sc\<lparr>scale_SpecReplicas := de_desired d\<rparr>)) (\<lambda>a. case a of
         Some err \<Rightarrow> scale_failed r original sc d err
       | None \<Rightarrow>
         go_bind (setCondition AbleToScale ConditionTrue ConditionReasonSuccessfulScale
            (''the WPA controller was able to update the target scale to '' @ show_int (de_desired d))) (\<lambda>_.
         go_bind (emit (Eventf None EventTypeNormal ReasonScaling (''New size: '' @ show_int (de_desired d) @
            ''; reason: '' @ de_reason d))) (\<lambda>_.
         go_bind (if scale_SpecReplicas sc < de_desired d
           then emit (PromAdd Upscale (getPrometheusLabels w) (float64 (int32 (de_desired d - scale_SpecReplicas sc))))
           else emit (PromAdd Downscale (getPrometheusLabels w) (float64 (int32 (scale_SpecReplicas sc - de_desired d))))) (\<lambda>_.
         finish r original sc d))))))"

definition not_scaling ::
  "reconciler \<Rightarrow> WatermarkPodAutoscalerStatus \<Rightarrow> string \<Rightarrow> scale \<Rightarrow> decision \<Rightarrow> go_error option prog" where
  "not_scaling r original reference sc d =
     go_bind (go_get (\<lambda>s. show_Time (lib r) (LastScaleTime (Status (wpa s))))) (\<lambda>lastScale.
     go_bind (if SkipNotScalingEvents r
       then setCondition ScalingActive ConditionTrue ConditionReasonNotScaling
         (''the WPA was able to successfully calculate a replica count and decided not to scale '' @ reference @
          '' to '' @ show_int (de_desired d) @ '' (last scale time was '' @ lastScale @ '' )'')
       else emit (Eventf None EventTypeNormal ConditionReasonNotScaling
         (''Decided not to scale '' @ reference @ '' to '' @ show_int (de_desired d) @
          '' (last scale time was '' @ lastScale @ '' )''))) (\<lambda>_.
     finish r original sc (d\<lparr>de_desired := scale_SpecReplicas sc\<rparr>)))"

text \<open>From the computed proposal to the decision\<close>

definition decide ::
  "WatermarkPodAutoscalerStatus \<Rightarrow> scale \<Rightarrow> time \<Rightarrow> computation \<times> bool \<Rightarrow> decision prog" where
  "decide original sc now computed =
     (let (c, stableRegime) = computed;
          specReplicas = scale_SpecReplicas sc;
          (desiredReplicas, rescaleMetric) = (if co_replicas c > 0 then (co_replicas c, co_metric c) else (0, []));
          rescaleReason = (if desiredReplicas > specReplicas then rescaleMetric @ '' above target''
            else if desiredReplicas < specReplicas then ''All metrics below target'' else []) in
      go_bind (normalizeDesiredReplicas specReplicas desiredReplicas (co_readyReplicas c)) (\<lambda>desired.
      let reason = (if stableRegime \<and> desired \<noteq> specReplicas
        then ''Metric within watermarks, attempting to scale to converge towards watermark'' else rescaleReason) in
      go_bind (shouldScale specReplicas desired now stableRegime) (\<lambda>b.
      override original sc \<lparr>de_desired = desired, de_rescale = b, de_reason = reason, de_statuses = co_statuses c\<rparr>)))"

text \<open>What is done once the scale of the target is known\<close>

definition reconcile_scale ::
  "reconciler \<Rightarrow> WatermarkPodAutoscalerStatus \<Rightarrow> string \<Rightarrow> scale \<Rightarrow> go_error option prog" where
  "reconcile_scale r original targetGR sc =
     go_bind announce (\<lambda>_.
     go_bind (go_get wpa) (\<lambda>w.
     let ref = ScaleTargetRef (Spec w); reference = ref_Kind ref @ ''/'' @ wpa_Namespace w @ ''/'' @ ref_Name ref in
     go_bind go_now (\<lambda>now.
     go_bind (computeReplicas (lib r) (replicaCalc r) sc) (\<lambda>computed. case computed of
       Inl e \<Rightarrow> compute_failed r original (scale_StatusReplicas sc) e
     | Inr c \<Rightarrow>
     go_bind (decide original sc now c) (\<lambda>d.
     if de_rescale d then rescale r original targetGR sc d
     else not_scaling r original reference sc d)))))"

definition reconcileWPA_body :: "reconciler \<Rightarrow> WatermarkPodAutoscalerStatus \<Rightarrow> go_error option prog" where
  "reconcileWPA_body r original =
     go_bind (go_get wpa) (\<lambda>w.
     let ref = ScaleTargetRef (Spec w) in
     case ParseGroupVersion (lib r) (ref_APIVersion ref) of
       Inl e \<Rightarrow> go_return (Some (wrap_error ''invalid API version in scale target reference: '' e))
     | Inr targetGroup \<Rightarrow>
     go_bind (go_read (\<lambda>n. Ret (RESTMappings r targetGroup (ref_Kind ref) n))) (\<lambda>a. case a of
       Inl e \<Rightarrow> go_return (Some (wrap_error ''unable to determine resource for scale target reference: '' e))
     | Inr mappings \<Rightarrow>
     go_bind (getScaleForResourceMappings r (wpa_Namespace w) (ref_Name ref) mappings) (\<lambda>(currentScale, targetGR, err).
     go_bind (if currentScale = None then go_bind (deref err) (\<lambda>e. go_return (contains (Error e) scaleNotFoundErr))
        else go_return False) (\<lambda>notFound.
     if notFound then go_return err
     else go_bind (deref currentScale) (\<lambda>sc. reconcile_scale r original targetGR sc)))))"

text \<open>A panic of the body is recovered; the result is then no error.\<close>

definition reconcileWPA :: "reconciler \<Rightarrow> WatermarkPodAutoscalerStatus \<Rightarrow> go_error option prog" where
  "reconcileWPA r original = go_recover (reconcileWPA_body r original) (\<lambda>_. go_return None)"

section \<open>Finalizer\<close>

definition watermarkpodautoscalerFinalizer :: string where
  "watermarkpodautoscalerFinalizer = ''finalizer.watermarkpodautoscaler.datadoghq.com''"

definition finalizeWPA :: "unit prog" where
  "finalizeWPA = go_bind (go_get wpa) (\<lambda>w. cleanupAssociatedMetrics w False)"

definition addFinalizer :: "reconciler \<Rightarrow> go_error option prog" where
  "addFinalizer r =
     go_bind (modify_wpa (\<lambda>w. w\<lparr>Finalizers := Finalizers w @ [watermarkpodautoscalerFinalizer]\<rparr>)) (\<lambda>_.
     go_bind (go_get wpa) (\<lambda>w.
     go_bind (update_object r w) (\<lambda>a. case a of
       Inl e \<Rightarrow> go_return (Some e)
     | Inr w' \<Rightarrow> go_bind (modify_wpa (\<lambda>_. w')) (\<lambda>_. go_return None))))"

definition handleFinalizer :: "reconciler \<Rightarrow> (bool \<times> go_error option) prog" where
  "handleFinalizer r =
     go_bind (go_get wpa) (\<lambda>w.
     if DeletionTimestamp w \<noteq> None then
       (if ContainsString (Finalizers w) watermarkpodautoscalerFinalizer then
          go_bind finalizeWPA (\<lambda>_.
          go_bind (go_lift (RemoveString (Finalizers w) watermarkpodautoscalerFinalizer)) (\<lambda>fs.
          go_bind (modify_wpa (\<lambda>w. w\<lparr>Finalizers := fs\<rparr>)) (\<lambda>_.
          go_bind (go_get wpa) (\<lambda>w'.
          go_bind (update_object r w') (\<lambda>a. case a of
            Inl e \<Rightarrow> go_return (True, Some e)
          | Inr w'' \<Rightarrow> go_bind (modify_wpa (\<lambda>_. w'')) (\<lambda>_. go_return (True, None)))))))
        else go_return (True, None))
     else if \<not> ContainsString (Finalizers w) watermarkpodautoscalerFinalizer then
       go_bind (addFinalizer r) (\<lambda>e. case e of
         Some err \<Rightarrow> go_return (True, Some err)
       | None \<Rightarrow> go_return (False, None))
     else go_return (False, None))"

section \<open>One request\<close>

record result =
  Requeue :: bool
  RequeueAfter :: duration

definition no_requeue :: result where
  "no_requeue = \<lparr>Requeue = False, RequeueAfter = 0\<rparr>"

definition monitorStatusErrorDuration :: duration where
  "monitorStatusErrorDuration = 60 * 1000000000"

definition lifecycleControlEnabledAnnotationKey :: string where
  "lifecycleControlEnabledAnnotationKey = ''wpa.datadoghq.com/lifecycle-control.enabled''"

text \<open>A status update whose failure is reported as an event and returned.\<close>

definition report_status ::
  "reconciler \<Rightarrow> WatermarkPodAutoscalerStatus \<Rightarrow> string option \<Rightarrow> result \<Rightarrow> (result \<times> go_error option) prog" where
  "report_status r original related res =
     go_bind (updateStatusIfNeeded r original) (\<lambda>a. case a of
       Some e \<Rightarrow>
         go_bind (emit (Eventf related EventTypeWarning ReasonFailedUpdateStatus (Error e))) (\<lambda>_.
         go_return (no_requeue, Some e))
     | None \<Rightarrow> go_return (res, None))"

text \<open>The annotation that turns lifecycle control on, and the condition when it cannot be parsed\<close>

definition lifecycle_enabled :: "bool prog" where
  "lifecycle_enabled =
     go_bind (go_get wpa) (\<lambda>w. case map_of (Annotations w) lifecycleControlEnabledAnnotationKey of
       None \<Rightarrow> go_return False
     | Some v \<Rightarrow> (case ParseBool v of
         Inr b \<Rightarrow> go_return b
       | Inl e \<Rightarrow>
         go_bind (if v \<noteq> [] then setCondition ScalingBlocked ConditionFalse ReasonFailedGetDatadogMonitor
             (''Lifecycle Control is not correctly enabled: '' @ Error e) else go_return ()) (\<lambda>_.
         go_return False)))"

text \<open>The check of the monitor: \<open>Some\<close> result ends the request, \<open>None\<close> lets it go on.\<close>

definition check_monitor ::
  "reconciler \<Rightarrow> WatermarkPodAutoscalerStatus \<Rightarrow> (result \<times> go_error option) option prog" where
  "check_monitor r original =
     go_bind (go_get wpa) (\<lambda>w.
     let name = wpa_Name w; ns = wpa_Namespace w; dmon = ns @ ''/'' @ name;
         labels = [(wpaNamePromLabel, name), (wpaNamespacePromLabel, ns), (monitorName, name),
           (monitorNamespace, ns), (lifecycleStatus, ''blocked'')];
         block = (\<lambda>reason msg after.
           go_bind (setCondition ScalingBlocked ConditionTrue reason msg) (\<lambda>_.
           go_bind (report_status r original (Some name) \<lparr>Requeue = False, RequeueAfter = after\<rparr>) (\<lambda>res.
           go_return (Some res)))) in
     go_bind (go_read (\<lambda>n. Ret (Client_GetMonitor r ns name n))) (\<lambda>a. case a of
       Inl e \<Rightarrow>
         go_bind (emit (PromSet LifecycleControlStatus labels (float64 1))) (\<lambda>_.
         go_bind (emit (Eventf (Some name) EventTypeWarning ReasonFailedGetDatadogMonitor (Error e))) (\<lambda>_.
         block ReasonFailedGetDatadogMonitor
           (''monitor '' @ dmon @ '' not found, blocking the WPA from proceeding'') (2 * monitorStatusErrorDuration)))
     | Inr mon \<Rightarrow>
       if \<not> state_found mon \<or> state_err mon \<noteq> None then
         go_bind (emit (PromSet LifecycleControlStatus labels (float64 1))) (\<lambda>_.
         block ReasonDatadogMonitorNotOK
           (''monitor '' @ dmon @ '' state not found, blocking the WPA from proceeding'') monitorStatusErrorDuration)
       else if monitorState mon \<noteq> ''OK'' then
         go_bind (emit (PromSet LifecycleControlStatus labels (float64 1))) (\<lambda>_.
         block ReasonDatadogMonitorNotOK
           (''monitor '' @ dmon @ '' is in '' @ monitorState mon @ '' state, blocking the WPA from proceeding'')
           monitorStatusErrorDuration)
       else
         go_bind (emit (PromSet LifecycleControlStatus labels (float64 0))) (\<lambda>_.
         go_bind (setCondition ScalingBlocked ConditionFalse ReasonDatadogMonitorOK
            (''monitor '' @ dmon @ '' is in a OK state, allowing the WPA from proceeding'')) (\<lambda>_.
         go_return None))))"

text \<open>The last part: fill the watermarks and reconcile the replica count\<close>

definition process ::
  "reconciler \<Rightarrow> WatermarkPodAutoscalerStatus \<Rightarrow> (result \<times> go_error option) prog" where
  "process r original =
     go_bind fillMissingWatermark (\<lambda>_.
     go_bind (reconcileWPA r original) (\<lambda>a. case a of
       None \<Rightarrow> go_return (\<lparr>Requeue = False, RequeueAfter = syncPeriod r\<rparr>, None)
     | Some err \<Rightarrow>
       go_bind (emit (Eventf None EventTypeWarning ReasonFailedProcessWPA (Error err))) (\<lambda>_.
       go_bind (setCondition AbleToScale ConditionFalse ReasonFailedProcessWPA
          ''Error happened while processing the WPA'') (\<lambda>_.
       go_bind (updateStatusIfNeeded r original) (\<lambda>b. case b of
         Some err2 \<Rightarrow>
           go_bind (emit (Eventf None EventTypeWarning ReasonFailedUpdateStatus (Error err2))) (\<lambda>_.
           go_return (no_requeue, NewAggregate (lib r) [err, err2]))
       | None \<Rightarrow> go_return (\<lparr>Requeue = False, RequeueAfter = requeueAfterForWPAErrors err\<rparr>, None))))))"

text \<open>What follows once the finalizer is in place; its end updates the gauge of the scaling condition.\<close>

definition reconcile_live :: "reconciler \<Rightarrow> WatermarkPodAutoscalerStatus \<Rightarrow> (result \<times> go_error option) prog" where
  "reconcile_live r original =
     go_bind (go_get wpa) (\<lambda>w.
     if \<not> IsDefaultWatermarkPodAutoscaler w then
       go_bind (update_object r (DefaultWatermarkPodAutoscaler (lib r) w)) (\<lambda>a. case a of
         Inl e \<Rightarrow> go_return (no_requeue, Some e)
       | Inr _ \<Rightarrow> go_return (\<lparr>Requeue = True, RequeueAfter = 0\<rparr>, None))
     else case CheckWPAValidity w of
       Some e \<Rightarrow>
         go_bind (emit (Eventf None EventTypeWarning ReasonFailedSpecCheck (Error e))) (\<lambda>_.
         go_bind (setCondition AbleToScale ConditionFalse ReasonFailedSpecCheck
            (''Invalid WPA specification: '' @ Error e)) (\<lambda>_.
         report_status r original None no_requeue))
     | None \<Rightarrow>
         go_bind lifecycle_enabled (\<lambda>enabled.
         go_bind (if enabled then check_monitor r original else go_return None) (\<lambda>blocked. case blocked of
           Some res \<Rightarrow> go_return res
         | None \<Rightarrow> process r original)))"

definition Reconcile :: "reconciler \<Rightarrow> string \<Rightarrow> string \<Rightarrow> (result \<times> go_error option) prog" where
  "Reconcile r ns name =
     go_bind (go_read (\<lambda>n. Ret (Client_Get r ns name n))) (\<lambda>a. case a of
       Inl e \<Rightarrow> go_return (no_requeue, if IsNotFound e then None else Some e)
     | Inr instance' \<Rightarrow>
       go_bind (modify_wpa (\<lambda>_. instance')) (\<lambda>_.
       go_bind (handleFinalizer r) (\<lambda>(needToReturn, err).
       if err \<noteq> None \<or> needToReturn then go_return (no_requeue, err)
       else go_bind (go_get (\<lambda>s. Status (wpa s))) (\<lambda>original.
       go_bind (setCondition ScalingActive ConditionFalse ReasonFailedProcessWPA
          ''Error happened while processing the WPA'') (\<lambda>_.
       go_finally (reconcile_live r original) updateConditionsMetrics)))))"

section \<open>Which changes are reconciled\<close>

definition updatePredicate :: "k8s_lib \<Rightarrow> WatermarkPodAutoscaler \<Rightarrow> WatermarkPodAutoscaler \<Rightarrow> bool prog" where
  "updatePredicate l oldObject newObject =
     (if \<not> DeepEqualSpec l (Spec newObject) (Spec oldObject)
      then go_bind (cleanupAssociatedMetrics oldObject True) (\<lambda>_. go_return True)
      else go_return False)"

end
