(* ===== verification/Reconcile_Safety.thy ===== *)
theory Reconcile_Safety
  imports Reconcile
begin

text \<open>
  What a request may do to the target.  The trace of the world records every write of a scale; the
  lemmas here show that a whole request makes at most one, that it is made outside dry-run mode, and
  that its replica count respects the bounds, the velocity limits and the forbidden windows of the
  specification.  The argument follows the code: \<open>decide\<close> yields only decisions that are good for
  the object in memory, everything around it stays within the frame of the world, and the status updates
  and the finalizer do not write scales.  The lemmas about the calculator are those of the locale
  \<open>replica_calculator\<close>, so that they hold for every implementation of \<open>ReplicaCalculatorItf\<close>.
\<close>


section \<open>Writes to the scale\<close>

fun scale_write :: "effect \<Rightarrow> (string \<times> scale) list" where
  "scale_write (ScaleUpdate gr sc) = [(gr, sc)]"
| "scale_write _ = []"

definition writes :: "world \<Rightarrow> (string \<times> scale) list" where
  "writes s = concat (map scale_write (trace s))"

lemma quiet_no_write: "quiet extra e \<Longrightarrow> scale_write e = []"
  by (cases e) auto

lemma frame_writes: "frame s s' \<Longrightarrow> writes s' = writes s"
proof -
  have "list_all (quiet x) es \<Longrightarrow> concat (map scale_write es) = []" for x es
    by (induction es) (auto simp: quiet_no_write)
  then show "frame s s' \<Longrightarrow> writes s' = writes s" by (auto simp: frame_def writes_def)
qed

text \<open>Nothing is written, and the clock is not read backwards.\<close>

definition still :: "(string \<times> scale) list \<Rightarrow> nat \<Rightarrow> world \<Rightarrow> bool" where
  "still k t s \<longleftrightarrow> writes s = k \<and> t \<le> ticks s"

lemma frame_still: "frame s s' \<Longrightarrow> still k t s \<Longrightarrow> still k t s'"
  by (auto simp: still_def frame_writes) (simp add: frame_def)

lemma framed_writes: "framed m \<Longrightarrow> preserves (still k t) m"
  by (rule preservesI) (auto dest: framedD frame_still)

lemma writes_steps [simp]:
  "writes (s\<lparr>wpa := w\<rparr>) = writes s" "writes (s\<lparr>ticks := n\<rparr>) = writes s" "writes (s\<lparr>reads := n\<rparr>) = writes s"
  "writes (s\<lparr>trace := trace s0 @ es\<rparr>) = writes s0 @ concat (map scale_write es)"
  by (simp_all add: writes_def)

lemma preserves_writes_steps [preserves_intros]:
  "scale_write e = [] \<Longrightarrow> preserves (still k t) (emit e)"
  "preserves (still k t) go_now" "preserves (still k t) (go_read f)"
  "preserves (still k t) (modify_wpa g)" "preserves (still k t) (modify_status h)"
  "preserves (still k t) (setCondition ty st r m)"
proof -
  show "preserves (still k t) (setCondition ty st r m)"
    by (rule framed_writes) (rule framed_intros)
qed (auto intro!: preservesI simp: go_defs still_def)

lemma writes_after_set [simp]: "writes (after_set t st r m s) = writes s"
  by (rule frame_writes [OF frame_after_set])

lemma preserves_writes_status [preserves_intros]:
  "preserves (still k t) (setStatus cur des ms b)"
  "preserves (still k t) (setCurrentReplicasInStatus cur)"
  "preserves (still k t) (updateStatusIfNeeded r original)"
  unfolding setStatus_def setCurrentReplicasInStatus_def updateStatusIfNeeded_def updateWPAStatus_def
  by (intro preserves_intros; simp)+

lemma preserves_writes_tail [preserves_intros]:
  "preserves (still k t) (finish r original sc d)"
  "preserves (still k t) (not_scaling r original reference sc d)"
  "preserves (still k t) (scale_failed r original sc d err)"
  "preserves (still k t) (compute_failed r original cur err)"
  unfolding finish_def not_scaling_def scale_failed_def compute_failed_def
  by (intro preserves_intros; simp)+

lemma preserves_outcome: "preserves (still k t) m \<Longrightarrow> still k t s \<Longrightarrow> wp m (\<lambda>_. still k t) (\<lambda>_. still k t) s"
  by (simp add: preserves_def)

text \<open>The only write is the one of \<open>rescale\<close>, and not in dry-run mode.\<close>

lemma rescale_writes:
  "wp (rescale r original gr sc d)
     (\<lambda>_. still (writes s @ (if DryRun (Spec (wpa s)) then [] else [(gr, sc\<lparr>scale_SpecReplicas := de_desired d\<rparr>)])) (ticks s))
     (\<lambda>_. still (writes s @ (if DryRun (Spec (wpa s)) then [] else [(gr, sc\<lparr>scale_SpecReplicas := de_desired d\<rparr>)])) (ticks s)) s"
proof (cases "DryRun (Spec (wpa s))")
  case True
  show ?thesis
    unfolding rescale_def wp_bind [of "setCondition _ _ _ _"] wp_setCondition wp_bind [of "go_get _"] wp_get
      after_set_simps if_P [OF True] append_Nil2
    by (rule preserves_outcome, (intro preserves_intros; simp), simp add: still_def ticks_after_set)
next
  case False
  show ?thesis
    unfolding rescale_def wp_bind [of "setCondition _ _ _ _"] wp_setCondition wp_bind [of "go_get _"] wp_get
      after_set_simps if_not_P [OF False] update_scale_def
    unfolding wp_bind [of "go_bind _ _"] wp_bind [of "emit (ScaleUpdate _ _)"] wp_emit wp_read outcome.case
    by (rule preserves_outcome, (intro preserves_intros; simp), simp add: still_def ticks_after_set)
qed


section \<open>Decisions\<close>

definition scale_typed :: "scale \<Rightarrow> bool" where
  "scale_typed sc \<longleftrightarrow> 0 \<le> scale_SpecReplicas sc \<and> fits32 (scale_SpecReplicas sc) \<and>
     0 \<le> scale_StatusReplicas sc \<and> fits32 (scale_StatusReplicas sc)"

text \<open>A specification with the documented ranges: the replica bounds are ordered, a scale-up factor is
  at most 100 percent and the maximum is below \<open>2 ^ 30\<close>, so that no limit leaves \<open>int32\<close>.\<close>

definition bounded_spec :: "WatermarkPodAutoscalerSpec \<Rightarrow> bool" where
  "bounded_spec sp \<longleftrightarrow> spec_typed sp \<and>
     (case MinReplicas sp of None \<Rightarrow> False | Some m \<Rightarrow> 0 \<le> m \<and> m \<le> MaxReplicas sp) \<and>
     1 \<le> MaxReplicas sp \<and> MaxReplicas sp < 2 ^ 30 \<and>
     (case ScaleUpLimitFactor sp of None \<Rightarrow> False | Some f \<Rightarrow> 0 \<le> MilliValue f \<and> MilliValue f \<le> 100000) \<and>
     (case ScaleDownLimitFactor sp of None \<Rightarrow> False | Some f \<Rightarrow> 0 \<le> MilliValue f \<and> MilliValue f < 100000)"

text \<open>The target is outside its bounds or has no replicas: the decision is overridden.\<close>

definition edge :: "WatermarkPodAutoscalerSpec \<Rightarrow> scale \<Rightarrow> bool" where
  "edge sp sc \<longleftrightarrow> scale_SpecReplicas sc > MaxReplicas sp \<or> scale_SpecReplicas sc < min_or_zero sp \<or>
     scale_StatusReplicas sc = 0"

definition timely :: "WatermarkPodAutoscaler \<Rightarrow> int \<Rightarrow> int \<Rightarrow> time \<Rightarrow> bool" where
  "timely w cur des now \<longleftrightarrow> (case LastScaleTime (Status w) of None \<Rightarrow> True
     | Some t \<Rightarrow> des \<noteq> cur \<and> t + forbidden_window (Spec w) cur des * 1000000000 \<le> now)"

text \<open>What is guaranteed of a write of \<open>n\<close> replicas to the scale \<open>sc\<close> of the target.\<close>

definition good_write :: "WatermarkPodAutoscaler \<Rightarrow> scale \<Rightarrow> time \<Rightarrow> int \<Rightarrow> bool" where
  "good_write w sc now n \<longleftrightarrow> (let sp = Spec w; cur = scale_SpecReplicas sc in
     cur \<noteq> 0 \<and> 1 \<le> n \<and> n \<le> MaxReplicas sp \<and> (scale_StatusReplicas sc \<noteq> 0 \<longrightarrow> min_or_zero sp \<le> n) \<and>
     (\<not> edge sp sc \<longrightarrow> n \<le> up_limit (the (ScaleUpLimitFactor sp)) cur \<and>
        (min_or_zero sp \<noteq> 0 \<longrightarrow> down_limit (the (ScaleDownLimitFactor sp)) cur \<le> n) \<and> timely w cur n now))"

definition decision_ok :: "world \<Rightarrow> scale \<Rightarrow> time \<Rightarrow> decision \<Rightarrow> bool" where
  "decision_ok s sc now d \<longleftrightarrow> 0 \<le> de_desired d \<and> de_desired d \<le> MaxReplicas (Spec (wpa s)) \<and>
     (de_rescale d \<longrightarrow> good_write (wpa s) sc now (de_desired d))"

lemma preserves_shouldScale: "preserves store_ok (shouldScale cur des ts st)"
  unfolding shouldScale_def canScaleAfterDelay_def Let_def by (intro preserves_intros)

lemma wp_shouldScale_timely:
  assumes "store_ok s" "spec_typed (Spec (wpa s))"
  shows "wp (shouldScale cur des ts st) (\<lambda>b s'. (b \<longrightarrow> timely (wpa s) cur des ts) \<and> frame s s') (\<lambda>_ _. False) s"
proof -
  have "wp (shouldScale cur des ts st) (\<lambda>b s'. b \<longrightarrow> timely (wpa s) cur des ts) (\<lambda>_ _. False) s"
  proof (cases "LastScaleTime (Status (wpa s))")
    case None
    then show ?thesis by (simp add: shouldScale_def go_wp timely_def)
  next
    case (Some t)
    show ?thesis
      by (rule wp_mono [OF wp_shouldScale [OF assms Some]]) (use Some in \<open>auto simp: timely_def\<close>)
  qed
  from this framed_wp [OF framed_shouldScale] show ?thesis
    by (rule wp_mono [OF wp_conj [THEN iffD2, OF conjI]]) auto
qed

lemma frame_timely: "frame s s' \<Longrightarrow> timely (wpa s') cur des now = timely (wpa s) cur des now"
  by (simp add: timely_def frame_Spec frame_status_fields split: option.splits)

lemma wp_decide:
  assumes "store_ok s" "bounded_spec (Spec (wpa s))" "scale_typed sc"
  shows "wp (decide original sc now (c, stableRegime)) (\<lambda>d s'. decision_ok s sc now d \<and> frame s s') (\<lambda>_ _. False) s"
proof -
  let ?sp = "Spec (wpa s)" and ?cur = "scale_SpecReplicas sc"
  obtain up down where f: "ScaleUpLimitFactor ?sp = Some up" "ScaleDownLimitFactor ?sp = Some down"
    using assms(2) by (auto simp: bounded_spec_def split: option.splits)
  have ty: "spec_typed ?sp" and cur: "fits32 ?cur" "0 \<le> ?cur"
    using assms(2,3) by (auto simp: bounded_spec_def scale_typed_def)
  define des where "des = (if co_replicas c > 0 then co_replicas c else 0)"
  define n where "n = normalized (down_limit down ?cur) (up_limit up ?cur) (min_or_zero ?sp) (MaxReplicas ?sp) ?cur des
      (co_readyReplicas c)"
  have range: "1 \<le> n \<and> n \<le> MaxReplicas ?sp \<and> min_or_zero ?sp \<le> n \<and> n \<le> up_limit up ?cur \<and>
      (min_or_zero ?sp \<noteq> 0 \<longrightarrow> down_limit down ?cur \<le> n)" if "\<not> edge ?sp sc" "?cur \<noteq> 0"
  proof -
    have "min_or_zero ?sp \<le> ?cur" "?cur \<le> MaxReplicas ?sp" "1 \<le> ?cur" "0 \<le> min_or_zero ?sp"
      using that assms(2,3) by (auto simp: edge_def scale_typed_def bounded_spec_def min_or_zero_def split: option.splits)
    moreover have "down_limit down ?cur \<le> ?cur" "?cur \<le> up_limit up ?cur"
      using down_limit_range [of down ?cur] up_limit_range [of up ?cur] f assms(2) calculation cur
      by (auto simp: bounded_spec_def)
    ultimately show ?thesis using normalized_range [OF _ _ _ _ _ _ n_def] by auto
  qed
  have norm: "wp (normalizeDesiredReplicas ?cur des (co_readyReplicas c))
      (\<lambda>r s'. r = n \<and> store_ok s' \<and> frame s s') (\<lambda>_ _. False) s"
    by (rule wp_mono [OF wp_normalize [OF f cur(1) ty assms(1) n_def]]) auto
  have over: "wp (override original sc \<lparr>de_desired = n, de_rescale = b, de_reason = re, de_statuses = ss\<rparr>)
      (\<lambda>d s'. decision_ok s sc now d \<and> frame s s') (\<lambda>_ _. False) s2"
    if "b \<longrightarrow> timely (wpa s) ?cur n now" "frame s s2" for b re ss s2
    using that range assms(2,3) frame_Spec [OF that(2)] f
    by (auto simp: override_def go_wp Let_def decision_ok_def good_write_def edge_def min_or_zero_def bounded_spec_def scale_typed_def
        intro: frame_trans [OF _ frame_after_set] split: option.splits)
  have should: "wp (go_bind (shouldScale ?cur n now stableRegime) (\<lambda>b. override original sc
        \<lparr>de_desired = n, de_rescale = b, de_reason = re, de_statuses = ss\<rparr>))
      (\<lambda>d s'. decision_ok s sc now d \<and> frame s s') (\<lambda>_ _. False) s1" if "store_ok s1" "frame s s1" for re ss s1
    by (rule wp_phase2 [OF wp_shouldScale_timely])
      (use that ty frame_Spec [OF that(2)] frame_timely [OF that(2)] in \<open>auto intro!: over intro: frame_trans\<close>)
  have step: "wp (go_bind (normalizeDesiredReplicas ?cur des (co_readyReplicas c)) (\<lambda>desired.
       go_bind (shouldScale ?cur desired now stableRegime) (\<lambda>b. override original sc
        \<lparr>de_desired = desired, de_rescale = b, de_reason = g desired, de_statuses = co_statuses c\<rparr>)))
      (\<lambda>d s'. decision_ok s sc now d \<and> frame s s') (\<lambda>_ _. False) s" for g
    by (rule wp_phase2 [OF norm]) (auto intro: should)
  show ?thesis
  proof (cases "co_replicas c > 0")
    case True
    then show ?thesis using step unfolding decide_def Let_def prod.case des_def if_P [OF True] by simp
  next
    case False
    then show ?thesis using step unfolding decide_def Let_def prod.case des_def if_not_P [OF False] by simp
  qed
qed


lemma frame_good_write: "frame s s' \<Longrightarrow> good_write (wpa s') sc now n = good_write (wpa s) sc now n"
  by (simp add: good_write_def Let_def frame_Spec frame_timely)

section \<open>The whole body\<close>

lemma framed_emit_extra_bind:
  assumes "\<And>extra. quiet extra (e extra)" "framed k"
  shows "framed (go_bind (go_get extraPromLabels) (\<lambda>extra. go_bind (emit (e extra)) (\<lambda>_. k)))"
proof -
  have "framed (go_bind (go_bind (go_get extraPromLabels) (\<lambda>extra. emit (e extra))) (\<lambda>_. k))"
    by (intro framed_bind framed_emit_extra assms)
  then show ?thesis by (simp add: go_bind_def go_get_def)
qed

lemma framed_announce [framed_intros]: "framed announce"
  unfolding announce_def
  by (rule framed_bind, rule framed_pure, rule framed_emit_extra_bind)
    (auto simp: keys_labelsInfoLabels well_labelled_def keys_getPrometheusLabels intro!: framed_intros)

lemma preserves_announce [preserves_intros]: "preserves store_ok announce"
  unfolding announce_def by (intro preserves_intros)

lemma framed_scale_loop [framed_intros]: "framed (scale_loop r ns name ms gr errs)"
  by (induction ms arbitrary: gr errs) (auto intro!: framed_intros)

lemma preserves_scale_loop [preserves_intros]: "preserves store_ok (scale_loop r ns name ms gr errs)"
  by (induction ms arbitrary: gr errs) (auto intro!: preserves_intros)

lemma framed_getScale [framed_intros]: "framed (getScaleForResourceMappings r ns name ms)"
  unfolding getScaleForResourceMappings_def by (intro framed_intros)

lemma preserves_getScale [preserves_intros]: "preserves store_ok (getScaleForResourceMappings r ns name ms)"
  unfolding getScaleForResourceMappings_def by (intro preserves_intros)

definition scales_typed :: "reconciler \<Rightarrow> bool" where
  "scales_typed r \<longleftrightarrow> (\<forall>ns gr name n sc. Scales_Get r ns gr name n = Inr sc \<longrightarrow> scale_typed sc)"

definition scale_of :: "reconciler \<Rightarrow> WatermarkPodAutoscaler \<Rightarrow> string \<Rightarrow> scale \<Rightarrow> bool" where
  "scale_of r w gr sc \<longleftrightarrow> (\<exists>n. Scales_Get r (wpa_Namespace w) gr (ref_Name (ScaleTargetRef (Spec w))) n = Inr sc)"

lemma getScale_read:
  "wp (getScaleForResourceMappings r ns name ms)
     (\<lambda>(sc, gr, _) _. \<forall>x. sc = Some x \<longrightarrow> (\<exists>n. Scales_Get r ns gr name n = Inr x)) (\<lambda>_ _. False) s"
proof -
  have loop: "wp (scale_loop r ns name ms gr errs)
     (\<lambda>(sc, gr, _) _. \<forall>x. sc = Some x \<longrightarrow> (\<exists>n. Scales_Get r ns gr name n = Inr x)) (\<lambda>_ _. False) s" for gr errs s
    by (induction ms arbitrary: gr errs s) (auto simp: go_wp split: sum.splits)
  show ?thesis
    unfolding getScaleForResourceMappings_def by (rule wp_phase2 [OF loop]) (auto simp: go_wp split: prod.splits)
qed

definition writes_ok :: "reconciler \<Rightarrow> world \<Rightarrow> world \<Rightarrow> bool" where
  "writes_ok r s s' \<longleftrightarrow> writes s' = writes s \<or>
     (\<exists>gr sc n now. writes s' = writes s @ [(gr, sc\<lparr>scale_SpecReplicas := n\<rparr>)] \<and> \<not> DryRun (Spec (wpa s)) \<and>
        scale_of r (wpa s) gr sc \<and> good_write (wpa s) sc now n \<and> (\<exists>k \<ge> ticks s. k < ticks s' \<and> now = clock s k))"

lemma frame_writes_ok: "frame s s' \<Longrightarrow> writes_ok r s s'"
  by (simp add: writes_ok_def frame_writes)

lemma preserves_writes_ok:
  assumes "\<And>k t. preserves (still k t) m" "frame s s1"
  shows "wp m (\<lambda>_. writes_ok r s) (\<lambda>_. writes_ok r s) s1"
  using preserves_outcome [OF assms(1) [of "writes s1" 0], of s1] frame_writes [OF assms(2)]
  by (auto elim!: wp_mono simp: writes_ok_def still_def)

text \<open>A program within the frame that keeps the store in order, followed by the rest.\<close>

definition tidy :: "world \<Rightarrow> world \<Rightarrow> bool" where
  "tidy s s' \<longleftrightarrow> frame s s' \<and> store_ok s'"

lemma tidy_step:
  assumes "framed m" "preserves store_ok m" "tidy s s1"
  shows "wp m (\<lambda>_. tidy s) (\<lambda>_. frame s) s1"
  using assms unfolding tidy_def by (intro wpI) (auto dest: framedD preservesD intro: frame_trans)

lemma tidy_bind:
  assumes "framed m" "preserves store_ok m" "tidy s s1"
    and "\<And>a s2. tidy s s2 \<Longrightarrow> wp (f a) Q R s2" and "\<And>p s2. frame s s2 \<Longrightarrow> R p s2"
  shows "wp (go_bind m f) Q R s1"
  unfolding wp_bind by (rule wp_mono [OF tidy_step [OF assms(1-3)]]) (auto intro: assms)

context replica_calculator
begin

lemma reconcile_decided:
  assumes "tidy s s1" "bounded_spec (Spec (wpa s))" "scale_typed sc" "scale_of r (wpa s) gr sc" "ticks s \<le> k" "k < ticks s1" "now = clock s k"
  shows "wp (go_bind (decide original sc now c) (\<lambda>d.
     if de_rescale d then rescale r original gr sc d else not_scaling r original reference sc d))
     (\<lambda>_. writes_ok r s) (\<lambda>_. writes_ok r s) s1"
proof -
  obtain co b where c: "c = (co, b)" by fastforce
  have sp: "Spec (wpa s1) = Spec (wpa s)" using assms(1) by (simp add: tidy_def frame_Spec)
  have dec: "wp (decide original sc now c) (\<lambda>d s'. decision_ok s1 sc now d \<and> frame s1 s') (\<lambda>_. writes_ok r s) s1"
    unfolding c by (rule wp_mono [OF wp_decide]) (use assms sp in \<open>auto simp: tidy_def\<close>)
  show ?thesis
  proof (rule wp_phase2 [OF dec])
    fix d s2
    assume d: "decision_ok s1 sc now d \<and> frame s1 s2"
    then have fr: "frame s s2" using assms(1) by (auto simp: tidy_def intro: frame_trans)
    show "wp (if de_rescale d then rescale r original gr sc d else not_scaling r original reference sc d)
       (\<lambda>_. writes_ok r s) (\<lambda>_. writes_ok r s) s2"
    proof (cases "de_rescale d")
      case True
      then have "good_write (wpa s) sc now (de_desired d)"
        using d assms(1) frame_good_write by (auto simp: decision_ok_def tidy_def)
      moreover have "ticks s1 \<le> ticks s2" using d by (simp add: frame_def)
      ultimately have "still (writes s2 @ (if DryRun (Spec (wpa s2)) then [] else [(gr, sc\<lparr>scale_SpecReplicas := de_desired d\<rparr>)])) (ticks s2) s'
        \<Longrightarrow> writes_ok r s s'" for s'
        using frame_writes [OF fr] frame_Spec [OF fr] assms(4-7) by (fastforce simp: writes_ok_def still_def)
      then show ?thesis using True by (simp, intro wp_mono [OF rescale_writes]) auto
    next
      case False
      show ?thesis unfolding if_not_P [OF False] by (rule preserves_writes_ok [OF _ fr]) (intro preserves_intros)
    qed
  qed
qed

lemma reconcile_scale_writes:
  assumes "replicaCalc r = rc" "bounded_spec (Spec (wpa s))" "tidy s s1" "scale_typed sc" "scale_of r (wpa s) gr sc"
  shows "wp (reconcile_scale r original gr sc) (\<lambda>_. writes_ok r s) (\<lambda>_. writes_ok r s) s1"
  unfolding reconcile_scale_def Let_def assms(1)
proof (rule tidy_bind [OF framed_announce preserves_announce assms(3)])
  fix s2
  assume s2: "tidy s s2"
  let ?s = "s2\<lparr>ticks := Suc (ticks s2)\<rparr>"
  have k: "ticks s \<le> ticks s2" "clock s2 (ticks s2) = clock s (ticks s2)"
    using s2 by (auto simp: tidy_def frame_def)
  have s3: "tidy ?s ?s" "frame s ?s" using s2 by (simp_all add: tidy_def frame_now store_ok_def)
  have "wp (go_bind (computeReplicas (lib r) rc sc) (\<lambda>computed. case computed of
       Inl e \<Rightarrow> compute_failed r original (scale_StatusReplicas sc) e
     | Inr c \<Rightarrow> go_bind (decide original sc (clock s2 (ticks s2)) c) (\<lambda>d.
        if de_rescale d then rescale r original gr sc d else not_scaling r original reference sc d)))
     (\<lambda>_. writes_ok r s) (\<lambda>_. writes_ok r s) ?s" for reference
  proof (rule tidy_bind [OF framed_computeReplicas store_computeReplicas s3(1)])
    fix a s4 assume "tidy ?s s4"
    then have s4: "tidy s s4" "ticks s2 < ticks s4" using s3(2) by (auto simp: tidy_def frame_def)
    show "wp (case a of Inl e \<Rightarrow> compute_failed r original (scale_StatusReplicas sc) e
     | Inr c \<Rightarrow> go_bind (decide original sc (clock s2 (ticks s2)) c) (\<lambda>d.
        if de_rescale d then rescale r original gr sc d else not_scaling r original reference sc d))
     (\<lambda>_. writes_ok r s) (\<lambda>_. writes_ok r s) s4"
      using s4 reconcile_decided [OF s4(1) assms(2,4,5) k(1) s4(2) k(2)]
      by (cases a) (auto simp: tidy_def intro!: preserves_writes_ok preserves_intros)
  qed (use s3(2) in \<open>auto intro: frame_writes_ok frame_trans\<close>)
  then show "wp (go_bind (go_get wpa) (\<lambda>w. go_bind go_now (\<lambda>now. go_bind (computeReplicas (lib r) rc sc) (\<lambda>computed.
      case computed of Inl e \<Rightarrow> compute_failed r original (scale_StatusReplicas sc) e
     | Inr c \<Rightarrow> go_bind (decide original sc now c) (\<lambda>d. if de_rescale d then rescale r original gr sc d
        else not_scaling r original (ref_Kind (ScaleTargetRef (Spec w)) @ ''/'' @ wpa_Namespace w @ ''/'' @
          ref_Name (ScaleTargetRef (Spec w))) sc d)))))
     (\<lambda>_. writes_ok r s) (\<lambda>_. writes_ok r s) s2"
    unfolding wp_bind [of "go_get _"] wp_get wp_bind [of go_now] wp_now .
qed (rule frame_writes_ok)

lemma reconcileWPA_writes:
  assumes "replicaCalc r = rc" "store_ok s" "bounded_spec (Spec (wpa s))" "scales_typed r"
  shows "wp (reconcileWPA r original) (\<lambda>_. writes_ok r s) (\<lambda>_ _. False) s"
proof -
  have get: "wp (getScaleForResourceMappings r ns name ms) (\<lambda>(sc, gr, _) s'. tidy s s' \<and> (\<forall>x. sc = Some x \<longrightarrow> scale_typed x \<and> (\<exists>n. Scales_Get r ns gr name n = Inr x)))
     (\<lambda>_. writes_ok r s) s1" if "tidy s s1" for ns name ms s1
    by (rule wp_mono [OF wp_conj [THEN iffD2, OF conjI, OF getScale_read tidy_step [OF framed_getScale preserves_getScale that]]])
       (use assms(4) in \<open>auto simp: scales_typed_def\<close>)
  have read: "tidy s (s\<lparr>reads := n\<rparr>)" if "reads s \<le> n" for n
    using assms(2) that by (auto simp: tidy_def store_ok_def frame_def intro: exI [of _ "Status (wpa s)"])
  have tidy_ok: "tidy s s1 \<Longrightarrow> writes_ok r s s1" for s1
    by (simp add: tidy_def frame_writes_ok)
  have body: "wp (reconcileWPA_body r original) (\<lambda>_. writes_ok r s) (\<lambda>_. writes_ok r s) s"
    unfolding reconcileWPA_body_def Let_def
    by (auto simp: go_wp read frame_writes_ok intro!: wp_mono [OF get] reconcile_scale_writes [OF assms(1,3)] tidy_ok simp: scale_of_def
        split: sum.splits option.splits)
  show ?thesis
    unfolding reconcileWPA_def wp_recover by (rule wp_mono [OF body]) (auto simp: go_wp)
qed

end


section \<open>A whole request\<close>

text \<open>
  What the custom resource definition and the documentation guarantee of every object the API
  server returns, beyond what \<open>CheckWPAValidity\<close> checks.
\<close>

definition schema_ok :: "WatermarkPodAutoscaler \<Rightarrow> bool" where
  "schema_ok w \<longleftrightarrow> spec_typed (Spec w) \<and> 0 \<le> min_or_zero (Spec w) \<and>
     1 \<le> MaxReplicas (Spec w) \<and> MaxReplicas (Spec w) < 2 ^ 30 \<and>
     (case ScaleUpLimitFactor (Spec w) of None \<Rightarrow> True | Some f \<Rightarrow> MilliValue f \<le> 100000) \<and>
     conditions_ok (Conditions (Status w))"

definition server_ok :: "reconciler \<Rightarrow> bool" where
  "server_ok r \<longleftrightarrow> scales_typed r \<and>
     (\<forall>ns name n w. Client_Get r ns name n = Inr w \<longrightarrow> schema_ok w) \<and>
     (\<forall>w n w'. Client_Update r w n = Inr w' \<longrightarrow> schema_ok w')"

lemma valid_bounded: "valid_spec (Spec w) \<Longrightarrow> schema_ok w \<Longrightarrow> bounded_spec (Spec w)"
  by (auto simp: valid_spec_def schema_ok_def bounded_spec_def min_or_zero_def split: option.splits)

text \<open>
  The writes of a request: none, or one.  That one writes the scale that was read for the target of the
  object the server returned (when it was read, or when it was written back with the finalizer), and it is good for that object at
  a reading of the clock during the request.
\<close>

definition finalized :: "WatermarkPodAutoscaler \<Rightarrow> WatermarkPodAutoscaler" where
  "finalized w = w\<lparr>Finalizers := Finalizers w @ [watermarkpodautoscalerFinalizer]\<rparr>"

definition served :: "reconciler \<Rightarrow> string \<Rightarrow> string \<Rightarrow> nat \<Rightarrow> WatermarkPodAutoscaler \<Rightarrow> bool" where
  "served r ns name n w \<longleftrightarrow> (\<exists>w0. Client_Get r ns name n = Inr w0 \<and>
     (w = w0 \<or> Client_Update r (finalized w0) (Suc n) = Inr w))"

definition request_writes :: "reconciler \<Rightarrow> (WatermarkPodAutoscaler \<Rightarrow> bool) \<Rightarrow> world \<Rightarrow> world \<Rightarrow> bool" where
  "request_writes r of_server s s' \<longleftrightarrow> writes s' = writes s \<or>
     (\<exists>w gr sc n k. writes s' = writes s @ [(gr, sc\<lparr>scale_SpecReplicas := n\<rparr>)] \<and> of_server w \<and>
        \<not> DryRun (Spec w) \<and> valid_spec (Spec w) \<and> scale_of r w gr sc \<and> good_write w sc (clock s k) n \<and> ticks s \<le> k \<and> k < ticks s')"

lemma request_writes_still: "request_writes r S s0 s \<Longrightarrow> still (writes s) (ticks s) s' \<Longrightarrow> request_writes r S s0 s'"
  unfolding request_writes_def still_def by (fastforce intro: less_le_trans)

text \<open>Before the scale is written the object in memory agrees with the one of the server; \<open>s0\<close> is the world before the request.\<close>

definition live :: "world \<Rightarrow> WatermarkPodAutoscaler \<Rightarrow> world \<Rightarrow> bool" where
  "live s0 w s \<longleftrightarrow> still (writes s0) (ticks s0) s \<and> clock s = clock s0 \<and> schema_ok (wpa s) \<and> Spec (wpa s) = Spec w \<and>
     wpa_Namespace (wpa s) = wpa_Namespace w \<and> LastScaleTime (Status (wpa s)) = LastScaleTime (Status w)"

lemma frame_live: "frame s s' \<Longrightarrow> store_ok s' \<Longrightarrow> live s0 w s \<Longrightarrow> live s0 w s'"
  by (auto simp: live_def frame_still schema_ok_def store_ok_def frame_Spec frame_status_fields) (auto simp: frame_def)

lemma live_store: "live s0 w s \<Longrightarrow> store_ok s"
  by (simp add: live_def schema_ok_def store_ok_def)

lemma still_request: "still (writes s0) (ticks s0) s \<Longrightarrow> request_writes r S s0 s"
  by (simp add: still_def request_writes_def)

lemma preserves_live_framed:
  assumes "framed m" "preserves store_ok m"
  shows "preserves (live s0 w) m"
proof (rule preservesI)
  fix s r s' assume "m s = (r, s')" "live s0 w s"
  then show "live s0 w s'"
    using framedD [OF assms(1)] preservesD [OF assms(2)] live_store frame_live by metis
qed

lemma preserves_live_steps [preserves_intros]:
  "scale_write e = [] \<Longrightarrow> preserves (live s0 w) (emit e)" "preserves (live s0 w) go_now" "preserves (live s0 w) (go_read f)"
  "preserves (live s0 w) (setCondition t st re m)"
proof -
  show "preserves (live s0 w) (setCondition t st re m)"
    by (intro preserves_live_framed framed_intros preserves_intros)
qed (auto intro!: preservesI simp: go_defs live_def still_def)

lemma preserves_still_request:
  assumes "\<And>k t. preserves (still k t) m"
  shows "preserves (request_writes r S s0) m"
proof (rule preservesI)
  fix s a s' assume "m s = (a, s')" "request_writes r S s0 s"
  then show "request_writes r S s0 s'"
    using preservesD [OF assms [of "writes s" "ticks s"]] request_writes_still by (simp add: still_def)
qed

lemma cleanup_keeps: "keeps_wpa (cleanupAssociatedMetrics w b)"
  unfolding keeps_wpa_def cleanupAssociatedMetrics_def cleanup_object_def cleanup_metric_def cleanupForLabels_def Let_def
  by (intro allI preserves_intros)

lemma framed_finalizeWPA [framed_intros]: "framed finalizeWPA"
  unfolding finalizeWPA_def by (intro framed_intros)

lemma preserves_writes_finalizer [preserves_intros]: "preserves (still k t) (handleFinalizer r)"
  unfolding handleFinalizer_def addFinalizer_def update_object_def
  by (intro preserves_intros framed_writes [OF framed_finalizeWPA]; simp)

lemma wp_trivial: "(\<And>a s'. Q a s') \<Longrightarrow> (\<And>p s'. R p s') \<Longrightarrow> wp m Q R s"
  by (auto intro: wpI)

lemma live_handleFinalizer:
  assumes "server_ok r" "live s0 (wpa s) s"
  shows "wp (handleFinalizer r) (\<lambda>(stop, err) s'. still (writes s0) (ticks s0) s' \<and>
      (\<not> stop \<longrightarrow> (\<exists>w. live s0 w s' \<and> (w = wpa s \<or> Client_Update r (finalized (wpa s)) (reads s) = Inr w))))
      (\<lambda>_. still (writes s0) (ticks s0)) s"
proof -
  have "wp (handleFinalizer r) (\<lambda>(stop, err) s'. \<not> stop \<longrightarrow> (\<exists>w. live s0 w s' \<and>
      (w = wpa s \<or> Client_Update r (finalized (wpa s)) (reads s) = Inr w))) (\<lambda>_ _. True) s"
    unfolding handleFinalizer_def addFinalizer_def update_object_def
    using assms by (auto simp: go_wp server_ok_def live_def still_def finalized_def intro!: wp_trivial [where m = finalizeWPA]
        split: sum.splits outcome.splits option.splits)
  moreover have "wp (handleFinalizer r) (\<lambda>_. still (writes s0) (ticks s0)) (\<lambda>_. still (writes s0) (ticks s0)) s"
    by (rule preserves_outcome [OF preserves_writes_finalizer]) (use assms in \<open>simp add: live_def\<close>)
  ultimately show ?thesis
    by (rule wp_mono [OF wp_conj [THEN iffD2, OF conjI]]) auto
qed

lemma preserves_writes_report [preserves_intros]:
  "preserves (still k t) (report_status r original rel res)"
  "preserves (still k t) (update_object r w)" "preserves (still k t) lifecycle_enabled"
  "preserves (still k t) (check_monitor r original)" "preserves (still k t) updateConditionsMetrics"
  unfolding report_status_def update_object_def lifecycle_enabled_def check_monitor_def updateConditionsMetrics_def Let_def
  by (intro preserves_intros; simp)+

lemma preserves_live_lifecycle [preserves_intros]: "preserves (live s0 w) lifecycle_enabled"
  unfolding lifecycle_enabled_def by (intro preserves_intros)

lemma schema_ok_after_set [simp]: "schema_ok (wpa s) \<Longrightarrow> schema_ok (wpa (after_set t st re m s))"
  using store_ok_after_set [of s t st re m] by (simp add: schema_ok_def store_ok_def)

lemma live_check_monitor:
  assumes "live s0 w s"
  shows "wp (check_monitor r original) (\<lambda>a s'. still (writes s0) (ticks s0) s' \<and> (a = None \<longrightarrow> live s0 w s'))
     (\<lambda>_. still (writes s0) (ticks s0)) s"
proof -
  have "wp (check_monitor r original) (\<lambda>a s'. a = None \<longrightarrow> live s0 w s') (\<lambda>_ _. True) s"
    unfolding check_monitor_def Let_def
    using assms
    by (auto simp: go_wp live_def still_def intro!: wp_trivial [where m = "report_status _ _ _ _"] schema_ok_after_set
        intro: le_trans [OF _ ticks_after_set] split: sum.splits)
  moreover have "wp (check_monitor r original) (\<lambda>_. still (writes s0) (ticks s0)) (\<lambda>_. still (writes s0) (ticks s0)) s"
    by (rule preserves_outcome, rule preserves_intros) (use assms in \<open>simp add: live_def\<close>)
  ultimately show ?thesis
    by (rule wp_mono [OF wp_conj [THEN iffD2, OF conjI]]) auto
qed


lemma bounded_metrics [simp]: "bounded_spec (sp\<lparr>Metrics := ms\<rparr>) = bounded_spec sp"
  by (simp add: bounded_spec_def spec_typed_def split: option.splits)

lemma good_write_filled:
  assumes "Spec w' = (Spec w)\<lparr>Metrics := ms\<rparr>" "LastScaleTime (Status w') = LastScaleTime (Status w)"
  shows "good_write w' sc now n = good_write w sc now n"
  using assms by (simp add: good_write_def Let_def edge_def timely_def min_or_zero_def forbidden_window_def split: option.splits)

lemma writes_ok_request:
  assumes "live s0 w s" "valid_spec (Spec w)" "of_server w"
    and "Spec w1 = (Spec (wpa s))\<lparr>Metrics := ms\<rparr>" "wpa_Namespace w1 = wpa_Namespace (wpa s)" "Status w1 = Status (wpa s)"
    and "writes_ok r (s\<lparr>wpa := w1\<rparr>) s'"
  shows "request_writes r of_server s0 s'"
proof -
  have "good_write w1 sc now n = good_write w sc now n" for sc now n
    by (rule good_write_filled [where ms = ms]) (use assms in \<open>auto simp: live_def\<close>)
  moreover have "scale_of r w1 gr sc = scale_of r w gr sc" for gr sc
    using assms(1,4,5) by (simp add: live_def scale_of_def)
  moreover have "DryRun (Spec w1) = DryRun (Spec w)" "writes s = writes s0" "clock s = clock s0" "ticks s0 \<le> ticks s"
    using assms(1,4) by (auto simp: live_def still_def)
  ultimately show ?thesis
    using assms(2,3,7) unfolding writes_ok_def request_writes_def by (fastforce intro: le_trans)
qed

lemma preserves_request [preserves_intros]:
  "scale_write e = [] \<Longrightarrow> preserves (request_writes r S s0) (emit e)" "preserves (request_writes r S s0) (setCondition t st re m)"
  "preserves (request_writes r S s0) (updateStatusIfNeeded r' original)"
  "preserves (request_writes r S s0) updateConditionsMetrics"
  "preserves (request_writes r S s0) (update_object r' w)" "preserves (request_writes r S s0) (report_status r' original rel res)"
  by (rule preserves_still_request, (intro preserves_intros; assumption))+

lemma preserves_both: "preserves P m \<Longrightarrow> P s \<Longrightarrow> wp m (\<lambda>_. P) (\<lambda>_. P) s"
  by (simp add: preserves_def)

context replica_calculator
begin

lemma process_writes:
  assumes "replicaCalc r = rc" "server_ok r" "live s0 w s" "valid_spec (Spec w)" "S w"
  shows "wp (process r original) (\<lambda>_. request_writes r S s0)
     (\<lambda>_. request_writes r S s0) s"
proof -
  let ?w = "(wpa s)\<lparr>Spec := (Spec (wpa s))\<lparr>Metrics := map fill_metric (Metrics (Spec (wpa s)))\<rparr>\<rparr>"
  have sp: "bounded_spec (Spec (wpa s))"
    using assms(3,4) by (intro valid_bounded) (auto simp: live_def)
  have run: "wp (reconcileWPA r original) (\<lambda>_. request_writes r S s0) (\<lambda>_ _. False) (s\<lparr>wpa := ?w\<rparr>)"
  proof (rule wp_mono [OF reconcileWPA_writes [OF assms(1)]])
    show "store_ok (s\<lparr>wpa := ?w\<rparr>)" "bounded_spec (Spec (wpa (s\<lparr>wpa := ?w\<rparr>)))" "scales_typed r"
      using sp live_store [OF assms(3)] assms(2) by (simp_all add: store_ok_def server_ok_def)
    show "request_writes r S s0 s'" if "writes_ok r (s\<lparr>wpa := ?w\<rparr>) s'" for s'
      by (rule writes_ok_request [where of_server = S, OF assms(3-5) _ _ _ that]) simp_all
  qed
  have rest: "wp (case a of None \<Rightarrow> go_return (\<lparr>Requeue = False, RequeueAfter = syncPeriod r\<rparr>, None)
     | Some err \<Rightarrow> go_bind (emit (Eventf None EventTypeWarning ReasonFailedProcessWPA (Error err))) (\<lambda>_.
       go_bind (setCondition AbleToScale ConditionFalse ReasonFailedProcessWPA
          ''Error happened while processing the WPA'') (\<lambda>_.
       go_bind (updateStatusIfNeeded r original) (\<lambda>b. case b of
         Some err2 \<Rightarrow> go_bind (emit (Eventf None EventTypeWarning ReasonFailedUpdateStatus (Error err2))) (\<lambda>_.
           go_return (no_requeue, NewAggregate (lib r) [err, err2]))
       | None \<Rightarrow> go_return (\<lparr>Requeue = False, RequeueAfter = requeueAfterForWPAErrors err\<rparr>, None)))))
     (\<lambda>_. request_writes r S s0) (\<lambda>_. request_writes r S s0) s1"
    if "request_writes r S s0 s1" for a s1
    by (rule preserves_both [of "request_writes r S s0", OF _ that]) (intro preserves_intros; simp)
  show ?thesis
    unfolding process_def fillMissingWatermark_def wp_bind [of "modify_wpa _"] wp_modify_wpa
    by (rule wp_phase [where P = "request_writes r S s0", OF wp_mono [OF run]]) (auto intro: rest)
qed


lemma reconcile_live_writes:
  assumes "replicaCalc r = rc" "server_ok r" "live s0 w s" "S w"
  shows "wp (reconcile_live r original) (\<lambda>_. request_writes r S s0)
     (\<lambda>_. request_writes r S s0) s"
proof -
  let ?Q = "request_writes r S s0"
  have start: "?Q s" and sp: "Spec (wpa s) = Spec w" using assms(3) by (auto simp: live_def still_request)
  show ?thesis
  proof (cases "IsDefaultWatermarkPodAutoscaler (wpa s) \<and> CheckWPAValidity (wpa s) = None")
    case False
    then show ?thesis
      unfolding reconcile_live_def wp_bind [of "go_get _"] wp_get
      by (intro preserves_both [of ?Q, OF _ start]) (auto intro!: preserves_intros split: option.splits)
  next
    case True
    then have valid: "valid_spec (Spec w)" using sp by (auto simp: CheckWPAValidity_None_iff)
    have mon: "wp (if b then check_monitor r original else go_return None)
        (\<lambda>a s'. ?Q s' \<and> (a = None \<longrightarrow> live s0 w s')) (\<lambda>_. ?Q) s1" if "live s0 w s1" for b s1
      using that by (cases b) (auto simp: go_wp live_def still_request intro!: wp_mono [OF live_check_monitor])
    have lc: "wp lifecycle_enabled (\<lambda>_. live s0 w) (\<lambda>_. ?Q) s"
      by (rule wp_mono [OF preserves_both [OF preserves_live_lifecycle assms(3)]]) (auto simp: live_def still_request)
    show ?thesis
      using True unfolding reconcile_live_def wp_bind [of "go_get _"] wp_get
      by (simp, intro wp_phase [OF lc] wp_phase2 [OF mon])
        (auto simp: go_wp live_def split: option.splits intro!: process_writes [where S = S, OF assms(1,2) _ valid assms(4)])
  qed
qed

theorem Reconcile_writes:
  assumes "replicaCalc r = rc" "server_ok r"
  shows "wp (Reconcile r ns name) (\<lambda>_. request_writes r (served r ns name (reads s)) s)
     (\<lambda>_. request_writes r (served r ns name (reads s)) s) s"
proof (cases "Client_Get r ns name (reads s)")
  case (Inl e)
  then show ?thesis by (simp add: Reconcile_def go_wp request_writes_def)
next
  case (Inr w)
  let ?Q = "request_writes r (served r ns name (reads s)) s"
  let ?s = "s\<lparr>reads := Suc (reads s), wpa := w\<rparr>"
  have live: "live s (wpa ?s) ?s" using Inr assms(2) by (auto simp: live_def server_ok_def still_def)
  have tail: "wp (reconcile_live r original) (\<lambda>_. wp updateConditionsMetrics (\<lambda>_. ?Q) (\<lambda>_. ?Q))
      (\<lambda>_. wp updateConditionsMetrics (\<lambda>_. ?Q) (\<lambda>_. ?Q)) (after_set t st re m s1)"
    if l: "live s w' s1" and sv: "served r ns name (reads s) w'" for w' s1 original t st re m
    by (rule wp_mono [OF reconcile_live_writes [where S = "served r ns name (reads s)", OF assms _ sv]])
      (use l live_store [OF l] in \<open>auto intro!: frame_live [OF frame_after_set] preserves_both [of ?Q, OF preserves_request(4), THEN wp_mono]\<close>)
  have sv: "served r ns name (reads s) w'" if "w' = w \<or> Client_Update r (finalized w) (Suc (reads s)) = Inr w'" for w'
    using Inr that by (auto simp: served_def)
  show ?thesis
    unfolding Reconcile_def wp_bind [of "go_read _"] wp_read outcome.case Inr sum.case wp_bind [of "modify_wpa _"] wp_modify_wpa
    by (rule wp_phase2 [OF wp_mono [OF live_handleFinalizer [OF assms(2)]]])
     (use live sv in \<open>auto simp: go_wp still_request intro: tail\<close>)
qed

end

end
