(* ===== verification/Reconcile_Results.thy ===== *)
theory Reconcile_Results
  imports Reconcile_Safety
begin

text \<open>
  What a request returns and leaves behind.  \<open>total\<close> are the programs that never panic;
  \<open>labels_ok\<close> says that every Prometheus vector was used with the labels it was declared with; both are closed under
  the combinators and hold of all of \<open>Reconcile\<close> that is outside the recovered part, respectively of
  all of it.  \<open>wp_Reconcile_alive\<close> is the point from which the outcomes of a request for a
  live object are computed.
\<close>

section \<open>Programs that never panic\<close>

named_theorems total_intros \<open>programs that never panic\<close>

definition total :: "'a prog \<Rightarrow> bool" where
  "total m \<longleftrightarrow> (\<forall>s. wp m (\<lambda>_ _. True) (\<lambda>_ _. False) s)"

lemma total_bind [total_intros]: "total m \<Longrightarrow> (\<And>a. total (f a)) \<Longrightarrow> total (go_bind m f)"
  unfolding total_def wp_bind by (blast intro: wp_mono)

lemma total_if [total_intros]: "(b \<Longrightarrow> total m) \<Longrightarrow> (\<not> b \<Longrightarrow> total n) \<Longrightarrow> total (if b then m else n)"
  by simp

lemma total_cases [total_intros]:
  "total m \<Longrightarrow> (\<And>y. total (n y)) \<Longrightarrow> total (case x of None \<Rightarrow> m | Some y \<Rightarrow> n y)"
  "(\<And>e. total (p e)) \<Longrightarrow> (\<And>y. total (n y)) \<Longrightarrow> total (case z of Inl e \<Rightarrow> p e | Inr y \<Rightarrow> n y)"
  "(\<And>a b. total (q a b)) \<Longrightarrow> total (case t of (a, b) \<Rightarrow> q a b)"
  by (simp_all split: option.splits sum.splits prod.splits)

lemma total_steps [total_intros]:
  "total (go_return x)" "total (go_get f)" "total (emit e)" "total (modify_wpa g)" "total (modify_status h)"
  "total (setCondition t st r m)" "total go_now" "total (go_read (\<lambda>n. Ret (k n)))"
  by (simp_all add: total_def go_wp)

lemma total_recover [total_intros]: "(\<And>p. total (h p)) \<Longrightarrow> total (go_recover m h)"
  unfolding total_def wp_recover by (rule allI, rule wp_trivial) blast+

lemma total_finally [total_intros]: "total m \<Longrightarrow> total d \<Longrightarrow> total (go_finally m d)"
  unfolding total_def wp_finally by (blast intro: wp_mono)

lemma total_status [total_intros]:
  "total (updateStatusIfNeeded r original)" "total (update_object r w)" "total updateConditionsMetrics" "total fillMissingWatermark"
  unfolding updateStatusIfNeeded_def updateWPAStatus_def update_object_def updateConditionsMetrics_def fillMissingWatermark_def Let_def
  by (intro total_intros)+

lemma total_report [total_intros]: "total (report_status r original rel res)"
  unfolding report_status_def by (intro total_intros)

lemma total_process [total_intros]: "total (process r original)"
  unfolding process_def reconcileWPA_def by (intro total_intros)

lemma total_reconcile_live [total_intros]: "total (reconcile_live r original)"
  unfolding reconcile_live_def lifecycle_enabled_def check_monitor_def Let_def by (intro total_intros)

lemma total_addFinalizer [total_intros]: "total (addFinalizer r)"
  unfolding addFinalizer_def by (intro total_intros)

section \<open>Labels\<close>

lemma preserves_guards [preserves_intros]:
  "preserves P m \<Longrightarrow> (\<And>p. preserves P (h p)) \<Longrightarrow> preserves P (go_recover m h)"
  "preserves P m \<Longrightarrow> preserves P d \<Longrightarrow> preserves P (go_finally m d)"
  by (rule preservesI, auto simp: go_defs split: prod.splits outcome.splits dest: preservesD)+

fun labelled :: "string list \<Rightarrow> effect \<Rightarrow> bool" where
  "labelled extra (PromSet v ls _) = well_labelled extra v ls"
| "labelled extra (PromAdd v ls _) = well_labelled extra v ls"
| "labelled extra _ = True"

definition labels_ok :: "world \<Rightarrow> bool" where
  "labels_ok s \<longleftrightarrow> list_all (labelled (extraPromLabels s)) (trace s)"

lemma quiet_labelled: "quiet x e \<Longrightarrow> labelled x e"
  by (cases e) auto

lemma framed_labels: "framed m \<Longrightarrow> preserves labels_ok m"
proof (rule preservesI)
  fix s r s' assume "framed m" "m s = (r, s')" "labels_ok s"
  then have "frame s s'" by (auto dest: framedD)
  then obtain es where es: "trace s' = trace s @ es" "list_all (quiet (extraPromLabels s)) es" "extraPromLabels s' = extraPromLabels s"
    by (auto simp: frame_def)
  have "list_all (labelled (extraPromLabels s)) es" using es(2) quiet_labelled by (auto simp: list_all_iff)
  then show "labels_ok s'" using \<open>labels_ok s\<close> es by (simp add: labels_ok_def)
qed

lemma labels_steps [preserves_intros]:
  "(\<And>x. labelled x e) \<Longrightarrow> preserves labels_ok (emit e)" "preserves labels_ok go_now" "preserves labels_ok (go_read f)"
  "preserves labels_ok (modify_wpa g)" "preserves labels_ok (modify_status h)" "preserves labels_ok (setCondition t st r m)"
proof -
  show "preserves labels_ok (setCondition t st r m)" by (rule framed_labels) (rule framed_intros)
qed (auto intro!: preservesI simp: go_defs labels_ok_def)

lemma labels_status [preserves_intros]:
  "preserves labels_ok (setStatus cur des ms b)" "preserves labels_ok (setCurrentReplicasInStatus cur)"
  "preserves labels_ok (updateStatusIfNeeded r original)" "preserves labels_ok (update_object r w)"
  unfolding setStatus_def setCurrentReplicasInStatus_def updateStatusIfNeeded_def updateWPAStatus_def update_object_def
  by (intro preserves_intros; simp)+

lemma labels_tail [preserves_intros]:
  "preserves labels_ok (finish r original sc d)" "preserves labels_ok (not_scaling r original reference sc d)"
  "preserves labels_ok (scale_failed r original sc d err)" "preserves labels_ok (compute_failed r original cur err)"
  "preserves labels_ok (rescale r original gr sc d)"
  unfolding finish_def not_scaling_def scale_failed_def compute_failed_def rescale_def update_scale_def
  by (intro preserves_intros; simp add: well_labelled_def keys_getPrometheusLabels)+

lemma labels_simple [preserves_intros]:
  "preserves labels_ok (decide original sc now c)" "preserves labels_ok announce"
  "preserves labels_ok (getScaleForResourceMappings r ns name ms)" "preserves labels_ok finalizeWPA"
  unfolding decide_def override_def Let_def by (intro framed_labels framed_intros)+

lemma labels_finalizer [preserves_intros]: "preserves labels_ok (handleFinalizer r)"
  unfolding handleFinalizer_def addFinalizer_def by (intro preserves_intros)

lemma labels_request [preserves_intros]:
  "preserves labels_ok (report_status r original rel res)" "preserves labels_ok lifecycle_enabled"
  "preserves labels_ok (check_monitor r original)" "preserves labels_ok updateConditionsMetrics" "preserves labels_ok fillMissingWatermark"
  unfolding report_status_def lifecycle_enabled_def check_monitor_def updateConditionsMetrics_def fillMissingWatermark_def Let_def
  by (intro preserves_intros; simp add: well_labelled_def keys_getPrometheusLabels insert_commute)+

context replica_calculator
begin

lemma labels_Reconcile:
  assumes "replicaCalc r = rc"
  shows "preserves labels_ok (Reconcile r ns name)"
proof -
  have c: "preserves labels_ok (computeReplicas (lib r) rc sc)" for sc
    by (rule framed_labels [OF framed_computeReplicas])
  have w: "preserves labels_ok (reconcileWPA r original)" for original
    unfolding reconcileWPA_def reconcileWPA_body_def reconcile_scale_def Let_def assms by (intro preserves_intros c)
  show ?thesis
    unfolding Reconcile_def reconcile_live_def process_def by (intro preserves_intros w) (simp_all)
qed

end

section \<open>Results of a request\<close>

text \<open>An object that is alive and has the finalizer\<close>

definition alive :: "WatermarkPodAutoscaler \<Rightarrow> bool" where
  "alive w \<longleftrightarrow> DeletionTimestamp w = None \<and> watermarkpodautoscalerFinalizer \<in> set (Finalizers w)"

definition fetched :: "WatermarkPodAutoscaler \<Rightarrow> world \<Rightarrow> world" where
  "fetched w s = after_set ScalingActive ConditionFalse ReasonFailedProcessWPA ''Error happened while processing the WPA''
     (s\<lparr>reads := Suc (reads s), wpa := w\<rparr>)"

lemma fetched_simps [simp]:
  "writes (fetched w s) = writes s" "Spec (wpa (fetched w s)) = Spec w" "Annotations (wpa (fetched w s)) = Annotations w"
  "wpa_Name (wpa (fetched w s)) = wpa_Name w" "wpa_Namespace (wpa (fetched w s)) = wpa_Namespace w"
  by (simp_all add: fetched_def)

lemma reads_after_set [simp]: "reads (after_set t st re m s) = reads s"
  unfolding after_set_def setCondition_def
  by (simp add: go_bind_def go_get_def setConditionInList_run modify_status_def modify_wpa_def
      go_modify_def emit_def go_return_def split: option.splits)

lemma reads_fetched [simp]: "reads (fetched w s) = Suc (reads s)"
  by (simp add: fetched_def)

lemma wp_Reconcile_alive:
  assumes "Client_Get r ns name (reads s) = Inr w" "alive w"
  shows "wp (Reconcile r ns name) Q R s =
    wp (go_finally (reconcile_live r (Status w)) updateConditionsMetrics) Q R (fetched w s)"
  using assms by (simp add: Reconcile_def handleFinalizer_def alive_def ContainsString_iff go_wp fetched_def)

text \<open>The end of a request is one gauge.\<close>


lemma wp_endI:
  assumes "wp m Q R s" "\<And>a s' e. Q a s' \<Longrightarrow> scale_write e = [] \<Longrightarrow> Q a (s'\<lparr>trace := trace s' @ [e]\<rparr>)"
    "\<And>p s' e. R p s' \<Longrightarrow> scale_write e = [] \<Longrightarrow> R p (s'\<lparr>trace := trace s' @ [e]\<rparr>)"
  shows "wp (go_finally m updateConditionsMetrics) Q R s"
  unfolding wp_finally by (rule wp_mono [OF assms(1)]) (auto simp: updateConditionsMetrics_def go_wp intro!: assms(2,3))

lemma updateStatus_result:
  "wp (updateStatusIfNeeded r original) (\<lambda>e s'. writes s' = writes s \<and> set (trace s) \<subseteq> set (trace s') \<and>
     (case e of None \<Rightarrow> True | Some x \<Rightarrow> \<exists>w n. Status_Update r w n = Inl x)) (\<lambda>_ _. False) s"
  by (auto simp: updateStatusIfNeeded_def updateWPAStatus_def go_wp split: sum.splits)

lemma report_result:
  "wp (report_status r original rel res) (\<lambda>(res', err) s'. writes s' = writes s \<and> set (trace s) \<subseteq> set (trace s') \<and>
     (case err of None \<Rightarrow> res' = res | Some e \<Rightarrow> res' = no_requeue \<and> (\<exists>w n. Status_Update r w n = Inl e))) (\<lambda>_ _. False) s"
  unfolding report_status_def
  by (rule wp_phase2 [OF updateStatus_result]) (auto simp: go_wp split: option.splits)

lemma trace_after_set: "set (trace s) \<subseteq> set (trace (after_set t st re m s))"
  using frame_after_set [of s t st re m] by (auto simp: frame_def)

text \<open>The check depends on the specification and, in its messages, on the name.\<close>

lemma CheckWPAValidity_cong:
  assumes "Spec w' = Spec w" "wpa_Name w' = wpa_Name w" "wpa_Namespace w' = wpa_Namespace w"
  shows "CheckWPAValidity w' = CheckWPAValidity w"
proof -
  have s: "check_source w' k n sel lo hi = check_source w k n sel lo hi" for k n sel lo hi
    unfolding check_source_def assms(2,3) ..
  have m: "check_metric w' x = check_metric w x" for x
    unfolding check_metric_def s ..
  have c: "check_metrics w' ms = check_metrics w ms" for ms
    by (induction ms) (simp_all add: m cong: option.case_cong)
  show ?thesis unfolding CheckWPAValidity_def checkWPAMetricsValidity_def assms(1) c ..
qed

lemma IsDefault_cong: "Spec w' = Spec w \<Longrightarrow> IsDefaultWatermarkPodAutoscaler w' = IsDefaultWatermarkPodAutoscaler w"
  by (simp add: IsDefault_iff)

text \<open>What the override makes of a decision when the target is outside its bounds\<close>

definition edge_decision :: "WatermarkPodAutoscalerSpec \<Rightarrow> scale \<Rightarrow> decision \<Rightarrow> bool" where
  "edge_decision sp sc d \<longleftrightarrow> (let cur = scale_SpecReplicas sc in
     if cur = 0 then \<not> de_rescale d
     else if cur > MaxReplicas sp then de_rescale d \<and> de_desired d = MaxReplicas sp
     else if cur < min_or_zero sp then de_rescale d \<and> de_desired d = min_or_zero sp
     else scale_StatusReplicas sc = 0 \<longrightarrow> de_rescale d \<and> de_desired d = 1)"

lemma wp_override_edge:
  assumes "Spec (wpa s) = sp" "MinReplicas sp \<noteq> None"
  shows "wp (override original sc d) (\<lambda>d' _. edge_decision sp sc d') (\<lambda>_ _. False) s"
  using assms by (auto simp: override_def go_wp Let_def edge_decision_def min_or_zero_def)

end
