(* ===== verification/Samples.thy ===== *)
theory Samples
  imports Reconcile_Results
begin

text \<open>
  Concrete objects: a specification with a metric, a status, an autoscaler and a world, and an instance of the
  library functions that the model takes as parameters.  The theorems of the development are
  exercised on them.
\<close>

definition percent :: "int \<Rightarrow> quantity" where
  "percent p = \<lparr>MilliValue = 1000 * p, Value = p, qty_String = show_int p\<rparr>"

definition milli :: "int \<Rightarrow> quantity" where
  "milli n = \<lparr>MilliValue = n, Value = (n + 999) div 1000, qty_String = show_int n @ ''m''\<rparr>"

definition sample_selector :: label_selector where
  "sample_selector = \<lparr>MatchLabels = [(''app'', ''web'')], sel_String = ''app=web''\<rparr>"

text \<open>A queue length between 100 and 200 per replica\<close>

definition sample_metric :: MetricSpec where
  "sample_metric = \<lparr>ms_Type = ''External'', ms_External = Some \<lparr>ext_MetricName = ''queue'',
     ext_MetricSelector = Some sample_selector, ext_HighWatermark = Some (percent 200),
     ext_LowWatermark = Some (percent 100)\<rparr>, ms_Resource = None\<rparr>"

definition sample_spec :: WatermarkPodAutoscalerSpec where
  "sample_spec = \<lparr>DownscaleForbiddenWindowSeconds = 300, UpscaleForbiddenWindowSeconds = 60,
     ScaleUpLimitFactor = Some (percent 50), UpscaleDelayAboveWatermarkSeconds = 120,
     ScaleDownLimitFactor = Some (percent 20), DownscaleDelayBelowWatermarkSeconds = 0,
     ReplicaScalingAbsoluteModulo = Some 1, ConvergeTowardsWatermark = ''highwatermark'', Tolerance = milli 100,
     Algorithm = ''average'', DryRun = False, TolerateZero = False,
     ScaleTargetRef = \<lparr>ref_Kind = ''Deployment'', ref_Name = ''web'', ref_APIVersion = ''apps/v1''\<rparr>,
     Metrics = [sample_metric], Recommender = None, MinReplicas = Some 3,
     MinAvailableReplicaPercentage = 0, MaxReplicas = 30, ReadinessDelaySeconds = 0\<rparr>"

definition sample_status :: WatermarkPodAutoscalerStatus where
  "sample_status = \<lparr>ObservedGeneration = None, LastScaleTime = None, ScalingEventsCount = 0, CurrentReplicas = 10,
     DesiredReplicas = 10, CurrentMetrics = [], Conditions = [], LastConditionType = [], LastConditionState = []\<rparr>"

definition sample_wpa :: WatermarkPodAutoscaler where
  "sample_wpa = \<lparr>wpa_Name = ''web'', wpa_Namespace = ''prod'', Annotations = [], wpa_Labels = [],
     Finalizers = [''finalizer.watermarkpodautoscaler.datadoghq.com''], DeletionTimestamp = None,
     Spec = sample_spec, Status = sample_status\<rparr>"

text \<open>A clock that advances one second at every reading\<close>

definition sample_world :: "WatermarkPodAutoscaler \<Rightarrow> world" where
  "sample_world w = \<lparr>wpa = w, clock = (\<lambda>n. 1000000000 * int n), ticks = 1000, reads = 0, extraPromLabels = [],
     certCache = [], transportTLS = None, trace = []\<rparr>"

definition sample_lib :: k8s_lib where
  "sample_lib = \<lparr>NewMilliQuantity = milli, NewQuantity = percent, labels_Parse = Inr,
     LabelSelectorAsSelector = (\<lambda>sel. case sel of None \<Rightarrow> Inl (errorf ''nil'') | Some l \<Rightarrow> Inr (sel_String l)),
     NewAggregate = (\<lambda>es. if es = [] then None else Some (hd es)), DeepEqualStatus = (=), DeepEqualSpec = (=),
     ParseGroupVersion = Inr, show_Time = (\<lambda>_. [])\<rparr>"

definition sample_scale :: scale where
  "sample_scale = \<lparr>scale_Name = ''web'', scale_Namespace = ''prod'', scale_SpecReplicas = 10,
     scale_StatusReplicas = 10, scale_Selector = ''app=web''\<rparr>"

definition sample_calculator :: "Pod list \<Rightarrow> int list \<Rightarrow> ReplicaCalculator" where
  "sample_calculator ps vs = \<lparr>mc_GetExternalMetric = (\<lambda>_ _ _. go_return (Inr (vs, 0))),
     mc_GetResourceMetric = (\<lambda>_ _ _ _. go_return (Inr (map (\<lambda>p. (pod_Name p, \<lparr>pm_Timestamp = 0, pm_Window = 0, pm_Value = 1\<rparr>)) ps, 0))),
     recommenderClient = (\<lambda>_. go_return (Inl (errorf ''none''))), podLister = (\<lambda>_ _. go_return (Inr ps)), k8sClusterName = ''test''\<rparr>"

definition sample_pod :: "string \<Rightarrow> string \<Rightarrow> Pod" where
  "sample_pod n ph = \<lparr>pod_Name = n, pod_Namespace = ''prod'',
     OwnerReferences = [\<lparr>own_Kind = ''ReplicaSet'', own_Name = ''web-5d9''\<rparr>], pod_DeletionTimestamp = None,
     pod_Status = \<lparr>Phase = ph, pod_Conditions = [\<lparr>pc_Type = ''Ready'', pc_Status = ''True'', pc_LastTransitionTime = 0\<rparr>],
       StartTime = Some 0\<rparr>\<rparr>"

definition sample_resource :: ResourceMetricSource where
  "sample_resource = \<lparr>res_Name = ''cpu'', res_MetricSelector = Some sample_selector,
     res_HighWatermark = Some (percent 80), res_LowWatermark = Some (percent 50)\<rparr>"

definition sample_calc :: "MetricSpec \<Rightarrow> ReplicaCalculation" where
  "sample_calc m = \<lparr>replicaCount = (if ms_External m = None then 7 else 12), utilization = 0, calc_timestamp = 0, readyReplicas = 10,
     pos = (if ms_External m = None then below_marks else above_marks), details = []\<rparr>"

definition sample_itf :: ReplicaCalculatorItf where
  "sample_itf = \<lparr>itf_External = (\<lambda>_ m. go_return (Inr (sample_calc m))), itf_Resource = (\<lambda>_ m. go_return (Inr (sample_calc m))),
     itf_Recommender = (\<lambda>_. go_return (Inl (errorf ''none'')))\<rparr>"

definition two_metrics :: "MetricSpec list" where
  "two_metrics = [sample_metric, \<lparr>ms_Type = ''Resource'', ms_External = None, ms_Resource = Some sample_resource\<rparr>]"

text \<open>The environment of a cluster with one deployment of ten ready pods, whose queue is long\<close>

definition sample_api :: "int \<Rightarrow> metrics_api" where
  "sample_api v = \<lparr>PodMetricses_List = (\<lambda>_ _ _. Ret (Inl (errorf ''none''))), GetForObjects = (\<lambda>_ _ _ _ _. Ret (Inl (errorf ''none''))),
     RootScoped_GetForObject = (\<lambda>_ _ _ _ _. Ret (Inl (errorf ''none''))), Namespaced_GetForObject = (\<lambda>_ _ _ _ _ _. Ret (Inl (errorf ''none''))),
     ExternalMetrics_List = (\<lambda>_ _ _ _. Ret (Inr [\<lparr>emv_Timestamp = 0, emv_Value = milli v\<rparr>]))\<rparr>"

definition sample_tls :: tls_env where
  "sample_tls = \<lparr>ReadFile = (\<lambda>_ _. Inl (errorf ''none'')), LoadX509KeyPair = (\<lambda>_ _ _. Inl (errorf ''none'')),
     AppendCertsFromPEM = (\<lambda>_. False)\<rparr>"

definition sample_reco :: reco_env where
  "sample_reco = \<lparr>url_Parse = (\<lambda>u. Inr (''http'', u)), protojson_Marshal = (\<lambda>_. Inr []), protojson_Unmarshal = (\<lambda>_. Inl (errorf ''none'')),
     NewRequest = (\<lambda>_. None), is_http_Transport = True, asks_certificate = (\<lambda>_ _ _. False),
     http_RoundTrip = (\<lambda>_ _ _ _ _. Inl (errorf ''none''))\<rparr>"

definition sample_reconciler :: "WatermarkPodAutoscaler \<Rightarrow> scale \<Rightarrow> reconciler" where
  "sample_reconciler w sc = \<lparr>lib = sample_lib, Client_Get = (\<lambda>_ _ _. Inr w),
     Client_GetMonitor = (\<lambda>_ _ _. Inl \<lparr>Error = ''not found'', IsNotFound = True\<rparr>),
     Client_Update = (\<lambda>w' _. if schema_ok w' then Inr w' else Inl (errorf ''invalid'')), Status_Update = (\<lambda>w' _. Inr w'),
     Scales_Get = (\<lambda>_ _ _ _. Inr sc), Scales_Update = (\<lambda>_ _ _ _. None),
     RESTMappings = (\<lambda>_ _ _. Inr [\<lparr>GroupResource = ''deployments.apps'', GroupVersion = ''apps/v1''\<rparr>]),
     replicaCalc = calculator_itf sample_lib (NewReplicaCalculator (sample_api 3000000)
       (GetReplicaRecommendation sample_tls sample_reco None) (\<lambda>_ _ _. Ret (Inr (map (\<lambda>i. sample_pod (show_nat i) ''Running'') [0..<10]))) ''test''),
     syncPeriod = 15 * 1000000000, SkipNotScalingEvents = False\<rparr>"

lemmas sample_defs = percent_def milli_def sample_selector_def sample_metric_def sample_spec_def sample_status_def
  sample_wpa_def sample_world_def sample_lib_def sample_scale_def

end
