(* ===== verification/Scaling_Theorems.thy ===== *)
theory Scaling_Theorems
  imports Samples
begin

text \<open>
  The theorems about the scaling rules and the decision to scale, with their instances on the sample
  objects.
\<close>

section \<open>Velocity limits\<close>

text \<open>C22: A whole percentage limits one scaling event to exactly that share of the replicas, rounded
  down but never to less than one replica, in both directions; the floats introduce no error.\<close>

theorem limits_of_whole_percent:
  assumes "MilliValue f = 1000 * p" "Value f = p" "1 \<le> p" "p < 100" "1 \<le> cur" "cur < 2 ^ 30"
    and "ScaleUpLimitFactor sp = Some f" "ScaleDownLimitFactor sp = Some f"
  shows "calculateScaleUpLimit sp cur s = (Ret (cur + max 1 (p * cur div 100)), s) \<and>
    calculateScaleDownLimit sp cur s = (Ret (cur - max 1 (p * cur div 100)), s)"
proof -
  have pc: "0 \<le> p * cur" "p * cur \<le> 100 * cur" using assms(3-5) by simp_all
  have "p * cur < 2 ^ 53" using order.strict_trans1 [OF pc(2), of "2 ^ 53"] assms(6) by simp
  then have k: "limit_step f cur = Fin (of_int (max 1 (p * cur div 100)))"
    using assms by (intro limit_step_percent) (simp_all add: fits32_def)
  have "p * cur div 100 \<le> cur" using pc by simp
  then have "fits32 cur" "fits32 (cur + max 1 (p * cur div 100))" "fits32 (cur - max 1 (p * cur div 100))"
    using pc(1) assms(5,6) by (simp_all add: fits32_def max_def)
  then have "up_limit f cur = cur + max 1 (p * cur div 100)" "down_limit f cur = cur - max 1 (p * cur div 100)"
    using k assms(2,3) by (simp_all add: up_limit_step down_limit_step)
  then show ?thesis
    using assms(2,3,7,8) by (simp add: calculateScaleUpLimit_def calculateScaleDownLimit_def up_limit_def down_limit_def go_defs)
qed

theorem limits_of_whole_percent_witness:
  "calculateScaleUpLimit (sample_spec\<lparr>ScaleDownLimitFactor := Some (percent 50)\<rparr>) 11 (sample_world sample_wpa) =
     (Ret 16, sample_world sample_wpa) \<and>
   calculateScaleDownLimit (sample_spec\<lparr>ScaleDownLimitFactor := Some (percent 50)\<rparr>) 11 (sample_world sample_wpa) =
     (Ret 6, sample_world sample_wpa)"
  using limits_of_whole_percent [of "percent 50" 50 11 "sample_spec\<lparr>ScaleDownLimitFactor := Some (percent 50)\<rparr>"
      "sample_world sample_wpa"]
  by (simp add: sample_spec_def percent_def)

text \<open>With factors in the documented ranges (also fractional ones, where the floats round) a step up at
  most doubles the replicas and a step down never removes all of them: the limit downwards is at
  least one as soon as there are two replicas.  A non-zero factor always allows one replica of
  movement, and a zero factor allows none.\<close>

theorem limits_in_range:
  assumes "ScaleUpLimitFactor sp = Some up" "0 \<le> MilliValue up" "MilliValue up \<le> 100000"
    and "ScaleDownLimitFactor sp = Some down" "0 \<le> MilliValue down" "MilliValue down < 100000"
    and "1 \<le> cur" "cur < 2 ^ 30"
  shows "wp (calculateScaleUpLimit sp cur) (\<lambda>u s'. s' = s \<and> cur \<le> u \<and> u \<le> 2 * cur \<and> (u = cur \<longleftrightarrow> Value up = 0)) (\<lambda>_ _. False) s \<and>
    wp (calculateScaleDownLimit sp cur) (\<lambda>d s'. s' = s \<and> 0 \<le> d \<and> d \<le> cur \<and> (d = cur \<longleftrightarrow> Value down = 0) \<and>
      (2 \<le> cur \<longrightarrow> 1 \<le> d)) (\<lambda>_ _. False) s"
proof -
  have "fits32 cur" using assms(7,8) by (simp add: fits32_def)
  then show ?thesis
    using assms up_limit_range [OF assms(2,3,7,8)] down_limit_range [OF assms(5,6,7)] by (auto simp: go_wp)
qed

theorem limits_in_range_witness:
  "wp (calculateScaleDownLimit (sample_spec\<lparr>ScaleDownLimitFactor := Some (milli 33300)\<rparr>) 10) (\<lambda>d s'.
     s' = sample_world sample_wpa \<and> 0 \<le> d \<and> d \<le> 10 \<and> (d = 10 \<longleftrightarrow> False) \<and> ((2::int) \<le> 10 \<longrightarrow> 1 \<le> d)) (\<lambda>_ _. False) (sample_world sample_wpa)"
  using limits_in_range [of "sample_spec\<lparr>ScaleDownLimitFactor := Some (milli 33300)\<rparr>" "percent 50" "milli 33300" 10
      "sample_world sample_wpa"]
  by (simp add: sample_spec_def percent_def milli_def)

section \<open>Normalisation\<close>



text \<open>With a minimum of zero the limit on scaling down is not applied: a lower proposal is taken as it
  is (at least one replica), whatever the factor, and the result is reported as within range.\<close>

theorem zero_minimum_ignores_down_limit:
  assumes "ScaleUpLimitFactor (Spec (wpa s)) = Some up" "ScaleDownLimitFactor (Spec (wpa s)) = Some down"
    and "0 \<le> MilliValue up" "MilliValue up \<le> 100000" "1 \<le> cur" "cur \<le> maxR" "maxR < 2 ^ 30" "des \<le> cur"
  shows "wp (convertDesiredReplicasWithRules cur des 0 maxR ready)
     (\<lambda>(n, condition, _) _. n = max 1 des \<and> condition = (if des < 1 then [] else ''DesiredWithinRange'')) (\<lambda>_ _. False) s"
proof -
  have f: "fits32 cur" "fits32 0" "fits32 maxR" using assms(5-7) by (auto simp: fits32_def)
  have "cur \<le> up_limit up cur" using assms up_limit_range [of up cur] by simp
  then show ?thesis
    by (intro wp_mono [OF wp_convert [OF assms(1,2) f]])
      (use assms(5-8) in \<open>auto simp: normalized_def lower_limit_def upper_limit_def limit_rule_def Let_def split: prod.splits\<close>)
qed

theorem zero_minimum_ignores_down_limit_witness:
  "wp (convertDesiredReplicasWithRules 20 2 0 30 20) (\<lambda>(n, condition, _) _. n = 2 \<and> condition = ''DesiredWithinRange'')
     (\<lambda>_ _. False) (sample_world sample_wpa)"
  using zero_minimum_ignores_down_limit [of "sample_world sample_wpa" "percent 50" "percent 20" 20 30 2 20]
  by (simp add: sample_defs)

section \<open>The decision to scale\<close>

text \<open>C6: After a first scaling event, a change of the replica count is applied now if and only if it is a
  change, the forbidden window of its direction has passed since the last event (to the nanosecond), and
  either every metric is within its watermarks, or the direction has no delay, or the watermark of
  the direction has been crossed for at least the delay.  The decision is made without a panic and changes
  only conditions and gauges.\<close>

theorem shouldScale_decides:
  assumes "store_ok s" "spec_typed (Spec (wpa s))" "LastScaleTime (Status (wpa s)) = Some lastScale"
  shows "wp (shouldScale cur des now isStable)
     (\<lambda>b s'. (b \<longleftrightarrow> des \<noteq> cur \<and> lastScale + forbidden_window (Spec (wpa s)) cur des * 1000000000 \<le> now \<and>
        (isStable \<or> watermark_delay (Spec (wpa s)) cur des = 0 \<or>
         watermark_held s (clock s (ticks s' - 1)) cur des)) \<and> frame s s')
     (\<lambda>_ _. False) s"
  by (rule wp_mono [OF wp_conj [THEN iffD2, OF conjI, OF wp_shouldScale [OF assms] framed_wp [OF framed_shouldScale]]]) auto

theorem shouldScale_decides_witness:
  "wp (shouldScale 10 8 (200 * 1000000000) False) (\<lambda>b _. b \<longleftrightarrow> False) (\<lambda>_ _. False)
     (sample_world (sample_wpa\<lparr>Status := sample_status\<lparr>LastScaleTime := Some 0\<rparr>\<rparr>)) \<and>
   wp (shouldScale 10 8 (300 * 1000000000) False) (\<lambda>b _. b \<longleftrightarrow> True) (\<lambda>_ _. False)
     (sample_world (sample_wpa\<lparr>Status := sample_status\<lparr>LastScaleTime := Some 0\<rparr>\<rparr>))"
  by (intro conjI; rule wp_mono [OF shouldScale_decides [where lastScale = 0]])
    (auto simp: sample_defs store_ok_def conditions_ok_def spec_typed_def fits32_def forbidden_window_def watermark_delay_def)

text \<open>C24: The delay is measured exactly: up to 48 days, a condition that became true at \<open>t\<close> allows scaling
  from \<open>t + delay\<close> on and not a nanosecond before, although the elapsed time is a float.\<close>

theorem delay_exact:
  assumes "0 < delay" "delay < 2 ^ 22" "LastTransitionTime c \<le> clock s (ticks s)"
    "clock s (ticks s) - LastTransitionTime c < 2 ^ 22 * 1000000000"
  shows "canScaleAfterDelay backoff c delay False s =
    (Ret (\<not> backoff \<and> cond_Status c = ConditionTrue \<and> LastTransitionTime c + delay * 1000000000 \<le> clock s (ticks s)),
     s\<lparr>ticks := Suc (ticks s)\<rparr>)"
proof -
  have "wp (canScaleAfterDelay backoff c delay False) (\<lambda>b s'. b = (\<not> backoff \<and> cond_Status c = ConditionTrue \<and>
      LastTransitionTime c + delay * 1000000000 \<le> clock s (ticks s)) \<and> s' = s\<lparr>ticks := Suc (ticks s)\<rparr>) (\<lambda>_ _. False) s"
    using assms delay_elapsed_iff [of delay c "clock s (ticks s)"] by (auto simp: go_wp fits32_def)
  then show ?thesis by (auto simp: wp_def split: prod.splits outcome.splits)
qed

theorem delay_exact_witness:
  "canScaleAfterDelay False \<lparr>cond_Type = ''AboveHighWatermark'', cond_Status = ''True'',
     LastTransitionTime = 880 * 1000000000, Reason = [], Message = []\<rparr> 120 False (sample_world sample_wpa) =
     (Ret True, (sample_world sample_wpa)\<lparr>ticks := 1001\<rparr>)"
  using delay_exact [of 120 "\<lparr>cond_Type = ''AboveHighWatermark'', cond_Status = ''True'',
     LastTransitionTime = 880 * 1000000000, Reason = [], Message = []\<rparr>" "sample_world sample_wpa" False]
  by (simp add: sample_world_def)

end
