(* ===== verification/Calculator_Theorems.thy ===== *)
theory Calculator_Theorems
  imports Samples
begin

text \<open>
  The theorems about the replica calculator and about combining its proposals, with their instances on
  the sample objects.
\<close>

section \<open>From usage to a proposal\<close>

lemma wp_no_panic: "wp m Q (\<lambda>_ _. True) s \<Longrightarrow> wp m (\<lambda>_ _. True) (\<lambda>_ _. False) s \<Longrightarrow> wp m Q (\<lambda>_ _. False) s"
  by (auto simp: wp_def split: prod.splits outcome.splits)

lemma getReplicaCount_returns:
  assumes "ReplicaScalingAbsoluteModulo (Spec (wpa s)) = Some m"
  shows "wp (getReplicaCount l cur ready name usage (Some lm) (Some hm)) (\<lambda>_ _. True) (\<lambda>_ _. False) s"
  unfolding calculator_defs(1-5) getReplicaCount_def tryToConvergeToWatermarkForUsage_def Let_def
  using assms by (auto simp: go_wp tryToConvergeToWatermark_def Let_def)

text \<open>The proposal as a formula\<close>

lemma getReplicaCount_exact:
  assumes "exact_range (Spec (wpa s)) m ready u (MilliValue lm) (MilliValue hm)"
    and "hi = MilliValue hm + MilliValue hm * MilliValue (Tolerance (Spec (wpa s))) div 1000"
    and "lo = MilliValue lm - MilliValue lm * MilliValue (Tolerance (Spec (wpa s))) div 1000"
  shows "wp (getReplicaCount l cur ready name (float64 u) (Some lm) (Some hm))
    (\<lambda>(n, _, p) _.
       (u > hi \<longrightarrow> p = above_marks \<and> n = max cur (round_up m (ceil_div (ready * u) (MilliValue hm)))) \<and>
       (u < lo \<longrightarrow> p = below_marks \<and> n = min cur (round_up m (max 1 (ready * u div MilliValue lm)))) \<and>
       (lo \<le> u \<and> u \<le> hi \<longrightarrow> p = within_marks))
    (\<lambda>_ _. False) s"
proof (rule wp_no_panic)
  show "wp (getReplicaCount l cur ready name (float64 u) (Some lm) (Some hm)) (\<lambda>_ _. True) (\<lambda>_ _. False) s"
    using assms(1) by (intro getReplicaCount_returns) (simp add: exact_range_def)
next
  note e = assms(1) [unfolded exact_range_def]
  have f: "float64 u = Fin (of_int u)"
    using e exact_rangeD(1) [OF assms(1)] by (intro float64_exact) simp
  have h: "adjustedHM (MilliValue hm) (MilliValue (Tolerance (Spec (wpa s)))) = hi"
    "adjustedLM (MilliValue lm) (MilliValue (Tolerance (Spec (wpa s)))) = lo"
    using e adjustedHM_eq(1) [of "MilliValue hm"] adjustedLM_eq(1) [of "MilliValue lm"] by (simp_all add: assms(2,3))
  have "lo \<le> MilliValue lm" "MilliValue hm \<le> hi"
    using e adjustedHM_eq(2) [of "MilliValue hm"] adjustedLM_eq(3) [of "MilliValue lm"] by (auto simp: h [symmetric])
  then have "lo \<le> hi" using e by simp
  then show "wp (getReplicaCount l cur ready name (float64 u) (Some lm) (Some hm))
    (\<lambda>(n, _, p) _.
       (u > hi \<longrightarrow> p = above_marks \<and> n = max cur (round_up m (ceil_div (ready * u) (MilliValue hm)))) \<and>
       (u < lo \<longrightarrow> p = below_marks \<and> n = min cur (round_up m (max 1 (ready * u div MilliValue lm)))) \<and>
       (lo \<le> u \<and> u \<le> hi \<longrightarrow> p = within_marks))
    (\<lambda>_ _. True) s"
    unfolding f wp_getReplicaCount [OF assms(1)] Let_def h
    by (auto simp: upscale_target_def downscale_target_def intro!: wp_trivial)
qed

text \<open>C5: The proposal is exact.  For a usage of \<open>u\<close> milli-units and the watermarks widened by the tolerance:
  above the high one the proposal is the smallest multiple of the modulo that brings the average usage down to the high
  watermark, and never less than the current replicas; below the low one it is the number of replicas
  that brings the usage up to the low watermark, at least one, rounded up to the modulo and never more than the
  current replicas.  The rounding of the floating-point operations does not change the result.\<close>

theorem proposal_exact:
  assumes "exact_range (Spec (wpa s)) m ready u (MilliValue lm) (MilliValue hm)"
    and "hi = MilliValue hm + MilliValue hm * MilliValue (Tolerance (Spec (wpa s))) div 1000"
    and "lo = MilliValue lm - MilliValue lm * MilliValue (Tolerance (Spec (wpa s))) div 1000"
  shows "wp (getReplicaCount l cur ready name (float64 u) (Some lm) (Some hm))
    (\<lambda>(n, _, p) _.
       (u > hi \<longrightarrow> p = above_marks \<and> n = max cur (round_up m (ceil_div (ready * u) (MilliValue hm)))) \<and>
       (u < lo \<longrightarrow> p = below_marks \<and> n = min cur (round_up m (max 1 (ready * u div MilliValue lm)))) \<and>
       (lo \<le> u \<and> u \<le> hi \<longrightarrow> p = within_marks))
    (\<lambda>_ _. False) s"
  using assms by (rule getReplicaCount_exact)

theorem proposal_exact_witness:
  "wp (getReplicaCount sample_lib 10 10 ''queue'' (float64 333000) (Some (percent 100)) (Some (percent 200)))
     (\<lambda>(n, _, p) _. p = above_marks \<and> n = 17) (\<lambda>_ _. False) (sample_world sample_wpa)"
  using proposal_exact [of "sample_world sample_wpa" 1 10 333000 "percent 100" "percent 200" 220000 90000 sample_lib 10 "''queue''"]
  by (simp add: sample_defs exact_range_def fits32_def ceil_div_def case_prod_unfold)

text \<open>C14: Whatever the usage (also a fractional, infinite or undefined one) and the watermarks, the proposal agrees with the position it
  reports: a metric above its watermarks never lowers the replica count, one below never raises it, one within
  moves it by at most the modulo, and no metric is above and below at once.\<close>

theorem proposal_direction:
  assumes "ReplicaScalingAbsoluteModulo (Spec (wpa s)) = Some m" "1 \<le> m" "1 \<le> cur" "fits32 (cur + m)"
  shows "wp (getReplicaCount l cur ready name usage (Some lm) (Some hm))
    (\<lambda>(n, _, p) _. \<not> (isAbove p \<and> isBelow p) \<and> (isAbove p \<longrightarrow> cur \<le> n) \<and> (isBelow p \<longrightarrow> n \<le> cur) \<and>
       (\<not> isAbove p \<and> \<not> isBelow p \<longrightarrow> \<bar>n - cur\<bar> \<le> m \<and> 1 \<le> n))
    (\<lambda>_ _. False) s"
proof -
  have f: "fits32 (cur - m)" using assms(2-4) by (simp add: fits32_def)
  have c: "wp (tryToConvergeToWatermark ty cur lo hi) (\<lambda>n s'. \<bar>n - cur\<bar> \<le> m \<and> 1 \<le> n) (\<lambda>_ _. False) s1"
    if "wpa s1 = wpa s" for ty lo hi s1
    by (rule wp_mono [OF wp_converge [OF _ f assms(4)]])
      (use assms that converge_step_size [OF assms(2,3)] in auto)
  show ?thesis
    unfolding calculator_defs(1-5) getReplicaCount_def tryToConvergeToWatermarkForUsage_def Let_def
    using assms(1) by (auto simp: go_wp intro!: wp_mono [OF c])
qed

theorem proposal_direction_witness:
  "wp (getReplicaCount sample_lib 10 7 ''queue'' (f64_div (float64 1000000) (float64 7)) (Some (percent 100)) (Some (percent 200)))
     (\<lambda>(n, _, p) _. \<not> (isAbove p \<and> isBelow p) \<and> (isAbove p \<longrightarrow> 10 \<le> n)) (\<lambda>_ _. False) (sample_world sample_wpa)"
  by (rule wp_mono [OF proposal_direction [of "sample_world sample_wpa" 1 10]]) (auto simp: sample_defs fits32_def)

text \<open>C15: The proposal serves its purpose.  Scaling up to it leaves enough capacity (the usage spread over the new replicas is
  at most the high watermark), with no replica to spare for a modulo of one; scaling down to it keeps the usage per replica at
  or above the low watermark, for a modulo of one and more than one replica.\<close>

theorem proposal_capacity:
  assumes "exact_range (Spec (wpa s)) m ready u (MilliValue lm) (MilliValue hm)"
  shows "wp (getReplicaCount l cur ready name (float64 u) (Some lm) (Some hm))
    (\<lambda>(n, _, p) _. (p = above_marks \<longrightarrow> ready * u \<le> n * MilliValue hm \<and>
          (m = 1 \<and> cur < n \<longrightarrow> (n - 1) * MilliValue hm < ready * u)) \<and>
        (p = below_marks \<longrightarrow> 1 \<le> cur \<longrightarrow> 1 \<le> n \<and> (m = 1 \<and> 1 < n \<longrightarrow> n * MilliValue lm \<le> ready * u)))
    (\<lambda>_ _. False) s"
proof (rule wp_no_panic)
  show "wp (getReplicaCount l cur ready name (float64 u) (Some lm) (Some hm)) (\<lambda>_ _. True) (\<lambda>_ _. False) s"
    using assms(1) by (intro getReplicaCount_returns) (simp add: exact_range_def)
next
  note e = assms(1) [unfolded exact_range_def]
  define q where "q = ceil_div (ready * u) (MilliValue hm)"
  define d where "d = ready * u div MilliValue lm"
  have f: "float64 u = Fin (of_int u)"
    using e exact_rangeD(1) [OF assms(1)] by (intro float64_exact) simp
  have hm: "0 < MilliValue hm" using e by simp
  have c: "ready * u \<le> q * MilliValue hm" "q * MilliValue hm < ready * u + MilliValue hm"
    unfolding q_def by (rule ceil_div_bounds [OF hm])+
  have up: "ready * u \<le> n * MilliValue hm" if "q \<le> n" for n
    using order_trans [OF c(1) mult_right_mono [OF that]] hm by simp
  have one: "q * MilliValue hm - MilliValue hm < ready * u" using c(2) by simp
  have "d * MilliValue lm \<le> ready * u" unfolding d_def using e pos_mod_sign [of "MilliValue lm" "ready * u"] div_mult_mod_eq [of "ready * u" "MilliValue lm"] by linarith
  then have down: "n * MilliValue lm \<le> ready * u" if "n \<le> d" for n
    using order_trans [OF mult_right_mono [OF that]] e by simp
  have r: "q \<le> round_up m q" "max 1 d \<le> round_up m (max 1 d)" using e by (intro round_up_bounds; simp)+
  have up': "ready * u \<le> max cur (round_up m q) * MilliValue hm" using r(1) by (intro up) simp
  have down': "min cur (max 1 d) * MilliValue lm \<le> ready * u" if "1 < min cur (max 1 d)"
    using that by (intro down) auto
  show "wp (getReplicaCount l cur ready name (float64 u) (Some lm) (Some hm))
    (\<lambda>(n, _, p) _. (p = above_marks \<longrightarrow> ready * u \<le> n * MilliValue hm \<and>
          (m = 1 \<and> cur < n \<longrightarrow> (n - 1) * MilliValue hm < ready * u)) \<and>
        (p = below_marks \<longrightarrow> 1 \<le> cur \<longrightarrow> 1 \<le> n \<and> (m = 1 \<and> 1 < n \<longrightarrow> n * MilliValue lm \<le> ready * u)))
    (\<lambda>_ _. True) s"
    unfolding f wp_getReplicaCount [OF assms(1)] Let_def upscale_target_def downscale_target_def q_def [symmetric] d_def [symmetric]
    using up' down' one r by (auto simp: position_defs algebra_simps intro!: wp_trivial)
qed

theorem proposal_capacity_witness:
  "wp (getReplicaCount sample_lib 10 10 ''queue'' (float64 333000) (Some (percent 100)) (Some (percent 200)))
     (\<lambda>(n, _, p) _. p = above_marks \<longrightarrow> 3330000 \<le> n * 200000 \<and> (10 < n \<longrightarrow> (n - 1) * 200000 < 3330000))
     (\<lambda>_ _. False) (sample_world sample_wpa)"
  by (rule wp_mono [OF proposal_capacity [of "sample_world sample_wpa" 1 10 333000 "percent 100" "percent 200"]])
    (auto simp: sample_defs exact_range_def fits32_def)

section \<open>Converging to a watermark\<close>

text \<open>C23: A target whose metric is within its watermarks converges by at most one step of the modulo at a time, stays within the
  bounds of the specification, and moves in the configured direction only: towards the high watermark by removing replicas,
  towards the low one by adding them, and not at all when the feature is off.\<close>

theorem convergence_step:
  assumes "ReplicaScalingAbsoluteModulo (Spec (wpa s)) = Some m" "1 \<le> m" "fits32 (cur + m)"
    and "convergence_min (Spec (wpa s)) \<le> cur" "cur \<le> MaxReplicas (Spec (wpa s))"
    and "MilliValue lm \<noteq> 0" "MilliValue hm \<noteq> 0"
  shows "wp (tryToConvergeToWatermarkForUsage ty cur ready usage (Some lm) (Some hm))
    (\<lambda>n _. convergence_min (Spec (wpa s)) \<le> n \<and> n \<le> MaxReplicas (Spec (wpa s)) \<and> \<bar>n - cur\<bar> \<le> m \<and>
       (ty = ConvergeUpwards \<longrightarrow> n \<le> cur) \<and> (ty = ConvergeDownwards \<longrightarrow> cur \<le> n) \<and>
       (ty \<noteq> ConvergeUpwards \<and> ty \<noteq> ConvergeDownwards \<longrightarrow> n = cur)) (\<lambda>_ _. False) s"
proof -
  let ?mn = "convergence_min (Spec (wpa s))" and ?mx = "MaxReplicas (Spec (wpa s))"
  have mn: "1 \<le> ?mn" by (simp add: convergence_min_def split: option.splits)
  have f: "fits32 (cur - m)" "?mn \<le> ?mx" using assms(2-5) mn by (simp_all add: fits32_def)
  have dir: "converge_step ConvergeUpwards m cur lo hi \<le> cur" "cur \<le> converge_step ConvergeDownwards m cur lo hi"
    "ty \<noteq> ConvergeUpwards \<and> ty \<noteq> ConvergeDownwards \<Longrightarrow> converge_step ty m cur lo hi = cur" for lo hi
    using assms(2,4) mn by (simp_all add: converge_step_def)
  have "1 \<le> cur" using mn assms(4) by simp
  note facts = converge_step_range [OF assms(2) mn assms(4,5)] converge_step_size [OF assms(2) this]
  show ?thesis
    by (rule wp_mono [OF wp_converge_usage [OF assms(1) f(1) assms(3) assms(6,7) f(2)]])
      (use facts dir in blast)+
qed

theorem convergence_step_witness:
  "wp (tryToConvergeToWatermarkForUsage ''highwatermark'' 10 10 (float64 150000) (Some (percent 100)) (Some (percent 200)))
     (\<lambda>n _. 3 \<le> n \<and> n \<le> 10 \<and> \<bar>n - 10\<bar> \<le> 1) (\<lambda>_ _. False) (sample_world sample_wpa)"
  by (rule wp_mono [OF convergence_step [of "sample_world sample_wpa" 1 10 "percent 100" "percent 200" "''highwatermark''"]])
    (auto simp: sample_defs fits32_def convergence_min_def)

section \<open>Counting pods\<close>

text \<open>The number of ready replicas on which the external and the recommender calculation build is never negative,
  and at most the number of pods listed and the number of replicas the target reports; the share of
  available pods is computed without dividing by zero.\<close>

theorem ready_replicas_bounded:
  assumes "podLister c (scale_Namespace target)
      (case labels_Parse l (scale_Selector target) of Inl _ \<Rightarrow> None | Inr sel \<Rightarrow> Some sel) s = (Ret (Inr ps), s1)"
    and "length ps < 2 ^ 31" "0 \<le> scale_StatusReplicas target"
  shows "wp (currentReadyReplicas l c target)
     (\<lambda>r _. case r of Inl _ \<Rightarrow> True
       | Inr n \<Rightarrow> 0 \<le> n \<and> n \<le> scale_StatusReplicas target \<and> n \<le> int (length ps)) (\<lambda>_ _. False) s"
  by (rule wp_currentReadyReplicas [OF assms])

theorem ready_replicas_bounded_witness:
  "wp (currentReadyReplicas sample_lib (sample_calculator [sample_pod ''web-0'' ''Running''] []) sample_scale)
     (\<lambda>r _. case r of Inl _ \<Rightarrow> True | Inr n \<Rightarrow> 0 \<le> n \<and> n \<le> 10 \<and> n \<le> 1) (\<lambda>_ _. False) (sample_world sample_wpa)"
  by (rule wp_mono [OF ready_replicas_bounded [where ps = "[sample_pod ''web-0'' ''Running'']" and ?s1.0 = "sample_world sample_wpa"]])
    (auto simp: sample_calculator_def sample_scale_def sample_lib_def go_return_def split: sum.splits)

section \<open>Zero and empty inputs\<close>

text \<open>C37: A metric whose values add up to zero, when zero is not tolerated, proposes the number of ready pods and reports
  the metric within its watermarks: a target with unready pods gets a proposal below its
  replica count, although the metric asks for nothing.\<close>

theorem zero_metric_proposes_ready:
  assumes "currentReadyReplicas l c target s = (Ret (Inr ready), s1)"
    and "ms_External metric = Some ext" "LabelSelectorAsSelector l (ext_MetricSelector ext) = Inr sel"
    and "mc_GetExternalMetric c (ext_MetricName ext) (wpa_Namespace (wpa s1)) sel s1 = (Ret (Inr (vs, t)), s2)"
    and "int64 (sum_list vs) = 0" "\<not> TolerateZero (Spec (wpa s1))"
  shows "GetExternalMetricReplicas l c target metric s =
     (Ret (Inr \<lparr>replicaCount = ready, utilization = 0, calc_timestamp = t, readyReplicas = ready,
        pos = within_marks, details = []\<rparr>), s2)"
  by (rule external_zero [OF assms])

theorem zero_metric_proposes_ready_witness:
  "GetExternalMetricReplicas sample_lib (sample_calculator [sample_pod ''web-0'' ''Running''] [0]) sample_scale sample_metric (sample_world sample_wpa) =
     (Ret (Inr \<lparr>replicaCount = 1, utilization = 0, calc_timestamp = 0, readyReplicas = 1,
        pos = within_marks, details = []\<rparr>), sample_world sample_wpa)"
proof -
  have one: "currentReadyReplicas sample_lib (sample_calculator [sample_pod ''web-0'' ''Running''] [0]) sample_scale (sample_world sample_wpa) =
     (Ret (Inr 1), sample_world sample_wpa)"
    by (simp add: currentReadyReplicas_def sample_calculator_def sample_pod_def sample_defs go_defs Let_def
        getReadyPodsCount_def count_pod_def shouldSkipOwnerCheck_def mainOwnerRef_def
        replicaSetKind_def getPodCondition_def int32_def seconds_def)
  show ?thesis
    by (rule zero_metric_proposes_ready [OF one, where ext = "the (ms_External sample_metric)" and vs = "[0]"])
      (simp_all add: sample_calculator_def sample_defs go_return_def int64_def)
qed

text \<open>C36: The resource calculation divides by the number of pods that are not ignored.  When every pod of
  the target is pending, all are ignored and the calculation panics with a division by zero.\<close>

theorem all_pending_panics:
  assumes "ms_Resource metric = Some res" "LabelSelectorAsSelector l (res_MetricSelector res) = Inr sel"
    and "mc_GetResourceMetric c (res_Name res) (wpa_Namespace (wpa s)) sel [] s = (Ret (Inr (ms, t)), s1)"
    and "labels_Parse l (scale_Selector target) = Inr lbl"
    and "podLister c (wpa_Namespace (wpa s)) (Some lbl) s1 = (Ret (Inr ps), s2)"
    and "ps \<noteq> []" "distinct (map pod_Name ps)"
    and "list_all (\<lambda>p. Phase (pod_Status p) = PodPending \<and> checkOwnerRef (OwnerReferences p) (scale_Name target)) ps"
  shows "GetResourceReplicas l c target metric s = (Panic IntegerDivideByZero, s2)"
  by (rule resource_all_pending [OF assms(1-7)]) (use assms(8) in \<open>simp add: list_all_iff\<close>)

theorem all_pending_panics_witness:
  "GetResourceReplicas sample_lib (sample_calculator [sample_pod ''web-0'' ''Pending''] []) sample_scale
     \<lparr>ms_Type = ''Resource'', ms_External = None, ms_Resource = Some sample_resource\<rparr> (sample_world sample_wpa) =
   (Panic IntegerDivideByZero, sample_world sample_wpa)"
  by (rule all_pending_panics [where ps = "[sample_pod ''web-0'' ''Pending'']" and sel = "''app=web''" and res = sample_resource])
    (simp_all add: sample_calculator_def sample_pod_def sample_resource_def sample_defs go_return_def mainOwnerRef_def replicaSetKind_def)

section \<open>Several metrics\<close>






text \<open>C21: What the computation leaves in the status agrees with what it returns: the conditions of the two watermarks are true
  exactly when a metric is outside on that side, scaling is active, and the regime is stable
  exactly when no metric is outside.\<close>

theorem computed_conditions:
  assumes "store_ok s"
    and "c = NewReplicaCalculator api (GetReplicaRecommendation tenv env defaults) lister cluster"
  shows "wp (computeReplicas l (calculator_itf l c) sc) (\<lambda>r s'. case r of Inl _ \<Rightarrow> True
     | Inr (co, stableRegime) \<Rightarrow> stableRegime = (\<not> co_isAbove co \<and> \<not> co_isBelow co) \<and>
         map_option cond_Status (cond_of s' AboveHighWatermark) = Some (if co_isAbove co then ConditionTrue else ConditionFalse) \<and>
         map_option cond_Status (cond_of s' BelowLowWatermark) = Some (if co_isBelow co then ConditionTrue else ConditionFalse) \<and>
         map_option cond_Status (cond_of s' ScalingActive) = Some ConditionTrue) (\<lambda>_ _. True) s"
  unfolding assms(2)
  by (rule wp_mono [OF deployed.computeReplicas_conditions [OF assms(1)]]) (auto simp: status_of_def split: sum.splits prod.splits)

theorem computed_conditions_witness:
  "\<exists>c. wp (computeReplicas sample_lib (calculator_itf sample_lib c) sample_scale) (\<lambda>r s'. case r of Inl _ \<Rightarrow> True
     | Inr (co, stableRegime) \<Rightarrow> stableRegime = (\<not> co_isAbove co \<and> \<not> co_isBelow co)) (\<lambda>_ _. True) (sample_world sample_wpa)"
  by (intro exI, rule wp_mono [OF computed_conditions [OF _ refl]])
    (auto simp: sample_defs store_ok_def conditions_ok_def split: sum.splits prod.splits)

end
