(* ===== verification/Legacy_Metrics.thy ===== *)
theory Legacy_Metrics
  imports Rest_Metrics
begin

text \<open>
  The older metrics client of \<open>third_party/kubernetes/pkg/controller/podautoscaler/metrics\<close>
  (\<open>legacy_metrics_client.go\<close>), which asks Heapster through the proxy of the API server.  The proxy, the pod
  list and the decoding of the JSON answers are library code: the record \<open>HeapsterMetricsClient\<close> holds them beside the
  fields of the source's struct.

  The client is a second instance of the locale \<open>metrics_client\<close>.  For a whole pod it gives the same
  usage as the REST client.  \<open>collapseTimeSamples\<close> averages the samples of the last minute.
\<close>

section \<open>Data\<close>

text \<open>A sample has an unsigned 64-bit value and perhaps a floating-point one.\<close>

record MetricPoint =
  mp_Timestamp :: time
  mp_Value :: int
  mp_FloatValue :: "f64 option"

type_synonym MetricResult = "MetricPoint list"

record HeapsterMetricsClient =
  heapsterScheme :: string
  heapsterService :: string
  heapsterPort :: string
  ProxyGet :: "string \<Rightarrow> string \<Rightarrow> string \<Rightarrow> string \<Rightarrow> (string \<times> string) list \<Rightarrow> nat \<Rightarrow> (go_error + string) outcome"
  Pods_List :: "string \<Rightarrow> string \<Rightarrow> nat \<Rightarrow> (go_error + string list) outcome"
  Unmarshal_PodMetricsList :: "string \<Rightarrow> go_error + PodMetricsItem list"
  Unmarshal_MetricResultList :: "string \<Rightarrow> go_error + MetricResult list"
  Format_RFC3339 :: "time \<Rightarrow> string"

definition DefaultHeapsterNamespace :: string where "DefaultHeapsterNamespace = ''kube-system''"
definition DefaultHeapsterScheme :: string where "DefaultHeapsterScheme = ''http''"
definition DefaultHeapsterService :: string where "DefaultHeapsterService = ''heapster''"
definition DefaultHeapsterPort :: string where "DefaultHeapsterPort = []"

definition heapsterDefaultMetricWindow :: duration where
  "heapsterDefaultMetricWindow = 60 * 1000000000"

definition heapsterQueryStart :: duration where
  "heapsterQueryStart = - 5 * (60 * 1000000000)"

section \<open>Resource metrics\<close>

text \<open>The loop over the containers: the sum so far and whether a container did not report the resource\<close>

definition heapster_container :: "string \<Rightarrow> string \<Rightarrow> ContainerMetrics \<Rightarrow> int \<times> bool \<Rightarrow> int \<times> bool" where
  "heapster_container resource container c acc =
     (let (podSum, missing) = acc in
      if container = [] \<or> container = ctr_Name c then
        (case map_of (ctr_Usage c) resource of
           None \<Rightarrow> (podSum, True)
         | Some resValue \<Rightarrow> (int64 (podSum + MilliValue resValue), missing))
      else acc)"

definition heapster_pod :: "string \<Rightarrow> string \<Rightarrow> PodMetricsItem \<Rightarrow> PodMetricsInfo \<Rightarrow> PodMetricsInfo" where
  "heapster_pod resource container m res =
     (let (podSum, missing) = fold (heapster_container resource container) (pmi_Containers m) (0, pmi_Containers m = []) in
      if \<not> missing then AList.update (pmi_Name m) \<lparr>pm_Timestamp = pmi_Timestamp m,
          pm_Window = pmi_Window m, pm_Value = podSum\<rparr> res
      else res)"

definition Heapster_GetResourceMetric ::
  "HeapsterMetricsClient \<Rightarrow> string \<Rightarrow> string \<Rightarrow> string \<Rightarrow> string \<Rightarrow> (go_error + PodMetricsInfo \<times> time) prog" where
  "Heapster_GetResourceMetric h resource namespace selector container =
     (let metricPath = ''/apis/metrics/v1alpha1/namespaces/'' @ namespace @ ''/pods'';
          params = [(''labelSelector'', selector)] in
      go_bind (go_read (ProxyGet h (heapsterScheme h) (heapsterService h) (heapsterPort h) metricPath params)) (\<lambda>r.
      go_return (case r of
        Inl e \<Rightarrow> Inl (wrap_error ''failed to get pod resource metrics: '' e)
      | Inr resultRaw \<Rightarrow> (case Unmarshal_PodMetricsList h resultRaw of
          Inl e \<Rightarrow> Inl (wrap_error ''failed to unmarshal heapster response: '' e)
        | Inr [] \<Rightarrow> Inl (errorf ''no metrics returned from heapster'')
        | Inr (m # ms) \<Rightarrow> Inr (fold (heapster_pod resource container) (m # ms) [], pmi_Timestamp m)))))"

section \<open>Raw metrics\<close>

text \<open>The newest sample; of several the first\<close>

definition newest_point :: "MetricResult \<Rightarrow> MetricPoint option" where
  "newest_point ps = fold (\<lambda>p newest. case newest of
     None \<Rightarrow> Some p
   | Some q \<Rightarrow> if mp_Timestamp q < mp_Timestamp p then Some p else newest) ps None"

text \<open>One round of the summation; the accumulators are \<open>intSum\<close>, \<open>intSumCount\<close>, \<open>floatSum\<close> and \<open>floatSumCount\<close>.\<close>

definition add_point :: "time \<Rightarrow> duration \<Rightarrow> MetricPoint \<Rightarrow> int \<times> int \<times> f64 \<times> int \<Rightarrow> int \<times> int \<times> f64 \<times> int" where
  "add_point newest duration p acc =
     (let (intSum, intSumCount, floatSum, floatSumCount) = acc in
      if mp_Timestamp p + duration > newest then
        (case mp_FloatValue p of
           None \<Rightarrow> (int64 (intSum + int64 (mp_Value p)), intSumCount + 1, floatSum, floatSumCount)
         | Some f \<Rightarrow> (int64 (intSum + int64 (mp_Value p)), intSumCount + 1, f64_add floatSum f, floatSumCount + 1))
      else acc)"

definition collapseTimeSamples :: "MetricResult \<Rightarrow> duration \<Rightarrow> (int \<times> time \<times> bool) outcome" where
  "collapseTimeSamples metrics duration = (case newest_point metrics of
     None \<Rightarrow> Ret (0, zero_time, False)
   | Some newest \<Rightarrow>
      (let (intSum, intSumCount, floatSum, floatSumCount) =
             fold (add_point (mp_Timestamp newest) duration) metrics (0, 0, float64 0, 0) in
       if mp_FloatValue newest \<noteq> None then
         Ret (int64_of_f64 (f64_mul (f64_div floatSum (float64 floatSumCount)) (float64 1000)), mp_Timestamp newest, True)
       else if intSumCount = 0 then Panic IntegerDivideByZero
       else Ret (int64 (int64 (intSum * 1000) sdiv intSumCount), mp_Timestamp newest, True)))"

text \<open>One round of the loop over the pods; \<open>timestamp\<close> is the oldest one so far.\<close>

definition heapster_raw ::
  "string \<times> MetricResult \<Rightarrow> PodMetricsInfo \<times> time option \<Rightarrow> (PodMetricsInfo \<times> time option) prog" where
  "heapster_raw x acc =
     (let (podName, podMetrics) = x; (res, timestamp) = acc in
      go_bind (go_lift (collapseTimeSamples podMetrics (60 * 1000000000))) (\<lambda>(val, podTimestamp, hadMetrics).
      go_return (if hadMetrics then
          (AList.update podName \<lparr>pm_Timestamp = podTimestamp, pm_Window = heapsterDefaultMetricWindow, pm_Value = val\<rparr> res,
           case timestamp of
             None \<Rightarrow> Some podTimestamp
           | Some t \<Rightarrow> if podTimestamp < t then Some podTimestamp else timestamp)
        else acc)))"

fun join :: "string \<Rightarrow> string list \<Rightarrow> string" where
  "join sep [] = []"
| "join sep [x] = x"
| "join sep (x # y # zs) = x @ sep @ join sep (y # zs)"

definition Heapster_GetRawMetric ::
  "HeapsterMetricsClient \<Rightarrow> string \<Rightarrow> string \<Rightarrow> string \<Rightarrow> string \<Rightarrow> (go_error + PodMetricsInfo \<times> time) prog" where
  "Heapster_GetRawMetric h metricName namespace selector metricSelector =
     go_bind (go_read (Pods_List h namespace selector)) (\<lambda>l. case l of
       Inl e \<Rightarrow> go_return (Inl (wrap_error ''failed to get pod list while fetching metrics: '' e))
     | Inr podNames \<Rightarrow>
       if podNames = [] then go_return (Inl (errorf ''no pods matched the provided selector''))
       else
         go_bind go_now (\<lambda>now.
         let startTime = now + heapsterQueryStart;
             metricPath = ''/api/v1/model/namespaces/'' @ namespace @ ''/pod-list/'' @ join '','' podNames @ ''/metrics/'' @ metricName in
         go_bind (go_read (ProxyGet h (heapsterScheme h) (heapsterService h) (heapsterPort h) metricPath
             [(''start'', Format_RFC3339 h startTime)])) (\<lambda>r. case r of
           Inl e \<Rightarrow> go_return (Inl (wrap_error ''failed to get pod metrics: '' e))
         | Inr resultRaw \<Rightarrow> (case Unmarshal_MetricResultList h resultRaw of
             Inl e \<Rightarrow> go_return (Inl (wrap_error ''failed to unmarshal heapster response: '' e))
           | Inr items \<Rightarrow>
               if length items \<noteq> length podNames then
                 go_return (Inl (errorf (''requested metrics for '' @ show_nat (length podNames) @
                   '' pods, got metrics for '' @ show_nat (length items))))
               else
                 go_bind (go_fold heapster_raw (zip podNames items) ([], None)) (\<lambda>(res, timestamp).
                 go_return (Inr (res, case timestamp of None \<Rightarrow> zero_time | Some t \<Rightarrow> t)))))))"

definition Heapster_GetObjectMetric ::
  "HeapsterMetricsClient \<Rightarrow> string \<Rightarrow> string \<Rightarrow> CrossVersionObjectReference \<Rightarrow> string \<Rightarrow> (go_error + int \<times> time) prog" where
  "Heapster_GetObjectMetric h metricName namespace objectRef metricSelector =
     go_return (Inl (errorf ''object metrics are not yet supported''))"

definition Heapster_GetExternalMetric ::
  "HeapsterMetricsClient \<Rightarrow> string \<Rightarrow> string \<Rightarrow> string \<Rightarrow> (go_error + int list \<times> time) prog" where
  "Heapster_GetExternalMetric h metricName namespace selector =
     go_return (Inl (errorf ''external metrics aren't supported''))"

section \<open>The client as an instance of the interface\<close>

lemma heapster_containers_missing:
  "snd (fold (heapster_container r []) cs (a, b)) \<longleftrightarrow> b \<or> \<not> list_all (\<lambda>c. map_of (ctr_Usage c) r \<noteq> None) cs"
  by (induction cs arbitrary: a b) (auto simp: heapster_container_def split: option.splits)

lemma heapster_containers_sum:
  "list_all (\<lambda>c. map_of (ctr_Usage c) r \<noteq> None) cs \<Longrightarrow> container_sum r cs a = Some (fst (fold (heapster_container r []) cs (a, b)))"
  by (induction cs arbitrary: a b) (auto simp: heapster_container_def)

text \<open>For a whole pod, skipping the rest of the containers or not makes no difference.\<close>

lemma heapster_pod_whole: "heapster_pod r [] m = pod_metric r m"
proof -
  obtain sum missing where f: "fold (heapster_container r []) (pmi_Containers m) (0, pmi_Containers m = []) = (sum, missing)" by fastforce
  show ?thesis
    using f heapster_containers_missing [of r "pmi_Containers m" 0 "pmi_Containers m = []"]
      heapster_containers_sum [of r "pmi_Containers m" 0 "pmi_Containers m = []"]
    by (auto simp: fun_eq_iff heapster_pod_def pod_metric_def container_sum_eq)
qed

lemma heapster_pods_whole: "heapster_pod r [] = pod_metric r"
  by (rule ext) (rule heapster_pod_whole)

text \<open>A container that no pod has counts as one that uses nothing.\<close>

lemma heapster_containers_other:
  "c \<noteq> [] \<Longrightarrow> list_all (\<lambda>x. ctr_Name x \<noteq> c) cs \<Longrightarrow> fold (heapster_container r c) cs acc = acc"
  by (induction cs arbitrary: acc) (auto simp: heapster_container_def Let_def)

lemma distinct_heapster_pods: "distinct (map fst acc) \<Longrightarrow> distinct (map fst (fold (heapster_pod r c) ms acc))"
  by (induction ms arbitrary: acc) (auto simp: heapster_pod_def Let_def distinct_update split: prod.splits)

lemma framed_heapster [framed_intros]:
  "framed (Heapster_GetResourceMetric h r ns sel c)" "framed (Heapster_GetExternalMetric h m ns sel)"
  "framed (Heapster_GetRawMetric h m ns sel msel)"
  unfolding Heapster_GetResourceMetric_def Heapster_GetExternalMetric_def Heapster_GetRawMetric_def heapster_raw_def Let_def
  by (intro framed_intros)+

lemma keeps_wpa_heapster:
  "keeps_wpa (Heapster_GetResourceMetric h r ns sel c)" "keeps_wpa (Heapster_GetExternalMetric h m ns sel)"
  unfolding keeps_wpa_def Heapster_GetResourceMetric_def Heapster_GetExternalMetric_def Let_def
  by (intro allI preserves_intros)+

interpretation heapster: metrics_client "Heapster_GetExternalMetric h" "Heapster_GetResourceMetric h" for h
proof unfold_locales
  fix m ns sel s vs t s'
  assume "Heapster_GetExternalMetric h m ns sel s = (Ret (Inr (vs, t)), s')"
  then show "vs \<noteq> []" by (simp add: Heapster_GetExternalMetric_def go_return_def)
next
  fix r ns sel c s ms t s'
  assume "Heapster_GetResourceMetric h r ns sel c s = (Ret (Inr (ms, t)), s')"
  then obtain m items where "ms = fold (heapster_pod r c) (m # items) []"
    by (auto simp: Heapster_GetResourceMetric_def Let_def go_defs split: outcome.splits sum.splits list.splits prod.splits)
  then show "distinct (map fst ms)" using distinct_heapster_pods [of "[]" r c "m # items"] by simp
qed (intro framed_intros keeps_wpa_heapster)+

section \<open>Collapsing samples\<close>

lemma newest_point_fold:
  "fold (\<lambda>p newest. case newest of None \<Rightarrow> Some p | Some q \<Rightarrow> if mp_Timestamp q < mp_Timestamp p then Some p else newest) ps (Some q) = Some r \<Longrightarrow>
    r \<in> insert q (set ps) \<and> (\<forall>p \<in> insert q (set ps). mp_Timestamp p \<le> mp_Timestamp r)"
  by (induction ps arbitrary: q) (fastforce split: if_splits)+

lemma newest_point_total: "\<exists>r. fold (\<lambda>p newest. case newest of None \<Rightarrow> Some p | Some q \<Rightarrow> if mp_Timestamp q < mp_Timestamp p then Some p else newest) ps (Some q) = Some r"
  by (induction ps arbitrary: q) (auto split: if_splits)

lemma newest_point:
  assumes "ps \<noteq> []"
  obtains r where "newest_point ps = Some r" "r \<in> set ps" "\<And>p. p \<in> set ps \<Longrightarrow> mp_Timestamp p \<le> mp_Timestamp r"
proof -
  obtain q qs where ps: "ps = q # qs" using assms by (cases ps) auto
  obtain r where r: "fold (\<lambda>p newest. case newest of None \<Rightarrow> Some p | Some q \<Rightarrow> if mp_Timestamp q < mp_Timestamp p then Some p else newest) qs (Some q) = Some r"
    using newest_point_total by blast
  show ?thesis using that [of r] newest_point_fold [OF r] r by (simp add: newest_point_def ps)
qed

text \<open>The samples that count\<close>

definition recent :: "time \<Rightarrow> duration \<Rightarrow> MetricResult \<Rightarrow> MetricResult" where
  "recent newest d = filter (\<lambda>p. newest - d < mp_Timestamp p)"

lemma add_points:
  "\<exists>fs fc. fold (add_point t d) ps (a, b, fs0, fc0) =
     (fold (\<lambda>p a. int64 (a + int64 (mp_Value p))) (recent t d ps) a, b + int (length (recent t d ps)), fs, fc)"
proof (induction ps arbitrary: a b fs0 fc0)
  case (Cons p ps)
  show ?case
  proof (cases "t - d < mp_Timestamp p")
    case True
    then obtain fs1 fc1 where "add_point t d p (a, b, fs0, fc0) = (int64 (a + int64 (mp_Value p)), b + 1, fs1, fc1)"
      by (cases "mp_FloatValue p") (auto simp: add_point_def)
    then show ?thesis using Cons.IH [of "int64 (a + int64 (mp_Value p))" "b + 1" fs1 fc1] True by (simp add: recent_def add.assoc)
  next
    case False
    then show ?thesis using Cons.IH [of a b fs0 fc0] by (simp add: add_point_def recent_def)
  qed
qed (simp add: recent_def)


lemma recent_newest: "r \<in> set ps \<Longrightarrow> 0 < d \<Longrightarrow> recent (mp_Timestamp r) d ps \<noteq> []"
  by (auto simp: recent_def filter_empty_conv intro!: bexI [of _ r])

lemma recent_sum:
  assumes "\<And>p. p \<in> set ps \<Longrightarrow> fits64 (mp_Value p)"
  shows "fold (\<lambda>p a. int64 (a + int64 (mp_Value p))) ps 0 = int64 (\<Sum>p\<leftarrow>ps. mp_Value p)"
proof -
  have "map mp_Value ps = map (\<lambda>p. int64 (mp_Value p)) ps" using assms by (simp add: int64_id)
  from arg_cong [OF this, of sum_list] show ?thesis using fold_int64_sum [of 0 "\<lambda>p. int64 (mp_Value p)" ps] by (simp add: fits64_def)
qed

lemma recent_sum_le:
  "(\<And>p. p \<in> set ps \<Longrightarrow> 0 \<le> mp_Value p) \<Longrightarrow> (\<Sum>p\<leftarrow>recent t d ps. mp_Value p) \<le> (\<Sum>p\<leftarrow>ps. mp_Value p)"
  by (induction ps) (fastforce simp: recent_def)+

lemma heapster_pod_other: "n \<noteq> pmi_Name m \<Longrightarrow> map_of (heapster_pod r c m acc) n = map_of acc n"
  by (simp add: heapster_pod_def update_conv' split: prod.splits)

lemma heapster_pod_without:
  assumes "c \<noteq> []" "pmi_Containers m \<noteq> []" "list_all (\<lambda>x. ctr_Name x \<noteq> c) (pmi_Containers m)"
  shows "map_option pm_Value (map_of (heapster_pod r c m acc) (pmi_Name m)) = Some 0"
  using assms by (simp add: heapster_pod_def heapster_containers_other update_conv')

lemma container_metrics_without:
  assumes "m \<in> set ms" "list_all (\<lambda>x. ctr_Name x \<noteq> c) (pmi_Containers m)"
  shows "\<exists>e. container_metrics_loop r c ms acc = Inl e"
proof -
  have "container_metric r c m acc = None" for acc
    using assms(2) by (auto simp: container_metric_def list_all_iff find_None_iff split: option.splits dest!: find_Some_iff [THEN iffD1])
  then show ?thesis using assms(1) by (induction ms arbitrary: acc) (auto split: option.splits)
qed

end
