(* ===== verification/Support_Theorems.thy ===== *)
theory Support_Theorems
  imports Samples Legacy_Metrics
begin

text \<open>
  The parts around the scaling decision: the condition store of the status, the defaults of the specification, the
  finalizer list, the certificates and the replies of recommenders, the pods a resource metric is taken from,
  and the series that a cleanup deletes.
\<close>

section \<open>Conditions\<close>

text \<open>A condition that is set can be read back, and its transition time is that of the last change of its status,
  whatever is set on another type in between.\<close>

theorem condition_keeps_transition_time:
  assumes "store_ok s" "t' \<noteq> t" "st \<noteq> []"
  shows "wp (go_bind (setCondition t st r m) (\<lambda>_. go_bind (setCondition t' st' r' m') (\<lambda>_. setCondition t st r2 m2)))
     (\<lambda>_ s'. store_ok s' \<and> (\<exists>c. getCondition (Status (wpa s')) t = Inr c \<and> cond_Status c = st \<and>
          LastTransitionTime c = (case getCondition (Status (wpa s)) t of
            Inr c0 \<Rightarrow> if cond_Status c0 = st then LastTransitionTime c0 else clock s (ticks s)
          | Inl _ \<Rightarrow> clock s (ticks s))))
     (\<lambda>_ _. False) s"
proof -
  have time: "(if \<exists>c0. cond_of s t = Some c0 \<and> cond_Status c0 = st then LastTransitionTime (the (cond_of s t)) else clock s (ticks s)) =
      (case getCondition (Status (wpa s)) t of
            Inr c0 \<Rightarrow> if cond_Status c0 = st then LastTransitionTime c0 else clock s (ticks s)
          | Inl _ \<Rightarrow> clock s (ticks s))"
    by (auto simp: getCondition_def cond_of_def split: option.splits)
  have inv: "wp (go_bind (setCondition t st r m) (\<lambda>_. go_bind (setCondition t' st' r' m') (\<lambda>_. setCondition t st r2 m2)))
     (\<lambda>_. store_ok) (\<lambda>_ _. False) s"
    using assms(1) by (simp add: go_wp)
  show ?thesis
    by (rule wp_mono [OF wp_conj [THEN iffD2, OF conjI, OF inv conds.transition_time_stable [OF assms, of r m st' r' m' r2 m2]]])
      (simp_all add: getCondition_cond_of time)
qed

theorem condition_keeps_transition_time_witness:
  "wp (go_bind (setCondition AbleToScale ''True'' ''a'' ''b'') (\<lambda>_. go_bind (setCondition ScalingActive ''False'' ''c'' ''d'')
       (\<lambda>_. setCondition AbleToScale ''True'' ''e'' ''f'')))
     (\<lambda>_ s'. \<exists>c. getCondition (Status (wpa s')) AbleToScale = Inr c \<and> LastTransitionTime c = 1000000000000)
     (\<lambda>_ _. False) (sample_world sample_wpa)"
  by (rule wp_mono [OF condition_keeps_transition_time])
    (auto simp: sample_defs store_ok_def conditions_ok_def getCondition_def)

section \<open>Defaults\<close>




section \<open>Finalizers\<close>

text \<open>The finalizer is removed from a list in which it occurs once, at any position, and a list without it is unchanged; but the loop ranges over the slice
  it shortens, so that a list which ends in a second occurrence makes it slice out of bounds and panic.\<close>

theorem remove_string:
  assumes "s \<notin> set xs" "s \<notin> set ys"
  shows "RemoveString (xs @ s # ys) s = Ret (xs @ ys) \<and> RemoveString xs s = Ret xs \<and>
    RemoveString (xs @ s # zs @ [s]) s = Panic SliceBoundsOutOfRange"
  using assms by (simp add: RemoveString_once RemoveString_absent RemoveString_twice)

theorem remove_string_witness:
  "RemoveString [''a'', ''f'', ''b''] ''f'' = Ret [''a'', ''b''] \<and> RemoveString [''a'', ''f'', ''f''] ''f'' = Panic SliceBoundsOutOfRange"
  using remove_string [of "''f''" "[''a'']" "[''b'']" "[]"] by simp

section \<open>Certificates\<close>

text \<open>C31: Loading a key pair takes at most the given number of attempts and always ends: with the
  certificate of the last attempt, with an error of the last attempt that no retry can help, or when every attempt has found a
  key that does not match its certificate.  Nothing but the files is read.\<close>

theorem keypair_retries:
  "\<exists>r k. retryLoadingX09Keypair env n c ky s = (Ret r, s\<lparr>reads := reads s + k\<rparr>) \<and> k \<le> n \<and>
     (\<forall>j < k - 1. \<exists>e. LoadX509KeyPair env c ky (reads s + j) = Inl e \<and> Error e = keyMismatch) \<and>
     (case r of
        Inr cert \<Rightarrow> 0 < k \<and> LoadX509KeyPair env c ky (reads s + k - 1) = Inr cert
      | Inl e \<Rightarrow> (0 < k \<and> LoadX509KeyPair env c ky (reads s + k - 1) = Inl e \<and> Error e \<noteq> keyMismatch) \<or>
          (k = n \<and> (\<forall>j < n. \<exists>e. LoadX509KeyPair env c ky (reads s + j) = Inl e \<and> Error e = keyMismatch)))"
  unfolding retryLoadingX09Keypair_def by (rule retry_keypair_run)

theorem keypair_retries_witness:
  "\<exists>r k. retryLoadingX09Keypair sample_tls 5 ''c'' ''k'' (sample_world sample_wpa) =
     (Ret r, (sample_world sample_wpa)\<lparr>reads := reads (sample_world sample_wpa) + k\<rparr>) \<and> k \<le> 5"
  using keypair_retries [of sample_tls 5 "''c''" "''k''" "sample_world sample_wpa"] by blast



text \<open>C38: A load that failed is not tried again while the entry is in use: however old the entry is, the
  callback returns the error it holds without reading the files, and marks it used, so that the eviction
  loop leaves it in place for another ten minutes.\<close>

theorem cached_error_is_served:
  assumes "map_of (certCache s) f = Some e" "entry_err e = Some err" "distinct (map fst (certCache s))"
  shows "wp (GetClientCertificate env f k) (\<lambda>(cert, err') s'. err' = Some err \<and> reads s' = reads s \<and>
     (\<forall>now \<le> clock s (ticks s) + certificateCacheExpirationTimeout.
        map_of (evict now (certCache s')) f = Some (e\<lparr>lastAccess := clock s (ticks s)\<rparr>)))
    (\<lambda>_ _. False) s"
  using assms
  by (auto simp: GetClientCertificate_def go_wp needs_reload_error deref_def intro!: evict_keeps simp: update_conv' distinct_update)

definition failed_entry :: tlsCacheEntry where
  "failed_entry = \<lparr>certificate = None, entry_err = Some (errorf ''no such file''), lastUpdate = 0, lastAccess = 0\<rparr>"

theorem cached_error_is_served_witness:
  "wp (GetClientCertificate sample_tls ''c'' ''k'') (\<lambda>(cert, err) s'. err = Some (errorf ''no such file'') \<and> reads s' = 0)
    (\<lambda>_ _. False) ((sample_world sample_wpa)\<lparr>certCache := [(''c'', failed_entry)]\<rparr>)"
  by (rule wp_mono [OF cached_error_is_served [where e = failed_entry and err = "errorf ''no such file''"]])
    (auto simp: sample_world_def failed_entry_def)

section \<open>Recommenders\<close>






section \<open>Pods\<close>



text \<open>The usage of a pod is the sum over its containers, wrapped to 64 bits once at the end; a pod without
  containers, or with a container that does not report the resource, is left out.\<close>

theorem pod_usage:
  assumes "distinct (map pmi_Name ms)" "m \<in> set ms"
  shows "map_of (getPodMetrics ms r) (pmi_Name m) =
    (if pmi_Containers m \<noteq> [] \<and> list_all (\<lambda>c. map_of (ctr_Usage c) r \<noteq> None) (pmi_Containers m)
     then Some \<lparr>pm_Timestamp = pmi_Timestamp m, pm_Window = pmi_Window m,
       pm_Value = int64 (\<Sum>c\<leftarrow>pmi_Containers m. MilliValue (the (map_of (ctr_Usage c) r)))\<rparr>
     else None)"
  using map_of_fold_key [of pmi_Name "pod_metric r", OF _ assms, of "[]"]
  by (auto simp: getPodMetrics_def pod_metric_lookup)

definition sample_item :: PodMetricsItem where
  "sample_item = \<lparr>pmi_Name = ''a'', pmi_Namespace = ''prod'', pmi_Timestamp = 5, pmi_Window = 60,
     pmi_Containers = [\<lparr>ctr_Name = ''app'', ctr_Usage = [(''cpu'', milli 300)]\<rparr>, \<lparr>ctr_Name = ''sidecar'', ctr_Usage = [(''cpu'', milli 20)]\<rparr>]\<rparr>"

theorem pod_usage_witness: "map_of (getPodMetrics [sample_item] ''cpu'') ''a'' = Some \<lparr>pm_Timestamp = 5, pm_Window = 60, pm_Value = int64 320\<rparr>"
  using pod_usage [of "[sample_item]" sample_item "''cpu''"] by (simp add: sample_item_def milli_def)

text \<open>The samples of a pod are collapsed to the average of those less than the duration older than the newest one, in thousandths and rounded towards zero, with the time
  of the newest one.  There is at least one such sample, so that the average never divides by zero; without samples the pod has no metric.\<close>

theorem collapse_averages:
  assumes "0 < d" "\<And>p. p \<in> set ps \<Longrightarrow> 0 \<le> mp_Value p \<and> mp_FloatValue p = None" "1000 * (\<Sum>p\<leftarrow>ps. mp_Value p) < 2 ^ 63"
  shows "collapseTimeSamples ps d = (if ps = [] then Ret (0, zero_time, False)
     else let t = Max (mp_Timestamp ` set ps); rs = filter (\<lambda>p. t - d < mp_Timestamp p) ps in
       Ret (1000 * (\<Sum>p\<leftarrow>rs. mp_Value p) div int (length rs), t, True))"
proof (cases "ps = []")
  case True
  then show ?thesis by (simp add: collapseTimeSamples_def newest_point_def)
next
  case False
  obtain r where r: "newest_point ps = Some r" "r \<in> set ps" "\<And>p. p \<in> set ps \<Longrightarrow> mp_Timestamp p \<le> mp_Timestamp r"
    using newest_point [OF False] by blast
  let ?t = "mp_Timestamp r" let ?rs = "recent ?t d ps" let ?S = "\<Sum>p\<leftarrow>?rs. mp_Value p"
  have t: "Max (mp_Timestamp ` set ps) = ?t" using r by (intro Max_eqI) auto
  have nonneg: "0 \<le> (\<Sum>p\<leftarrow>qs. mp_Value p)" if "set qs \<subseteq> set ps" for qs
    using that assms(2) by (intro sum_list_nonneg) auto
  have le: "?S \<le> (\<Sum>p\<leftarrow>ps. mp_Value p)"
    using assms(2) by (intro recent_sum_le) auto
  have S: "0 \<le> ?S" "1000 * ?S < 2 ^ 63" using nonneg [of ?rs] le assms(3) by (auto simp: recent_def)
  have fit: "fits64 (mp_Value p)" if "p \<in> set ?rs" for p
  proof -
    have "mp_Value p \<le> (\<Sum>p\<leftarrow>?rs. mp_Value p)"
      using that assms(2) by (intro member_le_sum_list) (auto simp: recent_def)
    then show ?thesis using S assms(2) [of p] that by (auto simp: fits64_def recent_def)
  qed
  obtain fs fc where "fold (add_point ?t d) ps (0, 0, float64 0, 0) = (int64 ?S, int (length ?rs), fs, fc)"
    using add_points [of ?t d ps 0 0 "float64 0" 0] recent_sum [OF fit] by auto
  moreover have "int64 ?S = ?S" "int64 (?S * 1000) = ?S * 1000" using S by (auto intro!: int64_id simp: fits64_def)
  moreover have pos: "0 < int (length ?rs)" using recent_newest [OF r(2) assms(1)] by simp
  moreover have "?S * 1000 sdiv int (length ?rs) = 1000 * ?S div int (length ?rs)"
    using S pos by (simp add: signed_divide_int_def sgn_if mult.commute)
  moreover have "int64 (1000 * ?S div int (length ?rs)) = 1000 * ?S div int (length ?rs)"
  proof (rule int64_id)
    have "1000 * ?S div int (length ?rs) \<le> 1000 * ?S" using zdiv_mono2 [of "1000 * ?S" 1 "int (length ?rs)"] S pos by simp
    moreover have "0 \<le> 1000 * ?S div int (length ?rs)" using S(1) pos pos_imp_zdiv_nonneg_iff [of "int (length ?rs)" "1000 * ?S"] by linarith
    ultimately show "fits64 (1000 * ?S div int (length ?rs))" using S by (simp add: fits64_def)
  qed
  ultimately show ?thesis
    using False r assms(2) [OF r(2)] by (simp add: collapseTimeSamples_def t Let_def recent_def)
qed


theorem collapse_averages_witness:
  "collapseTimeSamples [\<lparr>mp_Timestamp = 10, mp_Value = 4, mp_FloatValue = None\<rparr>, \<lparr>mp_Timestamp = 100, mp_Value = 7, mp_FloatValue = None\<rparr>,
     \<lparr>mp_Timestamp = 90, mp_Value = 8, mp_FloatValue = None\<rparr>] 60 = Ret (7500, 100, True)"
  by (subst collapse_averages) (auto simp: Let_def)

text \<open>For a whole pod the two clients agree: if Heapster and the resource metrics API report the same items, both give the same usage and the same time.  For a
  single container they do not: a pod that does not have it is an error of the REST client, and a pod that uses nothing for this one.\<close>

theorem heapster_agrees:
  assumes "items \<noteq> []" "PodMetricses_List api ns sel (reads s) = Ret (Inr items)"
    "ProxyGet h (heapsterScheme h) (heapsterService h) (heapsterPort h)
       (''/apis/metrics/v1alpha1/namespaces/'' @ ns @ ''/pods'') [(''labelSelector'', sel)] (reads s) = Ret (Inr raw)"
    "Unmarshal_PodMetricsList h raw = Inr items"
  shows "Heapster_GetResourceMetric h r ns sel [] s = GetResourceMetric api r ns sel [] s \<and>
    (m \<in> set items \<and> c \<noteq> [] \<and> distinct (map pmi_Name items) \<and> pmi_Containers m \<noteq> [] \<and> list_all (\<lambda>x. ctr_Name x \<noteq> c) (pmi_Containers m) \<longrightarrow>
      (\<exists>res t s'. Heapster_GetResourceMetric h r ns sel c s = (Ret (Inr (res, t)), s') \<and> map_option pm_Value (map_of res (pmi_Name m)) = Some 0) \<and>
      (\<exists>e s'. GetResourceMetric api r ns sel c s = (Ret (Inl e), s')))"
proof -
  obtain m0 ms where items: "items = m0 # ms" using assms(1) by (cases items) auto
  have "Heapster_GetResourceMetric h r ns sel [] s = GetResourceMetric api r ns sel [] s"
    using assms(2-4)
    by (simp add: Heapster_GetResourceMetric_def GetResourceMetric_def Let_def items go_bind_def go_read_def go_return_def
        getPodMetrics_def heapster_pods_whole)
  moreover have "(\<exists>res t s'. Heapster_GetResourceMetric h r ns sel c s = (Ret (Inr (res, t)), s') \<and> map_option pm_Value (map_of res (pmi_Name m)) = Some 0) \<and>
      (\<exists>e s'. GetResourceMetric api r ns sel c s = (Ret (Inl e), s'))"
    if m: "m \<in> set items" "c \<noteq> []" "distinct (map pmi_Name items)" "pmi_Containers m \<noteq> []" "list_all (\<lambda>x. ctr_Name x \<noteq> c) (pmi_Containers m)"
  proof
    let ?res = "fold (heapster_pod r c) items []"
    have "map_option pm_Value (map_of ?res (pmi_Name m)) = Some 0"
      using map_of_fold_key [of pmi_Name "heapster_pod r c", OF heapster_pod_other m(3,1), of "[]"]
        heapster_pod_without [OF m(2,4,5)] by fastforce
    then show "\<exists>res t s'. Heapster_GetResourceMetric h r ns sel c s = (Ret (Inr (res, t)), s') \<and> map_option pm_Value (map_of res (pmi_Name m)) = Some 0"
      using assms(3,4) by (simp add: Heapster_GetResourceMetric_def Let_def items go_bind_def go_read_def go_return_def)
    show "\<exists>e s'. GetResourceMetric api r ns sel c s = (Ret (Inl e), s')"
      using container_metrics_without [OF m(1,5), of r "[]"] m(2) assms(2)
      by (auto simp: GetResourceMetric_def getContainerMetrics_def items go_bind_def go_read_def go_return_def)
  qed
  ultimately show ?thesis by blast
qed

definition sample_heapster :: HeapsterMetricsClient where
  "sample_heapster = \<lparr>heapsterScheme = DefaultHeapsterScheme, heapsterService = DefaultHeapsterService, heapsterPort = DefaultHeapsterPort,
     ProxyGet = (\<lambda>_ _ _ _ _ _. Ret (Inr [])), Pods_List = (\<lambda>_ _ _. Ret (Inr [])), Unmarshal_PodMetricsList = (\<lambda>_. Inr [sample_item]),
     Unmarshal_MetricResultList = (\<lambda>_. Inr []), Format_RFC3339 = show_int\<rparr>"

theorem heapster_agrees_witness:
  "\<exists>res t s'. Heapster_GetResourceMetric sample_heapster ''cpu'' ''prod'' ''app=web'' ''db'' (sample_world sample_wpa) = (Ret (Inr (res, t)), s') \<and>
     map_option pm_Value (map_of res ''a'') = Some 0"
  using heapster_agrees [of "[sample_item]" "(sample_api 0)\<lparr>PodMetricses_List := (\<lambda>_ _ _. Ret (Inr [sample_item]))\<rparr>" "''prod''" "''app=web''"
      "sample_world sample_wpa" sample_heapster "[]" "''cpu''" sample_item "''db''"]
  by (simp add: sample_heapster_def sample_item_def)

section \<open>Series\<close>

text \<open>C40: A cleanup of an object whose metrics have their sources deletes the series of the object and, for every metric or recommender, those of
  the watermarks, of the proposal and of the value, and the one of the lifecycle control.  The deletions it also asks for on the
  counters of scaled replicas and on the information about labels have labels these vectors do not have, and delete nothing.\<close>

theorem cleanup_deletes:
  assumes "list_all named_metric (Metrics (Spec w))" "namespacePromLabel \<notin> set (extraPromLabels s)"
  shows "wp (cleanupAssociatedMetrics w only) (\<lambda>_ s'. \<exists>es. s' = s\<lparr>trace := trace s @ es\<rparr> \<and>
     effective_deletes (extraPromLabels s) es = (if only then [] else object_deletes w) @
       concat (map (\<lambda>n. map (\<lambda>v. (v, AList.update metricNamePromLabel n (getPrometheusLabels w))) per_metric) (metric_labels w)) @
       [lifecycle_delete w]) (\<lambda>_ _. False) s"
proof -
  obtain es where es: "(if \<not> only then cleanup_object w else go_return ()) s = (Ret (), s\<lparr>trace := trace s @ es\<rparr>)"
    "effective_deletes (extraPromLabels s) es = (if only then [] else object_deletes w)"
  proof (cases only)
    case True
    then show ?thesis by (intro that [of "[]"]) (simp_all add: go_return_def effective_deletes_def)
  qed (use run_cleanup_object [OF assms(2), of w] that in auto)
  let ?ms = "concat (map (\<lambda>m. deletes_of w (metric_label m)) (Metrics (Spec w)))"
  let ?rs = "concat (map (deletes_of w) (if Recommender (Spec w) = None then [] else [metricNameForRecommender (Spec w)]))"
  let ?l = "[case lifecycle_delete w of (v, ls) \<Rightarrow> PromDelete v ls]"
  have "cleanupAssociatedMetrics w only s = (Ret (), s\<lparr>trace := trace s @ es @ ?ms @ ?rs @ ?l\<rparr>)"
    unfolding cleanupAssociatedMetrics_def go_bind_def [of "if _ then _ else _"] es(1)
    by (simp add: go_bind_def run_cleanup_metrics [OF assms(1)] run_cleanupForLabels emit_def go_modify_def go_return_def lifecycle_delete_def
        del: metricNamePromLabel_def split: option.splits)
  moreover have "effective_deletes (extraPromLabels s) ?l = [lifecycle_delete w]"
    by (simp add: effective_deletes_def lifecycle_delete_def well_labelled_def)
  ultimately show ?thesis
    unfolding wp_def by (auto simp: es(2) effective_concat effective_deletes_of metric_labels_def comp_def simp del: metricNamePromLabel_def
        intro!: exI [of _ "es @ ?ms @ ?rs @ ?l"])
qed

theorem cleanup_deletes_witness:
  "wp (cleanupAssociatedMetrics sample_wpa True) (\<lambda>_ s'. effective_deletes [] (trace s') =
      map (\<lambda>v. (v, AList.update metricNamePromLabel ''queue'' (getPrometheusLabels sample_wpa))) per_metric @ [lifecycle_delete sample_wpa])
    (\<lambda>_ _. False) (sample_world sample_wpa)"
  by (rule wp_mono [OF cleanup_deletes]) (auto simp: sample_defs named_metric_def metric_labels_def metric_label_def)

end
