(* ===== verification/Csv.thy ===== *)
theory Csv
  imports Prelude
begin

text \<open>
  The part of Go's package \<open>encoding/csv\<close> that \<open>kubectl wpa dry-run\<close> uses: \<open>Writer.Write\<close> and
  \<open>Reader.Read\<close> with their default settings (comma, no comment character, no lazy quotes, the number of fields taken from
  the first record).  Text is a list of bytes; of the leading characters that make the writer quote a field only
  the ASCII spaces are known.

  A reader is its unread input, the error with which the input ends (none for a plain end of file; an error is
  then reported by every later read of the file as well) and the number of fields expected.  Of a
  parse error the kind is kept, not the position.
\<close>

definition NL :: char where "NL = CHR 0x0A"
definition CR :: char where "CR = CHR 0x0D"
definition quote_mark :: char where "quote_mark = CHR 0x22"
definition comma :: char where "comma = CHR '',''"

lemma csv_chars [simp]:
  "NL \<noteq> CR" "NL \<noteq> quote_mark" "NL \<noteq> comma" "CR \<noteq> quote_mark" "CR \<noteq> comma" "quote_mark \<noteq> comma"
  "CR \<noteq> NL" "quote_mark \<noteq> NL" "comma \<noteq> NL" "quote_mark \<noteq> CR" "comma \<noteq> CR" "comma \<noteq> quote_mark"
  by (simp_all add: NL_def CR_def quote_mark_def comma_def)

section \<open>Writing\<close>

definition fieldNeedsQuotes :: "string \<Rightarrow> bool" where
  "fieldNeedsQuotes field \<longleftrightarrow> field \<noteq> [] \<and>
     (field = [CHR 0x5C, CHR ''.''] \<or>
      list_ex (\<lambda>c. c = NL \<or> c = CR \<or> c = quote_mark \<or> c = comma) field \<or>
      hd field \<in> set [CHR 0x09, CHR 0x0A, CHR 0x0B, CHR 0x0C, CHR 0x0D, CHR '' ''])"

definition write_field :: "string \<Rightarrow> string" where
  "write_field field =
     (if fieldNeedsQuotes field
      then quote_mark # concat (map (\<lambda>c. if c = quote_mark then [quote_mark, quote_mark] else [c]) field) @ [quote_mark]
      else field)"

fun write_fields :: "string list \<Rightarrow> string" where
  "write_fields [] = []"
| "write_fields [f] = write_field f"
| "write_fields (f # g # fs) = write_field f @ comma # write_fields (g # fs)"

definition csv_Write :: "string list \<Rightarrow> string" where
  "csv_Write record = write_fields record @ [NL]"

section \<open>Reading\<close>

datatype csv_error = EOF | ErrBareQuote | ErrQuote | ErrFieldCount | ReadError go_error

record csv_reader =
  unread :: string
  read_err :: "go_error option"
  FieldsPerRecord :: nat

text \<open>\<open>readLine\<close>: a line with its line feed, in front of which a carriage return is dropped.  At the end of the file a last line
  without line feed is returned without error, and a carriage return at its end is dropped.\<close>

definition drop_CR :: "string \<Rightarrow> string" where
  "drop_CR l = (if l \<noteq> [] \<and> last l = CR then butlast l else l)"

definition readLine :: "go_error option \<Rightarrow> string \<Rightarrow> string \<times> csv_error option \<times> string" where
  "readLine err input =
     (let l = takeWhile (\<lambda>c. c \<noteq> NL) input in
      case dropWhile (\<lambda>c. c \<noteq> NL) input of
        _ # rest \<Rightarrow> (drop_CR l @ [NL], None, rest)
      | [] \<Rightarrow> (case err of
          Some e \<Rightarrow> (l, Some (ReadError e), [])
        | None \<Rightarrow> if l = [] then ([], Some EOF, []) else (drop_CR l, None, [])))"

definition lengthNL :: "string \<Rightarrow> nat" where
  "lengthNL l = (if l \<noteq> [] \<and> last l = NL then 1 else 0)"

lemma length_drop_CR: "length (drop_CR l) \<le> length l"
  by (simp add: drop_CR_def)

lemma readLine_length: "readLine err input = (l, e, rest) \<Longrightarrow> length l + length rest \<le> length input"
proof -
  assume r: "readLine err input = (l, e, rest)"
  have "length (takeWhile (\<lambda>c. c \<noteq> NL) input) + length (dropWhile (\<lambda>c. c \<noteq> NL) input) = length input"
    by (metis length_append takeWhile_dropWhile_id)
  then show ?thesis
    using r length_drop_CR [of "takeWhile (\<lambda>c. c \<noteq> NL) input"]
    by (auto simp: readLine_def Let_def split: list.splits option.splits if_splits)
qed

lemma readLine_shorter: "readLine err input = (l, None, rest) \<Longrightarrow> length rest < length input"
proof -
  assume r: "readLine err input = (l, None, rest)"
  have "length (takeWhile (\<lambda>c. c \<noteq> NL) input) + length (dropWhile (\<lambda>c. c \<noteq> NL) input) = length input"
    by (metis length_append takeWhile_dropWhile_id)
  then show ?thesis
    using r by (auto simp: readLine_def Let_def split: list.splits option.splits if_splits)
qed

text \<open>The loop of \<open>readRecord\<close> that skips empty lines\<close>

function next_line :: "go_error option \<Rightarrow> string \<Rightarrow> string \<times> csv_error option \<times> string" where
  "next_line err input = (case readLine err input of (line, e, rest) \<Rightarrow>
     if e = None \<and> length line = lengthNL line then next_line err rest else (line, e, rest))"
  by auto
termination
  by (relation "measure (\<lambda>(_, input). length input)") (auto dest!: sym [of "(_, _, _)"] readLine_shorter)

declare next_line.simps [simp del]

lemma dropWhile_Cons_length: "dropWhile P xs = y # ys \<Longrightarrow> length ys < length xs"
  using length_dropWhile_le [of P xs] by simp

text \<open>
  The loop of \<open>readRecord\<close> over the fields.  \<open>buf\<close> is \<open>None\<close> at the start of a field and holds what was
  read of it inside a quoted one; \<open>er\<close> is \<open>errRead\<close> and \<open>fs\<close> the complete fields.
\<close>

function parse_fields ::
  "go_error option \<Rightarrow> string option \<Rightarrow> string \<Rightarrow> string \<Rightarrow> csv_error option \<Rightarrow> string list \<Rightarrow>
   string list \<times> csv_error option \<times> string" where
  "parse_fields err None line rest er fs =
     (if line = [] \<or> hd line \<noteq> quote_mark then
        let field = takeWhile (\<lambda>c. c \<noteq> comma) line in
        case dropWhile (\<lambda>c. c \<noteq> comma) line of
          _ # line' \<Rightarrow> if quote_mark \<in> set field then (fs, Some ErrBareQuote, rest)
            else parse_fields err None line' rest er (fs @ [field])
        | [] \<Rightarrow> (let field' = take (length field - lengthNL field) field in
            if quote_mark \<in> set field' then (fs, Some ErrBareQuote, rest) else (fs @ [field'], er, rest))
      else parse_fields err (Some []) (tl line) rest er fs)"
| "parse_fields err (Some buf) line rest er fs =
     (case dropWhile (\<lambda>c. c \<noteq> quote_mark) line of
        _ # line' \<Rightarrow> (let buf' = buf @ takeWhile (\<lambda>c. c \<noteq> quote_mark) line in
          if line' \<noteq> [] \<and> hd line' = quote_mark then parse_fields err (Some (buf' @ [quote_mark])) (tl line') rest er fs
          else if line' \<noteq> [] \<and> hd line' = comma then parse_fields err None (tl line') rest er (fs @ [buf'])
          else if lengthNL line' = length line' then (fs @ [buf'], er, rest)
          else (fs, Some ErrQuote, rest))
      | [] \<Rightarrow>
          if line \<noteq> [] then
            (if er \<noteq> None then (fs, er, rest)
             else case readLine err rest of (line', er', rest') \<Rightarrow>
               parse_fields err (Some (buf @ line)) line' rest' (if er' = Some EOF then None else er') fs)
          else if er = None then (fs, Some ErrQuote, rest)
          else (fs @ [buf], er, rest))"
  by pat_completeness auto

termination
  by (relation "measure (\<lambda>(_, _, line, rest, _, _). length line + length rest)")
    (auto dest!: dropWhile_Cons_length sym [of "(_, _, _)"] readLine_length simp: neq_Nil_conv)

declare parse_fields.simps [simp del]

definition csv_Read :: "csv_reader \<Rightarrow> (string list \<times> csv_error option) \<times> csv_reader" where
  "csv_Read r = (case next_line (read_err r) (unread r) of (line, e, rest) \<Rightarrow>
     if e = Some EOF then (([], Some EOF), r\<lparr>unread := rest\<rparr>)
     else case parse_fields (read_err r) None line rest e [] of (fs, err, rest') \<Rightarrow>
       if 0 < FieldsPerRecord r then
         ((fs, if length fs \<noteq> FieldsPerRecord r \<and> err = None then Some ErrFieldCount else err), r\<lparr>unread := rest'\<rparr>)
       else ((fs, err), r\<lparr>unread := rest', FieldsPerRecord := length fs\<rparr>))"


section \<open>Round trip\<close>

text \<open>A field on one line\<close>

definition one_line :: "string \<Rightarrow> bool" where
  "one_line f \<longleftrightarrow> NL \<notin> set f \<and> CR \<notin> set f"

definition escape :: "string \<Rightarrow> string" where
  "escape f = concat (map (\<lambda>c. if c = quote_mark then [quote_mark, quote_mark] else [c]) f)"

lemma escape_simps [simp]:
  "escape [] = []" "escape (c # f) = (if c = quote_mark then [quote_mark, quote_mark] else [c]) @ escape f"
  by (simp_all add: escape_def)

lemma set_escape [simp]: "set (escape f) = set f"
  by (induction f) auto

lemma write_field_escape: "write_field f = (if fieldNeedsQuotes f then quote_mark # escape f @ [quote_mark] else f)"
  by (simp add: write_field_def escape_def)

lemma set_write_fields: "list_all one_line fs \<Longrightarrow> NL \<notin> set (write_fields fs) \<and> CR \<notin> set (write_fields fs)"
  by (induction fs rule: write_fields.induct) (auto simp: write_field_escape one_line_def)

lemma plain_field:
  assumes "\<not> fieldNeedsQuotes f"
  shows "quote_mark \<notin> set f" "comma \<notin> set f" "NL \<notin> set f" "f \<noteq> [] \<Longrightarrow> hd f \<noteq> quote_mark"
proof -
  show q: "quote_mark \<notin> set f" and "comma \<notin> set f" and "NL \<notin> set f"
    using assms by (auto simp: fieldNeedsQuotes_def list_ex_iff)
  show "hd f \<noteq> quote_mark" if "f \<noteq> []" using that q hd_in_set by metis
qed

text \<open>Inside quotes the reader takes one character after the other.\<close>

lemma parse_quoted_char:
  assumes "c \<noteq> quote_mark" "quote_mark \<in> set line"
  shows "parse_fields err (Some buf) (c # line) rest er fs = parse_fields err (Some (buf @ [c])) line rest er fs"
proof -
  obtain q line' where "dropWhile (\<lambda>c. c \<noteq> quote_mark) line = q # line'"
    using assms(2) by (cases "dropWhile (\<lambda>c. c \<noteq> quote_mark) line") (auto simp: dropWhile_eq_Nil_conv)
  then show ?thesis
    using assms(1)
    by (simp add: parse_fields.simps(2) [of err buf "c # line"] parse_fields.simps(2) [of err "buf @ [c]" line])
qed

lemma parse_quoted_mark:
  "parse_fields err (Some buf) (quote_mark # quote_mark # line) rest er fs = parse_fields err (Some (buf @ [quote_mark])) line rest er fs"
  by (simp add: parse_fields.simps(2) [of err buf])

lemma parse_quoted:
  "parse_fields err (Some buf) (escape f @ quote_mark # line) rest er fs = parse_fields err (Some (buf @ f)) (quote_mark # line) rest er fs"
proof (induction f arbitrary: buf)
  case (Cons c f)
  then show ?case
    by (cases "c = quote_mark") (simp_all add: parse_quoted_mark parse_quoted_char)
qed simp

lemma parse_field_comma:
  "parse_fields err None (write_field f @ comma # line) rest er fs = parse_fields err None line rest er (fs @ [f])"
proof (cases "fieldNeedsQuotes f")
  case True
  then show ?thesis
    by (simp add: write_field_escape parse_fields.simps(1) [of err "quote_mark # _"] parse_quoted
        parse_fields.simps(2) [of err f "quote_mark # _"])
next
  case False
  then have "takeWhile (\<lambda>c. c \<noteq> comma) (f @ comma # line) = f" "dropWhile (\<lambda>c. c \<noteq> comma) (f @ comma # line) = comma # line"
    "hd (f @ comma # line) \<noteq> quote_mark"
    using plain_field [OF False] by (auto simp: takeWhile_append dropWhile_append hd_append)
  then show ?thesis
    using False plain_field [OF False]
    by (subst parse_fields.simps(1)) (simp add: write_field_escape)
qed

lemma parse_field_NL:
  assumes "one_line f"
  shows "parse_fields err None (write_field f @ [NL]) rest er fs = (fs @ [f], er, rest)"
proof (cases "fieldNeedsQuotes f")
  case True
  then show ?thesis
    by (simp add: write_field_escape parse_fields.simps(1) [of err "quote_mark # _"] parse_quoted
        parse_fields.simps(2) [of err f "quote_mark # _"] lengthNL_def)
next
  case False
  then have "takeWhile (\<lambda>c. c \<noteq> comma) (f @ [NL]) = f @ [NL]" "dropWhile (\<lambda>c. c \<noteq> comma) (f @ [NL]) = []"
    "hd (f @ [NL]) \<noteq> quote_mark"
    using plain_field [OF False] by (auto simp: takeWhile_append dropWhile_append hd_append)
  then show ?thesis
    using False plain_field [OF False]
    by (subst parse_fields.simps(1)) (simp add: write_field_escape lengthNL_def)
qed

lemma parse_write_fields:
  "list_all one_line gs \<Longrightarrow> gs \<noteq> [] \<Longrightarrow> parse_fields err None (write_fields gs @ [NL]) rest er fs = (fs @ gs, er, rest)"
  by (induction gs arbitrary: fs rule: write_fields.induct) (simp_all add: parse_field_NL parse_field_comma)

lemma next_line_write:
  assumes "list_all one_line gs" "write_fields gs \<noteq> []"
  shows "next_line err (csv_Write gs @ rest) = (write_fields gs @ [NL], None, rest)"
proof -
  let ?l = "write_fields gs"
  have s: "NL \<notin> set ?l" "CR \<notin> set ?l" using set_write_fields [OF assms(1)] by auto
  then have "drop_CR ?l = ?l" using last_in_set [of ?l] by (metis drop_CR_def)
  moreover have "takeWhile (\<lambda>c. c \<noteq> NL) (?l @ NL # rest) = ?l" "dropWhile (\<lambda>c. c \<noteq> NL) (?l @ NL # rest) = NL # rest"
    using s by (auto simp: takeWhile_append dropWhile_append)
  ultimately show ?thesis
    using assms(2) by (subst next_line.simps) (simp add: csv_Write_def readLine_def lengthNL_def)
qed

text \<open>What is written is read back, and the reader is then at the next record.\<close>

lemma csv_Read_Write:
  assumes "list_all one_line gs" "write_fields gs \<noteq> []" "FieldsPerRecord r = 0 \<or> FieldsPerRecord r = length gs"
  shows "csv_Read (r\<lparr>unread := csv_Write gs @ rest\<rparr>) = ((gs, None), r\<lparr>unread := rest, FieldsPerRecord := length gs\<rparr>)"
proof -
  have ne: "gs \<noteq> []" using assms(2) by auto
  show ?thesis
    using assms(3) ne parse_write_fields [OF assms(1) ne, of "read_err r" rest None "[]"]
    by (auto simp: csv_Read_def next_line_write [OF assms(1,2)])
qed

lemma csv_Read_end: "csv_Read (r\<lparr>unread := [], read_err := None\<rparr>) = (([], Some EOF), r\<lparr>unread := [], read_err := None\<rparr>)"
  by (simp add: csv_Read_def readLine_def next_line.simps)

text \<open>Every read of a plain file consumes input or reports the end.\<close>

lemma next_line_length:
  "next_line err input = (l, e, rest) \<Longrightarrow> length rest \<le> length input \<and> (e = None \<longrightarrow> length rest < length input)"
proof (induction err input rule: next_line.induct)
  case (1 err input)
  obtain l' e' rest' where r: "readLine err input = (l', e', rest')" by (cases "readLine err input")
  show ?case
  proof (cases "e' = None \<and> length l' = lengthNL l'")
    case True
    then have "next_line err rest' = (l, e, rest)" using "1.prems" r by (simp add: next_line.simps [of err input])
    then show ?thesis using "1.IH" [OF r [symmetric]] True readLine_shorter [of err input l' rest'] r by auto
  next
    case False
    then show ?thesis
      using "1.prems" r readLine_length [OF r] readLine_shorter [of err input l' rest'] by (auto simp: next_line.simps [of err input])
  qed
qed

lemma parse_fields_length: "parse_fields err b line rest er fs = (gs, e, rest') \<Longrightarrow> length rest' \<le> length rest"
proof (induction err b line rest er fs rule: parse_fields.induct)
  case (1 err line rest er fs)
  show ?case
    using 1 by (auto simp: parse_fields.simps(1) [of err line] Let_def split: if_splits list.splits)
next
  case (2 err buf line rest er fs)
  show ?case
  proof (cases "dropWhile (\<lambda>c. c \<noteq> quote_mark) line")
    case Nil
    obtain l' e' r' where r: "readLine err rest = (l', e', r')" by (cases "readLine err rest")
    have "length r' \<le> length rest" using readLine_length [OF r] by simp
    then show ?thesis
      using 2(4) 2(1) [OF Nil] r Nil by (fastforce simp: parse_fields.simps(2) [of err buf line] split: if_splits)
  next
    case (Cons q line')
    show ?thesis
      using 2(4) 2(2,3) [OF Cons refl] Cons by (auto simp: parse_fields.simps(2) [of err buf line] Let_def split: if_splits)
  qed
qed

lemma next_line_plain: "next_line None input = (l, e, rest) \<Longrightarrow> e = None \<or> e = Some EOF"
proof (induction "None :: go_error option" input rule: next_line.induct)
  case (1 input)
  obtain l' e' rest' where r: "readLine None input = (l', e', rest')" by (cases "readLine None input")
  then have "e' = None \<or> e' = Some EOF" by (auto simp: readLine_def Let_def split: list.splits if_splits)
  then show ?case
    using "1.prems" "1.hyps" [OF r [symmetric] refl] r by (auto simp: next_line.simps [of None input] split: if_splits)
qed

lemma csv_Read_shorter:
  assumes "csv_Read r = ((gs, e), r')" "read_err r = None"
  shows "e = Some EOF \<or> length (unread r') < length (unread r)" "read_err r' = None"
proof -
  obtain l e0 rest where n: "next_line (read_err r) (unread r) = (l, e0, rest)" by (cases "next_line (read_err r) (unread r)")
  obtain fs e1 rest' where f: "parse_fields (read_err r) None l rest e0 [] = (fs, e1, rest')" by (cases "parse_fields (read_err r) None l rest e0 []")
  have "e0 = None \<or> e0 = Some EOF" using n assms(2) by (simp add: next_line_plain)
  then show "e = Some EOF \<or> length (unread r') < length (unread r)"
    using assms n f next_line_length [OF n] parse_fields_length [OF f] by (auto simp: csv_Read_def split: if_splits)
  show "read_err r' = None"
    using assms n f by (auto simp: csv_Read_def split: if_splits)
qed

end
