(* ===== verification/Dryrun.thy ===== *)
theory Dryrun
  imports Csv Api_Types
begin

text \<open>
  The kubectl plugin \<open>kubectl wpa dry-run\<close> (\<open>cmd/kubectl-wpa/app/dryrun/dryrun.go\<close>): it lists the dry-run mode of
  autoscalers, switches it on or off, and restores it from a list saved as CSV.

  The cluster is a value of any type with the calls of the Kubernetes client on it (\<open>kube\<close>); what the client promises is the predicate
  \<open>kube_ok\<close>.  The streams of the command are a string for its output and a list of diagnostics for its error
  output, whose wording is kept only where the code makes an error of it.
  The loop of \<open>revert\<close> runs until the reader reports the end of the file, and not every file makes it do so:
  it has a fuel, and \<open>None\<close> is the value when it runs out.
\<close>

section \<open>State\<close>

record 'c kube =
  kube_Get :: "'c \<Rightarrow> string \<Rightarrow> string \<Rightarrow> go_error + WatermarkPodAutoscaler"
  kube_List :: "'c \<Rightarrow> string \<Rightarrow> string \<Rightarrow> go_error + WatermarkPodAutoscaler list"
  kube_Patch :: "'c \<Rightarrow> WatermarkPodAutoscaler \<Rightarrow> WatermarkPodAutoscaler \<Rightarrow> go_error option \<times> 'c"
  ParseSelector :: "string \<Rightarrow> go_error + string"
  NewClient :: "go_error option"
  config_Namespace :: "go_error + string"
  os_Open :: "string \<Rightarrow> go_error + string \<times> go_error option"

record dryrunOptions =
  args :: "string list"
  userNamespace :: string
  userWPAName :: string
  labelSelector :: string
  outputFormat :: string
  csvFile :: string
  enabledDryRun :: bool
  allWPA :: bool
  allNamespaces :: bool

datatype diagnostic =
    Failure go_error
  | CsvFailure csv_error
  | InvalidLine "string list"
  | IncorrectValue string

record 'c shell =
  cluster :: 'c
  In :: "string \<times> go_error option"
  Out :: string
  ErrOut :: "diagnostic list"

definition print :: "string \<Rightarrow> 'c shell \<Rightarrow> 'c shell" where
  "print t s = s\<lparr>Out := Out s @ t\<rparr>"

definition warn :: "diagnostic \<Rightarrow> 'c shell \<Rightarrow> 'c shell" where
  "warn d s = s\<lparr>ErrOut := ErrOut s @ [d]\<rparr>"

definition show_bool :: "bool \<Rightarrow> string" where
  "show_bool b = (if b then ''true'' else ''false'')"

section \<open>Helpers\<close>

definition disabledString :: string where "disabledString = ''disabled''"
definition enabledString :: string where "enabledString = ''enabled''"

definition getWpa :: "'c kube \<Rightarrow> 'c \<Rightarrow> string \<Rightarrow> string \<Rightarrow> go_error + WatermarkPodAutoscaler" where
  "getWpa k c ns name = (case kube_Get k c ns name of
     Inl e \<Rightarrow> if IsNotFound e then Inl (errorf (''WatermarkPodAutoscaler '' @ ns @ ''/'' @ name @ '' not found''))
       else Inl (wrap_error ''unable to get WatermarkPodAutoscaler, err: '' e)
   | Inr w \<Rightarrow> Inr w)"

definition patchWPA :: "'c kube \<Rightarrow> 'c \<Rightarrow> WatermarkPodAutoscaler \<Rightarrow> bool \<Rightarrow> go_error option \<times> 'c" where
  "patchWPA k c w dryRun =
     (let newWPA = w\<lparr>Spec := (Spec w)\<lparr>DryRun := dryRun\<rparr>\<rparr> in
      case kube_Patch k c newWPA w of
        (Some e, c') \<Rightarrow> (Some (wrap_error (''unable to set dry-run option to '' @ show_bool dryRun @ '', err: '') e), c')
      | (None, c') \<Rightarrow> (None, c'))"

definition dryRunString :: "WatermarkPodAutoscaler \<Rightarrow> string" where
  "dryRunString w = (if DryRun (Spec w) then enabledString else disabledString)"

definition dryRunBool :: "string \<Rightarrow> 'c shell \<Rightarrow> bool \<times> 'c shell" where
  "dryRunBool input s =
     (if input = disabledString then (False, s)
      else if input = enabledString then (True, s)
      else (True, warn (IncorrectValue input) s))"

section \<open>Actions\<close>

definition noMatch :: go_error where
  "noMatch = errorf ''no matching WatermarkPodAutoscaler intance''"

definition csv_line :: "WatermarkPodAutoscaler \<Rightarrow> string" where
  "csv_line w = csv_Write [wpa_Namespace w, wpa_Name w, dryRunString w]"

definition wpa_ref :: "WatermarkPodAutoscaler \<Rightarrow> string" where
  "wpa_ref w = ''WatermarkPodAutoscaler '' @ [CHR 0x27] @ wpa_Namespace w @ ''/'' @ wpa_Name w @ [CHR 0x27]"

definition list_wpas :: "dryrunOptions \<Rightarrow> WatermarkPodAutoscaler list \<Rightarrow> 'c shell \<Rightarrow> go_error option \<times> 'c shell" where
  "list_wpas opts wpas s =
     (if wpas = [] then (Some noMatch, s)
      else if outputFormat opts = ''csv'' then (None, print (concat (map csv_line wpas)) s)
      else (None, print (concat (map (\<lambda>w. wpa_ref w @ '' dry-run option is: '' @ show_bool (DryRun (Spec w)) @ [NL]) wpas)) s))"

text \<open>One object of the loops of \<open>patch\<close> and \<open>runRevert\<close>\<close>

definition patch_one :: "'c kube \<Rightarrow> WatermarkPodAutoscaler \<Rightarrow> bool \<Rightarrow> 'c shell \<Rightarrow> 'c shell" where
  "patch_one k w dryRun s = (case patchWPA k (cluster s) w dryRun of
     (Some e, c') \<Rightarrow> warn (Failure e) (s\<lparr>cluster := c'\<rparr>)
   | (None, c') \<Rightarrow> print (wpa_ref w @ '' dry-run option is now '' @ show_bool dryRun @ [NL]) (s\<lparr>cluster := c'\<rparr>))"

definition patch :: "'c kube \<Rightarrow> dryrunOptions \<Rightarrow> WatermarkPodAutoscaler list \<Rightarrow> 'c shell \<Rightarrow> go_error option \<times> 'c shell" where
  "patch k opts wpas s =
     (if wpas = [] then (Some noMatch, s)
      else (None, fold (\<lambda>w. patch_one k w (enabledDryRun opts)) wpas s))"

section \<open>Commands\<close>

definition complete :: "'c kube \<Rightarrow> string list \<Rightarrow> dryrunOptions \<Rightarrow> go_error + dryrunOptions" where
  "complete k as opts = (case NewClient k of
     Some e \<Rightarrow> Inl (wrap_error ''unable to instantiate client, err: '' e)
   | None \<Rightarrow> (case config_Namespace k of
       Inl e \<Rightarrow> Inl e
     | Inr ns \<Rightarrow> Inr (opts\<lparr>args := as, userNamespace := (if allNamespaces opts then [] else ns),
         userWPAName := (case as of [] \<Rightarrow> userWPAName opts | a # _ \<Rightarrow> a)\<rparr>)))"

definition validate :: "dryrunOptions \<Rightarrow> go_error option" where
  "validate opts = (if userWPAName opts = [] \<and> labelSelector opts = [] \<and> \<not> allWPA opts
     then Some (errorf ''the watermarkpodautoscaler name or label-selector is required'') else None)"

definition run ::
  "'c kube \<Rightarrow> dryrunOptions \<Rightarrow> (WatermarkPodAutoscaler list \<Rightarrow> 'c shell \<Rightarrow> go_error option \<times> 'c shell) \<Rightarrow> 'c shell \<Rightarrow>
   go_error option \<times> 'c shell" where
  "run k opts actionFunc s =
     (if userWPAName opts \<noteq> [] then
        (case getWpa k (cluster s) (userNamespace opts) (userWPAName opts) of
           Inl e \<Rightarrow> (Some e, s)
         | Inr w \<Rightarrow> actionFunc [w] s)
      else (case ParseSelector k (labelSelector opts) of
         Inl e \<Rightarrow> (Some (wrap_error ''invalid label-selector, err: '' e), s)
       | Inr selector \<Rightarrow> (case kube_List k (cluster s) (userNamespace opts) selector of
           Inl e \<Rightarrow> (Some (if IsNotFound e
             then errorf (''WatermarkPodAutoscaler not found with namespace: '' @ userNamespace opts @
               '', label-selector: '' @ labelSelector opts)
             else wrap_error ''unable to get WatermarkPodAutoscaler, err: '' e), s)
         | Inr wpas \<Rightarrow> actionFunc wpas s)))"

text \<open>One record of the loop of \<open>runRevert\<close>\<close>

definition revert_record :: "'c kube \<Rightarrow> string list \<Rightarrow> 'c shell \<Rightarrow> 'c shell" where
  "revert_record k record s =
     (if length record \<noteq> 3 then warn (InvalidLine record) s
      else case getWpa k (cluster s) (record ! 0) (record ! 1) of
        Inl e \<Rightarrow> warn (Failure e) s
      | Inr w \<Rightarrow> (case dryRunBool (record ! 2) s of (previousDryRunValue, s') \<Rightarrow>
          if DryRun (Spec w) = previousDryRunValue then s'
          else patch_one k w previousDryRunValue s'))"

fun revert_loop :: "'c kube \<Rightarrow> nat \<Rightarrow> csv_reader \<Rightarrow> 'c shell \<Rightarrow> 'c shell option" where
  "revert_loop k 0 r s = None"
| "revert_loop k (Suc fuel) r s = (case csv_Read r of
     ((record, Some e), r') \<Rightarrow> if e = EOF then Some s else revert_loop k fuel r' (warn (CsvFailure e) s)
   | ((record, None), r') \<Rightarrow> revert_loop k fuel r' (revert_record k record s))"

definition runRevert :: "'c kube \<Rightarrow> nat \<Rightarrow> dryrunOptions \<Rightarrow> 'c shell \<Rightarrow> (go_error option \<times> 'c shell) option" where
  "runRevert k fuel opts s =
     (case (if csvFile opts \<noteq> [] then os_Open k (csvFile opts) else Inr (In s)) of
        Inl e \<Rightarrow> Some (Some (wrap_error (''unable to open the csv file '' @ csvFile opts @ '', err: '') e), s)
      | Inr (text, err) \<Rightarrow> map_option (Pair None)
          (revert_loop k fuel \<lparr>unread = text, read_err = err, FieldsPerRecord = 0\<rparr> s))"

text \<open>The \<open>RunE\<close> functions of the four commands\<close>

definition with_options ::
  "'c kube \<Rightarrow> string list \<Rightarrow> dryrunOptions \<Rightarrow> (dryrunOptions \<Rightarrow> 'c shell \<Rightarrow> go_error option \<times> 'c shell) \<Rightarrow> 'c shell \<Rightarrow> go_error option \<times> 'c shell" where
  "with_options k as opts cmd s = (case complete k as opts of
     Inl e \<Rightarrow> (Some e, s)
   | Inr opts' \<Rightarrow> (case validate opts' of Some e \<Rightarrow> (Some e, s) | None \<Rightarrow> cmd opts' s))"

definition cmd_list :: "'c kube \<Rightarrow> string list \<Rightarrow> dryrunOptions \<Rightarrow> 'c shell \<Rightarrow> go_error option \<times> 'c shell" where
  "cmd_list k as opts = with_options k as opts (\<lambda>opts'. run k opts' (list_wpas opts'))"

definition cmd_enable :: "'c kube \<Rightarrow> string list \<Rightarrow> dryrunOptions \<Rightarrow> 'c shell \<Rightarrow> go_error option \<times> 'c shell" where
  "cmd_enable k as opts = with_options k as (opts\<lparr>enabledDryRun := True\<rparr>) (\<lambda>opts'. run k opts' (patch k opts'))"

definition cmd_disable :: "'c kube \<Rightarrow> string list \<Rightarrow> dryrunOptions \<Rightarrow> 'c shell \<Rightarrow> go_error option \<times> 'c shell" where
  "cmd_disable k as opts = with_options k as (opts\<lparr>enabledDryRun := False\<rparr>) (\<lambda>opts'. run k opts' (patch k opts'))"

definition cmd_revert :: "'c kube \<Rightarrow> nat \<Rightarrow> string list \<Rightarrow> dryrunOptions \<Rightarrow> 'c shell \<Rightarrow> (go_error option \<times> 'c shell) option" where
  "cmd_revert k fuel as opts s =
     (if csvFile opts = [] then Some (Some (errorf ''the revert command requires a file as input use `--help` for an example''), s)
      else case complete k as opts of
        Inl e \<Rightarrow> Some (Some e, s)
      | Inr opts' \<Rightarrow> runRevert k fuel opts' s)"

section \<open>What the client promises\<close>

text \<open>
  \<open>obj c\<close> are the stored objects by namespace and name.  A read finds an object that is stored, a patch from the stored object to a new
  one stores the new one, and nothing else changes.
\<close>

definition key :: "WatermarkPodAutoscaler \<Rightarrow> string \<times> string" where
  "key w = (wpa_Namespace w, wpa_Name w)"

definition kube_ok :: "'c kube \<Rightarrow> ('c \<Rightarrow> string \<times> string \<Rightarrow> WatermarkPodAutoscaler option) \<Rightarrow> bool" where
  "kube_ok k obj \<longleftrightarrow>
     (\<forall>c ns n. case obj c (ns, n) of
        Some w \<Rightarrow> kube_Get k c ns n = Inr w \<and> key w = (ns, n)
      | None \<Rightarrow> (\<exists>e. kube_Get k c ns n = Inl e \<and> IsNotFound e)) \<and>
     (\<forall>c old new. obj c (key old) = Some old \<longrightarrow> key new = key old \<longrightarrow>
        (\<exists>c'. kube_Patch k c new old = (None, c') \<and> obj c' = (obj c)(key old \<mapsto> new)))"

lemma kube_get:
  assumes "kube_ok k obj" "obj c (ns, n) = Some w"
  shows "kube_Get k c ns n = Inr w" "key w = (ns, n)"
proof -
  have "case obj c (ns, n) of Some w \<Rightarrow> kube_Get k c ns n = Inr w \<and> key w = (ns, n)
      | None \<Rightarrow> (\<exists>e. kube_Get k c ns n = Inl e \<and> IsNotFound e)"
    using assms(1) unfolding kube_ok_def by blast
  then show "kube_Get k c ns n = Inr w" "key w = (ns, n)" using assms(2) by simp_all
qed

definition set_mode :: "bool \<Rightarrow> WatermarkPodAutoscaler \<Rightarrow> WatermarkPodAutoscaler" where
  "set_mode d w = w\<lparr>Spec := (Spec w)\<lparr>DryRun := d\<rparr>\<rparr>"

lemma key_set_mode [simp]: "key (set_mode d w) = key w"
  by (simp add: key_def set_mode_def)

lemma patch_one_run:
  assumes "kube_ok k obj" "obj (cluster s) (key w) = Some w"
  shows "obj (cluster (patch_one k w d s)) = (obj (cluster s))(key w \<mapsto> set_mode d w)"
    "ErrOut (patch_one k w d s) = ErrOut s"
proof -
  have "key (set_mode d w) = key w" by simp
  then obtain c' where "kube_Patch k (cluster s) (set_mode d w) w = (None, c')" "obj c' = (obj (cluster s))(key w \<mapsto> set_mode d w)"
    using assms unfolding kube_ok_def by blast
  then show "obj (cluster (patch_one k w d s)) = (obj (cluster s))(key w \<mapsto> set_mode d w)" "ErrOut (patch_one k w d s) = ErrOut s"
    by (simp_all add: patch_one_def patchWPA_def set_mode_def print_def)
qed

text \<open>Setting the mode of the objects in a list\<close>

definition with_modes :: "(string \<times> string \<Rightarrow> bool option) \<Rightarrow> (string \<times> string \<Rightarrow> WatermarkPodAutoscaler option) \<Rightarrow>
  string \<times> string \<Rightarrow> WatermarkPodAutoscaler option" where
  "with_modes m objs x = map_option (\<lambda>w. case m x of None \<Rightarrow> w | Some d \<Rightarrow> set_mode d w) (objs x)"


lemma with_modes_step:
  "objs (key w) = Some cur \<Longrightarrow> m (key w) = None \<Longrightarrow>
    with_modes m (objs(key w \<mapsto> set_mode d cur)) = with_modes (m(key w \<mapsto> d)) objs"
  by (auto simp: fun_eq_iff with_modes_def split: option.splits)

lemma set_mode_same: "DryRun (Spec w) = d \<Longrightarrow> set_mode d w = w"
  by (auto simp: set_mode_def)

lemma with_modes_empty: "with_modes Map.empty objs = objs"
  by (simp add: fun_eq_iff with_modes_def option.map_ident)

text \<open>The mode that a list of objects gives to each name\<close>

definition modes :: "(WatermarkPodAutoscaler \<Rightarrow> bool) \<Rightarrow> WatermarkPodAutoscaler list \<Rightarrow> string \<times> string \<Rightarrow> bool option" where
  "modes f ws = map_of (map (\<lambda>w. (key w, f w)) ws)"

lemma modes_notin: "x \<notin> key ` set ws \<Longrightarrow> modes f ws x = None"
  by (auto simp: modes_def map_of_eq_None_iff)

lemma modes_Cons: "modes f (w # ws) = (modes f ws)(key w \<mapsto> f w)"
  by (simp add: modes_def)

lemma patch_all:
  assumes "kube_ok k obj" "distinct (map key ws)" "\<And>w. w \<in> set ws \<Longrightarrow> obj (cluster s) (key w) = Some w"
  shows "obj (cluster (fold (\<lambda>w. patch_one k w d) ws s)) = with_modes (modes (\<lambda>_. d) ws) (obj (cluster s)) \<and>
    ErrOut (fold (\<lambda>w. patch_one k w d) ws s) = ErrOut s"
  using assms(2,3)
proof (induction ws arbitrary: s)
  case Nil
  then show ?case by (simp add: modes_def with_modes_empty)
next
  case (Cons w ws)
  let ?s = "patch_one k w d s"
  have w: "obj (cluster s) (key w) = Some w" using Cons.prems by simp
  note one = patch_one_run [OF assms(1) w]
  have "obj (cluster ?s) (key v) = Some v" if "v \<in> set ws" for v
  proof -
    have "key v \<noteq> key w" using Cons.prems(1) that by (metis distinct.simps(2) image_eqI list.simps(9) set_map)
    then show ?thesis using Cons.prems(2) that by (simp add: one)
  qed
  then have IH: "obj (cluster (fold (\<lambda>w. patch_one k w d) ws ?s)) = with_modes (modes (\<lambda>_. d) ws) (obj (cluster ?s))"
    "ErrOut (fold (\<lambda>w. patch_one k w d) ws ?s) = ErrOut ?s" using Cons.IH [of ?s] Cons.prems(1) by auto
  have "with_modes (modes (\<lambda>_. d) ws) (obj (cluster ?s)) = with_modes (modes (\<lambda>_. d) (w # ws)) (obj (cluster s))"
    unfolding one(1) modes_Cons using w Cons.prems(1) by (intro with_modes_step) (auto simp: modes_notin)
  then show ?case using IH one(2) by simp
qed

section \<open>Restoring\<close>

lemma revert_record_run:
  assumes "kube_ok k obj" "obj (cluster s) (key w) = Some cur"
  shows "obj (cluster (revert_record k [wpa_Namespace w, wpa_Name w, dryRunString w] s)) =
      (obj (cluster s))(key w \<mapsto> set_mode (DryRun (Spec w)) cur)"
    "ErrOut (revert_record k [wpa_Namespace w, wpa_Name w, dryRunString w] s) = ErrOut s"
proof -
  have get: "kube_Get k (cluster s) (wpa_Namespace w) (wpa_Name w) = Inr cur" and cur: "key cur = key w"
    using kube_get [OF assms(1), of "cluster s" "wpa_Namespace w" "wpa_Name w" cur] assms(2) by (auto simp: key_def [of w])
  have mode: "dryRunBool (dryRunString w) s = (DryRun (Spec w), s)"
    by (simp add: dryRunBool_def dryRunString_def enabledString_def disabledString_def)
  have run: "revert_record k [wpa_Namespace w, wpa_Name w, dryRunString w] s =
      (if DryRun (Spec cur) = DryRun (Spec w) then s else patch_one k cur (DryRun (Spec w)) s)"
    by (simp add: revert_record_def getWpa_def get mode)
  note one = patch_one_run [OF assms(1), of s cur, unfolded cur, OF assms(2)]
  show "obj (cluster (revert_record k [wpa_Namespace w, wpa_Name w, dryRunString w] s)) =
      (obj (cluster s))(key w \<mapsto> set_mode (DryRun (Spec w)) cur)"
    unfolding run using assms(2) by (auto simp: one set_mode_same fun_upd_idem)
  show "ErrOut (revert_record k [wpa_Namespace w, wpa_Name w, dryRunString w] s) = ErrOut s"
    unfolding run by (simp add: one)
qed

definition simple_names :: "WatermarkPodAutoscaler \<Rightarrow> bool" where
  "simple_names w \<longleftrightarrow> one_line (wpa_Namespace w) \<and> one_line (wpa_Name w)"

lemma read_csv_line:
  assumes "simple_names w" "n = 0 \<or> n = 3"
  shows "csv_Read \<lparr>unread = csv_line w @ rest, read_err = None, FieldsPerRecord = n\<rparr> =
     (([wpa_Namespace w, wpa_Name w, dryRunString w], None), \<lparr>unread = rest, read_err = None, FieldsPerRecord = 3\<rparr>)"
  using csv_Read_Write [of "[wpa_Namespace w, wpa_Name w, dryRunString w]" "\<lparr>unread = [], read_err = None, FieldsPerRecord = n\<rparr>" rest] assms
  by (auto simp: csv_line_def simple_names_def dryRunString_def enabledString_def disabledString_def one_line_def NL_def CR_def)

lemma revert_all:
  assumes "kube_ok k obj" "distinct (map key ws)" "list_all simple_names ws" "key ` set ws \<subseteq> dom (obj (cluster s))" "n = 0 \<or> n = 3"
  shows "\<exists>s'. revert_loop k (Suc (length ws)) \<lparr>unread = concat (map csv_line ws), read_err = None, FieldsPerRecord = n\<rparr> s = Some s' \<and>
     obj (cluster s') = with_modes (modes (\<lambda>w. DryRun (Spec w)) ws) (obj (cluster s)) \<and> ErrOut s' = ErrOut s"
  using assms(2-5)
proof (induction ws arbitrary: s n)
  case Nil
  then show ?case
    using csv_Read_end [of "\<lparr>unread = [], read_err = None, FieldsPerRecord = n\<rparr>"] by (simp add: modes_def with_modes_empty)
next
  case (Cons w ws)
  let ?s = "revert_record k [wpa_Namespace w, wpa_Name w, dryRunString w] s"
  obtain cur where cur: "obj (cluster s) (key w) = Some cur" using Cons.prems(3) by auto
  note one = revert_record_run [OF assms(1) cur]
  obtain s' where s': "revert_loop k (Suc (length ws)) \<lparr>unread = concat (map csv_line ws), read_err = None, FieldsPerRecord = 3\<rparr> ?s = Some s'"
     "obj (cluster s') = with_modes (modes (\<lambda>w. DryRun (Spec w)) ws) (obj (cluster ?s))" "ErrOut s' = ErrOut ?s"
  proof -
    have "key ` set ws \<subseteq> dom (obj (cluster ?s))" unfolding one(1) using Cons.prems(3) by auto
    then show ?thesis using Cons.IH [of ?s 3] Cons.prems(1,2) that by auto
  qed
  have "obj (cluster s') = with_modes (modes (\<lambda>w. DryRun (Spec w)) (w # ws)) (obj (cluster s))"
    unfolding s'(2) one(1) modes_Cons using cur Cons.prems(1) by (intro with_modes_step) (auto simp: modes_notin)
  moreover have "revert_loop k (Suc (length (w # ws))) \<lparr>unread = concat (map csv_line (w # ws)), read_err = None, FieldsPerRecord = n\<rparr> s = Some s'"
    using s'(1) read_csv_line [of w n "concat (map csv_line ws)"] Cons.prems by simp
  ultimately show ?case using s'(3) one(2) by metis
qed

section \<open>The end of the loop\<close>

lemma readLine_broken: "readLine (Some err) input = (l, e, rest) \<Longrightarrow> e \<noteq> Some EOF"
  by (auto simp: readLine_def Let_def split: list.splits)

lemma next_line_broken: "next_line (Some err) input = (l, e, rest) \<Longrightarrow> e \<noteq> Some EOF"
proof (induction "Some err" input rule: next_line.induct)
  case (1 input)
  obtain l' e' rest' where r: "readLine (Some err) input = (l', e', rest')" by (cases "readLine (Some err) input")
  then show ?case
    using "1.prems" "1.hyps" [OF r [symmetric] refl] readLine_broken [OF r]
    by (auto simp: next_line.simps [of "Some err" input] split: if_splits)
qed

lemma parse_fields_EOF: "parse_fields err b line rest er fs = (gs, e, rest') \<Longrightarrow> er \<noteq> Some EOF \<Longrightarrow> e \<noteq> Some EOF"
proof (induction err b line rest er fs rule: parse_fields.induct)
  case (1 err line rest er fs)
  show ?case
    using 1 by (auto simp: parse_fields.simps(1) [of err line] Let_def split: if_splits list.splits)
next
  case (2 err buf line rest er fs)
  show ?case
  proof (cases "dropWhile (\<lambda>c. c \<noteq> quote_mark) line")
    case Nil
    obtain l' e' r' where r: "readLine err rest = (l', e', r')" by (cases "readLine err rest")
    then show ?thesis
      using 2(4,5) 2(1) [OF Nil] Nil by (fastforce simp: parse_fields.simps(2) [of err buf line] split: if_splits)
  next
    case (Cons q line')
    show ?thesis
      using 2(4,5) 2(2,3) [OF Cons refl] Cons by (auto simp: parse_fields.simps(2) [of err buf line] Let_def split: if_splits)
  qed
qed

lemma csv_Read_broken:
  assumes "csv_Read r = ((gs, e), r')" "read_err r = Some err"
  shows "e \<noteq> Some EOF" "read_err r' = Some err"
proof -
  obtain l e0 rest where n: "next_line (read_err r) (unread r) = (l, e0, rest)" by (cases "next_line (read_err r) (unread r)")
  obtain fs e1 rest' where f: "parse_fields (read_err r) None l rest e0 [] = (fs, e1, rest')" by (cases "parse_fields (read_err r) None l rest e0 []")
  have "e0 \<noteq> Some EOF" using n assms(2) next_line_broken by metis
  then show "e \<noteq> Some EOF" "read_err r' = Some err"
    using assms n f parse_fields_EOF [OF f] by (auto simp: csv_Read_def split: if_splits)
qed

lemma revert_plain:
  "read_err r = None \<Longrightarrow> length (unread r) < fuel \<Longrightarrow> \<exists>s'. revert_loop k fuel r s = Some s'"
proof (induction fuel arbitrary: r s)
  case (Suc fuel)
  obtain gs e r' where read: "csv_Read r = ((gs, e), r')" by (metis surj_pair)
  show ?case
    using csv_Read_shorter [OF read Suc.prems(1)] Suc.prems(2) Suc.IH [of r'] read by (auto split: option.splits)
qed simp

lemma revert_broken: "read_err r = Some err \<Longrightarrow> revert_loop k fuel r s = None"
proof (induction fuel arbitrary: r s)
  case (Suc fuel)
  obtain gs e r' where read: "csv_Read r = ((gs, e), r')" by (metis surj_pair)
  show ?case
    using csv_Read_broken [OF read Suc.prems] Suc.IH [of r'] read by (auto split: option.splits)
qed simp

end
