(* ===== verification/Plugin_Theorems.thy ===== *)
theory Plugin_Theorems
  imports Samples Dryrun
begin

text \<open>
  The kubectl plugin as a whole: what its commands do to the objects of a cluster whose client keeps its promises
  (\<open>kube_ok\<close>).  The promises hold of a cluster that is a list of objects.
\<close>

section \<open>A cluster\<close>

definition stored :: "WatermarkPodAutoscaler list \<Rightarrow> string \<times> string \<Rightarrow> WatermarkPodAutoscaler option" where
  "stored c x = find (\<lambda>w. key w = x) c"

definition sample_kube :: "WatermarkPodAutoscaler list kube" where
  "sample_kube = \<lparr>kube_Get = (\<lambda>c ns n. case stored c (ns, n) of Some w \<Rightarrow> Inr w | None \<Rightarrow> Inl \<lparr>Error = ''not found'', IsNotFound = True\<rparr>),
     kube_List = (\<lambda>c ns sel. Inr c),
     kube_Patch = (\<lambda>c new old. (None, map (\<lambda>w. if key w = key old then new else w) c)),
     ParseSelector = Inr, NewClient = None, config_Namespace = Inr ''default'',
     os_Open = (\<lambda>f. if f = ''saved.csv'' then Inr (csv_line sample_wpa, None) else Inr ([], Some (errorf ''is a directory'')))\<rparr>"

lemma stored_key: "stored c x = Some w \<Longrightarrow> key w = x"
  by (auto simp: stored_def find_Some_iff)

lemma stored_single: "stored [w] x = (if key w = x then Some w else None)"
  by (simp add: stored_def)

lemma stored_patch:
  assumes "stored c (key old) \<noteq> None" "key new = key old"
  shows "stored (map (\<lambda>w. if key w = key old then new else w) c) = (stored c)(key old \<mapsto> new)"
proof
  fix x
  have "find (\<lambda>w. key w = x) (map (\<lambda>w. if key w = key old then new else w) c) = find (\<lambda>w. key w = x) c" if "x \<noteq> key old"
    using that assms(2) by (induction c) auto
  moreover have "find (\<lambda>w. key w = key old) (map (\<lambda>w. if key w = key old then new else w) c) = Some new"
    using assms by (induction c) (auto simp: stored_def split: if_splits)
  ultimately show "stored (map (\<lambda>w. if key w = key old then new else w) c) x = ((stored c)(key old \<mapsto> new)) x"
    by (simp add: stored_def)
qed

lemma sample_kube_ok: "kube_ok sample_kube stored"
proof -
  have "kube_Patch sample_kube c new old = (None, map (\<lambda>w. if key w = key old then new else w) c)" for c new old
    by (simp add: sample_kube_def)
  moreover have "case stored c (ns, n) of Some w \<Rightarrow> kube_Get sample_kube c ns n = Inr w \<and> key w = (ns, n)
      | None \<Rightarrow> (\<exists>e. kube_Get sample_kube c ns n = Inl e \<and> IsNotFound e)" for c ns n
    using stored_key [of c "(ns, n)"] by (simp add: sample_kube_def split: option.splits)
  moreover have "stored (map (\<lambda>w. if key w = key old then new else w) c) = (stored c)(key old \<mapsto> new)"
    if "stored c (key old) = Some old" "key new = key old" for c old new
    using that by (intro stored_patch) auto
  ultimately show ?thesis unfolding kube_ok_def by simp
qed

definition sample_options :: dryrunOptions where
  "sample_options = \<lparr>args = [], userNamespace = [], userWPAName = [], labelSelector = [], outputFormat = ''csv'', csvFile = ''saved.csv'',
     enabledDryRun = False, allWPA = True, allNamespaces = True\<rparr>"

definition sample_shell :: "WatermarkPodAutoscaler list shell" where
  "sample_shell = \<lparr>cluster = [sample_wpa], In = ([], None), Out = [], ErrOut = []\<rparr>"

section \<open>Selection\<close>

text \<open>The objects that a command without a name works on: those the cluster lists for the selector.\<close>

definition lists :: "'c kube \<Rightarrow> dryrunOptions \<Rightarrow> 'c \<Rightarrow> WatermarkPodAutoscaler list \<Rightarrow> bool" where
  "lists k opts c ws \<longleftrightarrow> NewClient k = None \<and> userWPAName opts = [] \<and> allWPA opts \<and> ws \<noteq> [] \<and>
     (\<exists>ns sel. config_Namespace k = Inr ns \<and> ParseSelector k (labelSelector opts) = Inr sel \<and>
        kube_List k c (if allNamespaces opts then [] else ns) sel = Inr ws)"

lemma run_selected:
  assumes "lists k opts (cluster s) ws"
  obtains opts' where "complete k [] opts = Inr opts'" "validate opts' = None" "outputFormat opts' = outputFormat opts"
    "enabledDryRun opts' = enabledDryRun opts" "csvFile opts' = csvFile opts" "\<And>f. run k opts' f s = f ws s"
  using assms by (auto simp: lists_def complete_def validate_def run_def)

lemma lists_mode: "lists k (opts\<lparr>enabledDryRun := d\<rparr>) c ws = lists k opts c ws"
  by (simp add: lists_def)

lemma cmd_list_run:
  assumes "lists k opts (cluster s) ws" "outputFormat opts = ''csv''"
  shows "cmd_list k [] opts s = (None, print (concat (map csv_line ws)) s)"
proof -
  have "ws \<noteq> []" using assms(1) by (simp add: lists_def)
  with assms show ?thesis
    by (auto simp: cmd_list_def with_options_def list_wpas_def elim!: run_selected [of k opts s ws])
qed

lemma cmd_switch_run:
  assumes "lists k opts (cluster s) ws"
  shows "(if d then cmd_enable else cmd_disable) k [] opts s = (None, fold (\<lambda>w. patch_one k w d) ws s)"
proof -
  have ne: "ws \<noteq> []" using assms by (simp add: lists_def)
  have l: "lists k (opts\<lparr>enabledDryRun := d\<rparr>) (cluster s) ws" using assms by (simp add: lists_mode)
  show ?thesis
    using ne by (cases d) (auto simp: cmd_enable_def cmd_disable_def with_options_def patch_def
        intro: run_selected [OF l])
qed


lemma sample_lists: "lists sample_kube sample_options (cluster sample_shell) [sample_wpa]"
  by (simp add: lists_def sample_kube_def sample_options_def sample_shell_def)

lemma sample_saved:
  "os_Open sample_kube (csvFile sample_options) = Inr (Out (snd (cmd_list sample_kube [] sample_options sample_shell)), None)"
  by (subst cmd_list_run [OF sample_lists]) (simp_all add: sample_options_def sample_kube_def sample_shell_def print_def)

lemma sample_names:
  "outputFormat sample_options = ''csv''" "Out sample_shell = []" "distinct (map key [sample_wpa])" "list_all simple_names [sample_wpa]"
  "csvFile sample_options \<noteq> []"
  by (simp_all add: sample_options_def sample_shell_def simple_names_def one_line_def sample_wpa_def NL_def CR_def)

section \<open>Properties\<close>

lemma restores:
  assumes "kube_ok k obj" "lists k opts (cluster s) ws" "outputFormat opts = ''csv''" "Out s = []"
    "distinct (map key ws)" "list_all simple_names ws"
    "key ` set ws \<subseteq> dom (obj (cluster s2))" "csvFile opts \<noteq> []" "os_Open k (csvFile opts) = Inr (Out (snd (cmd_list k [] opts s)), None)"
  shows "\<exists>s3. cmd_revert k (Suc (length ws)) [] opts s2 = Some (None, s3) \<and> ErrOut s3 = ErrOut s2 \<and>
     obj (cluster s3) = with_modes (modes (\<lambda>w. DryRun (Spec w)) ws) (obj (cluster s2))"
proof -
  obtain opts' where c: "complete k [] opts = Inr opts'" "csvFile opts' = csvFile opts"
    using run_selected [OF assms(2)] by metis
  have "Out (snd (cmd_list k [] opts s)) = concat (map csv_line ws)"
    using assms(4) by (simp add: cmd_list_run [OF assms(2,3)] print_def)
  then show ?thesis
    using revert_all [OF assms(1,5,6,7), of 0] c assms(8-9) by (auto simp: cmd_revert_def runRevert_def simp del: revert_loop.simps)
qed

text \<open>C33: Saving and restoring: what \<open>dry-run list -ocsv\<close> prints is a file from which \<open>dry-run revert\<close>, in any later state of the cluster in which the
  objects still exist, gives every one of them the mode it had, without a diagnostic, and changes nothing else.  Names and namespaces are read
  back whatever characters they have, as long as they are on one line.\<close>

theorem revert_restores:
  assumes "kube_ok k obj" "lists k opts (cluster s) ws" "outputFormat opts = ''csv''" "Out s = []"
    "distinct (map key ws)" "list_all simple_names ws"
    "key ` set ws \<subseteq> dom (obj (cluster s2))" "csvFile opts \<noteq> []" "os_Open k (csvFile opts) = Inr (Out (snd (cmd_list k [] opts s)), None)"
  shows "\<exists>s3. cmd_revert k (Suc (length ws)) [] opts s2 = Some (None, s3) \<and> ErrOut s3 = ErrOut s2 \<and>
     obj (cluster s3) = with_modes (modes (\<lambda>w. DryRun (Spec w)) ws) (obj (cluster s2))"
  by (rule restores [OF assms])

theorem revert_restores_witness:
  "\<exists>s3. cmd_revert sample_kube 2 [] sample_options (sample_shell\<lparr>cluster := [set_mode True sample_wpa]\<rparr>) = Some (None, s3) \<and>
     stored (cluster s3) (''prod'', ''web'') = Some sample_wpa"
proof -
  have "\<exists>s3. cmd_revert sample_kube (Suc (length [sample_wpa])) [] sample_options (sample_shell\<lparr>cluster := [set_mode True sample_wpa]\<rparr>) = Some (None, s3) \<and>
     ErrOut s3 = ErrOut (sample_shell\<lparr>cluster := [set_mode True sample_wpa]\<rparr>) \<and>
     stored (cluster s3) = with_modes (modes (\<lambda>w. DryRun (Spec w)) [sample_wpa]) (stored (cluster (sample_shell\<lparr>cluster := [set_mode True sample_wpa]\<rparr>)))"
    by (rule revert_restores [OF sample_kube_ok sample_lists sample_names(1-4) _ sample_names(5) sample_saved])
      (simp add: domIff stored_single)
  then show ?thesis
    by (auto simp: with_modes_def modes_def stored_single key_def set_mode_def sample_wpa_def sample_spec_def numeral_2_eq_2 simp del: revert_loop.simps)
qed

lemma modes_const: "modes (\<lambda>_. d) ws = (\<lambda>x. if x \<in> key ` set ws then Some d else None)"
  by (induction ws) (auto simp: fun_eq_iff modes_def)

lemma modes_undo:
  assumes "distinct (map key ws)" "\<And>w. w \<in> set ws \<Longrightarrow> objs (key w) = Some w"
  shows "with_modes (modes (\<lambda>w. DryRun (Spec w)) ws) (with_modes (modes (\<lambda>_. d) ws) objs) = objs"
proof
  fix x
  show "with_modes (modes (\<lambda>w. DryRun (Spec w)) ws) (with_modes (modes (\<lambda>_. d) ws) objs) x = objs x"
  proof (cases "x \<in> key ` set ws")
    case True
    then obtain w where w: "w \<in> set ws" "x = key w" by auto
    have "modes (\<lambda>w. DryRun (Spec w)) ws (key w) = Some (DryRun (Spec w))"
      using assms(1) w(1) unfolding modes_def by (intro map_of_is_SomeI) (auto simp: comp_def)
    then show ?thesis
      using True w assms(2) [OF w(1)] by (simp add: with_modes_def modes_const) (simp add: set_mode_def)
  next
    case False
    then show ?thesis by (simp add: with_modes_def modes_notin option.map_ident)
  qed
qed

text \<open>C34: \<open>dry-run enable\<close> and \<open>dry-run disable\<close> set the mode of exactly the selected objects and leave everything else as it is; and a
  list saved before undoes them: the cluster is again what it was.\<close>

theorem switch_and_revert:
  assumes "kube_ok k obj" "lists k opts (cluster s) ws" "outputFormat opts = ''csv''" "Out s = []"
    "distinct (map key ws)" "list_all simple_names ws" "\<And>w. w \<in> set ws \<Longrightarrow> obj (cluster s) (key w) = Some w"
    "csvFile opts \<noteq> []" "os_Open k (csvFile opts) = Inr (Out (snd (cmd_list k [] opts s)), None)"
  shows "\<exists>s2 s3. (if d then cmd_enable else cmd_disable) k [] opts s = (None, s2) \<and>
     obj (cluster s2) = with_modes (\<lambda>x. if x \<in> key ` set ws then Some d else None) (obj (cluster s)) \<and>
     cmd_revert k (Suc (length ws)) [] opts s2 = Some (None, s3) \<and> obj (cluster s3) = obj (cluster s)"
proof -
  let ?s2 = "fold (\<lambda>w. patch_one k w d) ws s"
  have s2: "obj (cluster ?s2) = with_modes (modes (\<lambda>_. d) ws) (obj (cluster s))"
    using patch_all [OF assms(1,5,7), of d] by blast
  have dom: "key ` set ws \<subseteq> dom (obj (cluster ?s2))"
    unfolding s2 using assms(7) by (auto simp: with_modes_def)
  obtain s3 where s3: "cmd_revert k (Suc (length ws)) [] opts ?s2 = Some (None, s3)"
    "obj (cluster s3) = with_modes (modes (\<lambda>w. DryRun (Spec w)) ws) (obj (cluster ?s2))"
    using restores [OF assms(1-6) dom assms(8,9)] by blast
  have "obj (cluster s3) = obj (cluster s)"
    unfolding s3(2) s2 by (rule modes_undo [OF assms(5,7)])
  then show ?thesis
    using s3(1) s2 [unfolded modes_const] cmd_switch_run [OF assms(2), of d] by blast
qed

theorem switch_and_revert_witness:
  "\<exists>s2 s3. cmd_enable sample_kube [] sample_options sample_shell = (None, s2) \<and>
     stored (cluster s2) (''prod'', ''web'') = Some (set_mode True sample_wpa) \<and>
     cmd_revert sample_kube 2 [] sample_options s2 = Some (None, s3) \<and> stored (cluster s3) = stored [sample_wpa]"
proof -
  have "\<exists>s2 s3. (if True then cmd_enable else cmd_disable) sample_kube [] sample_options sample_shell = (None, s2) \<and>
     stored (cluster s2) = with_modes (\<lambda>x. if x \<in> key ` set [sample_wpa] then Some True else None) (stored (cluster sample_shell)) \<and>
     cmd_revert sample_kube (Suc (length [sample_wpa])) [] sample_options s2 = Some (None, s3) \<and> stored (cluster s3) = stored (cluster sample_shell)"
    by (rule switch_and_revert [OF sample_kube_ok sample_lists sample_names(1-4) _ sample_names(5) sample_saved])
      (simp add: stored_single sample_shell_def)
  then show ?thesis
    by (auto simp: with_modes_def stored_single key_def sample_shell_def sample_wpa_def numeral_2_eq_2 simp del: revert_loop.simps)
qed

text \<open>C35: \<open>dry-run revert\<close> ends on every file that can be read to its end, with as many rounds as the file has
  characters at most.  On one whose reading fails, as that of a directory does, it never ends: the loop goes on after every error.\<close>

theorem revert_ends:
  assumes "complete k as opts = Inr opts'" "csvFile opts' = csvFile opts" "csvFile opts \<noteq> []" "os_Open k (csvFile opts) = Inr (text, err)"
  shows "case err of
     None \<Rightarrow> \<exists>s'. cmd_revert k (Suc (length text)) as opts s = Some (None, s')
   | Some e \<Rightarrow> \<forall>fuel. cmd_revert k fuel as opts s = None"
proof (cases err)
  case None
  have "\<exists>s'. revert_loop k (Suc (length text)) \<lparr>unread = text, read_err = None, FieldsPerRecord = 0\<rparr> s = Some s'"
    by (rule revert_plain) simp_all
  then show ?thesis using assms None by (auto simp: cmd_revert_def runRevert_def simp del: revert_loop.simps)
next
  case (Some e)
  then show ?thesis using assms by (simp add: cmd_revert_def runRevert_def revert_broken)
qed

theorem revert_ends_witness:
  "(\<exists>s'. cmd_revert sample_kube (Suc (length (csv_line sample_wpa))) [] sample_options sample_shell = Some (None, s')) \<and>
   (\<forall>fuel. cmd_revert sample_kube fuel [] (sample_options\<lparr>csvFile := ''dir''\<rparr>) sample_shell = None)"
  using revert_ends [of sample_kube "[]" sample_options _ "csv_line sample_wpa" None sample_shell]
    revert_ends [of sample_kube "[]" "sample_options\<lparr>csvFile := ''dir''\<rparr>" _ "[]" "Some (errorf ''is a directory'')" sample_shell]
  by (simp add: complete_def sample_kube_def sample_options_def)

end
