(* ===== verification/Config.thy ===== *)
theory Config
  imports Legacy_Metrics
begin

text \<open>
  What the process reads at its start: the namespaces to watch (\<open>pkg/config/config.go\<close>), the default TLS
  settings of \<open>main.go\<close>, and the log attributes that an object may carry (\<open>GetLogAttrsFromWpa\<close> of the controller).
  The environment variable is a parameter.  Of the manager's options only the namespaces of the cache are kept.
\<close>

section \<open>Strings\<close>

text \<open>\<open>strings.TrimSpace\<close> for ASCII text and \<open>strings.Split\<close> at a comma\<close>

definition is_space :: "char \<Rightarrow> bool" where
  "is_space c \<longleftrightarrow> c \<in> set [CHR 0x09, CHR 0x0A, CHR 0x0B, CHR 0x0C, CHR 0x0D, CHR '' '']"

definition TrimSpace :: "string \<Rightarrow> string" where
  "TrimSpace s = rev (dropWhile is_space (rev (dropWhile is_space s)))"

fun split_at :: "char \<Rightarrow> string \<Rightarrow> string list" where
  "split_at c [] = [[]]"
| "split_at c (x # xs) = (if x = c then [] # split_at c xs
     else case split_at c xs of [] \<Rightarrow> [[x]] | w # ws \<Rightarrow> (x # w) # ws)"

section \<open>Watched namespaces\<close>

text \<open>\<open>env\<close> is \<open>os.LookupEnv(WATCH_NAMESPACE)\<close>.\<close>

definition GetWatchNamespaces :: "string option \<Rightarrow> string list" where
  "GetWatchNamespaces env = (case env of
     None \<Rightarrow> []
   | Some ns0 \<Rightarrow>
      (let ns = TrimSpace ns0 in
       if ns = [] then []
       else if CHR '','' \<in> set ns then split_at CHR '','' ns
       else [ns]))"

text \<open>\<open>None\<close> is the nil map of \<open>Cache.DefaultNamespaces\<close>, with which the manager watches the whole cluster.\<close>

definition ManagerOptionsWithNamespaces :: "string option \<Rightarrow> string set option \<Rightarrow> string set option" where
  "ManagerOptionsWithNamespaces env DefaultNamespaces =
     (let namespaces = GetWatchNamespaces env in
      if namespaces = [] then DefaultNamespaces
      else Some (fold insert namespaces (case DefaultNamespaces of None \<Rightarrow> {} | Some m \<Rightarrow> m)))"

section \<open>Default TLS settings\<close>

record tls_flags =
  tlsCAFile :: string
  tlsCertFile :: string
  tlsKeyFile :: string
  tlsInsecureSkipVerify :: bool
  tlsServerName :: string

text \<open>The branch of \<open>main\<close> that builds the options; \<open>Inl\<close> is the exit of the process.\<close>

definition default_tls :: "tls_flags \<Rightarrow> go_error + TLSConfig option" where
  "default_tls f =
     (if tlsCAFile f \<noteq> [] \<or> tlsCertFile f \<noteq> [] then
        if tlsCertFile f \<noteq> [] \<and> tlsKeyFile f = [] then Inl (errorf ''no TLS key file'')
        else Inr (Some \<lparr>CAFile = tlsCAFile f, CertFile = tlsCertFile f, KeyFile = tlsKeyFile f,
          ServerName = tlsServerName f, InsecureSkipVerify = tlsInsecureSkipVerify f, MinVersion = [], MaxVersion = []\<rparr>)
      else Inr None)"

section \<open>Log attributes\<close>

text \<open>The JSON decoder is a parameter; the object it returns is a list of its members, in the order of the iteration.\<close>

definition logAttributesAnnotationKey :: string where
  "logAttributesAnnotationKey = ''wpa.datadoghq.com/logs-attributes''"

datatype 'v log_attribute = AttrKey string | AttrValue 'v

definition GetLogAttrsFromWpa ::
  "(string \<Rightarrow> go_error + (string \<times> 'v) list) \<Rightarrow> WatermarkPodAutoscaler \<Rightarrow> go_error + 'v log_attribute list" where
  "GetLogAttrsFromWpa json_Unmarshal w = (case map_of (Annotations w) logAttributesAnnotationKey of
     None \<Rightarrow> Inr []
   | Some customAttrsStr \<Rightarrow> (case json_Unmarshal customAttrsStr of
       Inl e \<Rightarrow> Inl (wrap_error (''unable to decode the logs-attributes: ['' @ customAttrsStr @ ''], err: '') e)
     | Inr customAttrs \<Rightarrow> Inr (concat (map (\<lambda>(k, v). [AttrKey k, AttrValue v]) customAttrs))))"

section \<open>Facts\<close>

lemma split_at_nonempty: "split_at c s \<noteq> []"
  by (induction s) (auto split: list.splits)

lemma split_at_parts: "w \<in> set (split_at c s) \<Longrightarrow> c \<notin> set w"
  by (induction s arbitrary: w) (fastforce split: if_splits list.splits)+

text \<open>Joining the parts gives the string back.\<close>

lemma join_split_at: "join [c] (split_at c s) = s"
proof (induction s)
  case (Cons x s)
  obtain w ws where "split_at c s = w # ws" using split_at_nonempty by (meson neq_Nil_conv)
  then show ?case using Cons by (cases ws) auto
qed simp

text \<open>The names are those between the commas; nothing is done about spaces around them or about empty ones.\<close>

lemma watched_namespaces:
  "TrimSpace ns \<noteq> [] \<Longrightarrow> join '','' (GetWatchNamespaces (Some ns)) = TrimSpace ns \<and> (\<forall>w \<in> set (GetWatchNamespaces (Some ns)). CHR '','' \<notin> set w)"
  using split_at_parts [of _ "CHR '',''" "TrimSpace ns"] by (auto simp: GetWatchNamespaces_def Let_def join_split_at)

lemma manager_namespaces:
  "GetWatchNamespaces env \<noteq> [] \<Longrightarrow>
    ManagerOptionsWithNamespaces env d = Some (set (GetWatchNamespaces env) \<union> (case d of None \<Rightarrow> {} | Some m \<Rightarrow> m))"
  by (simp add: ManagerOptionsWithNamespaces_def Let_def union_set_fold [symmetric] Un_commute)

lemma default_tls_complete: "default_tls f = Inr (Some c) \<Longrightarrow> CertFile c = [] \<or> KeyFile c \<noteq> []"
  by (auto simp: default_tls_def split: if_splits)

end
