(* ===== verification/Setup.thy ===== *)
theory Setup
  imports Reconcile Config
begin

text \<open>
  How the process is put together: \<open>SetupWithManager\<close> of the controller builds the reconciler from the clients of the
  manager, and \<open>main\<close> gives it the default TLS settings of its flags.  What the libraries construct is a record of parameters: a constructor
  that returns an error is an option or a sum, one that gives up (\<open>NewForConfigOrDie\<close>, \<open>ClientOrDie\<close>) a panic.  The client of the
  custom resources and the flag \<open>SkipNotScalingEvents\<close> are in the reconciler before it is set up.
\<close>

record setup_env =
  builder_Complete :: "go_error option"
  metrics_apis :: "metrics_api outcome"
  tls_files :: tls_env
  reco_services :: reco_env
  initializePodInformer :: "(string \<Rightarrow> string option \<Rightarrow> nat \<Rightarrow> (go_error + Pod list) outcome) outcome"
  NewClientset :: "go_error option"
  discovery :: "string \<Rightarrow> string \<Rightarrow> nat \<Rightarrow> go_error + RESTMapping list"
  NewScaleClient :: "go_error + (string \<Rightarrow> string \<Rightarrow> string \<Rightarrow> nat \<Rightarrow> go_error + scale) \<times>
    (string \<Rightarrow> string \<Rightarrow> scale \<Rightarrow> nat \<Rightarrow> go_error option)"
  K8S_CLUSTER_NAME :: "string option"

definition defaultSyncPeriod :: duration where
  "defaultSyncPeriod = 15 * 1000000000"

definition getClusterName :: "setup_env \<Rightarrow> string" where
  "getClusterName env = (case K8S_CLUSTER_NAME env of None \<Rightarrow> [] | Some n \<Rightarrow> n)"

text \<open>The options of the recommender client\<close>

record RecommenderOptions =
  opt_tlsConfig :: "TLSConfig option"

definition WithTLSConfig :: "TLSConfig option \<Rightarrow> RecommenderOptions \<Rightarrow> RecommenderOptions" where
  "WithTLSConfig tlsConfig option = option\<lparr>opt_tlsConfig := tlsConfig\<rparr>"

definition NewRecommenderClient ::
  "setup_env \<Rightarrow> (RecommenderOptions \<Rightarrow> RecommenderOptions) list \<Rightarrow> ReplicaRecommendationRequest \<Rightarrow> (go_error + ReplicaRecommendationResponse) prog" where
  "NewRecommenderClient env options =
     (let recommenderSettings = fold (\<lambda>opt s. opt s) options \<lparr>opt_tlsConfig = None\<rparr>
      in GetReplicaRecommendation (tls_files env) (reco_services env) (opt_tlsConfig recommenderSettings))"

lemma NewRecommenderClient_tls:
  "NewRecommenderClient env [WithTLSConfig tlsConfig] = GetReplicaRecommendation (tls_files env) (reco_services env) tlsConfig"
  by (simp add: NewRecommenderClient_def WithTLSConfig_def)

definition SetupWithManager :: "setup_env \<Rightarrow> TLSConfig option \<Rightarrow> reconciler \<Rightarrow> (go_error + reconciler) outcome" where
  "SetupWithManager env tlsConfig r = (case builder_Complete env of
     Some e \<Rightarrow> Ret (Inl e)
   | None \<Rightarrow> (case metrics_apis env of
       Panic p \<Rightarrow> Panic p
     | Ret mc \<Rightarrow>
        (let rc = NewRecommenderClient env [WithTLSConfig tlsConfig] in
         case initializePodInformer env of
           Panic p \<Rightarrow> Panic p
         | Ret pl \<Rightarrow> (case NewClientset env of
             Some e \<Rightarrow> Ret (Inl e)
           | None \<Rightarrow> (case NewScaleClient env of
               Inl e \<Rightarrow> Ret (Inl e)
             | Inr (get, update) \<Rightarrow>
                Ret (Inr (r\<lparr>replicaCalc := calculator_itf (lib r) (NewReplicaCalculator mc rc pl (getClusterName env)),
                  Scales_Get := get, Scales_Update := update, RESTMappings := discovery env,
                  syncPeriod := defaultSyncPeriod\<rparr>)))))))"

text \<open>The reconciler that \<open>main\<close> starts with its flags\<close>

definition start :: "setup_env \<Rightarrow> tls_flags \<Rightarrow> reconciler \<Rightarrow> (go_error + reconciler) outcome" where
  "start env flags r = (case default_tls flags of Inl e \<Rightarrow> Ret (Inl e) | Inr tls \<Rightarrow> SetupWithManager env tls r)"

text \<open>A reconciler that some start of the process has built\<close>

definition wired :: "reconciler \<Rightarrow> bool" where
  "wired r \<longleftrightarrow> (\<exists>env flags r0. start env flags r0 = Ret (Inr r))"

lemma wired_setup:
  assumes "wired r"
  obtains env tls r0 where "SetupWithManager env tls r0 = Ret (Inr r)"
proof -
  from assms obtain env flags r0 where *: "start env flags r0 = Ret (Inr r)"
    unfolding wired_def by blast
  then obtain tls where "default_tls flags = Inr tls"
    by (cases "default_tls flags") (simp_all add: start_def)
  with * show ?thesis
    by (intro that) (simp add: start_def)
qed

lemma SetupWithManager_result:
  assumes "SetupWithManager env tls r0 = Ret (Inr r)"
  obtains mc pl get update where "r = r0\<lparr>replicaCalc := calculator_itf (lib r0) (NewReplicaCalculator mc
      (GetReplicaRecommendation (tls_files env) (reco_services env) tls) pl (getClusterName env)),
      Scales_Get := get, Scales_Update := update, RESTMappings := discovery env, syncPeriod := 15 * 1000000000\<rparr>"
  using assms unfolding SetupWithManager_def NewRecommenderClient_tls defaultSyncPeriod_def Let_def
  by (fastforce split: option.splits outcome.splits sum.splits prod.splits)

lemma wired_calculator:
  assumes "wired r"
  obtains api tenv env defaults lister cluster where
    "replicaCalc r = calculator_itf (lib r) (NewReplicaCalculator api (GetReplicaRecommendation tenv env defaults) lister cluster)"
proof -
  from assms obtain env tls r0 where "SetupWithManager env tls r0 = Ret (Inr r)"
    by (rule wired_setup)
  then obtain mc pl get update where r: "r = r0\<lparr>replicaCalc := calculator_itf (lib r0) (NewReplicaCalculator mc
      (GetReplicaRecommendation (tls_files env) (reco_services env) tls) pl (getClusterName env)),
      Scales_Get := get, Scales_Update := update, RESTMappings := discovery env, syncPeriod := 15 * 1000000000\<rparr>"
    by (rule SetupWithManager_result)
  show ?thesis
    by (rule that [of mc "tls_files env" "reco_services env" tls pl "getClusterName env"]) (simp add: r)
qed

lemma wired_period:
  assumes "wired r"
  shows "syncPeriod r = 15 * 1000000000"
proof -
  from assms obtain env tls r0 where "SetupWithManager env tls r0 = Ret (Inr r)"
    by (rule wired_setup)
  then show ?thesis
    by (rule SetupWithManager_result) simp
qed

end
