(* ===== verification/Control_Loop.thy ===== *)
theory Control_Loop
  imports Reconcile_Results Setup
begin

text \<open>
  The requests for one object as a loop around the API server.  What one request knows of the ones before is the status it finds in the object, so that the
  forbidden windows hold between requests only because a scaling event is written to the status in the same request.  \<open>control_loop\<close> is the step relation: a
  request, or anything that other requests, a restart of the process or the users do in between.  Of the server it is used that the object has the last status
  that was written, with times in whole seconds, as \<open>metav1.Time\<close> is encoded.
\<close>

section \<open>What a request writes to the status\<close>

fun status_write :: "effect \<Rightarrow> WatermarkPodAutoscaler list" where
  "status_write (StatusUpdate w) = [w]"
| "status_write _ = []"

definition updates :: "world \<Rightarrow> WatermarkPodAutoscaler list" where
  "updates s = concat (map status_write (trace s))"

definition stamp :: "time \<Rightarrow> time" where
  "stamp t = t div 1000000000 * 1000000000"

lemma stamp_bounds: "stamp t \<le> t" "t < stamp t + 1000000000"
  unfolding stamp_def by simp_all

lemma stamp_mono: "t \<le> u \<Longrightarrow> stamp t \<le> stamp u"
  unfolding stamp_def by (simp add: zdiv_mono1)

lemma stamp_idem [simp]: "stamp (stamp t) = stamp t"
  by (simp add: stamp_def)

definition scale_stamp :: "WatermarkPodAutoscaler \<Rightarrow> time option" where
  "scale_stamp w = map_option stamp (LastScaleTime (Status w))"

text \<open>The time of a scaling event in this request\<close>

definition fresh :: "world \<Rightarrow> world \<Rightarrow> time option \<Rightarrow> bool" where
  "fresh s0 s l \<longleftrightarrow> (\<exists>k. ticks s0 \<le> k \<and> k < ticks s \<and> l = Some (stamp (clock s0 k)))"

definition settled :: "world \<Rightarrow> time option \<Rightarrow> world \<Rightarrow> time option \<Rightarrow> bool" where
  "settled s0 l0 s l \<longleftrightarrow> fresh s0 s l \<or> writes s = writes s0 \<and> l = l0"

text \<open>
  The invariant of a request that began in \<open>s0\<close> with the time \<open>l0\<close> in the object: the last status written and the object in memory have
  the old time or the time of an event of this request, and after a write of the scale the latter, and the status has been written.
\<close>

definition noted :: "world \<Rightarrow> time option \<Rightarrow> world \<Rightarrow> bool" where
  "noted s0 l0 s \<longleftrightarrow> clock s = clock s0 \<and> ticks s0 \<le> ticks s \<and>
     (\<exists>us. updates s = updates s0 @ us \<and>
        (if us = [] then writes s = writes s0 else settled s0 l0 s (scale_stamp (last us))))"

definition booked :: "world \<Rightarrow> time option \<Rightarrow> world \<Rightarrow> bool" where
  "booked s0 l0 s \<longleftrightarrow> noted s0 l0 s \<and> settled s0 l0 s (scale_stamp (wpa s))"

lemma updates_steps [simp]:
  "updates (s\<lparr>wpa := w\<rparr>) = updates s" "updates (s\<lparr>ticks := n\<rparr>) = updates s" "updates (s\<lparr>reads := n\<rparr>) = updates s"
  "updates (s\<lparr>trace := trace s1 @ es\<rparr>) = updates s1 @ concat (map status_write es)"
  by (simp_all add: updates_def)

lemma fresh_mono: "fresh s0 s l \<Longrightarrow> ticks s \<le> ticks s' \<Longrightarrow> fresh s0 s' l"
  unfolding fresh_def by (elim exE conjE, rule exI) auto

lemma settled_mono:
  "settled s0 l0 s l \<Longrightarrow> ticks s \<le> ticks s' \<Longrightarrow> writes s' = writes s \<Longrightarrow> settled s0 l0 s' l"
  by (auto simp: settled_def intro: fresh_mono)

lemma bookedI:
  assumes "clock s = clock s0" "ticks s0 \<le> ticks s" "settled s0 l0 s (scale_stamp (wpa s))" "updates s = updates s0 @ us"
    and "us = [] \<Longrightarrow> writes s = writes s0" "us \<noteq> [] \<Longrightarrow> settled s0 l0 s (scale_stamp (last us))"
  shows "booked s0 l0 s"
  using assms unfolding booked_def noted_def by auto

lemma bookedE:
  assumes "booked s0 l0 s"
  obtains us where "clock s = clock s0" "ticks s0 \<le> ticks s" "settled s0 l0 s (scale_stamp (wpa s))" "updates s = updates s0 @ us"
    "us = [] \<Longrightarrow> writes s = writes s0" "us \<noteq> [] \<Longrightarrow> settled s0 l0 s (scale_stamp (last us))"
  using assms unfolding booked_def noted_def by (auto split: if_splits)

lemma booked_to:
  assumes "booked s0 l0 s" "clock s' = clock s" "ticks s \<le> ticks s'" "writes s' = writes s" "updates s' = updates s"
    and "settled s0 l0 s' (scale_stamp (wpa s'))"
  shows "booked s0 l0 s'"
  using assms(1)
proof (rule bookedE)
  fix us
  assume "clock s = clock s0" "ticks s0 \<le> ticks s" "updates s = updates s0 @ us"
    and us: "us = [] \<Longrightarrow> writes s = writes s0" "us \<noteq> [] \<Longrightarrow> settled s0 l0 s (scale_stamp (last us))"
  then show ?thesis
    using assms(2-6) by (intro bookedI [where us = us]) (auto intro: settled_mono)
qed

lemma booked_step:
  assumes "booked s0 l0 s" "clock s' = clock s" "ticks s \<le> ticks s'" "writes s' = writes s" "updates s' = updates s"
    and "scale_stamp (wpa s') = scale_stamp (wpa s)"
  shows "booked s0 l0 s'"
proof -
  from assms(1) have "settled s0 l0 s (scale_stamp (wpa s))" by (rule bookedE)
  then show ?thesis
    using settled_mono [OF _ assms(3,4)] assms(6) by (intro booked_to [OF assms(1-5)]) simp
qed

lemma quiet_no_status: "quiet extra e \<Longrightarrow> status_write e = []"
  by (cases e) auto

lemma frame_updates: "frame s s' \<Longrightarrow> updates s' = updates s"
proof -
  have "list_all (quiet x) es \<Longrightarrow> concat (map status_write es) = []" for x es
    by (induction es) (auto simp: quiet_no_status)
  then show "frame s s' \<Longrightarrow> updates s' = updates s" by (auto simp: frame_def updates_def)
qed

lemma frame_booked: "frame s s' \<Longrightarrow> booked s0 l0 s \<Longrightarrow> booked s0 l0 s'"
  by (rule booked_step) (auto simp: frame_writes frame_updates scale_stamp_def frame_status_fields, auto simp: frame_def)

lemma framed_booked: "framed m \<Longrightarrow> preserves (booked s0 l0) m"
  by (rule preservesI) (auto dest: framedD frame_booked)

section \<open>The invariant through the program\<close>

text \<open>What is used of the server and of the library: every status is accepted and answered with the time it was written with, up to
  the encoding, and so is an object that is written back; every write of a scale is accepted; and \<open>DeepEqual\<close> holds of equal values only.\<close>

definition cooperative :: "reconciler \<Rightarrow> bool" where
  "cooperative r \<longleftrightarrow> (\<forall>w n. \<exists>w'. Status_Update r w n = Inr w' \<and> scale_stamp w' = scale_stamp w) \<and>
     (\<forall>w n w'. Client_Update r w n = Inr w' \<longrightarrow> scale_stamp w' = scale_stamp w) \<and>
     (\<forall>ns gr sc n. Scales_Update r ns gr sc n = None) \<and> (\<forall>a b. DeepEqualStatus (lib r) a b \<longrightarrow> a = b)"

lemma cooperative_answers:
  assumes "cooperative r"
  shows "Status_Update r w n = Inr w' \<Longrightarrow> scale_stamp w' = scale_stamp w" "Client_Update r w n = Inr w' \<Longrightarrow> scale_stamp w' = scale_stamp w"
    "Status_Update r w n \<noteq> Inl e"
  using assms unfolding cooperative_def by (metis sum.inject(2), metis, metis sum.distinct(1))

lemma booked_steps [preserves_intros]:
  "scale_write e = [] \<Longrightarrow> status_write e = [] \<Longrightarrow> preserves (booked s0 l0) (emit e)"
  "preserves (booked s0 l0) (go_read f)" "preserves (booked s0 l0) (setCondition t st re m)"
  "(\<And>w. scale_stamp (g w) = scale_stamp w) \<Longrightarrow> preserves (booked s0 l0) (modify_wpa g)"
proof -
  show "preserves (booked s0 l0) (setCondition t st re m)" by (intro framed_booked framed_intros)
qed (auto intro!: preservesI elim!: booked_step simp: go_defs)

lemma booked_setStatus [preserves_intros]:
  "preserves (booked s0 l0) (setStatus cur des ms b)" "preserves (booked s0 l0) (setCurrentReplicasInStatus cur)"
proof -
  show *: "preserves (booked s0 l0) (setStatus cur des ms b)" for cur des ms b
  proof (rule preservesI)
    fix s a s' assume run: "setStatus cur des ms b s = (a, s')" and bk: "booked s0 l0 s"
    show "booked s0 l0 s'"
    proof (cases b)
      case True
      have c: "clock s = clock s0" "ticks s0 \<le> ticks s" using bk by (simp_all add: booked_def noted_def)
      have s': "clock s' = clock s" "ticks s' = Suc (ticks s)" "writes s' = writes s" "updates s' = updates s"
        "scale_stamp (wpa s') = Some (stamp (clock s (ticks s)))"
        using run True by (auto simp: setStatus_def go_defs go_now_def modify_status_def modify_wpa_def scale_stamp_def)
      then have "fresh s0 s' (scale_stamp (wpa s'))" using c by (auto simp: fresh_def)
      then show ?thesis using s' by (intro booked_to [OF bk]) (auto simp: settled_def)
    next
      case False
      then show ?thesis using run
        by (intro booked_step [OF bk]) (auto simp: setStatus_def go_defs modify_status_def modify_wpa_def scale_stamp_def)
    qed
  qed
  show "preserves (booked s0 l0) (setCurrentReplicasInStatus cur)"
    unfolding setCurrentReplicasInStatus_def by (intro preserves_intros *)
qed

lemma booked_update:
  assumes "booked s0 l0 s"
  shows "booked s0 l0 (s\<lparr>trace := trace s @ [StatusUpdate (wpa s)]\<rparr>)"
  using assms
proof (rule bookedE)
  fix us
  assume "clock s = clock s0" "ticks s0 \<le> ticks s" "updates s = updates s0 @ us" "settled s0 l0 s (scale_stamp (wpa s))"
  then show ?thesis
    by (intro bookedI [where us = "us @ [wpa s]"]) (auto intro: settled_mono)
qed

lemma booked_updateStatus [preserves_intros]:
  "cooperative r \<Longrightarrow> preserves (booked s0 l0) (updateStatusIfNeeded r original)"
  unfolding updateStatusIfNeeded_def updateWPAStatus_def
  by (rule preservesI)
    (auto simp: go_defs cooperative_answers split: if_splits sum.splits intro: booked_update booked_step [OF booked_update])

lemma booked_tail [preserves_intros]:
  assumes "cooperative r"
  shows "preserves (booked s0 l0) (finish r original sc d)" "preserves (booked s0 l0) (not_scaling r original reference sc d)"
    "preserves (booked s0 l0) (compute_failed r original cur err)" "preserves (booked s0 l0) (report_status r original rel res)"
    "preserves (booked s0 l0) (update_object r w)"
  unfolding finish_def not_scaling_def compute_failed_def report_status_def update_object_def
  by (intro preserves_intros assms; simp)+

text \<open>A scaling event changes the count of events, also when it wraps around.\<close>

lemma int32_Suc: "int32 (x + 1) \<noteq> x"
proof
  assume eq: "int32 (x + 1) = x"
  then have "int32 (x + 1) = int32 x" by (metis int32_id fits32_int32)
  then have "take_bit 32 (x + 1) = take_bit 32 x"
    using signed_take_bit_eq_iff_take_bit_eq [of 31 "x + 1" x] by (simp add: int32_def)
  then have "(x + 1) mod 2 ^ 32 = x mod 2 ^ 32" by (simp add: take_bit_eq_mod)
  then have "2 ^ 32 dvd (1::int)" by (simp add: mod_eq_dvd_iff)
  then show False by simp
qed

definition unbooked :: "world \<Rightarrow> WatermarkPodAutoscalerStatus \<Rightarrow> world \<Rightarrow> bool" where
  "unbooked s0 original s \<longleftrightarrow> clock s = clock s0 \<and> ticks s0 \<le> ticks s \<and> (\<exists>us. updates s = updates s0 @ us) \<and>
     ScalingEventsCount (Status (wpa s)) = ScalingEventsCount original"

lemma frame_unbooked: "frame s s' \<Longrightarrow> unbooked s0 original s \<Longrightarrow> unbooked s0 original s'"
  by (auto simp: unbooked_def frame_updates frame_status_fields) (auto simp: frame_def)

lemma unbooked_emit:
  "unbooked s0 original s \<Longrightarrow> unbooked s0 original (s\<lparr>trace := trace s @ es\<rparr>)"
  "unbooked s0 original s \<Longrightarrow> unbooked s0 original (s\<lparr>reads := n, trace := trace s @ es\<rparr>)"
  by (auto simp: unbooked_def)

lemma unbooked_read: "unbooked s0 original s \<Longrightarrow> unbooked s0 original (s\<lparr>reads := n\<rparr>)"
  by (simp add: unbooked_def)

lemma finish_books:
  assumes "cooperative r" "de_rescale d" "unbooked s0 original s"
  shows "wp (finish r original sc d) (\<lambda>_. booked s0 l0) (\<lambda>_. booked s0 l0) s"
proof -
  obtain us where s: "clock s = clock s0" "ticks s0 \<le> ticks s" "updates s = updates s0 @ us"
      "ScalingEventsCount (Status (wpa s)) = ScalingEventsCount original"
    using assms(3) by (auto simp: unbooked_def)
  have neq: "DeepEqualStatus (lib r) original st = False" if "ScalingEventsCount st = int32 (ScalingEventsCount original + 1)" for st
    using assms(1) that int32_Suc [of "ScalingEventsCount original"] by (metis cooperative_def)
  let ?w = "(wpa s)\<lparr>Status := (Status (wpa s))\<lparr>CurrentReplicas := scale_StatusReplicas sc, DesiredReplicas := de_desired d,
     CurrentMetrics := de_statuses d, LastScaleTime := Some (clock s0 (ticks s)), ScalingEventsCount := int32 (ScalingEventsCount original + 1)\<rparr>\<rparr>"
  have bk: "booked s0 l0 s'"
    if "clock s' = clock s0" "ticks s' = Suc (ticks s)" "updates s' = updates s0 @ us @ [?w]" "scale_stamp (wpa s') = scale_stamp ?w" for s'
    using s that by (intro bookedI [where us = "us @ [?w]"])
      (auto simp: settled_def fresh_def scale_stamp_def intro!: exI [of _ "ticks s"])
  note ans = cooperative_answers(1) [OF assms(1)]
  show ?thesis
    using s assms(2) unfolding finish_def setStatus_def updateStatusIfNeeded_def updateWPAStatus_def
    by (auto simp: go_wp neq split: sum.splits intro!: bk dest: ans)
qed

lemma rescale_booked:
  assumes "cooperative r" "de_rescale d" "booked s0 l0 s" "unbooked s0 original s"
  shows "wp (rescale r original gr sc d) (\<lambda>_. booked s0 l0) (\<lambda>_. booked s0 l0) s"
proof -
  have acc: "Scales_Update r ns g x n = None" for ns g x n using assms(1) by (simp add: cooperative_def)
  show ?thesis
  proof (cases "DryRun (Spec (wpa s))")
    case True
    show ?thesis
      unfolding rescale_def wp_bind [of "setCondition _ _ _ _"] wp_setCondition wp_bind [of "go_get _"] wp_get
        after_set_simps if_P [OF True]
      by (rule preserves_both, (intro preserves_intros assms; simp), rule frame_booked [OF frame_after_set assms(3)])
  next
    case False
    show ?thesis
      unfolding rescale_def update_scale_def
      by (simp add: go_wp False acc) (auto intro!: finish_books [OF assms(1,2)] unbooked_emit unbooked_read frame_unbooked [OF frame_after_set] assms(4))
  qed
qed

text \<open>Up to the decision the count of events is the one of the object.\<close>

definition pending :: "world \<Rightarrow> time option \<Rightarrow> WatermarkPodAutoscalerStatus \<Rightarrow> world \<Rightarrow> bool" where
  "pending s0 l0 original s \<longleftrightarrow> booked s0 l0 s \<and> unbooked s0 original s"

lemma framed_pending: "framed m \<Longrightarrow> preserves (pending s0 l0 original) m"
  by (rule preservesI) (auto simp: pending_def dest!: framedD intro: frame_booked frame_unbooked)

lemma pending_bind:
  assumes "framed m" "pending s0 l0 original s"
    and "\<And>a s'. pending s0 l0 original s' \<Longrightarrow> wp (f a) (\<lambda>_. booked s0 l0) (\<lambda>_. booked s0 l0) s'"
  shows "wp (go_bind m f) (\<lambda>_. booked s0 l0) (\<lambda>_. booked s0 l0) s"
  unfolding wp_bind
  by (rule wp_mono [OF preserves_both [OF framed_pending [OF assms(1)] assms(2)]]) (auto intro: assms(3) simp: pending_def)

lemma booked_both: "preserves (booked s0 l0) m \<Longrightarrow> pending s0 l0 original s \<Longrightarrow> wp m (\<lambda>_. booked s0 l0) (\<lambda>_. booked s0 l0) s"
  by (simp add: preserves_def pending_def)

lemma framed_decide [framed_intros]: "framed (decide original sc now c)"
  unfolding decide_def override_def Let_def by (intro framed_intros)

lemma framed_lifecycle [framed_intros]: "framed lifecycle_enabled"
  unfolding lifecycle_enabled_def by (intro framed_intros)

context replica_calculator
begin

lemma reconcile_scale_booked:
  assumes "replicaCalc r = rc" "cooperative r" "pending s0 l0 original s"
  shows "wp (reconcile_scale r original gr sc) (\<lambda>_. booked s0 l0) (\<lambda>_. booked s0 l0) s"
proof -
  have decided: "wp (go_bind (decide original sc now c) (\<lambda>d.
      if de_rescale d then rescale r original gr sc d else not_scaling r original reference sc d))
      (\<lambda>_. booked s0 l0) (\<lambda>_. booked s0 l0) s1" if "pending s0 l0 original s1" for now c reference s1
  proof (rule pending_bind [OF framed_decide that])
    fix d s2 assume "pending s0 l0 original s2"
    then show "wp (if de_rescale d then rescale r original gr sc d else not_scaling r original reference sc d)
        (\<lambda>_. booked s0 l0) (\<lambda>_. booked s0 l0) s2"
      using rescale_booked [OF assms(2)] by (auto intro!: booked_both preserves_intros assms(2) simp: pending_def)
  qed
  show ?thesis
    unfolding reconcile_scale_def Let_def assms(1)
    by (intro pending_bind [OF framed_announce assms(3)] pending_bind [OF framed_pure(3)] pending_bind [OF framed_now]
        pending_bind [OF framed_computeReplicas]) (auto split: sum.splits intro!: decided booked_both preserves_intros assms(2))
qed

lemma reconcileWPA_booked:
  assumes "replicaCalc r = rc" "cooperative r" "pending s0 l0 original s"
  shows "wp (reconcileWPA r original) (\<lambda>_. booked s0 l0) (\<lambda>_. booked s0 l0) s"
proof -
  have stop: "wp (go_return x) (\<lambda>_. booked s0 l0) (\<lambda>_. booked s0 l0) s1" if "pending s0 l0 original s1" for x :: "go_error option" and s1
    using that by (simp add: go_wp pending_def)
  have "wp (reconcileWPA_body r original) (\<lambda>_. booked s0 l0) (\<lambda>_. booked s0 l0) s"
    unfolding reconcileWPA_body_def Let_def
    by (rule pending_bind [OF framed_pure(3) assms(3)])
      (auto split: sum.splits intro!: stop pending_bind [OF framed_read] pending_bind [OF framed_getScale]
        pending_bind [where m = "if _ then _ else _"] pending_bind [OF framed_deref] framed_intros reconcile_scale_booked [OF assms(1,2)])
  then show ?thesis
    unfolding reconcileWPA_def wp_recover by (rule wp_mono) (auto simp: go_wp)
qed

end

lemma pending_fill: "pending s0 l0 original s \<Longrightarrow> wp fillMissingWatermark (\<lambda>_. pending s0 l0 original) (\<lambda>_. booked s0 l0) s"
  by (auto simp: fillMissingWatermark_def go_wp pending_def unbooked_def scale_stamp_def elim!: booked_step)

lemma pending_check_monitor:
  assumes "cooperative r" "pending s0 l0 original s"
  shows "wp (check_monitor r original) (\<lambda>a s'. booked s0 l0 s' \<and> (a = None \<longrightarrow> pending s0 l0 original s')) (\<lambda>_. booked s0 l0) s"
proof -
  have 1: "wp (check_monitor r original) (\<lambda>_. booked s0 l0) (\<lambda>_. booked s0 l0) s"
    unfolding check_monitor_def Let_def
    by (rule booked_both [OF _ assms(2)]) (intro preserves_intros assms(1); simp)
  have 2: "wp (check_monitor r original) (\<lambda>a s'. a = None \<longrightarrow> unbooked s0 original s') (\<lambda>_ _. True) s"
    unfolding check_monitor_def Let_def
    using assms(2)
    by (auto simp: go_wp pending_def intro!: wp_trivial [where m = "report_status _ _ _ _"] unbooked_emit unbooked_read
        frame_unbooked [OF frame_after_set] split: sum.splits)
  show ?thesis
    by (rule wp_mono [OF wp_conj [THEN iffD2, OF conjI, OF 1 2]]) (auto simp: pending_def)
qed

text \<open>An object that is written back is replaced by the answer of the server.\<close>

lemma booked_write_back:
  assumes "cooperative r"
  shows "preserves (booked s0 l0) (go_bind (go_get wpa) (\<lambda>w. go_bind (update_object r w) (\<lambda>a. case a of
      Inl e \<Rightarrow> go_return (f e) | Inr w' \<Rightarrow> go_bind (modify_wpa (\<lambda>_. w')) (\<lambda>_. go_return x))))"
proof (rule preservesI)
  note ans = cooperative_answers(2) [OF assms]
  fix s a s'
  assume "go_bind (go_get wpa) (\<lambda>w. go_bind (update_object r w) (\<lambda>a. case a of
      Inl e \<Rightarrow> go_return (f e) | Inr w' \<Rightarrow> go_bind (modify_wpa (\<lambda>_. w')) (\<lambda>_. go_return x))) s = (a, s')" "booked s0 l0 s"
  then show "booked s0 l0 s'"
    by (auto simp: update_object_def go_defs ans split: sum.splits elim!: booked_step)
qed

lemma booked_finalizer:
  assumes "cooperative r"
  shows "preserves (booked s0 l0) (handleFinalizer r)"
  unfolding handleFinalizer_def addFinalizer_def
  by (intro preserves_intros booked_write_back [OF assms] framed_booked [OF framed_finalizeWPA]) (simp_all add: scale_stamp_def)

lemma booked_conditions: "preserves (booked s0 l0) updateConditionsMetrics"
  unfolding updateConditionsMetrics_def by (intro preserves_intros; simp)

context replica_calculator
begin

lemma process_booked:
  assumes "replicaCalc r = rc" "cooperative r" "pending s0 l0 original s"
  shows "wp (process r original) (\<lambda>_. booked s0 l0) (\<lambda>_. booked s0 l0) s"
proof -
  have rest: "preserves (booked s0 l0) (case a of None \<Rightarrow> go_return (\<lparr>Requeue = False, RequeueAfter = syncPeriod r\<rparr>, None)
     | Some err \<Rightarrow> go_bind (emit (Eventf None EventTypeWarning ReasonFailedProcessWPA (Error err))) (\<lambda>_.
       go_bind (setCondition AbleToScale ConditionFalse ReasonFailedProcessWPA
          ''Error happened while processing the WPA'') (\<lambda>_.
       go_bind (updateStatusIfNeeded r original) (\<lambda>b. case b of
         Some err2 \<Rightarrow> go_bind (emit (Eventf None EventTypeWarning ReasonFailedUpdateStatus (Error err2))) (\<lambda>_.
           go_return (no_requeue, NewAggregate (lib r) [err, err2]))
       | None \<Rightarrow> go_return (\<lparr>Requeue = False, RequeueAfter = requeueAfterForWPAErrors err\<rparr>, None)))))" for a
    by (intro preserves_intros assms(2); simp)
  show ?thesis
    unfolding process_def
    by (rule wp_phase [OF pending_fill [OF assms(3)]], rule wp_phase [OF reconcileWPA_booked [OF assms(1,2)]])
      (auto intro!: preserves_both rest)
qed

lemma reconcile_live_booked:
  assumes "replicaCalc r = rc" "cooperative r" "pending s0 l0 original s"
  shows "wp (reconcile_live r original) (\<lambda>_. booked s0 l0) (\<lambda>_. booked s0 l0) s"
proof -
  have bk: "booked s0 l0 s1" if "pending s0 l0 original s1" for s1 using that by (simp add: pending_def)
  have mon: "wp (go_bind (if b then check_monitor r original else go_return None) (\<lambda>blocked. case blocked of
      Some res \<Rightarrow> go_return res | None \<Rightarrow> process r original)) (\<lambda>_. booked s0 l0) (\<lambda>_. booked s0 l0) s1"
    if "pending s0 l0 original s1" for b s1
    by (rule wp_phase2 [where P = "\<lambda>a s'. booked s0 l0 s' \<and> (a = None \<longrightarrow> pending s0 l0 original s')"])
      (use that in \<open>auto simp: go_wp bk split: option.splits intro!: pending_check_monitor [OF assms(2)] process_booked [OF assms(1,2)]\<close>)
  show ?thesis
    unfolding reconcile_live_def
    by (rule pending_bind [OF framed_pure(3) assms(3)])
      (auto split: option.splits intro!: pending_bind [OF framed_lifecycle] mon,
       (auto intro!: booked_both preserves_intros assms(2)))
qed

theorem Reconcile_noted:
  assumes "replicaCalc r = rc" "cooperative r" "\<And>w. Client_Get r ns name (reads s) = Inr w \<Longrightarrow> scale_stamp w = l0"
  shows "wp (Reconcile r ns name) (\<lambda>_. noted s l0) (\<lambda>_. noted s l0) s"
proof (cases "Client_Get r ns name (reads s)")
  case (Inl e)
  then show ?thesis by (simp add: Reconcile_def go_wp noted_def)
next
  case (Inr w)
  let ?s = "s\<lparr>reads := Suc (reads s), wpa := w\<rparr>"
  have "booked s l0 ?s" using assms(3) [OF Inr] by (simp add: booked_def noted_def settled_def)
  then have fin: "wp (handleFinalizer r) (\<lambda>_. booked s l0) (\<lambda>_. booked s l0) ?s"
    by (rule preserves_both [OF booked_finalizer [OF assms(2)]])
  have tail: "wp (go_finally (reconcile_live r (Status (wpa s1))) updateConditionsMetrics) (\<lambda>_. booked s l0) (\<lambda>_. booked s l0)
      (after_set t st re m s1)" if "booked s l0 s1" for s1 t st re m
  proof -
    have "unbooked s (Status (wpa s1)) s1"
      using that by (auto simp: booked_def noted_def unbooked_def)
    then have "pending s l0 (Status (wpa s1)) (after_set t st re m s1)"
      using that unfolding pending_def by (blast intro: frame_booked [OF frame_after_set] frame_unbooked [OF frame_after_set])
    from reconcile_live_booked [OF assms(1,2) this] show ?thesis
      unfolding wp_finally by (rule wp_mono) (auto intro!: preserves_both [OF booked_conditions])
  qed
  have "wp (Reconcile r ns name) (\<lambda>_. booked s l0) (\<lambda>_. booked s l0) s"
    unfolding Reconcile_def wp_bind [of "go_read _"] wp_read outcome.case Inr sum.case wp_bind [of "modify_wpa _"] wp_modify_wpa
    by (rule wp_phase [OF fin [simplified]]) (auto simp: wp_bind wp_get wp_setCondition go_wp(1) intro: tail)
  then show ?thesis by (rule wp_mono) (simp_all add: booked_def)
qed

end

section \<open>The loop\<close>

text \<open>The time of the last scaling event that the server holds, the world of the worker, and the requests that wrote the scale as
  pairs of worlds, the oldest first.\<close>

record loop =
  recorded :: "time option"
  worker :: world
  scaled :: "(world \<times> world) list"

definition saved :: "time option \<Rightarrow> WatermarkPodAutoscaler list \<Rightarrow> time option" where
  "saved l us = (if us = [] then l else scale_stamp (last us))"

inductive loop_step :: "reconciler \<Rightarrow> string \<Rightarrow> string \<Rightarrow> loop \<Rightarrow> loop \<Rightarrow> bool" for r ns name where
  request: "(\<forall>w. Client_Get r ns name (reads s) = Inr w \<longrightarrow> scale_stamp w = l) \<Longrightarrow> Reconcile r ns name s = (out, s') \<Longrightarrow>
     loop_step r ns name \<lparr>recorded = l, worker = s, scaled = h\<rparr>
       \<lparr>recorded = saved l (drop (length (updates s)) (updates s')), worker = s',
        scaled = (if writes s' = writes s then h else h @ [(s, s')])\<rparr>"
| elsewhere: "clock s' = clock s \<Longrightarrow> ticks s \<le> ticks s' \<Longrightarrow>
     loop_step r ns name \<lparr>recorded = l, worker = s, scaled = h\<rparr> \<lparr>recorded = l, worker = s', scaled = h\<rparr>"

inductive_cases loop_stepE: "loop_step r ns name \<lparr>recorded = l, worker = s, scaled = h\<rparr> c'"

text \<open>The later request respects the forbidden window since the earlier one, but for the second that the encoding of the time may lose.\<close>

definition spaced :: "reconciler \<Rightarrow> string \<Rightarrow> string \<Rightarrow> world \<times> world \<Rightarrow> world \<times> world \<Rightarrow> bool" where
  "spaced r ns name = (\<lambda>(s1, _) (s2, s2'). \<exists>w gr sc n k. writes s2' = writes s2 @ [(gr, sc\<lparr>scale_SpecReplicas := n\<rparr>)] \<and>
     served r ns name (reads s2) w \<and> scale_of r w gr sc \<and> ticks s2 \<le> k \<and> k < ticks s2' \<and>
     (edge (Spec w) sc \<or>
      clock s1 (ticks s1) + forbidden_window (Spec w) (scale_SpecReplicas sc) n * 1000000000 < clock s2 k + 1000000000))"

definition loop_inv :: "reconciler \<Rightarrow> string \<Rightarrow> string \<Rightarrow> (nat \<Rightarrow> time) \<Rightarrow> loop \<Rightarrow> bool" where
  "loop_inv r ns name c x \<longleftrightarrow> clock (worker x) = c \<and> sorted_wrt (spaced r ns name) (scaled x) \<and>
     (\<forall>(a, b) \<in> set (scaled x). clock a = c \<and> ticks a \<le> ticks (worker x) \<and>
        (\<exists>u. recorded x = Some u \<and> stamp (c (ticks a)) \<le> u))"

lemma served_stamp:
  assumes "cooperative r" "served r ns name n w" "\<forall>w. Client_Get r ns name n = Inr w \<longrightarrow> scale_stamp w = l"
  shows "scale_stamp w = l"
proof -
  obtain w0 where w0: "Client_Get r ns name n = Inr w0" "w = w0 \<or> Client_Update r (finalized w0) (Suc n) = Inr w"
    using assms(2) by (auto simp: served_def)
  have "scale_stamp (finalized w0) = scale_stamp w0" by (simp add: scale_stamp_def finalized_def)
  then show ?thesis using w0 assms(3) cooperative_answers(2) [OF assms(1)] by metis
qed

lemma request_spaced:
  assumes "cooperative r" "\<forall>w. Client_Get r ns name (reads s) = Inr w \<longrightarrow> scale_stamp w = Some u"
    and "request_writes r (served r ns name (reads s)) s s'" "writes s' \<noteq> writes s" "stamp (clock a (ticks a)) \<le> u"
  shows "spaced r ns name (a, b) (s, s')"
proof -
  obtain w gr sc n k where w: "writes s' = writes s @ [(gr, sc\<lparr>scale_SpecReplicas := n\<rparr>)]" "served r ns name (reads s) w"
      "scale_of r w gr sc" "good_write w sc (clock s k) n" "ticks s \<le> k" "k < ticks s'"
    using assms(3,4) by (auto simp: request_writes_def)
  obtain t where t: "LastScaleTime (Status w) = Some t" "u = stamp t"
    using served_stamp [OF assms(1) w(2) assms(2)] by (auto simp: scale_stamp_def)
  have "edge (Spec w) sc \<or> t + forbidden_window (Spec w) (scale_SpecReplicas sc) n * 1000000000 \<le> clock s k"
    using w(4) t(1) by (auto simp: good_write_def Let_def timely_def)
  then have "edge (Spec w) sc \<or> u + forbidden_window (Spec w) (scale_SpecReplicas sc) n * 1000000000 \<le> clock s k"
    using stamp_bounds(1) [of t] t(2) by linarith
  moreover have "clock a (ticks a) < u + 1000000000" using assms(5) stamp_bounds(2) [of "clock a (ticks a)"] by linarith
  ultimately have "edge (Spec w) sc \<or>
      clock a (ticks a) + forbidden_window (Spec w) (scale_SpecReplicas sc) n * 1000000000 < clock s k + 1000000000" by linarith
  then show ?thesis using w unfolding spaced_def by fast
qed

context replica_calculator
begin

lemma loop_inv_step:
  assumes "replicaCalc r = rc" "server_ok r" "cooperative r" "mono c"
    and "loop_step r ns name x y" "loop_inv r ns name c x"
  shows "loop_inv r ns name c y"
  using assms(5)
proof cases
  case (request s l out s' h)
  have W: "request_writes r (served r ns name (reads s)) s s'"
    using Reconcile_writes [OF assms(1,2), of ns name s] request(4) by (cases out) (simp_all add: wp_def)
  have N: "noted s l s'"
    using Reconcile_noted [OF assms(1,3), of ns name s l] request(3,4) by (cases out) (simp_all add: wp_def)
  obtain us where us: "clock s' = clock s" "ticks s \<le> ticks s'" "updates s' = updates s @ us"
      "if us = [] then writes s' = writes s else settled s l s' (scale_stamp (last us))"
    using N by (auto simp: noted_def)
  have inv: "clock s = c" "sorted_wrt (spaced r ns name) h"
      "\<And>a b. (a, b) \<in> set h \<Longrightarrow> clock a = c \<and> ticks a \<le> ticks s \<and> (\<exists>u. l = Some u \<and> stamp (c (ticks a)) \<le> u)"
    using assms(6) request(1) by (auto simp: loop_inv_def)
  have later: "\<exists>u. saved l us = Some u \<and> stamp (c m) \<le> u"
    if "m \<le> ticks s" "writes s' = writes s \<Longrightarrow> \<exists>u. l = Some u \<and> stamp (c m) \<le> u" for m
  proof -
    have "stamp (c m) \<le> stamp (c k)" if "ticks s \<le> k" for k
      using that \<open>m \<le> ticks s\<close> by (intro stamp_mono monoD [OF assms(4)]) simp
    then show ?thesis using us(4) that inv(1) by (auto simp: saved_def settled_def fresh_def split: if_splits)
  qed
  show ?thesis
  proof (cases "writes s' = writes s")
    case True
    then show ?thesis using inv us later request(2) by (fastforce simp: loop_inv_def)
  next
    case False
    have "spaced r ns name e (s, s')" if mem: "e \<in> set h" for e
    proof -
      obtain a b where e: "e = (a, b)" by fastforce
      obtain u where "l = Some u" "stamp (clock a (ticks a)) \<le> u"
        using inv(3) [OF mem [unfolded e]] by auto
      then show ?thesis unfolding e using request(3) by (intro request_spaced [OF assms(3) _ W False]) auto
    qed
    then show ?thesis using inv us later False request(2) by (fastforce simp: loop_inv_def sorted_wrt_append)
  qed
next
  case (elsewhere s' s l h)
  then show ?thesis using assms(6) by (fastforce simp: loop_inv_def)
qed

lemma loop_inv_run:
  assumes "replicaCalc r = rc" "server_ok r" "cooperative r" "mono (clock s)"
    and "(loop_step r ns name)\<^sup>*\<^sup>* \<lparr>recorded = l, worker = s, scaled = []\<rparr> x"
  shows "loop_inv r ns name (clock s) x"
  using assms(5)
  by (induction rule: rtranclp_induct) (auto simp: loop_inv_def [of _ _ _ _ "\<lparr>recorded = l, worker = s, scaled = []\<rparr>"]
      intro: loop_inv_step [OF assms(1-4)])

end

end
