(* ===== verification/Reconcile_Types.thy ===== *)
theory Reconcile_Types
  imports Control_Loop
begin

text \<open>
  The statuses a request writes are well-typed: the replica counts are natural numbers of 32 bits, the count of events is an \<open>int32\<close>, and the conditions have
  each type once and are sorted.  HOL does not bound the integers of the records, so that this is an invariant of the program, which rests on the bounds of the decision.
\<close>

definition status_typed :: "WatermarkPodAutoscalerStatus \<Rightarrow> bool" where
  "status_typed st \<longleftrightarrow> 0 \<le> CurrentReplicas st \<and> fits32 (CurrentReplicas st) \<and> 0 \<le> DesiredReplicas st \<and> fits32 (DesiredReplicas st) \<and>
     fits32 (ScalingEventsCount st) \<and> conditions_ok (Conditions st)"

definition updates_typed :: "world \<Rightarrow> bool" where
  "updates_typed s \<longleftrightarrow> (\<forall>w \<in> set (updates s). status_typed (Status w))"

definition typed :: "WatermarkPodAutoscalerSpec \<Rightarrow> world \<Rightarrow> bool" where
  "typed sp s \<longleftrightarrow> Spec (wpa s) = sp \<and> status_typed (Status (wpa s)) \<and> updates_typed s"

text \<open>What is used of the server: it has well-typed objects, and answers one with one.\<close>

definition answers_typed :: "reconciler \<Rightarrow> bool" where
  "answers_typed r \<longleftrightarrow> (\<forall>ns name n w. Client_Get r ns name n = Inr w \<longrightarrow> status_typed (Status w)) \<and>
     (\<forall>w n w'. status_typed (Status w) \<longrightarrow> Client_Update r w n = Inr w' \<or> Status_Update r w n = Inr w' \<longrightarrow> status_typed (Status w'))"

lemma answers_typedD:
  assumes "answers_typed r"
  shows "Client_Get r ns name n = Inr w \<Longrightarrow> status_typed (Status w)"
    "Client_Update r w n = Inr w' \<Longrightarrow> status_typed (Status w) \<Longrightarrow> status_typed (Status w')"
    "Status_Update r w n = Inr w' \<Longrightarrow> status_typed (Status w) \<Longrightarrow> status_typed (Status w')"
  using assms unfolding answers_typed_def by blast+

section \<open>Well-typed worlds\<close>

lemma typed_store: "typed sp s \<Longrightarrow> store_ok s"
  by (simp add: typed_def status_typed_def store_ok_def)

lemma frame_typed: "frame s s' \<Longrightarrow> store_ok s' \<Longrightarrow> typed sp s \<Longrightarrow> typed sp s'"
  by (simp add: typed_def status_typed_def store_ok_def updates_typed_def frame_Spec frame_status_fields frame_updates)

lemma framed_typed: "framed m \<Longrightarrow> preserves store_ok m \<Longrightarrow> preserves (typed sp) m"
  by (rule preservesI) (metis framedD preservesD typed_store frame_typed)

lemma framed_typed_updates: "framed m \<Longrightarrow> preserves updates_typed m"
  by (rule preservesI) (auto simp: updates_typed_def dest!: framedD frame_updates)

lemma typed_steps [preserves_intros]:
  "status_write e = [] \<Longrightarrow> preserves (typed sp) (emit e)" "preserves (typed sp) go_now" "preserves (typed sp) (go_read f)"
  "preserves (typed sp) (setCondition t st re m)"
  "status_write e = [] \<Longrightarrow> preserves updates_typed (emit e)" "preserves updates_typed go_now" "preserves updates_typed (go_read f)"
  "preserves updates_typed (setCondition t st re m)" "preserves updates_typed (modify_wpa g)"
  "(\<And>w. Spec (g w) = Spec w \<and> Status (g w) = Status w) \<Longrightarrow> preserves (typed sp) (modify_wpa g)"
proof -
  show "preserves (typed sp) (setCondition t st re m)" by (intro framed_typed framed_intros preserves_intros)
  show "preserves updates_typed (setCondition t st re m)" by (intro framed_typed_updates framed_intros)
qed (auto intro!: preservesI simp: go_defs typed_def updates_typed_def)

lemma typed_setStatus [preserves_intros]:
  "0 \<le> cur \<and> fits32 cur \<Longrightarrow> 0 \<le> des \<and> fits32 des \<Longrightarrow> preserves (typed sp) (setStatus cur des ms b)"
  by (rule preservesI)
    (auto simp: setStatus_def go_defs go_now_def modify_status_def modify_wpa_def typed_def status_typed_def updates_typed_def split: if_splits)

lemma typed_setCurrent [preserves_intros]: "0 \<le> cur \<and> fits32 cur \<Longrightarrow> preserves (typed sp) (setCurrentReplicasInStatus cur)"
  by (rule preservesI)
    (auto simp: setCurrentReplicasInStatus_def setStatus_def go_defs modify_status_def modify_wpa_def typed_def status_typed_def updates_typed_def)

text \<open>The answer to an update may have another specification.\<close>

definition typed_any :: "world \<Rightarrow> bool" where
  "typed_any s \<longleftrightarrow> typed (Spec (wpa s)) s"

lemma typed_any_updates: "typed_any s \<Longrightarrow> updates_typed s"
  by (simp add: typed_any_def typed_def)

lemma typed_anyI: "typed sp s \<Longrightarrow> typed_any s"
  by (simp add: typed_any_def typed_def)

lemma preserves_typed_any: "(\<And>sp. preserves (typed sp) m) \<Longrightarrow> preserves typed_any m"
  by (rule preservesI) (metis preservesD typed_anyI typed_any_def)

lemma typed_any_steps [preserves_intros]:
  "status_write e = [] \<Longrightarrow> preserves typed_any (emit e)" "preserves typed_any go_now" "preserves typed_any (go_read f)"
  "preserves typed_any (setCondition t st re m)" "(\<And>w. Spec (g w) = Spec w \<and> Status (g w) = Status w) \<Longrightarrow> preserves typed_any (modify_wpa g)"
  "0 \<le> cur \<and> fits32 cur \<Longrightarrow> 0 \<le> des \<and> fits32 des \<Longrightarrow> preserves typed_any (setStatus cur des ms b)"
  "0 \<le> cur \<and> fits32 cur \<Longrightarrow> preserves typed_any (setCurrentReplicasInStatus cur)"
  by (rule preserves_typed_any, (intro preserves_intros; assumption))+

lemma typed_updateStatus [preserves_intros]: "answers_typed r \<Longrightarrow> preserves typed_any (updateStatusIfNeeded r original)"
  by (rule preservesI) (auto simp: updateStatusIfNeeded_def updateWPAStatus_def go_defs typed_any_def typed_def
      updates_typed_def dest: answers_typedD(3) split: if_splits sum.splits)

lemma typed_tail [preserves_intros]:
  assumes "answers_typed r"
  shows "scale_typed sc \<Longrightarrow> 0 \<le> de_desired d \<and> fits32 (de_desired d) \<Longrightarrow> preserves typed_any (finish r original sc d)"
    "scale_typed sc \<Longrightarrow> preserves typed_any (not_scaling r original reference sc d)"
    "0 \<le> cur \<and> fits32 cur \<Longrightarrow> preserves typed_any (compute_failed r original cur err)"
    "scale_typed sc \<Longrightarrow> preserves typed_any (scale_failed r original sc d err)"
    "preserves typed_any (report_status r original rel res)" "preserves typed_any updateConditionsMetrics"
  unfolding finish_def not_scaling_def compute_failed_def scale_failed_def report_status_def updateConditionsMetrics_def
  by (intro preserves_intros assms; simp add: scale_typed_def)+

lemma typed_rescale [preserves_intros]:
  assumes "answers_typed r" "scale_typed sc" "0 \<le> de_desired d \<and> fits32 (de_desired d)"
  shows "preserves typed_any (rescale r original gr sc d)"
  unfolding rescale_def update_scale_def
  by (intro preserves_intros assms; use assms in \<open>simp add: scale_typed_def\<close>)
section \<open>Decisions\<close>

lemma wp_decide_typed:
  assumes "typed sp s" "bounded_spec sp" "scale_typed sc"
  shows "wp (decide original sc now c) (\<lambda>d s'. typed_any s' \<and> 0 \<le> de_desired d \<and> fits32 (de_desired d)) (\<lambda>_. typed_any) s"
proof -
  obtain co b where c: "c = (co, b)" by fastforce
  have sp: "Spec (wpa s) = sp" using assms(1) by (simp add: typed_def)
  have big: "fits32 (MaxReplicas sp)" "0 \<le> MaxReplicas sp" using assms(2) by (auto simp: bounded_spec_def spec_typed_def)
  have st: "preserves store_ok (decide original sc now c)"
    unfolding decide_def override_def Let_def normalizeDesiredReplicas_def convertDesiredReplicasWithRules_def
      calculateScaleUpLimit_def calculateScaleDownLimit_def
    by (intro preserves_intros preserves_shouldScale)
  have "wp (decide original sc now c) (\<lambda>d s'. decision_ok s sc now d \<and> frame s s') (\<lambda>_ _. False) s"
    unfolding c by (rule wp_decide) (use assms sp typed_store in auto)
  moreover have "wp (decide original sc now c) (\<lambda>_. typed sp) (\<lambda>_. typed sp) s"
    by (rule preserves_both [OF framed_typed [OF framed_decide st] assms(1)])
  ultimately show ?thesis
    by (rule wp_mono [OF wp_conj [THEN iffD2, OF conjI]])
      (use big in \<open>auto simp: decision_ok_def sp fits32_def intro: typed_anyI\<close>)
qed

section \<open>The whole request\<close>

lemma typed_bind:
  assumes "framed m" "preserves store_ok m" "typed sp s"
    and "\<And>a s'. typed sp s' \<Longrightarrow> wp (f a) (\<lambda>_. typed_any) (\<lambda>_. typed_any) s'"
  shows "wp (go_bind m f) (\<lambda>_. typed_any) (\<lambda>_. typed_any) s"
  unfolding wp_bind
  by (rule wp_mono [OF preserves_both [OF framed_typed [OF assms(1,2)] assms(3)]]) (auto intro: assms(4) typed_anyI)

lemma typed_both: "preserves typed_any m \<Longrightarrow> typed sp s \<Longrightarrow> wp m (\<lambda>_. typed_any) (\<lambda>_. typed_any) s"
  by (auto simp: preserves_def dest: typed_anyI)

lemma typed_write_back:
  assumes "answers_typed r"
  shows "preserves typed_any (go_bind (go_get wpa) (\<lambda>w. go_bind (update_object r w) (\<lambda>a. case a of
      Inl e \<Rightarrow> go_return (f e) | Inr w' \<Rightarrow> go_bind (modify_wpa (\<lambda>_. w')) (\<lambda>_. go_return x))))"
proof (rule preservesI)
  fix s a s'
  assume "go_bind (go_get wpa) (\<lambda>w. go_bind (update_object r w) (\<lambda>a. case a of
      Inl e \<Rightarrow> go_return (f e) | Inr w' \<Rightarrow> go_bind (modify_wpa (\<lambda>_. w')) (\<lambda>_. go_return x))) s = (a, s')" "typed_any s"
  then show "typed_any s'"
    using answers_typedD(2) [OF assms] by (auto simp: update_object_def go_defs typed_any_def typed_def updates_typed_def split: sum.splits)
qed

context replica_calculator
begin

lemma reconcile_scale_typed:
  assumes "replicaCalc r = rc" "answers_typed r" "typed sp s" "bounded_spec sp" "scale_typed sc"
  shows "wp (reconcile_scale r original gr sc) (\<lambda>_. typed_any) (\<lambda>_. typed_any) s"
proof -
  have decided: "wp (go_bind (decide original sc now c) (\<lambda>d.
      if de_rescale d then rescale r original gr sc d else not_scaling r original reference sc d))
      (\<lambda>_. typed_any) (\<lambda>_. typed_any) s1" if "typed sp s1" for now c reference s1
    by (rule wp_phase2 [OF wp_decide_typed [OF that assms(4,5)]])
      (auto intro!: preserves_both preserves_intros assms(2,5))
  show ?thesis
    unfolding reconcile_scale_def Let_def assms(1)
    by (intro typed_bind [OF framed_announce preserves_announce assms(3)] typed_bind [OF framed_pure(3) preserves_pure(3)]
        typed_bind [OF framed_now preserves_store_steps(2)] typed_bind [OF framed_computeReplicas store_computeReplicas])
      (use assms(5) in \<open>auto split: sum.splits intro!: decided typed_both preserves_intros assms(2) simp: scale_typed_def\<close>)
qed

lemma reconcileWPA_typed:
  assumes "replicaCalc r = rc" "answers_typed r" "typed sp s" "bounded_spec sp" "scales_typed r"
  shows "wp (reconcileWPA r original) (\<lambda>_. typed_any) (\<lambda>_. typed_any) s"
proof -
  have stop: "wp (go_return x) (\<lambda>_. typed_any) (\<lambda>_. typed_any) s1" if "typed sp s1" for x :: "go_error option" and s1
    using that by (simp add: go_wp typed_anyI)
  have get: "wp (getScaleForResourceMappings r ns name ms)
      (\<lambda>(sc, gr, _) s'. typed sp s' \<and> (\<forall>x. sc = Some x \<longrightarrow> scale_typed x)) (\<lambda>_. typed_any) s1" if "typed sp s1" for ns name ms s1
    by (rule wp_mono [OF wp_conj [THEN iffD2, OF conjI, OF getScale_read
          preserves_both [OF framed_typed [OF framed_getScale preserves_getScale] that]]])
      (use assms(5) in \<open>auto simp: scales_typed_def intro: typed_anyI\<close>)
  have "wp (reconcileWPA_body r original) (\<lambda>_. typed_any) (\<lambda>_. typed_any) s"
    unfolding reconcileWPA_body_def Let_def
  proof (rule typed_bind [OF framed_pure(3) preserves_pure(3) assms(3)])
    fix w s1 assume s1: "typed sp s1"
    have read: "typed sp (s'\<lparr>reads := n\<rparr>)" if "typed sp s'" for s' n
      using that by (simp add: typed_def updates_typed_def)
    show "wp (case ParseGroupVersion (lib r) (ref_APIVersion (ScaleTargetRef (Spec w))) of
       Inl e \<Rightarrow> go_return (Some (wrap_error ''invalid API version in scale target reference: '' e))
     | Inr targetGroup \<Rightarrow>
     go_bind (go_read (\<lambda>n. Ret (RESTMappings r targetGroup (ref_Kind (ScaleTargetRef (Spec w))) n))) (\<lambda>a. case a of
       Inl e \<Rightarrow> go_return (Some (wrap_error ''unable to determine resource for scale target reference: '' e))
     | Inr mappings \<Rightarrow>
     go_bind (getScaleForResourceMappings r (wpa_Namespace w) (ref_Name (ScaleTargetRef (Spec w))) mappings) (\<lambda>(currentScale, targetGR, err).
     go_bind (if currentScale = None then go_bind (deref err) (\<lambda>e. go_return (contains (Error e) scaleNotFoundErr))
        else go_return False) (\<lambda>notFound.
     if notFound then go_return err
     else go_bind (deref currentScale) (\<lambda>sc. reconcile_scale r original targetGR sc))))) (\<lambda>_. typed_any) (\<lambda>_. typed_any) s1"
      using s1 by (auto simp: go_wp typed_anyI typed_anyI [OF read] read intro!: wp_mono [OF get] reconcile_scale_typed [OF assms(1,2) _ assms(4)] split: sum.splits option.splits)
  qed
  then show ?thesis
    unfolding reconcileWPA_def wp_recover by (rule wp_mono) (auto simp: go_wp)
qed

end

lemma typed_fill: "typed sp s \<Longrightarrow> wp fillMissingWatermark (\<lambda>_. typed (sp\<lparr>Metrics := map fill_metric (Metrics sp)\<rparr>)) R s"
  by (auto simp: fillMissingWatermark_def go_wp typed_def updates_typed_def)

lemma typed_check_monitor:
  assumes "answers_typed r" "typed sp s"
  shows "wp (check_monitor r original) (\<lambda>a s'. typed_any s' \<and> (a = None \<longrightarrow> typed sp s')) (\<lambda>_. typed_any) s"
proof -
  have 1: "wp (check_monitor r original) (\<lambda>_. typed_any) (\<lambda>_. typed_any) s"
    unfolding check_monitor_def Let_def
    by (rule typed_both [OF _ assms(2)]) (intro preserves_intros assms(1); simp)
  have 2: "wp (check_monitor r original) (\<lambda>a s'. a = None \<longrightarrow> Spec (wpa s') = sp) (\<lambda>_ _. True) s"
    unfolding check_monitor_def Let_def
    using assms(2) by (auto simp: go_wp typed_def intro!: wp_trivial [where m = "report_status _ _ _ _"] split: sum.splits)
  show ?thesis
    by (rule wp_mono [OF wp_conj [THEN iffD2, OF conjI, OF 1 2]]) (auto simp: typed_any_def)
qed

context replica_calculator
begin

lemma process_typed:
  assumes "replicaCalc r = rc" "answers_typed r" "typed sp s" "bounded_spec sp" "scales_typed r"
  shows "wp (process r original) (\<lambda>_. typed_any) (\<lambda>_. typed_any) s"
proof -
  have rest: "preserves typed_any (case a of None \<Rightarrow> go_return (\<lparr>Requeue = False, RequeueAfter = syncPeriod r\<rparr>, None)
     | Some err \<Rightarrow> go_bind (emit (Eventf None EventTypeWarning ReasonFailedProcessWPA (Error err))) (\<lambda>_.
       go_bind (setCondition AbleToScale ConditionFalse ReasonFailedProcessWPA
          ''Error happened while processing the WPA'') (\<lambda>_.
       go_bind (updateStatusIfNeeded r original) (\<lambda>b. case b of
         Some err2 \<Rightarrow> go_bind (emit (Eventf None EventTypeWarning ReasonFailedUpdateStatus (Error err2))) (\<lambda>_.
           go_return (no_requeue, NewAggregate (lib r) [err, err2]))
       | None \<Rightarrow> go_return (\<lparr>Requeue = False, RequeueAfter = requeueAfterForWPAErrors err\<rparr>, None)))))" for a
    by (intro preserves_intros assms(2); simp)
  have sp: "bounded_spec (sp\<lparr>Metrics := ms\<rparr>)" for ms using assms(4) by simp
  show ?thesis
    unfolding process_def
    by (rule wp_phase [OF typed_fill [OF assms(3)]], rule wp_phase [OF reconcileWPA_typed [OF assms(1,2) _ sp assms(5)]])
      (auto intro!: preserves_both rest)
qed

lemma reconcile_live_typed:
  assumes "replicaCalc r = rc" "answers_typed r" "typed_any s" "schema_ok (wpa s)" "scales_typed r"
  shows "wp (reconcile_live r original) (\<lambda>_. typed_any) (\<lambda>_. typed_any) s"
proof (cases "IsDefaultWatermarkPodAutoscaler (wpa s) \<and> CheckWPAValidity (wpa s) = None")
  case False
  then show ?thesis
    unfolding reconcile_live_def wp_bind [of "go_get _"] wp_get update_object_def
    by (intro preserves_both [of typed_any, OF _ assms(3)]) (auto intro!: preserves_intros assms(2) split: option.splits)
next
  case True
  let ?sp = "Spec (wpa s)"
  have sp: "bounded_spec ?sp" using True valid_bounded [OF _ assms(4)] by (simp add: CheckWPAValidity_None_iff)
  have mon: "wp (go_bind (if b then check_monitor r original else go_return None) (\<lambda>blocked. case blocked of
      Some res \<Rightarrow> go_return res | None \<Rightarrow> process r original)) (\<lambda>_. typed_any) (\<lambda>_. typed_any) s1"
    if "typed ?sp s1" for b s1
    by (rule wp_phase2 [where P = "\<lambda>a s'. typed_any s' \<and> (a = None \<longrightarrow> typed ?sp s')"])
      (use that in \<open>auto simp: go_wp typed_anyI split: option.splits intro!: typed_check_monitor [OF assms(2)] process_typed [OF assms(1,2) _ sp assms(5)]\<close>)
  have life: "preserves store_ok lifecycle_enabled" unfolding lifecycle_enabled_def by (intro preserves_intros)
  have "typed ?sp s" using assms(3) by (simp add: typed_any_def)
  then show ?thesis
    using True unfolding reconcile_live_def wp_bind [of "go_get _"] wp_get
    by (simp add: typed_bind [OF framed_lifecycle life _ mon])
qed

theorem Reconcile_typed:
  assumes "replicaCalc r = rc" "server_ok r" "answers_typed r" "updates_typed s"
  shows "wp (Reconcile r ns name) (\<lambda>_. updates_typed) (\<lambda>_. updates_typed) s"
proof (cases "Client_Get r ns name (reads s)")
  case (Inl e)
  then show ?thesis using assms(4) by (simp add: Reconcile_def go_wp updates_typed_def)
next
  case (Inr w)
  let ?s = "s\<lparr>reads := Suc (reads s), wpa := w\<rparr>"
  have s: "typed_any ?s" "schema_ok (wpa ?s)"
    using Inr assms(2,4) answers_typedD(1) [OF assms(3) Inr] by (auto simp: typed_any_def typed_def server_ok_def updates_typed_def)
  have finalize: "preserves typed_any finalizeWPA"
    unfolding finalizeWPA_def by (intro preserves_intros preserves_typed_any framed_typed framed_intros keeps_wpa_store cleanup_keeps)
  have fin_typed: "preserves typed_any (handleFinalizer r)"
    unfolding handleFinalizer_def addFinalizer_def
    by (intro preserves_intros typed_write_back [OF assms(3)] finalize) simp_all
  have "wp (handleFinalizer r) (\<lambda>(stop, err) s'. typed_any s' \<and> (\<not> stop \<longrightarrow> schema_ok (wpa s'))) (\<lambda>_. typed_any) ?s"
    by (rule wp_mono [OF wp_conj [THEN iffD2, OF conjI, OF live_handleFinalizer [where s0 = ?s, OF assms(2)] preserves_both [OF fin_typed s(1)]]])
      (use s(2) in \<open>auto simp: live_def still_def\<close>)
  moreover have "wp (go_finally (reconcile_live r original) updateConditionsMetrics) (\<lambda>_. typed_any) (\<lambda>_. typed_any) (after_set t st re m s1)"
    if "typed_any s1" "schema_ok (wpa s1)" for original t st re m s1
  proof -
    have "typed_any (after_set t st re m s1)"
      using that(1) unfolding typed_any_def after_set_simps
      by (intro frame_typed [OF frame_after_set]) (auto intro: store_ok_after_set typed_store)
    from reconcile_live_typed [OF assms(1,3) this schema_ok_after_set [OF that(2)]] show ?thesis
      unfolding wp_finally using assms(2)
      by (intro wp_mono [OF _ preserves_both [OF typed_tail(6) [OF assms(3)]] preserves_both [OF typed_tail(6) [OF assms(3)]]])
        (simp_all add: server_ok_def)
  qed
  ultimately have "wp (Reconcile r ns name) (\<lambda>_. typed_any) (\<lambda>_. typed_any) s"
    unfolding Reconcile_def wp_bind [of "go_read _"] wp_read outcome.case Inr sum.case wp_bind [of "modify_wpa _"] wp_modify_wpa
    by (intro wp_phase2 [where P = "\<lambda>(stop, err) s'. typed_any s' \<and> (\<not> stop \<longrightarrow> schema_ok (wpa s'))"])
      (auto simp: wp_bind wp_get wp_setCondition go_wp(1))
  then show ?thesis by (rule wp_mono) (simp_all add: typed_any_updates)
qed

end

end
