(* ===== verification/Progress.thy ===== *)
theory Progress
  imports Control_Loop Samples
begin

text \<open>
  When a request does change the target.  If the computed count, limited by the rules, differs from the current one, the metrics are within their
  watermarks and the forbidden window has passed, the scale is written; nothing on the way to the write can prevent it, and what
  follows does not write again.  An object without any metric is an instance: its count is zero, and no watermark is crossed.
\<close>

section \<open>A change that is due\<close>

definition limited :: "WatermarkPodAutoscalerSpec \<Rightarrow> int \<Rightarrow> computation \<Rightarrow> int" where
  "limited sp cur c = normalized (down_limit (the (ScaleDownLimitFactor sp)) cur) (up_limit (the (ScaleUpLimitFactor sp)) cur)
     (min_or_zero sp) (MaxReplicas sp) cur (if co_replicas c > 0 then co_replicas c else 0) (co_readyReplicas c)"

text \<open>No delay stands in the way: there was no scaling event yet, every metric is within its watermarks, or the direction has no delay.\<close>

definition prompt :: "WatermarkPodAutoscaler \<Rightarrow> int \<Rightarrow> int \<Rightarrow> bool \<Rightarrow> bool" where
  "prompt w cur n calm \<longleftrightarrow> LastScaleTime (Status w) = None \<or> calm \<or> watermark_delay (Spec w) cur n = 0"

lemma frame_prompt: "frame s s' \<Longrightarrow> prompt (wpa s') cur n b = prompt (wpa s) cur n b"
  by (simp add: prompt_def frame_Spec frame_status_fields)

lemma wp_shouldScale_due:
  assumes "store_ok s" "spec_typed (Spec (wpa s))" "timely (wpa s) cur n now" "prompt (wpa s) cur n st"
  shows "wp (shouldScale cur n now st) (\<lambda>b s'. b \<and> frame s s') (\<lambda>_ _. False) s"
proof (cases "LastScaleTime (Status (wpa s))")
  case None
  then show ?thesis by (simp add: shouldScale_def go_wp)
next
  case (Some t)
  show ?thesis
    by (rule wp_mono [OF wp_conj [THEN iffD2, OF conjI, OF wp_shouldScale [OF assms(1,2) Some] framed_wp [OF framed_shouldScale]]])
      (use assms(3,4) Some in \<open>auto simp: timely_def prompt_def\<close>)
qed

lemma wp_decide_due:
  assumes "store_ok s" "bounded_spec (Spec (wpa s))" "scale_typed sc" "\<not> edge (Spec (wpa s)) sc" "scale_SpecReplicas sc \<noteq> 0"
    and "timely (wpa s) (scale_SpecReplicas sc) n now" "n = limited (Spec (wpa s)) (scale_SpecReplicas sc) c"
    and "prompt (wpa s) (scale_SpecReplicas sc) n st"
  shows "wp (decide original sc now (c, st)) (\<lambda>d s'. de_rescale d \<and> de_desired d = n \<and> frame s s') (\<lambda>_ _. False) s"
proof -
  let ?sp = "Spec (wpa s)" and ?cur = "scale_SpecReplicas sc" and ?Q = "\<lambda>d s'. de_rescale d \<and> de_desired d = n \<and> frame s s'"
  obtain up down where f: "ScaleUpLimitFactor ?sp = Some up" "ScaleDownLimitFactor ?sp = Some down"
    using assms(2) by (auto simp: bounded_spec_def split: option.splits)
  have ty: "spec_typed ?sp" "fits32 ?cur" using assms(2,3) by (auto simp: bounded_spec_def scale_typed_def)
  define des where "des = (if co_replicas c > 0 then co_replicas c else 0)"
  have n: "n = normalized (down_limit down ?cur) (up_limit up ?cur) (min_or_zero ?sp) (MaxReplicas ?sp) ?cur des (co_readyReplicas c)"
    using assms(7) f by (simp add: limited_def des_def)
  have over: "wp (override original sc \<lparr>de_desired = n, de_rescale = True, de_reason = re, de_statuses = ss\<rparr>) ?Q (\<lambda>_ _. False) s2"
    if "frame s s2" for re ss s2
    using that assms(4,5) by (auto simp: override_def go_wp Let_def frame_Spec edge_def min_or_zero_def split: option.splits)
  have should: "wp (go_bind (shouldScale ?cur n now st) (\<lambda>b. override original sc
        \<lparr>de_desired = n, de_rescale = b, de_reason = re, de_statuses = ss\<rparr>)) ?Q (\<lambda>_ _. False) s1" if "store_ok s1 \<and> frame s s1" for re ss s1
    by (rule wp_phase2 [OF wp_shouldScale_due])
      (use that ty assms(6,8) frame_timely [of s s1] frame_prompt [of s s1] in \<open>auto simp: frame_Spec intro!: over intro: frame_trans\<close>)
  have step: "wp (go_bind (normalizeDesiredReplicas ?cur des (co_readyReplicas c)) (\<lambda>desired.
       go_bind (shouldScale ?cur desired now st) (\<lambda>b. override original sc
        \<lparr>de_desired = desired, de_rescale = b, de_reason = g desired, de_statuses = co_statuses c\<rparr>))) ?Q (\<lambda>_ _. False) s" for g
    by (rule wp_phase2 [OF wp_normalize [OF f ty(2,1) assms(1) n]]) (auto intro: should)
  show ?thesis
    by (cases "co_replicas c > 0") (use step in \<open>simp_all add: decide_def Let_def des_def\<close>)
qed

section \<open>A request that writes\<close>

text \<open>The scale is written once, and nothing after it writes again.\<close>

definition scaled_to :: "world \<Rightarrow> string \<Rightarrow> scale \<Rightarrow> int \<Rightarrow> world \<Rightarrow> bool" where
  "scaled_to s gr sc n s' \<longleftrightarrow> writes s' = writes s @ [(gr, sc\<lparr>scale_SpecReplicas := n\<rparr>)]"

lemma scaled_still: "scaled_to s gr sc n = still (writes s @ [(gr, sc\<lparr>scale_SpecReplicas := n\<rparr>)]) 0"
  by (rule ext) (simp add: scaled_to_def still_def)

text \<open>A computation that ends with a count that is limited to \<open>n\<close>, and with no delay\<close>

definition settles :: "(go_error + computation \<times> bool) prog \<Rightarrow> WatermarkPodAutoscaler \<Rightarrow> scale \<Rightarrow> int \<Rightarrow> bool" where
  "settles m w sc n \<longleftrightarrow> (\<forall>s. store_ok s \<longrightarrow> Spec (wpa s) = Spec w \<longrightarrow>
     wp m (\<lambda>a s'. (\<exists>c st. a = Inr (c, st) \<and> prompt w (scale_SpecReplicas sc) n st \<and>
       n = limited (Spec w) (scale_SpecReplicas sc) c) \<and> tidy s s') (\<lambda>_ _. False) s)"

lemma tidy_trans: "tidy s t \<Longrightarrow> tidy t u \<Longrightarrow> tidy s u"
  by (auto simp: tidy_def intro: frame_trans)

lemma wp_both: "wp m Q R s \<Longrightarrow> wp m (\<lambda>_ _. True) (\<lambda>_ _. False) s \<Longrightarrow> wp m Q (\<lambda>_ _. False) s"
  by (auto simp: wp_def split: prod.splits outcome.splits)

lemma tidy_calm:
  assumes "framed m" "preserves store_ok m" "total m" "tidy s s1"
  shows "wp m (\<lambda>_. tidy s) (\<lambda>_ _. False) s1"
  using wp_both [OF tidy_step [OF assms(1,2,4)]] assms(3) by (simp add: total_def)

lemma total_announce [total_intros]: "total announce"
  unfolding announce_def by (intro total_intros)

lemma reconcile_scale_due:
  assumes "settles (computeReplicas (lib r) (replicaCalc r) sc) (wpa s) sc n" "bounded_spec (Spec (wpa s))" "scale_typed sc"
    and "\<not> edge (Spec (wpa s)) sc" "scale_SpecReplicas sc \<noteq> 0" "\<not> DryRun (Spec (wpa s))" "tidy s s1"
    and "\<forall>k \<ge> ticks s. timely (wpa s) (scale_SpecReplicas sc) n (clock s k)"
  shows "wp (reconcile_scale r original gr sc) (\<lambda>_. scaled_to s gr sc n) (\<lambda>_. scaled_to s gr sc n) s1"
proof -
  let ?S = "\<lambda>_. scaled_to s gr sc n"
  have re: "wp (rescale r original gr sc d) ?S ?S s2" if "de_rescale d \<and> de_desired d = n \<and> frame s s2" for d s2
    using that assms(6) by (intro wp_mono [OF rescale_writes]) (auto simp: frame_Spec frame_writes scaled_to_def still_def)
  have dec: "wp (go_bind (decide original sc now (c, st)) (\<lambda>d. if de_rescale d then rescale r original gr sc d
       else not_scaling r original reference sc d)) ?S ?S s2"
    if s2: "tidy s s2" and n: "n = limited (Spec (wpa s)) (scale_SpecReplicas sc) c" and t: "timely (wpa s) (scale_SpecReplicas sc) n now"
      and pr: "prompt (wpa s) (scale_SpecReplicas sc) n st"
    for now c st reference s2
  proof -
    have fr: "frame s s2" "store_ok s2" using s2 by (simp_all add: tidy_def)
    note sp = frame_Spec [OF fr(1)] frame_timely [OF fr(1)] frame_prompt [OF fr(1)]
    have "wp (decide original sc now (c, st)) (\<lambda>d s'. de_rescale d \<and> de_desired d = n \<and> frame s2 s') (\<lambda>_ _. False) s2"
      by (rule wp_decide_due [OF fr(2)]) (simp_all only: sp assms(2-5) t pr n [symmetric] not_False_eq_True)
    then show ?thesis
      by (rule wp_phase2 [OF wp_mono]) (use frame_trans [OF fr(1)] in \<open>auto intro!: re\<close>)
  qed
  have comp: "wp (go_bind (computeReplicas (lib r) (replicaCalc r) sc) (\<lambda>computed. case computed of
       Inl e \<Rightarrow> compute_failed r original (scale_StatusReplicas sc) e
     | Inr c \<Rightarrow> go_bind (decide original sc now c) (\<lambda>d. if de_rescale d then rescale r original gr sc d
       else not_scaling r original reference sc d))) ?S ?S s2"
    if t2: "tidy s s2" and tl: "timely (wpa s) (scale_SpecReplicas sc) n now" for now reference s2
  proof -
    have "wp (computeReplicas (lib r) (replicaCalc r) sc) (\<lambda>a s'. (\<exists>c st. a = Inr (c, st) \<and>
        prompt (wpa s) (scale_SpecReplicas sc) n st \<and> n = limited (Spec (wpa s)) (scale_SpecReplicas sc) c) \<and> tidy s2 s') (\<lambda>_ _. False) s2"
      using assms(1) t2 by (auto simp: settles_def tidy_def frame_Spec)
    then show ?thesis
    proof (rule wp_phase2 [OF wp_mono])
      fix a :: "go_error + computation \<times> bool" and s' assume "(\<exists>c st. a = Inr (c, st) \<and>
        prompt (wpa s) (scale_SpecReplicas sc) n st \<and> n = limited (Spec (wpa s)) (scale_SpecReplicas sc) c) \<and> tidy s2 s'"
      then obtain c st where a: "a = Inr (c, st)" and pr: "prompt (wpa s) (scale_SpecReplicas sc) n st" and n: "n = limited (Spec (wpa s)) (scale_SpecReplicas sc) c" and t: "tidy s s'"
        using tidy_trans [OF t2] by blast
      show "wp (case a of Inl e \<Rightarrow> compute_failed r original (scale_StatusReplicas sc) e
        | Inr c \<Rightarrow> go_bind (decide original sc now c) (\<lambda>d. if de_rescale d then rescale r original gr sc d
            else not_scaling r original reference sc d)) ?S ?S s'"
        unfolding a sum.case by (rule dec [OF t n tl pr])
    qed simp_all
  qed
  show ?thesis
    unfolding reconcile_scale_def Let_def
  proof (rule wp_phase2 [OF tidy_calm [OF framed_announce preserves_announce total_announce assms(7), THEN wp_mono]])
    fix s2 assume s2: "tidy s s2"
    then have s3: "tidy s (s2\<lparr>ticks := Suc (ticks s2)\<rparr>)" by (simp add: tidy_def frame_now store_ok_def)
    have "timely (wpa s) (scale_SpecReplicas sc) n (clock s2 (ticks s2))"
      using s2 assms(8) by (auto simp: tidy_def frame_def)
    then show "wp (go_bind (go_get wpa) (\<lambda>w. go_bind go_now (\<lambda>now. go_bind (computeReplicas (lib r) (replicaCalc r) sc) (\<lambda>computed.
        case computed of Inl e \<Rightarrow> compute_failed r original (scale_StatusReplicas sc) e
       | Inr c \<Rightarrow> go_bind (decide original sc now c) (\<lambda>d. if de_rescale d then rescale r original gr sc d
          else not_scaling r original (ref_Kind (ScaleTargetRef (Spec w)) @ ''/'' @ wpa_Namespace w @ ''/'' @
            ref_Name (ScaleTargetRef (Spec w))) sc d))))) ?S ?S s2"
      unfolding wp_bind [of "go_get _"] wp_get wp_bind [of go_now] wp_now by (rule comp [OF s3])
  qed simp_all
qed

text \<open>The target of \<open>w\<close> resolves to the scale \<open>sc\<close>, whichever read it is.\<close>

definition resolves :: "reconciler \<Rightarrow> WatermarkPodAutoscaler \<Rightarrow> string \<Rightarrow> scale \<Rightarrow> bool" where
  "resolves r w gr sc \<longleftrightarrow> (let ref = ScaleTargetRef (Spec w) in
     \<exists>g m ms. ParseGroupVersion (lib r) (ref_APIVersion ref) = Inr g \<and> GroupResource m = gr \<and>
       (\<forall>n. RESTMappings r g (ref_Kind ref) n = Inr (m # ms) \<and> Scales_Get r (wpa_Namespace w) gr (ref_Name ref) n = Inr sc))"

lemma tidy_reads: "tidy s s1 \<Longrightarrow> tidy s (s1\<lparr>reads := Suc (reads s1)\<rparr>)"
  by (simp add: tidy_def frame_reads store_ok_def)

lemma reconcileWPA_due:
  assumes "settles (computeReplicas (lib r) (replicaCalc r) sc) (wpa s) sc n" "bounded_spec (Spec (wpa s))" "scale_typed sc"
    and "\<not> edge (Spec (wpa s)) sc" "scale_SpecReplicas sc \<noteq> 0" "\<not> DryRun (Spec (wpa s))" "store_ok s"
    and "\<forall>k \<ge> ticks s. timely (wpa s) (scale_SpecReplicas sc) n (clock s k)" "resolves r (wpa s) gr sc"
  shows "wp (reconcileWPA r original) (\<lambda>_. scaled_to s gr sc n) (\<lambda>_ _. False) s"
proof -
  let ?S = "\<lambda>_. scaled_to s gr sc n" and ?ref = "ScaleTargetRef (Spec (wpa s))"
  obtain g m ms where m: "ParseGroupVersion (lib r) (ref_APIVersion ?ref) = Inr g" "GroupResource m = gr"
      "RESTMappings r g (ref_Kind ?ref) n = Inr (m # ms)" "Scales_Get r (wpa_Namespace (wpa s)) gr (ref_Name ?ref) n = Inr sc" for n
    using assms(9) unfolding resolves_def Let_def by metis
  have "wp (reconcileWPA_body r original) ?S ?S s"
    unfolding reconcileWPA_body_def getScaleForResourceMappings_def Let_def
    by (simp add: go_wp m, rule reconcile_scale_due [OF assms(1-6) _ assms(8)]) (use assms(7) tidy_reads [OF tidy_reads, of s s] in \<open>simp add: tidy_def\<close>)
  then show ?thesis
    unfolding reconcileWPA_def wp_recover by (rule wp_mono) (simp_all add: go_wp)
qed

definition fill :: "WatermarkPodAutoscaler \<Rightarrow> WatermarkPodAutoscaler" where
  "fill w = w\<lparr>Spec := (Spec w)\<lparr>Metrics := map fill_metric (Metrics (Spec w))\<rparr>\<rparr>"

lemma fill_simps [simp]:
  "Status (fill w) = Status w" "edge (Spec (fill w)) sc = edge (Spec w) sc" "timely (fill w) cur n now = timely w cur n now"
  "prompt (fill w) cur n b = prompt w cur n b"
  "bounded_spec (Spec (fill w)) = bounded_spec (Spec w)" "DryRun (Spec (fill w)) = DryRun (Spec w)"
  "resolves r (fill w) gr sc = resolves r w gr sc"
  by (simp_all add: fill_def edge_def timely_def prompt_def watermark_delay_def forbidden_window_def bounded_spec_def spec_typed_def min_or_zero_def resolves_def cong: option.case_cong)

lemma scaled_steps: "scaled_to (s\<lparr>wpa := w\<rparr>) gr sc n = scaled_to s gr sc n"
  by (rule ext) (simp add: scaled_to_def)

lemma process_due:
  assumes "settles (computeReplicas (lib r) (replicaCalc r) sc) (fill (wpa s)) sc n" "bounded_spec (Spec (wpa s))" "scale_typed sc"
    and "\<not> edge (Spec (wpa s)) sc" "scale_SpecReplicas sc \<noteq> 0" "\<not> DryRun (Spec (wpa s))" "store_ok s"
    and "\<forall>k \<ge> ticks s. timely (wpa s) (scale_SpecReplicas sc) n (clock s k)" "resolves r (wpa s) gr sc"
  shows "wp (process r original) (\<lambda>_. scaled_to s gr sc n) (\<lambda>_. scaled_to s gr sc n) s"
proof -
  let ?s = "s\<lparr>wpa := fill (wpa s)\<rparr>" and ?S = "\<lambda>_. scaled_to s gr sc n"
  have w: "wp (reconcileWPA r original) ?S (\<lambda>_ _. False) ?s"
    using reconcileWPA_due [of r sc ?s n gr original] assms scaled_steps [where s = s] by (simp add: store_ok_def)
  show ?thesis
    unfolding process_def fillMissingWatermark_def wp_bind [of "modify_wpa _"] wp_modify_wpa fill_def [symmetric]
    by (rule wp_phase2 [OF w [THEN wp_mono]], assumption, simp, unfold scaled_still, rule preserves_outcome, (intro preserves_intros; simp), assumption)
qed

text \<open>The whole request\<close>

lemma Reconcile_due:
  assumes "Client_Get r ns name (reads s) = Inr w" "alive w" "IsDefaultWatermarkPodAutoscaler w" "CheckWPAValidity w = None" "schema_ok w"
    and "map_of (Annotations w) lifecycleControlEnabledAnnotationKey = None" "\<not> DryRun (Spec w)"
    and "resolves r w gr sc" "scale_typed sc" "\<not> edge (Spec w) sc" "scale_SpecReplicas sc \<noteq> 0"
    and "settles (computeReplicas (lib r) (replicaCalc r) sc) (fill w) sc n"
    and "\<forall>k \<ge> ticks s. timely w (scale_SpecReplicas sc) n (clock s k)"
  shows "wp (Reconcile r ns name) (\<lambda>_. scaled_to s gr sc n) (\<lambda>_ _. False) s"
proof -
  let ?f = "fetched w s" and ?S = "\<lambda>_. scaled_to s gr sc n"
  have v: "CheckWPAValidity (wpa ?f) = None" "IsDefaultWatermarkPodAutoscaler (wpa ?f)"
    using assms(3,4) CheckWPAValidity_cong [of "wpa ?f" w] IsDefault_cong [of "wpa ?f" w] by simp_all
  let ?g = "s\<lparr>reads := Suc (reads s), wpa := w\<rparr>"
  have fr: "frame ?g ?f" unfolding fetched_def by (rule frame_after_set)
  have g: "store_ok ?g" using assms(5) by (simp add: store_ok_def schema_ok_def)
  have st: "LastScaleTime (Status (wpa ?f)) = LastScaleTime (Status w)" "ticks s \<le> ticks ?f \<and> clock ?f = clock s" "store_ok ?f"
    using frame_status_fields [OF fr] fr store_ok_after_set [OF g] by (simp, simp add: frame_def, simp add: fetched_def)
  have base: "scaled_to ?f gr sc n = scaled_to s gr sc n" by (rule ext) (simp add: scaled_to_def)
  have bs: "bounded_spec (Spec w)" using assms(4,5) by (simp add: valid_bounded CheckWPAValidity_None_iff)
  have same: "settles m (fill (wpa ?f)) sc n = settles m (fill w) sc n" "timely (wpa ?f) cur n now = timely w cur n now"
      "resolves r (wpa ?f) gr sc = resolves r w gr sc" for m cur now
    using st(1) by (simp_all add: settles_def fill_def timely_def prompt_def resolves_def cong: option.case_cong)
  have "wp (process r (Status w)) (\<lambda>_. scaled_to ?f gr sc n) (\<lambda>_. scaled_to ?f gr sc n) ?f"
    by (rule process_due) (use assms(7-13) st bs same in simp_all)
  moreover have "wp (reconcile_live r (Status w)) ?S ?S ?f = wp (process r (Status w)) ?S ?S ?f"
    unfolding reconcile_live_def lifecycle_enabled_def by (simp add: go_wp v assms(6))
  ultimately have "wp (reconcile_live r (Status w)) ?S ?S ?f" by (simp only: base)
  moreover have "wp (reconcile_live r (Status w)) (\<lambda>_ _. True) (\<lambda>_ _. False) ?f"
    using total_reconcile_live [of r "Status w"] by (simp add: total_def)
  ultimately have "wp (reconcile_live r (Status w)) ?S (\<lambda>_ _. False) ?f" by (rule wp_both)
  then show ?thesis
    unfolding wp_Reconcile_alive [OF assms(1,2)] by (rule wp_endI) (simp_all add: scaled_to_def writes_def)
qed

section \<open>An object without metrics\<close>

definition no_metrics :: "WatermarkPodAutoscaler \<Rightarrow> bool" where
  "no_metrics w \<longleftrightarrow> Metrics (Spec w) = [] \<and> Recommender (Spec w) = None"

lemma no_metrics_settles:
  assumes "no_metrics w" "0 < min_or_zero (Spec w)" "0 < down_limit (the (ScaleDownLimitFactor (Spec w))) (scale_SpecReplicas sc)"
  shows "settles (computeReplicas l rc sc) w sc (max (down_limit (the (ScaleDownLimitFactor (Spec w))) (scale_SpecReplicas sc)) (min_or_zero (Spec w)))"
proof -
  let ?c = "\<lparr>co_replicas = 0, co_metric = [], co_statuses = [], co_timestamp = zero_time, co_readyReplicas = 0, co_isAbove = False, co_isBelow = False\<rparr>"
  let ?n = "max (down_limit (the (ScaleDownLimitFactor (Spec w))) (scale_SpecReplicas sc)) (min_or_zero (Spec w))"
  have n: "?n = limited (Spec w) (scale_SpecReplicas sc) ?c"
    using assms(2,3) by (auto simp: limited_def normalized_def lower_limit_def Let_def max_def)
  have "wp (computeReplicas l rc sc) (\<lambda>a s'. a = Inr (?c, True) \<and> tidy s s') (\<lambda>_ _. False) s"
    if "store_ok s" "Spec (wpa s) = Spec w" for s
  proof -
    have ranges: "frame s (s\<lparr>trace := trace s @ [PromSet ReplicaMin (getPrometheusLabels (wpa s)) x, PromSet ReplicaMax (getPrometheusLabels (wpa s)) y]\<rparr>)" for x y
      by (auto simp: frame_def well_labelled_def keys_getPrometheusLabels intro: exI [of _ "Status (wpa s)"])
    have "wp (computeReplicas l rc sc) (\<lambda>a s'. a = Inr (?c, True) \<and> store_ok s' \<and> frame s s') (\<lambda>_ _. False) s"
      using assms(1) that
      by (simp add: computeReplicas_def computeReplicasForMetrics_def no_metrics_def go_wp Let_def)
        (intro conjI store_ok_after_set frame_trans [OF _ frame_after_set], simp_all add: store_ok_def ranges)
    then show ?thesis
      by (rule wp_mono) (auto simp: tidy_def)
  qed
  then show ?thesis unfolding settles_def by (intro allI impI) (rule wp_mono, blast, use n in \<open>auto simp: prompt_def\<close>)
qed

lemma no_metrics_fill: "no_metrics w \<Longrightarrow> fill w = w"
  by (cases w; cases "Spec w") (simp add: no_metrics_def fill_def)

text \<open>C39: An object without metrics and without a recommender passes the validation, and its target is scaled down step by step to the
  minimum: such an object counts as one whose metrics are all within their watermarks, with a proposal of zero, so that every request that
  finds the downscale window passed writes the scale, by the full step that the limit allows.\<close>

theorem no_metrics_scale_down:
  assumes "Client_Get r ns name (reads s) = Inr w" "alive w" "IsDefaultWatermarkPodAutoscaler w" "CheckWPAValidity w = None" "schema_ok w"
    and "map_of (Annotations w) lifecycleControlEnabledAnnotationKey = None" "\<not> DryRun (Spec w)"
    and "Metrics (Spec w) = []" "Recommender (Spec w) = None"
    and "resolves r w gr sc" "scale_typed sc" "scale_StatusReplicas sc \<noteq> 0"
    and "MinReplicas (Spec w) = Some minR" "0 < minR" "minR < scale_SpecReplicas sc" "scale_SpecReplicas sc \<le> MaxReplicas (Spec w)"
    and "ScaleDownLimitFactor (Spec w) = Some f" "Value f \<noteq> 0"
    and "\<forall>t k. LastScaleTime (Status w) = Some t \<longrightarrow> ticks s \<le> k \<longrightarrow> t + DownscaleForbiddenWindowSeconds (Spec w) * 1000000000 \<le> clock s k"
  shows "wp (Reconcile r ns name) (\<lambda>_ s'. \<exists>n < scale_SpecReplicas sc. n = max minR (down_limit f (scale_SpecReplicas sc)) \<and>
     writes s' = writes s @ [(gr, sc\<lparr>scale_SpecReplicas := n\<rparr>)]) (\<lambda>_ _. False) s"
proof -
  let ?cur = "scale_SpecReplicas sc" and ?n = "max (down_limit f (scale_SpecReplicas sc)) minR"
  have "bounded_spec (Spec w)" using assms(4,5) by (simp add: valid_bounded CheckWPAValidity_None_iff)
  then have d: "0 < down_limit f ?cur" "down_limit f ?cur < ?cur"
    using down_limit_range [of f ?cur] assms(11,14,15,17,18) by (auto simp: bounded_spec_def scale_typed_def)
  have none: "no_metrics w" using assms(8,9) by (simp add: no_metrics_def)
  have settle: "settles (computeReplicas (lib r) (replicaCalc r) sc) (fill w) sc ?n"
    using no_metrics_settles [OF none, of sc "lib r" "replicaCalc r"] d(1) assms(13,14,17) by (simp add: no_metrics_fill [OF none] min_or_zero_def)
  have "wp (Reconcile r ns name) (\<lambda>_. scaled_to s gr sc ?n) (\<lambda>_ _. False) s"
    by (rule Reconcile_due [OF assms(1-7,10,11) _ _ settle])
      (use assms(12-19) d in \<open>auto simp: edge_def min_or_zero_def timely_def forbidden_window_def split: option.splits\<close>)
  then show ?thesis
    by (rule wp_mono) (use d(2) assms(15) in \<open>auto simp: scaled_to_def max.commute\<close>)
qed

section \<open>Two requests\<close>

text \<open>A controller whose object has no metrics, and is read again with the scaling event that the first request recorded\<close>

definition idle_wpa :: "time option \<Rightarrow> WatermarkPodAutoscaler" where
  "idle_wpa t = sample_wpa\<lparr>Spec := sample_spec\<lparr>Metrics := []\<rparr>, Status := sample_status\<lparr>LastScaleTime := t\<rparr>\<rparr>"

definition idle_controller :: "time \<Rightarrow> reconciler" where
  "idle_controller t = (sample_reconciler sample_wpa sample_scale)\<lparr>
     Client_Get := (\<lambda>_ _ n. Inr (idle_wpa (if n = 0 then None else Some t)))\<rparr>"

lemma idle_objects:
  "alive (idle_wpa t)" "IsDefaultWatermarkPodAutoscaler (idle_wpa t)" "CheckWPAValidity (idle_wpa t) = None" "schema_ok (idle_wpa t)"
  "map_of (Annotations (idle_wpa t)) lifecycleControlEnabledAnnotationKey = None" "\<not> DryRun (Spec (idle_wpa t))"
  "Metrics (Spec (idle_wpa t)) = []" "Recommender (Spec (idle_wpa t)) = None"
  "MinReplicas (Spec (idle_wpa t)) = Some 3" "MaxReplicas (Spec (idle_wpa t)) = 30" "ScaleDownLimitFactor (Spec (idle_wpa t)) = Some (percent 20)"
  "DownscaleForbiddenWindowSeconds (Spec (idle_wpa t)) = 300" "LastScaleTime (Status (idle_wpa t)) = t"
  by (simp_all add: idle_wpa_def sample_defs alive_def watermarkpodautoscalerFinalizer_def IsDefault_iff CheckWPAValidity_None_iff valid_spec_def
      schema_ok_def spec_typed_def fits32_def min_or_zero_def conditions_ok_def)

lemma idle_resolves: "resolves (idle_controller t) (idle_wpa u) ''deployments.apps'' sample_scale"
  by (simp add: resolves_def idle_controller_def sample_reconciler_def sample_lib_def)

lemma idle_scale: "scale_typed sample_scale" "scale_SpecReplicas sample_scale = 10" "scale_StatusReplicas sample_scale = 10"
  by (simp_all add: sample_scale_def scale_typed_def fits32_def)

lemma idle_limit: "down_limit (percent 20) 10 = 8"
  using down_limit_step [OF _ limit_step_percent [of "percent 20" 20 10]] by (simp add: percent_def fits32_def)

lemma percent_value: "Value (percent p) = p"
  by (simp add: percent_def)

theorem no_metrics_scale_down_witness:
  "wp (Reconcile (idle_controller 0) ''prod'' ''web'') (\<lambda>_ s'. writes s' = [(''deployments.apps'', sample_scale\<lparr>scale_SpecReplicas := 8\<rparr>)])
     (\<lambda>_ _. False) (sample_world (idle_wpa None))"
  by (rule wp_mono [OF no_metrics_scale_down [OF _ idle_objects(1-8) idle_resolves idle_scale(1) _ idle_objects(9) _ _ _ idle_objects(11)]])
    (auto simp: idle_controller_def idle_objects idle_scale idle_limit sample_world_def writes_def percent_value)

text \<open>A request reads its object once; what later reads return does not matter to it.\<close>

lemma get_only [simp]:
  "update_object (r\<lparr>Client_Get := g\<rparr>) = update_object r" "update_scale (r\<lparr>Client_Get := g\<rparr>) = update_scale r"
  "updateStatusIfNeeded (r\<lparr>Client_Get := g\<rparr>) = updateStatusIfNeeded r"
  by (intro ext, simp add: update_object_def update_scale_def updateStatusIfNeeded_def updateWPAStatus_def cong: if_cong option.case_cong sum.case_cong)+

lemma get_only_tail [simp]:
  "compute_failed (r\<lparr>Client_Get := g\<rparr>) = compute_failed r" "finish (r\<lparr>Client_Get := g\<rparr>) = finish r"
  "scale_failed (r\<lparr>Client_Get := g\<rparr>) = scale_failed r" "report_status (r\<lparr>Client_Get := g\<rparr>) = report_status r"
  by (intro ext, simp add: compute_failed_def finish_def scale_failed_def report_status_def cong: if_cong option.case_cong sum.case_cong)+

lemma get_only_rescale [simp]:
  "rescale (r\<lparr>Client_Get := g\<rparr>) = rescale r" "not_scaling (r\<lparr>Client_Get := g\<rparr>) = not_scaling r"
  by (intro ext, simp add: rescale_def not_scaling_def cong: if_cong option.case_cong sum.case_cong)+

lemma get_only_scale [simp]:
  "reconcile_scale (r\<lparr>Client_Get := g\<rparr>) = reconcile_scale r"
  "scale_loop (r\<lparr>Client_Get := g\<rparr>) ns name ms gr errs = scale_loop r ns name ms gr errs"
  by (intro ext, simp add: reconcile_scale_def Let_def cong: if_cong option.case_cong sum.case_cong) (induction ms arbitrary: gr errs; simp cong: sum.case_cong)

lemma get_only_request [simp]:
  "process (r\<lparr>Client_Get := g\<rparr>) = process r" "handleFinalizer (r\<lparr>Client_Get := g\<rparr>) = handleFinalizer r"
  "check_monitor (r\<lparr>Client_Get := g\<rparr>) = check_monitor r" "reconcile_live (r\<lparr>Client_Get := g\<rparr>) = reconcile_live r"
proof -
  show p: "process (r\<lparr>Client_Get := g\<rparr>) = process r"
    by (intro ext) (simp add: process_def reconcileWPA_def reconcileWPA_body_def getScaleForResourceMappings_def cong: if_cong option.case_cong sum.case_cong)
  show "handleFinalizer (r\<lparr>Client_Get := g\<rparr>) = handleFinalizer r"
    by (simp add: handleFinalizer_def addFinalizer_def cong: if_cong option.case_cong sum.case_cong)
  show c: "check_monitor (r\<lparr>Client_Get := g\<rparr>) = check_monitor r"
    by (intro ext) (simp add: check_monitor_def cong: if_cong option.case_cong sum.case_cong)
  show "reconcile_live (r\<lparr>Client_Get := g\<rparr>) = reconcile_live r"
    by (intro ext) (simp add: reconcile_live_def p c cong: if_cong option.case_cong sum.case_cong)
qed

lemma Reconcile_get_only:
  assumes "g ns name (reads s) = Client_Get r ns name (reads s)"
  shows "Reconcile (r\<lparr>Client_Get := g\<rparr>) ns name s = Reconcile r ns name s"
  using assms by (simp add: Reconcile_def go_bind_def go_read_def cong: if_cong option.case_cong sum.case_cong)

lemma idle_request:
  assumes "reads s = 0 \<or> (\<forall>k \<ge> ticks s. t + 300 * 1000000000 \<le> clock s k)"
  shows "wp (Reconcile (idle_controller t) ''prod'' ''web'') (\<lambda>_. scaled_to s ''deployments.apps'' sample_scale 8) (\<lambda>_ _. False) s"
proof -
  define u where "u = (if reads s = 0 then None else Some t)"
  have get: "Client_Get (idle_controller t) ''prod'' ''web'' (reads s) = Inr (idle_wpa u)" by (simp add: idle_controller_def u_def)
  have none: "no_metrics (idle_wpa u)" by (simp add: no_metrics_def idle_objects)
  have "settles (computeReplicas l rc sample_scale) (fill (idle_wpa u)) sample_scale 8" for l rc
    using no_metrics_settles [OF none, of sample_scale l rc] by (simp add: no_metrics_fill [OF none] min_or_zero_def idle_objects idle_scale idle_limit)
  note settle = this
  show ?thesis
    by (rule Reconcile_due [OF get idle_objects(1-6) idle_resolves idle_scale(1) _ _ settle])
      (use assms in \<open>auto simp: edge_def min_or_zero_def idle_objects idle_scale timely_def forbidden_window_def u_def\<close>)
qed

lemma idle_get_only: "reads s = 0 \<Longrightarrow> Reconcile (idle_controller t) ''prod'' ''web'' s = Reconcile (idle_controller u) ''prod'' ''web'' s"
  using Reconcile_get_only [of "Client_Get (idle_controller t)" _ _ s "idle_controller u"] by (simp add: idle_controller_def)

lemma idle_cooperative: "cooperative (idle_controller t)"
  by (auto simp: cooperative_def idle_controller_def sample_reconciler_def sample_lib_def split: if_splits)

lemma idle_stamp: "\<forall>w. Client_Get (idle_controller t) ns name n = Inr w \<longrightarrow> scale_stamp w = (if n = 0 then None else Some (stamp t))"
  by (simp add: idle_controller_def scale_stamp_def idle_objects)

lemma two_requests:
  "\<exists>t a b c. (loop_step (idle_controller t) ''prod'' ''web'')\<^sup>*\<^sup>*
     \<lparr>recorded = None, worker = sample_world (idle_wpa None), scaled = []\<rparr> c \<and> scaled c = [a, b]"
proof -
  let ?s = "sample_world (idle_wpa None)" and ?w = "''deployments.apps''"
  obtain out s1 where run: "Reconcile (idle_controller 0) ''prod'' ''web'' ?s = (out, s1)" by fastforce
  have s0: "reads ?s = 0" "writes ?s = []" "updates ?s = []" "ticks ?s = 1000" "clock ?s k = 1000000000 * int k" for k
    by (simp_all add: sample_world_def writes_def updates_def)
  have first: "writes s1 \<noteq> []"
    using idle_request [of ?s 0] run s0 by (cases out) (auto simp: wp_def scaled_to_def)
  obtain api tenv env defaults lister cluster where calc: "replicaCalc (idle_controller 0) =
      calculator_itf (lib (idle_controller 0)) (NewReplicaCalculator api (GetReplicaRecommendation tenv env defaults) lister cluster)"
    by (simp add: idle_controller_def sample_reconciler_def)
  have "noted ?s None s1"
    using deployed.Reconcile_noted [OF calc idle_cooperative, of "''prod''" "''web''" ?s None] run s0(1)
    by (cases out) (auto simp: wp_def idle_controller_def idle_wpa_def sample_status_def scale_stamp_def)
  then obtain k where k: "k < ticks s1" "clock s1 = clock ?s" "updates s1 \<noteq> []" "scale_stamp (last (updates s1)) = Some (stamp (clock ?s k))"
    using first s0 by (auto simp: noted_def settled_def fresh_def split: if_splits)
  let ?t = "clock ?s k" and ?s2 = "s1\<lparr>ticks := ticks s1 + 300, reads := Suc (reads s1)\<rparr>"
  obtain out2 s3 where run2: "Reconcile (idle_controller ?t) ''prod'' ''web'' ?s2 = (out2, s3)" by fastforce
  have second: "writes s3 \<noteq> writes ?s2"
    using idle_request [of ?s2 ?t] run2 k(1,2) s0 by (cases out2) (auto simp: wp_def scaled_to_def)
  let ?l = "saved None (drop (length (updates ?s)) (updates s1))"
  have l: "?l = Some (stamp ?t)" using k(3,4) s0(3) by (simp add: saved_def)
  let ?L = "loop_step (idle_controller ?t) ''prod'' ''web''"
  have "?L \<lparr>recorded = None, worker = ?s, scaled = []\<rparr> \<lparr>recorded = ?l, worker = s1, scaled = [(?s, s1)]\<rparr>"
    using loop_step.request [OF idle_stamp run [unfolded idle_get_only [OF s0(1), of 0 ?t]], of "[]"] first
    by (simp only: s0 simp_thms if_False if_True append_Nil)
  moreover have "?L \<lparr>recorded = ?l, worker = s1, scaled = [(?s, s1)]\<rparr> \<lparr>recorded = ?l, worker = ?s2, scaled = [(?s, s1)]\<rparr>"
    by (rule loop_step.elsewhere) simp_all
  moreover have "?L \<lparr>recorded = ?l, worker = ?s2, scaled = [(?s, s1)]\<rparr>
      \<lparr>recorded = saved ?l (drop (length (updates ?s2)) (updates s3)), worker = s3, scaled = [(?s, s1), (?s2, s3)]\<rparr>"
    using loop_step.request [OF idle_stamp run2, of "[(?s, s1)]"] second unfolding l by simp
  ultimately show ?thesis by (meson converse_rtranclp_into_rtranclp rtranclp.rtrancl_refl loop.select_convs)
qed

end
