(* ===== verification/Main_Program.thy ===== *)
theory Main_Program
  imports Setup
begin

text \<open>
  \<open>main\<close> of the controller (\<open>main.go\<close>) and what it prints (\<open>pkg/version\<close>): logging, profiler and tracer, the configuration of the client and of the
  manager, and the start.  What happens is a list of steps, and how the process ends a value of \<open>ending\<close>: deferred calls run when \<open>main\<close> returns or
  panics, and are skipped by \<open>os.Exit\<close>.  The flags are a record of their parsed values; what the libraries answer is a record of parameters.
\<close>

section \<open>Version\<close>

record build_info =
  Version :: string
  BuildTime :: string
  Commit :: string
  Tag :: string
  runtime_Version :: string
  GOOS :: string
  GOARCH :: string

definition printVersionSlice :: "build_info \<Rightarrow> string list" where
  "printVersionSlice b =
     [''Version: '' @ Version b, ''Build time: '' @ BuildTime b, ''Git tag: '' @ Tag b, ''Git Commit: '' @ Commit b,
      ''Go Version: '' @ runtime_Version b, ''Go OS/Arch: '' @ GOOS b @ ''/'' @ GOARCH b]"

definition PrintVersionWriter :: "build_info \<Rightarrow> string" where
  "PrintVersionWriter b = ''Version:'' @ [CHR 0x0A] @ concat (map (\<lambda>v. ''- '' @ v @ [CHR 0x0A]) (printVersionSlice b))"

definition PrintVersionLogs :: "build_info \<Rightarrow> string list" where
  "PrintVersionLogs b = printVersionSlice b"

section \<open>Configuration of the clients\<close>

text \<open>\<open>float32(x)\<close>: rounding to 24 binary digits; the value is again a binary64\<close>

definition rnd_rat32 :: "rat \<Rightarrow> rat" where
  "rnd_rat32 x = (if x = 0 then 0 else
     let u = 2 powi (max (- 149) (ilog2 \<bar>x\<bar> - 23)) in of_int (rne (x / u)) * u)"

fun float32 :: "f64 \<Rightarrow> f64" where
  "float32 (Fin x) = (let r = rnd_rat32 x in if 2 ^ 128 \<le> r then PosInf else if r \<le> - (2 ^ 128) then NegInf else Fin r)"
| "float32 x = x"

record rest_config =
  UserAgent :: string
  Timeout :: duration
  QPS :: f64
  Burst :: int

definition configure_client :: "duration \<Rightarrow> f64 \<Rightarrow> rest_config \<Rightarrow> rest_config" where
  "configure_client clientTimeoutDuration clientQPSLimit restConfig =
     (let c1 = restConfig\<lparr>UserAgent := ''wpa-controller''\<rparr>;
          c2 = (if clientTimeoutDuration \<noteq> 0 then c1\<lparr>Timeout := clientTimeoutDuration\<rparr> else c1)
      in if f64_less (Fin 0) clientQPSLimit
         then c2\<lparr>QPS := float32 clientQPSLimit, Burst := int64_of_f64 (f64_mul clientQPSLimit (Fin (3 / 2)))\<rparr>
         else c2)"

section \<open>The process\<close>

record main_flags =
  metricsAddr :: string
  enableLeaderElection :: bool
  printVersionArg :: bool
  healthPort :: int
  logEncoder :: string
  logTimestampFormat :: string
  syncPeriodSeconds :: int
  clientTimeoutDuration :: duration
  clientQPSLimit :: f64
  ddProfilingEnabled :: bool
  ddTracingEnabled :: bool
  skipNotScalingEvents :: bool
  tlsFlags :: tls_flags

definition default_flags :: main_flags where
  "default_flags = \<lparr>metricsAddr = '':8080'', enableLeaderElection = True, printVersionArg = False, healthPort = 9440, logEncoder = ''json'',
     logTimestampFormat = ''millis'', syncPeriodSeconds = 60 * 60, clientTimeoutDuration = 0, clientQPSLimit = Fin (of_int 20),
     ddProfilingEnabled = False, ddTracingEnabled = False, skipNotScalingEvents = False,
     tlsFlags = \<lparr>tlsCAFile = [], tlsCertFile = [], tlsKeyFile = [], tlsInsecureSkipVerify = False, tlsServerName = []\<rparr>\<rparr>"

record manager_options =
  MetricsBindAddress :: string
  LeaderElection :: bool
  LeaderElectionID :: string
  HealthProbeBindAddress :: string
  SyncPeriod :: duration
  DefaultNamespaces :: "string set option"

record main_env =
  EncodeTime_UnmarshalText :: "string \<Rightarrow> go_error option"
  profiler_Start :: "go_error option"
  tracer_Start :: "go_error option"
  build :: build_info
  GetConfig :: "rest_config option"
  WATCH_NAMESPACE :: "string option"
  NewManager :: "rest_config \<Rightarrow> manager_options \<Rightarrow> go_error option"
  mgr_reconciler :: reconciler
  mgr_setup :: setup_env
  AddHealthzCheck :: "go_error option"
  mgr_Start :: "go_error option"

datatype main_step = ProfilerStart | ProfilerStop | TracerStart | TracerStop | PrintVersion string | LogVersion "string list"
  | ManagerStart rest_config manager_options reconciler

datatype ending = ExitCode int | Returned | Panicked go_panic

definition customSetupLogging :: "main_env \<Rightarrow> string \<Rightarrow> string \<Rightarrow> go_error option" where
  "customSetupLogging env encoder timestampFormat = (case EncodeTime_UnmarshalText env timestampFormat of
     Some e \<Rightarrow> Some (wrap_error ''unable to configure the steps timestamp format, err: '' e)
   | None \<Rightarrow> if encoder = ''console'' \<or> encoder = ''json'' then None
       else Some (errorf (''unknow steps encoder: '' @ encoder)))"

definition host :: string where "host = ''0.0.0.0''"

definition metricsPort :: int where "metricsPort = 8383"

definition manager_options_of :: "main_env \<Rightarrow> main_flags \<Rightarrow> manager_options" where
  "manager_options_of env f = \<lparr>MetricsBindAddress = host @ '':'' @ show_int metricsPort, LeaderElection = enableLeaderElection f,
     LeaderElectionID = ''watermarkpodautoscaler-lock'', HealthProbeBindAddress = host @ '':'' @ show_int (healthPort f),
     SyncPeriod = seconds (syncPeriodSeconds f), DefaultNamespaces = ManagerOptionsWithNamespaces (WATCH_NAMESPACE env) None\<rparr>"

text \<open>A profiler or tracer that cannot be started is only logged.  From the configuration of the client on; \<open>deferred\<close> are the calls that \<open>main\<close> has deferred.\<close>

definition run_manager :: "main_env \<Rightarrow> main_flags \<Rightarrow> main_step list \<Rightarrow> main_step list \<Rightarrow> main_step list \<times> ending" where
  "run_manager env f deferred steps = (case GetConfig env of
     None \<Rightarrow> (steps, ExitCode 1)
   | Some c \<Rightarrow>
      (let restConfig = configure_client (clientTimeoutDuration f) (clientQPSLimit f) c; opts = manager_options_of env f in
       if NewManager env restConfig opts \<noteq> None then (steps, ExitCode 1)
       else (case start (mgr_setup env) (tlsFlags f) ((mgr_reconciler env)\<lparr>SkipNotScalingEvents := skipNotScalingEvents f\<rparr>) of
           Panic p \<Rightarrow> (steps @ deferred, Panicked p)
         | Ret (Inl e) \<Rightarrow> (steps, ExitCode 1)
         | Ret (Inr r) \<Rightarrow>
             if AddHealthzCheck env \<noteq> None then (steps, ExitCode 1)
             else (steps @ [ManagerStart restConfig opts r], ExitCode (if mgr_Start env \<noteq> None then 1 else 0)))))"

definition main :: "main_env \<Rightarrow> main_flags \<Rightarrow> main_step list \<times> ending" where
  "main env f =
     (if customSetupLogging env (logEncoder f) (logTimestampFormat f) \<noteq> None then ([], ExitCode 1)
      else
        (let started = (if ddProfilingEnabled f \<and> profiler_Start env = None then [ProfilerStart] else []) @
               (if ddTracingEnabled f \<and> tracer_Start env = None then [TracerStart] else []);
             deferred = (if ddTracingEnabled f then [TracerStop] else []) @ (if ddProfilingEnabled f then [ProfilerStop] else [])
         in if printVersionArg f then (started @ PrintVersion (PrintVersionWriter (build env)) # deferred, Returned)
            else run_manager env f deferred (started @ [LogVersion (PrintVersionLogs (build env))])))"

section \<open>Facts\<close>

lemma rnd_rat32_int:
  assumes "0 < n" "n < 2 ^ 24"
  shows "rnd_rat32 (of_int n) = of_int n"
proof -
  define e where "e = max (- 149) (ilog2 (of_int n) - 23)"
  have n: "0 < (of_int n :: rat)" "(of_int n :: rat) < 2 powi 24"
    using assms by simp_all
  have "(2::rat) powi ilog2 (of_int n) < 2 powi 24"
    using ilog2_bounds(1) [OF n(1)] n(2) by (rule le_less_trans)
  then have "ilog2 (of_int n) < 24" by (simp only: powi_less_iff)
  then have "e \<le> 0" by (simp add: e_def)
  then have u: "(2::rat) powi e = inverse (2 ^ nat (- e))" by (cases "e = 0") (simp_all add: power_int_def power_one_over inverse_eq_divide)
  have "of_int n / (2::rat) powi e = of_int (n * 2 ^ nat (- e))" by (simp add: u divide_inverse)
  then have "rne (of_int n / (2::rat) powi e) = n * 2 ^ nat (- e)" by (simp only: rne_of_int)
  then show ?thesis using assms(1) u by (simp add: rnd_rat32_def Let_def e_def [symmetric])
qed

lemma float32_int: "0 < n \<Longrightarrow> n < 2 ^ 24 \<Longrightarrow> float32 (Fin (of_int n)) = Fin (of_int n)"
proof -
  assume n: "0 < n" "n < 2 ^ 24"
  then have "(of_int n :: rat) < 2 ^ 24" by (metis of_int_less_iff of_int_numeral of_int_power)
  then have "(of_int n :: rat) < 2 ^ 128" by (rule less_trans) simp
  moreover have "0 < (of_int n :: rat)" using n(1) by simp
  then have "- (2 ^ 128) < (of_int n :: rat)" by (rule less_trans [rotated]) simp
  ultimately show ?thesis using rnd_rat32_int [OF n] by (simp add: Let_def)
qed

text \<open>A whole rate is passed on as it is, with a burst of half as much again, rounded down.\<close>

lemma burst_whole:
  assumes "0 < n" "n < 2 ^ 24"
  shows "int64_of_f64 (f64_mul (Fin (of_int n)) (Fin (3 / 2))) = 3 * n div 2"
proof -
  have x: "of_int n * (3 / 2 :: rat) = of_int (3 * n) * 2 powi (- 1)" by (simp add: power_int_def)
  have "\<bar>of_int n * (3 / 2 :: rat)\<bar> < 2 powi (- 1 + 53)"
    using assms by simp
  then have "rnd_rat (of_int n * (3 / 2)) = of_int n * (3 / 2)" by (intro rnd_rat_grid [OF _ x]) auto
  then have "f64_mul (Fin (of_int n)) (Fin (3 / 2)) = Fin (of_int n * (3 / 2))"
    using rnd_Fin [of "of_int n * (3 / 2)"] assms by (simp add: f64_mul.simps)
  moreover have "trunc (of_int n * (3 / 2)) = 3 * n div 2"
    using assms floor_divide_of_int_eq [where ?'a = rat, of "3 * n" 2] by (simp add: trunc_def mult.commute)
  moreover have "0 \<le> 3 * n div 2" "3 * n div 2 \<le> 2 * n" using assms(1) by simp_all
  then have "fits64 (3 * n div 2)" using assms(2) by (simp add: fits64_def)
  ultimately show ?thesis by (simp add: int64_of_f64_def)
qed

lemma configure_client_whole:
  assumes "0 < n" "n < 2 ^ 24"
  shows "QPS (configure_client t (Fin (of_int n)) c) = Fin (of_int n)" "Burst (configure_client t (Fin (of_int n)) c) = 3 * n div 2"
  using assms burst_whole [OF assms] float32_int [OF assms] by (simp_all add: configure_client_def Let_def del: float32.simps)

text \<open>The address of the metrics does not depend on the flags.\<close>

lemma digit_chars: "char_of (56::nat) = CHR ''8''" "char_of (51::nat) = CHR ''3''"
  by code_simp+

lemma show_metricsPort: "show_int metricsPort = ''8383''"
  by (simp add: show_int_def metricsPort_def show_nat.simps digit_chars)

lemma metrics_address: "MetricsBindAddress (manager_options_of env f) = ''0.0.0.0:8383''"
  by (simp add: manager_options_of_def host_def show_metricsPort)

lemma run_manager_cases:
  assumes "run_manager env f deferred steps = (steps', e)"
  obtains (exit) n where "steps' = steps" "e = ExitCode n" | (panic) p where "steps' = steps @ deferred" "e = Panicked p"
    | (started) r n where "steps' = steps @ [ManagerStart (configure_client (clientTimeoutDuration f) (clientQPSLimit f) (the (GetConfig env)))
        (manager_options_of env f) r]" "e = ExitCode n"
      "start (mgr_setup env) (tlsFlags f) ((mgr_reconciler env)\<lparr>SkipNotScalingEvents := skipNotScalingEvents f\<rparr>) = Ret (Inr r)"
  using assms
  by (auto simp: run_manager_def Let_def split: option.splits if_splits outcome.splits sum.splits)

lemma start_keeps_flag: "start env flags r0 = Ret (Inr r) \<Longrightarrow> SkipNotScalingEvents r = SkipNotScalingEvents r0"
  by (auto simp: start_def split: sum.splits elim!: SetupWithManager_result)

end
