(* ===== verification/Plugin_Commands.thy ===== *)
theory Plugin_Commands
  imports Dryrun
begin

text \<open>
  The commands of the kubectl plugin (\<open>cmd/kubectl-wpa\<close>): the tree that \<open>NewCmdRoot\<close> and \<open>NewCmdDryRun\<close> build, with the flags of every command and the variable
  a flag sets, and the client they use (\<open>app/common/client.go\<close>).  A command is found, its flags are parsed and its \<open>RunE\<close> is called by
  cobra, which is a parameter, as are the flags of the Kubernetes configuration (\<open>configFlags\<close>).  The library panics when a flag or a shorthand is added twice to a
  command; \<open>flags_ok\<close> excludes it.
\<close>

section \<open>The client\<close>

record client_env =
  ClientConfig :: "go_error option"
  HTTPClientFor :: "go_error option"
  NewDynamicRESTMapper :: "go_error option"
  AddToScheme :: "go_error option"
  client_New :: "go_error option"

definition common_NewClient :: "client_env \<Rightarrow> go_error option" where
  "common_NewClient env = (case ClientConfig env of
     Some e \<Rightarrow> Some (wrap_error ''unable to get rest client config, err: '' e)
   | None \<Rightarrow> (case HTTPClientFor env of
     Some e \<Rightarrow> Some (wrap_error ''unable to create http client from rest config: '' e)
   | None \<Rightarrow> (case NewDynamicRESTMapper env of
     Some e \<Rightarrow> Some (wrap_error ''unable to instantiate mapper, err: '' e)
   | None \<Rightarrow> (case AddToScheme env of
     Some e \<Rightarrow> Some (wrap_error ''unable register WatermarkPodAutoscaler apis, err: '' e)
   | None \<Rightarrow> (case client_New env of
     Some e \<Rightarrow> Some (wrap_error ''unable to instantiate client, err: '' e)
   | None \<Rightarrow> None)))))"

section \<open>Commands and flags\<close>

text \<open>A flag sets a variable of the options to the text of its value, or rejects the text.\<close>

record plugin_flag =
  flag_Name :: string
  Shorthand :: string
  flag_Set :: "string \<Rightarrow> dryrunOptions \<Rightarrow> go_error + dryrunOptions"

datatype 'c command = Command (Use: string) (Options: dryrunOptions) (Flags: "plugin_flag list")
  (RunE: "(string list \<Rightarrow> dryrunOptions \<Rightarrow> 'c shell \<Rightarrow> (go_error option \<times> 'c shell) option) option") (Commands: "'c command list")

definition StringVarP :: "(string \<Rightarrow> dryrunOptions \<Rightarrow> dryrunOptions) \<Rightarrow> string \<Rightarrow> string \<Rightarrow> plugin_flag" where
  "StringVarP var name short = \<lparr>flag_Name = name, Shorthand = short, flag_Set = (\<lambda>v opts. Inr (var v opts))\<rparr>"

definition BoolVarP :: "(bool \<Rightarrow> dryrunOptions \<Rightarrow> dryrunOptions) \<Rightarrow> string \<Rightarrow> string \<Rightarrow> plugin_flag" where
  "BoolVarP var name short = \<lparr>flag_Name = name, Shorthand = short,
     flag_Set = (\<lambda>v opts. case ParseBool v of Inl e \<Rightarrow> Inl e | Inr b \<Rightarrow> Inr (var b opts))\<rparr>"

definition newDryrunOptions :: dryrunOptions where
  "newDryrunOptions = \<lparr>args = [], userNamespace = [], userWPAName = [], labelSelector = [], outputFormat = [], csvFile = [],
     enabledDryRun = False, allWPA = False, allNamespaces = False\<rparr>"

text \<open>The flags that select objects, which three of the commands declare\<close>

definition selection_flags :: "plugin_flag list" where
  "selection_flags = [StringVarP (\<lambda>v opts. opts\<lparr>labelSelector := v\<rparr>) ''label-selector'' ''l'',
     BoolVarP (\<lambda>b opts. opts\<lparr>allWPA := b\<rparr>) ''all'' [], BoolVarP (\<lambda>b opts. opts\<lparr>allNamespaces := b\<rparr>) ''all-namespaces'' []]"

definition newCmdDryRunList :: "'c kube \<Rightarrow> plugin_flag list \<Rightarrow> 'c command" where
  "newCmdDryRunList k configFlags = Command ''list [WatermarkPodAutoscaler name]'' newDryrunOptions
     (selection_flags @ [StringVarP (\<lambda>v opts. opts\<lparr>outputFormat := v\<rparr>) ''output'' ''o''] @ configFlags)
     (Some (\<lambda>as opts s. Some (cmd_list k as opts s))) []"

definition newCmdDryRunEnabled :: "'c kube \<Rightarrow> plugin_flag list \<Rightarrow> 'c command" where
  "newCmdDryRunEnabled k configFlags = Command ''enable [WatermarkPodAutoscaler name]'' (newDryrunOptions\<lparr>enabledDryRun := True\<rparr>)
     (selection_flags @ configFlags) (Some (\<lambda>as opts s. Some (cmd_enable k as opts s))) []"

definition newCmdDryRunDisabled :: "'c kube \<Rightarrow> plugin_flag list \<Rightarrow> 'c command" where
  "newCmdDryRunDisabled k configFlags = Command ''disable [WatermarkPodAutoscaler name]'' (newDryrunOptions\<lparr>enabledDryRun := False\<rparr>)
     (selection_flags @ configFlags) (Some (\<lambda>as opts s. Some (cmd_disable k as opts s))) []"

definition newCmdRevert :: "'c kube \<Rightarrow> nat \<Rightarrow> plugin_flag list \<Rightarrow> 'c command" where
  "newCmdRevert k fuel configFlags = Command ''revert -f [saved_state_csv_file]'' (newDryrunOptions\<lparr>enabledDryRun := False\<rparr>)
     ([StringVarP (\<lambda>v opts. opts\<lparr>csvFile := v\<rparr>) ''csv-file'' ''f''] @ configFlags) (Some (cmd_revert k fuel)) []"

definition NewCmdDryRun :: "'c kube \<Rightarrow> nat \<Rightarrow> plugin_flag list \<Rightarrow> 'c command" where
  "NewCmdDryRun k fuel configFlags = Command ''dry-run'' newDryrunOptions configFlags None
     [newCmdDryRunEnabled k configFlags, newCmdDryRunDisabled k configFlags, newCmdRevert k fuel configFlags, newCmdDryRunList k configFlags]"

definition NewCmdRoot :: "'c kube \<Rightarrow> nat \<Rightarrow> plugin_flag list \<Rightarrow> 'c command" where
  "NewCmdRoot k fuel configFlags = Command ''kubectl wpa [subcommand] [flags]'' newDryrunOptions configFlags None [NewCmdDryRun k fuel configFlags]"

text \<open>\<open>main\<close> of the plugin: the exit code; \<open>Execute\<close> is cobra's.\<close>

definition plugin_main :: "('c command \<Rightarrow> 'c shell \<Rightarrow> (go_error option \<times> 'c shell) option) \<Rightarrow> client_env \<Rightarrow> 'c kube \<Rightarrow> nat \<Rightarrow> plugin_flag list \<Rightarrow>
    'c shell \<Rightarrow> (int \<times> 'c shell) option" where
  "plugin_main Execute env k fuel configFlags s =
     map_option (\<lambda>(err, s'). (if err \<noteq> None then 1 else 0, s'))
       (Execute (NewCmdRoot (k\<lparr>NewClient := common_NewClient env\<rparr>) fuel configFlags) s)"

section \<open>Facts\<close>

fun all_commands :: "'c command \<Rightarrow> 'c command list" where
  "all_commands (Command u opts fs r cs) = Command u opts fs r cs # concat (map all_commands cs)"

text \<open>No flag and no shorthand is added twice to a command.\<close>

definition flags_ok :: "'c command \<Rightarrow> bool" where
  "flags_ok c \<longleftrightarrow> distinct (map flag_Name (Flags c)) \<and> distinct (filter (\<lambda>x. x \<noteq> []) (map Shorthand (Flags c)))"

lemmas command_defs = NewCmdRoot_def NewCmdDryRun_def newCmdDryRunList_def newCmdDryRunEnabled_def newCmdDryRunDisabled_def newCmdRevert_def
  selection_flags_def StringVarP_def BoolVarP_def

lemma flags_added_once:
  assumes "distinct (map flag_Name cf)" "distinct (filter (\<lambda>x. x \<noteq> []) (map Shorthand cf))"
    and "set (map flag_Name cf) \<inter> {''label-selector'', ''all'', ''all-namespaces'', ''output'', ''csv-file''} = {}"
    and "set (map Shorthand cf) \<inter> {''l'', ''o'', ''f''} = {}" "c \<in> set (all_commands (NewCmdRoot k fuel cf))"
  shows "flags_ok c"
  using assms by (auto simp: command_defs flags_ok_def)

text \<open>A client that cannot be built fails every command that passes its own checks, and the cluster is not touched.\<close>

lemma no_client:
  assumes "common_NewClient env = Some e"
  shows "with_options (k\<lparr>NewClient := common_NewClient env\<rparr>) as opts cmd s = (Some (wrap_error ''unable to instantiate client, err: '' e), s)"
    and "csvFile opts \<noteq> [] \<Longrightarrow> cmd_revert (k\<lparr>NewClient := common_NewClient env\<rparr>) fuel as opts s =
      Some (Some (wrap_error ''unable to instantiate client, err: '' e), s)"
  using assms by (simp_all add: with_options_def cmd_revert_def complete_def)

end
