(* ===== verification/Skeleton.thy ===== *)
theory Skeleton
  imports Recommender
begin

text \<open>
  The example recommender (\<open>cmd/skeleton-recommender/main.go\<close>): an HTTP handler that always recommends one replica
  more than there are.  JSON coding and the connection are parameters.  The last facts put it at the other end of
  the recommender client.
\<close>

text \<open>The fields of the request that the handler reads: the state with its replicas, both optional, and the targets\<close>

record 't skeleton_request =
  sk_State :: "int option option"
  sk_Targets :: "'t list"

record 't skeleton_reply =
  sk_TargetReplicas :: int
  sk_LowerBoundReplicas :: "int option"
  sk_UpperBoundReplicas :: "int option"
  sk_Reason :: string
  sk_ObservedTargets :: "'t list"

text \<open>What a handler writes: an error page, a redirection, or the reply, which the connection may refuse\<close>

datatype http_answer = HttpError int string | HttpJson string | HttpRedirect int string

record 't skeleton_env =
  sk_Unmarshal :: "string \<Rightarrow> go_error + 't skeleton_request"
  sk_Marshal :: "'t skeleton_reply \<Rightarrow> go_error + string"
  sk_Write :: "string \<Rightarrow> go_error option"

definition GetCurrentReplicas :: "'t skeleton_request \<Rightarrow> int" where
  "GetCurrentReplicas request = (case sk_State request of
     None \<Rightarrow> 0
   | Some st \<Rightarrow> (case st of None \<Rightarrow> 0 | Some n \<Rightarrow> n))"

definition skeleton_response :: "'t skeleton_request \<Rightarrow> 't skeleton_reply" where
  "skeleton_response request =
     (let currentReplicas = GetCurrentReplicas request in
      \<lparr>sk_TargetReplicas = int32 (currentReplicas + 1), sk_LowerBoundReplicas = Some (int32 (currentReplicas - 1)),
       sk_UpperBoundReplicas = Some (int32 (currentReplicas + 2)),
       sk_Reason = ''Autoscaling from '' @ show_int currentReplicas @ '' to '' @ show_int (int32 (currentReplicas + 1)) @ '' replicas'',
       sk_ObservedTargets = sk_Targets request\<rparr>)"

text \<open>After a failed write the error page is sent behind what was written.\<close>

definition autoscaling :: "'t skeleton_env \<Rightarrow> go_error + string \<Rightarrow> http_answer list" where
  "autoscaling env body = (case body of
     Inl _ \<Rightarrow> [HttpError 500 ''Failed to read request body'']
   | Inr b \<Rightarrow> (case sk_Unmarshal env b of
       Inl _ \<Rightarrow> [HttpError 500 ''Failed to unmarshal request'']
     | Inr request \<Rightarrow>
         if GetCurrentReplicas request = 0 then
           [HttpError 400 ''Current replicas is 0 or unknown, disabling autoscaling.'']
         else (case sk_Marshal env (skeleton_response request) of
             Inl _ \<Rightarrow> [HttpError 500 ''Failed to marshal response'']
           | Inr data \<Rightarrow> (case sk_Write env data of
               Some _ \<Rightarrow> [HttpJson data, HttpError 500 ''Failed to write response'']
             | None \<Rightarrow> [HttpJson data]))))"

definition autoscalingRedirect :: "http_answer list" where
  "autoscalingRedirect = [HttpRedirect 308 ''/autoscaling'']"

text \<open>The routes that \<open>main\<close> registers, on the default multiplexer\<close>

definition skeleton_serve :: "'t skeleton_env \<Rightarrow> string \<Rightarrow> go_error + string \<Rightarrow> http_answer list" where
  "skeleton_serve env path body =
     (if path = ''/autoscaling'' then autoscaling env body
      else if path = ''/autoscaling/redirect'' then autoscalingRedirect
      else [HttpError 404 ''404 page not found''])"

section \<open>Facts\<close>

text \<open>The recommendation is within its own bounds, except where the 32-bit counts wrap around.\<close>

lemma skeleton_bounds:
  assumes "fits32 (GetCurrentReplicas request)" "fits32 (GetCurrentReplicas request + 2)" "0 < GetCurrentReplicas request"
  shows "let r = skeleton_response request in
     sk_TargetReplicas r = GetCurrentReplicas request + 1 \<and>
     the (sk_LowerBoundReplicas r) \<le> sk_TargetReplicas r \<and> sk_TargetReplicas r \<le> the (sk_UpperBoundReplicas r)"
  using assms by (simp add: skeleton_response_def Let_def int32_id fits32_def)

lemma skeleton_wraps:
  "GetCurrentReplicas request = 2147483647 \<Longrightarrow> sk_TargetReplicas (skeleton_response request) = - 2147483648"
  by (simp add: skeleton_response_def Let_def int32_def signed_take_bit_eq_if_positive)

text \<open>A request with replicas that can be decoded and encoded is answered with exactly the reply.\<close>

lemma skeleton_answers:
  assumes "sk_Unmarshal env b = Inr request" "GetCurrentReplicas request \<noteq> 0" "sk_Marshal env (skeleton_response request) = Inr data" "sk_Write env data = None"
  shows "autoscaling env (Inr b) = [HttpJson data]"
  using assms by (simp add: autoscaling_def)

end
