(* ===== verification/Due_Change.thy ===== *)
theory Due_Change
  imports Progress Calculator_Theorems
begin

text \<open>
  An object with metrics: if the calculator has a proposal for each of them, the request computes the largest one, limits it by the rules, and
  writes it to the scale of the target when windows and delays allow.
\<close>

definition calculation :: "ReplicaCalculatorItf \<Rightarrow> scale \<Rightarrow> MetricSpec \<Rightarrow> (go_error + ReplicaCalculation) prog" where
  "calculation rc sc m = (if ms_Type m = ExternalMetricSourceType then itf_External rc sc m else itf_Resource rc sc m)"

text \<open>For the metric \<open>m\<close> of the object \<open>w\<close> the calculator proposes \<open>p m\<close>, having counted \<open>ready\<close> pods, and finds the metric outside of its watermarks
  if \<open>out m\<close>, in whatever state the request has reached.\<close>

definition proposes ::
  "ReplicaCalculatorItf \<Rightarrow> scale \<Rightarrow> WatermarkPodAutoscaler \<Rightarrow> (MetricSpec \<Rightarrow> int) \<Rightarrow> int \<Rightarrow> (MetricSpec \<Rightarrow> bool) \<Rightarrow> MetricSpec \<Rightarrow> bool" where
  "proposes rc sc w p ready out m \<longleftrightarrow> (\<forall>s. Spec (wpa s) = Spec w \<longrightarrow> wp (calculation rc sc m)
     (\<lambda>a _. \<exists>x. a = Inr x \<and> replicaCount x = p m \<and> readyReplicas x = ready \<and> (out m \<longleftrightarrow> isAbove (pos x) \<or> isBelow (pos x)))
     (\<lambda>_ _. False) s)"

definition proposal_of :: "(MetricSpec \<Rightarrow> int) \<Rightarrow> int \<Rightarrow> (MetricSpec \<Rightarrow> bool) \<Rightarrow> MetricSpec \<Rightarrow> ReplicaCalculation \<Rightarrow> bool" where
  "proposal_of p ready out m x \<longleftrightarrow> replicaCount x = p m \<and> readyReplicas x = ready \<and> (out m \<longleftrightarrow> isAbove (pos x) \<or> isBelow (pos x))"

lemma wp_answered:
  assumes "wp m (\<lambda>a _. \<exists>x. a = Inr x \<and> P x) (\<lambda>_ _. False) s" "\<And>x s'. P x \<Longrightarrow> Q (Inr x) s'"
  shows "wp m Q (\<lambda>_ _. False) s"
  by (rule wp_mono [OF assms(1)]) (auto intro: assms(2))

lemma wp_metric:
  assumes "filled m" "proposes rc sc w p ready out m" "Spec (wpa s) = Spec w"
  shows "wp (if ms_Type m = ExternalMetricSourceType then external_metric l rc sc m i acc
       else if ms_Type m = ResourceMetricSourceType then resource_metric l rc sc m i acc else go_return (Inl e))
     (\<lambda>a _. \<exists>x name st. a = Inr (take_proposal x name i st acc) \<and> proposal_of p ready out m x) (\<lambda>_ _. False) s"
proof -
  have ans: "wp (calculation rc sc m) (\<lambda>a _. \<exists>x. a = Inr x \<and> proposal_of p ready out m x) (\<lambda>_ _. False) s"
    using assms(2,3) by (auto simp: proposes_def proposal_of_def)
  have ext: "ms_Type m = ''External'' \<Longrightarrow> wp (itf_External rc sc m) (\<lambda>a _. \<exists>x. a = Inr x \<and> proposal_of p ready out m x) (\<lambda>_ _. False) s"
    and res: "ms_Type m = ''Resource'' \<Longrightarrow> wp (itf_Resource rc sc m) (\<lambda>a _. \<exists>x. a = Inr x \<and> proposal_of p ready out m x) (\<lambda>_ _. False) s"
    using ans by (simp_all add: calculation_def)
  show ?thesis
    using assms(1)
    by (auto simp: filled_def external_metric_def resource_metric_def publish_metric_def go_wp Let_def
        intro!: wp_answered [OF ext] wp_answered [OF res] split: option.splits) blast+
qed

context replica_calculator
begin

lemma wp_proposing_loop:
  assumes "list_all filled ms" "list_all (proposes rc sc w p ready out) ms" "Spec (wpa s) = Spec w"
  shows "wp (metrics_loop l rc sc i ms acc)
     (\<lambda>r _. \<exists>c cs. r = Inr c \<and> list_all2 (proposal_of p ready out) ms cs \<and> absorbs acc cs c) (\<lambda>_ _. False) s"
  using assms
proof (induction ms arbitrary: i acc s)
  case Nil
  then show ?case by (auto simp: go_wp intro!: exI [of _ "[]"] absorbs_refl)
next
  case (Cons m ms)
  have ne: "\<not> (ms_External m = None \<and> ms_Resource m = None)"
    using Cons.prems(1) by (auto simp: filled_def split: option.splits)
  let ?m = "if ms_Type m = ExternalMetricSourceType then external_metric l rc sc m i acc
       else if ms_Type m = ResourceMetricSourceType then resource_metric l rc sc m i acc
       else go_return (Inl (errorf (''metricSpec.Type:'' @ ms_Type m @ '' not supported'')))"
  have one: "wp ?m (\<lambda>a s'. (\<exists>x name st. a = Inr (take_proposal x name i st acc) \<and> proposal_of p ready out m x) \<and> frame s s') (\<lambda>_ _. False) s"
    by (rule wp_mono [OF wp_conj [THEN iffD2, OF conjI, OF wp_metric framed_wp]])
      (use Cons.prems in \<open>auto intro: framed_external framed_resource framed_intros\<close>)
  show ?case
    unfolding metrics_loop.simps if_not_P [OF ne]
  proof (rule wp_phase2 [OF one], goal_cases)
    case (1 a s')
    then obtain x name st where a: "a = Inr (take_proposal x name i st acc)" "proposal_of p ready out m x" and "frame s s'" by blast
    then have "Spec (wpa s') = Spec w" using Cons.prems(3) by (simp add: frame_Spec)
    have rest: "\<exists>cs'. list_all2 (proposal_of p ready out) (m # ms) cs' \<and> absorbs acc cs' c"
      if "list_all2 (proposal_of p ready out) ms cs" "absorbs (take_proposal x name i st acc) cs c" for c cs
      using that a(2) by (intro exI [of _ "x # cs"]) (auto intro: absorbs_take)
    show ?case
      unfolding a(1) sum.case by (rule wp_mono [OF Cons.IH [OF _ _ \<open>Spec (wpa s') = Spec w\<close>]]) (use Cons.prems(1,2) rest in auto)
  qed
qed

lemma metrics_settle:
  assumes ms: "Metrics (Spec w) = ms" "ms \<noteq> []" "list_all filled ms" "Recommender (Spec w) = None"
    and p: "list_all (\<lambda>m. 0 < p m \<and> proposes rc sc w p ready out m) ms"
    and n: "n = normalized (down_limit (the (ScaleDownLimitFactor (Spec w))) (scale_SpecReplicas sc))
       (up_limit (the (ScaleUpLimitFactor (Spec w))) (scale_SpecReplicas sc)) (min_or_zero (Spec w)) (MaxReplicas (Spec w))
       (scale_SpecReplicas sc) (Max (p ` set ms)) ready"
    and pr: "prompt w (scale_SpecReplicas sc) n (\<not> list_ex out ms)"
  shows "settles (computeReplicas l rc sc) w sc n"
proof -
  define ok where "ok c \<longleftrightarrow> co_replicas c = Max (p ` set ms) \<and> co_readyReplicas c = ready \<and> (co_isAbove c \<or> co_isBelow c \<longleftrightarrow> list_ex out ms)" for c :: computation
  have pos: "0 < Max (p ` set ms)"
  proof -
    have "Max (p ` set ms) \<in> p ` set ms" using ms(2) by (intro Max_in) auto
    then show ?thesis using p by (auto simp: list_all_iff)
  qed
  have good: "ok c" if cs: "list_all2 (proposal_of p ready out) ms cs" and ab: "absorbs acc cs c"
      and acc: "co_replicas acc = 0" "\<not> co_isAbove acc" "\<not> co_isBelow acc" for acc cs c
  proof -
    have all: "\<forall>x \<in> set cs. \<exists>m \<in> set ms. proposal_of p ready out m x" "\<forall>m \<in> set ms. \<exists>x \<in> set cs. proposal_of p ready out m x"
      using cs by (auto simp: list_all2_conv_all_nth in_set_conv_nth) (metis nth_mem)+
    have map: "map replicaCount cs = map p ms"
      using cs by (induction rule: list_all2_induct) (simp_all add: proposal_of_def)
    have "co_replicas c = combine (map p ms) 0" using ab acc(1) by (simp add: absorbs_def map)
    then have rep: "co_replicas c = Max (p ` set ms)" using combine_Max [of "map p ms"] ms(2) p by (simp add: list_all_iff)
    then have "co_readyReplicas c = ready" using ab acc(1) pos all(1) by (auto simp: absorbs_def proposal_of_def)
    moreover have "co_isAbove c \<or> co_isBelow c \<longleftrightarrow> list_ex out ms"
      using ab acc(2,3) all unfolding absorbs_def list_ex_iff proposal_of_def by blast
    ultimately show ?thesis using rep unfolding ok_def by blast
  qed
  have comp: "wp (computeReplicas l rc sc) (\<lambda>a _. \<exists>c. a = Inr (c, \<not> co_isAbove c \<and> \<not> co_isBelow c) \<and> ok c) (\<lambda>_ _. False) s"
    if "Spec (wpa s) = Spec w" for s
  proof -
    have loop: "wp (metrics_loop l rc sc 0 ms acc) (\<lambda>r _. \<exists>c. r = Inr c \<and> ok c) (\<lambda>_ _. False) s'"
      if "Spec (wpa s') = Spec w" "co_replicas acc = 0" "\<not> co_isAbove acc" "\<not> co_isBelow acc" for s' acc
      by (rule wp_mono [OF wp_proposing_loop [OF ms(3) _ that(1)]]) (use p good that(2-4) in \<open>auto simp: list_all_iff\<close>)
    show ?thesis
      using that ms(1,4)
      by (simp add: computeReplicas_def computeReplicasForMetrics_def go_wp Let_def) (rule wp_mono [OF loop], auto simp: go_wp)
  qed
  have lim: "prompt w (scale_SpecReplicas sc) n (\<not> co_isAbove c \<and> \<not> co_isBelow c) \<and> n = limited (Spec w) (scale_SpecReplicas sc) c" if "ok c" for c
    using that pr pos by (simp add: ok_def limited_def n flip: de_Morgan_disj)
  show ?thesis
    unfolding settles_def
  proof (intro allI impI)
    fix s assume s: "store_ok s" "Spec (wpa s) = Spec w"
    have fr: "wp (computeReplicas l rc sc) (\<lambda>_ s'. tidy s s') (\<lambda>_ _. True) s"
      by (rule wp_mono [OF tidy_step [OF framed_computeReplicas store_computeReplicas]]) (use s in \<open>auto simp: tidy_def\<close>)
    show "wp (computeReplicas l rc sc) (\<lambda>a s'. (\<exists>c st. a = Inr (c, st) \<and> prompt w (scale_SpecReplicas sc) n st \<and>
        n = limited (Spec w) (scale_SpecReplicas sc) c) \<and> tidy s s') (\<lambda>_ _. False) s"
      by (rule wp_mono [OF wp_conj [THEN iffD2, OF conjI, OF comp [OF s(2)] fr]]) (use lim in blast, simp)
  qed
qed

end

section \<open>The sample object\<close>

text \<open>The queue of the sample object is 3000 long; its ten replicas are ready, and 200 each are allowed: 15 replicas are proposed.\<close>

lemma count_sample: "count_pod ''web'' d skip (sample_pod nm ''Running'') (t, i) = go_return (t + 1, i)"
  by (simp add: count_pod_def sample_pod_def getPodCondition_def mainOwnerRef_def replicaSetKind_def)

lemma count_samples:
  "go_fold (count_pod ''web'' d skip) (map (\<lambda>i. sample_pod (show_nat i) ''Running'') xs) (n, 0) = go_return (n + int (length xs), 0)"
  by (induction xs arbitrary: n) (simp_all add: count_sample go_defs add.assoc)

lemma wp_sample_counts:
  assumes "Spec (wpa s) = sample_spec"
  shows "wp (currentReadyReplicas sample_lib (NewReplicaCalculator (sample_api v) reco
      (\<lambda>_ _ _. Ret (Inr (map (\<lambda>i. sample_pod (show_nat i) ''Running'') [0..<10]))) ''test'') sample_scale)
     (\<lambda>a s'. a = Inr 10 \<and> wpa s' = wpa s) R s"
proof -
  have "map (\<lambda>i. sample_pod (show_nat i) ''Running'') [0..<10] \<noteq> []" by simp
  then show ?thesis
    using assms
    by (simp add: currentReadyReplicas_def NewReplicaCalculator_def getReadyPodsCount_def go_wp Let_def sample_lib_def sample_scale_def
      count_samples int32_def sample_spec_def del: upt_rec_numeral)
qed

lemma wp_sample_metric:
  assumes "Spec (wpa s) = sample_spec"
  shows "wp (GetExternalMetricReplicas sample_lib (NewReplicaCalculator (sample_api 3000000) reco
      (\<lambda>_ _ _. Ret (Inr (map (\<lambda>i. sample_pod (show_nat i) ''Running'') [0..<10]))) ''test'') sample_scale sample_metric)
     (\<lambda>a _. \<exists>x. a = Inr x \<and> replicaCount x = 15 \<and> readyReplicas x = 10 \<and> isAbove (pos x)) (\<lambda>_ _. False) s"
proof -
  have u: "f64_div (float64 3000000) (averaged sample_spec 10) = float64 300000"
    using float64_exact [of 3000000] float64_exact [of 10] float64_exact [of 300000] rnd_int [of 300000]
    by (simp add: averaged_def sample_spec_def f64_div.simps)
  have l: "LabelSelectorAsSelector sample_lib (Some l) = Inr (sel_String l)" for l by (simp add: sample_lib_def)
  have c: "wp (getReplicaCount sample_lib 10 10 ''queue'' (float64 300000) (Some (percent 100)) (Some (percent 200)))
     (\<lambda>(n, _, p) _. p = above_marks \<and> n = 15) (\<lambda>_ _. False) s'" if "wpa s' = wpa s" for s'
    using getReplicaCount_exact [of s' 1 10 300000 "percent 100" "percent 200" 220000 90000 sample_lib 10 "''queue''"] that assms
    by (simp add: sample_defs exact_range_def fits32_def ceil_div_def case_prod_unfold)
  show ?thesis
    unfolding GetExternalMetricReplicas_def
    by (rule wp_phase2 [OF wp_sample_counts [OF assms]], elim conjE)
      (simp add: assms u l go_wp NewReplicaCalculator_def Let_def sample_metric_def sample_selector_def GetExternalMetric_def sample_api_def
         int64_def milli_def sample_scale_def, rule wp_mono [OF c], simp_all add: go_wp above_marks_def case_prod_unfold)
qed

lemma sample_filled: "fill sample_wpa = sample_wpa"
  by (simp add: fill_def sample_defs fill_metric_def ExternalMetricSourceType_def)

lemma sample_proposes:
  "proposes (replicaCalc (sample_reconciler w sample_scale)) sample_scale sample_wpa (\<lambda>_. 15) 10 (\<lambda>_. True) sample_metric"
proof -
  have "calculation (replicaCalc (sample_reconciler w sample_scale)) sample_scale sample_metric = GetExternalMetricReplicas sample_lib
      (NewReplicaCalculator (sample_api 3000000) (GetReplicaRecommendation sample_tls sample_reco None)
        (\<lambda>_ _ _. Ret (Inr (map (\<lambda>i. sample_pod (show_nat i) ''Running'') [0..<10]))) ''test'') sample_scale sample_metric"
    by (simp add: calculation_def sample_reconciler_def calculator_itf_def sample_metric_def ExternalMetricSourceType_def del: upt_rec_numeral)
  moreover have "Spec sample_wpa = sample_spec" by (simp add: sample_wpa_def)
  ultimately show ?thesis
    unfolding proposes_def by (auto intro!: wp_mono [OF wp_sample_metric])
qed

lemma sample_objects:
  "alive sample_wpa" "IsDefaultWatermarkPodAutoscaler sample_wpa" "CheckWPAValidity sample_wpa = None" "schema_ok sample_wpa"
  "map_of (Annotations sample_wpa) lifecycleControlEnabledAnnotationKey = None" "\<not> DryRun (Spec sample_wpa)"
  by (simp_all add: sample_defs alive_def watermarkpodautoscalerFinalizer_def IsDefault_iff CheckWPAValidity_None_iff valid_spec_def metric_ok_def
      watermarks_ok_def ExternalMetricSourceType_def schema_ok_def spec_typed_def fits32_def min_or_zero_def conditions_ok_def)

lemma sample_resolves: "resolves (sample_reconciler w sample_scale) sample_wpa ''deployments.apps'' sample_scale"
  by (simp add: resolves_def sample_reconciler_def sample_lib_def)

lemma sample_limits: "up_limit (percent 50) 10 = 15" "down_limit (percent 20) 10 = 8"
  using up_limit_step [OF _ limit_step_percent [of "percent 50" 50 10]] down_limit_step [OF _ limit_step_percent [of "percent 20" 20 10]]
  by (simp_all add: percent_def fits32_def)

end
