(* ===== verification/Json_Schema.thy ===== *)
theory Json_Schema
  imports Api_Types
begin

text \<open>
  JSON values, the schemas of OpenAPI as the generated code builds them (\<open>spec.Schema\<close> with the properties that are used), and what it means that a value conforms to a
  schema.  A schema is a reference to another definition, a scalar type with a format, an array, a map, or an object with
  described properties.  The conformance is strict: an object has no field that its schema does not describe, because
  the API server prunes such fields.
\<close>

section \<open>JSON\<close>

datatype json = JNull | JBool bool | JInt int | JString string | JArray "json list" | JObject "(string \<times> json) list"

section \<open>Schemas\<close>

datatype schema = Schema
  (Ref: "string option") (Type: string) (Format: string) (Default: "json option") (Items: "schema option")
  (AdditionalProperties: "schema option") (Properties: "(string \<times> schema) list") (Required: "string list") (Extensions: "(string \<times> string) list")

record OpenAPIDefinition =
  def_Schema :: schema
  Dependencies :: "string list"

definition reference :: "json option \<Rightarrow> string \<Rightarrow> schema" where
  "reference d r = Schema (Some r) [] [] d None None [] [] []"

definition scalar :: "json option \<Rightarrow> string \<Rightarrow> string \<Rightarrow> schema" where
  "scalar d t f = Schema None t f d None None [] [] []"

definition array_of :: "(string \<times> string) list \<Rightarrow> schema \<Rightarrow> schema" where
  "array_of ext s = Schema None ''array'' [] None (Some s) None [] [] ext"

definition map_to :: "schema \<Rightarrow> schema" where
  "map_to s = Schema None ''object'' [] None None (Some s) [] [] []"

definition object_of :: "(string \<times> schema) list \<Rightarrow> string list \<Rightarrow> schema" where
  "object_of ps rs = Schema None ''object'' [] None None None ps rs []"

lemmas schema_defs = reference_def scalar_def array_of_def map_to_def object_of_def

section \<open>Conformance\<close>

named_theorems conforms_simps \<open>conformance, by the form of the schema and the type of the value\<close>

text \<open>The schema of the field \<open>k\<close> of an object\<close>

definition described :: "schema \<Rightarrow> string \<Rightarrow> schema option" where
  "described s k = (case map_of (Properties s) k of Some p \<Rightarrow> Some p | None \<Rightarrow> AdditionalProperties s)"

text \<open>\<open>defs\<close> are the definitions that references can name; of other references, \<open>foreign\<close> says what conforms to them.\<close>

inductive conforms :: "(string \<Rightarrow> schema option) \<Rightarrow> (string \<Rightarrow> json \<Rightarrow> bool) \<Rightarrow> schema \<Rightarrow> json \<Rightarrow> bool" for defs foreign where
  own: "Ref s = Some r \<Longrightarrow> defs r = Some s' \<Longrightarrow> conforms defs foreign s' j \<Longrightarrow> conforms defs foreign s j"
| other: "Ref s = Some r \<Longrightarrow> defs r = None \<Longrightarrow> foreign r j \<Longrightarrow> conforms defs foreign s j"
| string: "Ref s = None \<Longrightarrow> Type s = ''string'' \<Longrightarrow> conforms defs foreign s (JString x)"
| boolean: "Ref s = None \<Longrightarrow> Type s = ''boolean'' \<Longrightarrow> conforms defs foreign s (JBool b)"
| int32: "Ref s = None \<Longrightarrow> Type s = ''integer'' \<Longrightarrow> Format s = ''int32'' \<Longrightarrow> fits32 n \<Longrightarrow> conforms defs foreign s (JInt n)"
| int64: "Ref s = None \<Longrightarrow> Type s = ''integer'' \<Longrightarrow> Format s = ''int64'' \<Longrightarrow> fits64 n \<Longrightarrow> conforms defs foreign s (JInt n)"
| array: "Ref s = None \<Longrightarrow> Type s = ''array'' \<Longrightarrow> Items s = Some i \<Longrightarrow> \<forall>x \<in> set xs. conforms defs foreign i x \<Longrightarrow>
    conforms defs foreign s (JArray xs)"
| object: "Ref s = None \<Longrightarrow> Type s = ''object'' \<Longrightarrow> set (Required s) \<subseteq> set (map fst fs) \<Longrightarrow> distinct (map fst fs) \<Longrightarrow>
    \<forall>k v. (k, v) \<in> set fs \<longrightarrow> (\<exists>p. described s k = Some p \<and> conforms defs foreign p v) \<Longrightarrow> conforms defs foreign s (JObject fs)"

lemma conforms_scalar [conforms_simps]:
  "conforms defs foreign (scalar d ''string'' f) (JString x)" "conforms defs foreign (scalar d ''boolean'' f) (JBool b)"
  "fits32 n \<Longrightarrow> conforms defs foreign (scalar d ''integer'' ''int32'') (JInt n)"
  "fits64 n \<Longrightarrow> conforms defs foreign (scalar d ''integer'' ''int64'') (JInt n)"
  unfolding scalar_def by (auto intro: conforms.intros)

lemma conforms_reference:
  "defs r = Some s \<Longrightarrow> conforms defs foreign s j \<Longrightarrow> conforms defs foreign (reference d r) j"
  "defs r = None \<Longrightarrow> foreign r j \<Longrightarrow> conforms defs foreign (reference d r) j"
  unfolding reference_def by (auto intro: conforms.own conforms.other)

lemma conforms_array [conforms_simps]: "\<forall>x \<in> set xs. conforms defs foreign s x \<Longrightarrow> conforms defs foreign (array_of ext s) (JArray xs)"
  unfolding array_of_def by (rule conforms.array) auto

lemma conforms_map [conforms_simps]:
  "distinct (map fst fs) \<Longrightarrow> \<forall>(k, v) \<in> set fs. conforms defs foreign s v \<Longrightarrow> conforms defs foreign (map_to s) (JObject fs)"
  unfolding map_to_def by (rule conforms.object) (auto simp: described_def)

section \<open>Objects with optional fields\<close>

text \<open>The fields that are written\<close>

fun present :: "(string \<times> json option) list \<Rightarrow> (string \<times> json) list" where
  "present [] = []"
| "present ((k, None) # fs) = present fs"
| "present ((k, Some v) # fs) = (k, v) # present fs"

lemma set_present: "(k, v) \<in> set (present fs) \<longleftrightarrow> (k, Some v) \<in> set fs"
  by (induction fs rule: present.induct) auto

lemma keys_present: "k \<in> fst ` set (present fs) \<Longrightarrow> k \<in> fst ` set fs"
  by (force simp: set_present)

lemma distinct_present: "distinct (map fst fs) \<Longrightarrow> distinct (map fst (present fs))"
  by (induction fs rule: present.induct) (simp, simp, use keys_present in auto)

lemma map_of_present: "distinct (map fst fs) \<Longrightarrow> map_of (present fs) k = Option.bind (map_of fs k) id"
proof (induction fs rule: present.induct)
  case (2 k' fs)
  then have "map_of fs k' = None" by (simp add: map_of_eq_None_iff)
  with 2 show ?case by simp
qed auto

text \<open>A field of the object is right if it is absent and not required, or its value conforms.\<close>

definition field_ok ::
  "(string \<Rightarrow> schema option) \<Rightarrow> (string \<Rightarrow> json \<Rightarrow> bool) \<Rightarrow> (string \<times> schema) list \<Rightarrow> string list \<Rightarrow> string \<times> json option \<Rightarrow> bool" where
  "field_ok defs foreign ps rs = (\<lambda>(k, v). case v of None \<Rightarrow> k \<notin> set rs
     | Some j \<Rightarrow> (\<exists>p. map_of ps k = Some p \<and> conforms defs foreign p j))"

lemma conforms_object:
  assumes "distinct (map fst fs)" "set rs \<subseteq> set (map fst fs)" "list_all (field_ok defs foreign ps rs) fs"
  shows "conforms defs foreign (object_of ps rs) (JObject (present fs))"
proof -
  have "k \<in> fst ` set (present fs)" if k: "k \<in> set rs" for k
  proof -
    from k assms(2) obtain v where v: "(k, v) \<in> set fs" by auto
    with assms(3) k obtain j where "v = Some j" by (auto simp: list_all_iff field_ok_def split: option.splits)
    with v have "(k, j) \<in> set (present fs)" by (simp add: set_present)
    then show ?thesis by force
  qed
  then have req: "set rs \<subseteq> set (map fst (present fs))" by auto
  have "\<exists>p. map_of ps k = Some p \<and> conforms defs foreign p v" if "(k, v) \<in> set (present fs)" for k v
    using that assms(3) by (fastforce simp: set_present list_all_iff field_ok_def)
  then show ?thesis
    unfolding object_of_def using req distinct_present [OF assms(1)]
    by (intro conforms.object) (simp_all add: described_def, fastforce)
qed

end
