(* ===== verification/Openapi.thy ===== *)
theory Openapi
  imports Json_Schema
begin

text \<open>
  The OpenAPI definitions of the package (\<open>apis/datadoghq/v1alpha1/zz_generated.openapi.go\<close>): one schema for each type
  of the API, by the name of the type, with the names of the definitions it refers to.  The callback that turns a name into a
  reference is an argument.  The descriptions of the schemas are left out.
\<close>

definition v1alpha1 :: "string \<Rightarrow> string" where
  "v1alpha1 n = ''github.com/DataDog/watermarkpodautoscaler/apis/datadoghq/v1alpha1.'' @ n"

definition meta_v1 :: "string \<Rightarrow> string" where
  "meta_v1 n = ''k8s.io/apimachinery/pkg/apis/meta/v1.'' @ n"

definition api_resource :: "string \<Rightarrow> string" where
  "api_resource n = ''k8s.io/apimachinery/pkg/api/resource.'' @ n"

definition autoscaling_v2 :: "string \<Rightarrow> string" where
  "autoscaling_v2 n = ''k8s.io/api/autoscaling/v2.'' @ n"

definition schema_CrossVersionObjectReference :: "(string \<Rightarrow> string) \<Rightarrow> OpenAPIDefinition" where
  "schema_CrossVersionObjectReference ref = \<lparr>
     def_Schema = object_of [
       (''kind'', scalar (Some (JString [])) ''string'' []),
       (''name'', scalar (Some (JString [])) ''string'' []),
       (''apiVersion'', scalar None ''string'' [])]
       [''kind'', ''name''],
     Dependencies = []\<rparr>"

definition schema_ExternalMetricSource :: "(string \<Rightarrow> string) \<Rightarrow> OpenAPIDefinition" where
  "schema_ExternalMetricSource ref = \<lparr>
     def_Schema = object_of [
       (''metricName'', scalar (Some (JString [])) ''string'' []),
       (''metricSelector'', reference None (ref (meta_v1 ''LabelSelector''))),
       (''highWatermark'', reference None (ref (api_resource ''Quantity''))),
       (''lowWatermark'', reference None (ref (api_resource ''Quantity'')))]
       [''metricName''],
     Dependencies = [api_resource ''Quantity'', meta_v1 ''LabelSelector'']\<rparr>"

definition schema_ExternalMetricStatus :: "(string \<Rightarrow> string) \<Rightarrow> OpenAPIDefinition" where
  "schema_ExternalMetricStatus ref = \<lparr>
     def_Schema = object_of [
       (''metricName'', scalar (Some (JString [])) ''string'' []),
       (''metricSelector'', reference None (ref (meta_v1 ''LabelSelector''))),
       (''currentValue'', reference None (ref (api_resource ''Quantity''))),
       (''currentAverageValue'', reference None (ref (api_resource ''Quantity'')))]
       [''metricName'', ''currentValue''],
     Dependencies = [api_resource ''Quantity'', meta_v1 ''LabelSelector'']\<rparr>"

definition schema_MetricSpec :: "(string \<Rightarrow> string) \<Rightarrow> OpenAPIDefinition" where
  "schema_MetricSpec ref = \<lparr>
     def_Schema = object_of [
       (''type'', scalar (Some (JString [])) ''string'' []),
       (''external'', reference None (ref (v1alpha1 ''ExternalMetricSource''))),
       (''resource'', reference None (ref (v1alpha1 ''ResourceMetricSource'')))]
       [''type''],
     Dependencies = [v1alpha1 ''ExternalMetricSource'', v1alpha1 ''ResourceMetricSource'']\<rparr>"

definition schema_MetricStatus :: "(string \<Rightarrow> string) \<Rightarrow> OpenAPIDefinition" where
  "schema_MetricStatus ref = \<lparr>
     def_Schema = object_of [
       (''type'', scalar (Some (JString [])) ''string'' []),
       (''resource'', reference None (ref (v1alpha1 ''ResourceMetricStatus''))),
       (''external'', reference None (ref (v1alpha1 ''ExternalMetricStatus'')))]
       [''type''],
     Dependencies = [v1alpha1 ''ExternalMetricStatus'', v1alpha1 ''ResourceMetricStatus'']\<rparr>"

definition schema_RecommenderSpec :: "(string \<Rightarrow> string) \<Rightarrow> OpenAPIDefinition" where
  "schema_RecommenderSpec ref = \<lparr>
     def_Schema = object_of [
       (''url'', scalar (Some (JString [])) ''string'' []),
       (''tlsConfig'', reference None (ref (v1alpha1 ''TLSConfig''))),
       (''settings'', map_to (scalar (Some (JString [])) ''string'' [])),
       (''targetType'', scalar None ''string'' []),
       (''highWatermark'', reference None (ref (api_resource ''Quantity''))),
       (''lowWatermark'', reference None (ref (api_resource ''Quantity'')))]
       [''url''],
     Dependencies = [v1alpha1 ''TLSConfig'', api_resource ''Quantity'']\<rparr>"

definition schema_ResourceMetricSource :: "(string \<Rightarrow> string) \<Rightarrow> OpenAPIDefinition" where
  "schema_ResourceMetricSource ref = \<lparr>
     def_Schema = object_of [
       (''name'', scalar (Some (JString [])) ''string'' []),
       (''metricSelector'', reference None (ref (meta_v1 ''LabelSelector''))),
       (''highWatermark'', reference None (ref (api_resource ''Quantity''))),
       (''lowWatermark'', reference None (ref (api_resource ''Quantity'')))]
       [''name''],
     Dependencies = [api_resource ''Quantity'', meta_v1 ''LabelSelector'']\<rparr>"

definition schema_ResourceMetricStatus :: "(string \<Rightarrow> string) \<Rightarrow> OpenAPIDefinition" where
  "schema_ResourceMetricStatus ref = \<lparr>
     def_Schema = object_of [
       (''name'', scalar (Some (JString [])) ''string'' []),
       (''currentAverageUtilization'', scalar None ''integer'' ''int32''),
       (''currentAverageValue'', reference None (ref (api_resource ''Quantity'')))]
       [''name'', ''currentAverageValue''],
     Dependencies = [api_resource ''Quantity'']\<rparr>"

definition schema_TLSConfig :: "(string \<Rightarrow> string) \<Rightarrow> OpenAPIDefinition" where
  "schema_TLSConfig ref = \<lparr>
     def_Schema = object_of [
       (''caFile'', scalar None ''string'' []),
       (''certFile'', scalar None ''string'' []),
       (''keyFile'', scalar None ''string'' []),
       (''serverName'', scalar None ''string'' []),
       (''insecureSkipVerify'', scalar None ''boolean'' []),
       (''minVersion'', scalar None ''string'' []),
       (''maxVersion'', scalar None ''string'' [])]
       [],
     Dependencies = []\<rparr>"

definition schema_WatermarkPodAutoscaler :: "(string \<Rightarrow> string) \<Rightarrow> OpenAPIDefinition" where
  "schema_WatermarkPodAutoscaler ref = \<lparr>
     def_Schema = object_of [
       (''kind'', scalar None ''string'' []),
       (''apiVersion'', scalar None ''string'' []),
       (''metadata'', reference (Some (JObject [])) (ref (meta_v1 ''ObjectMeta''))),
       (''spec'', reference (Some (JObject [])) (ref (v1alpha1 ''WatermarkPodAutoscalerSpec''))),
       (''status'', reference (Some (JObject [])) (ref (v1alpha1 ''WatermarkPodAutoscalerStatus'')))]
       [],
     Dependencies = [v1alpha1 ''WatermarkPodAutoscalerSpec'', v1alpha1 ''WatermarkPodAutoscalerStatus'', meta_v1 ''ObjectMeta'']\<rparr>"

definition schema_WatermarkPodAutoscalerSpec :: "(string \<Rightarrow> string) \<Rightarrow> OpenAPIDefinition" where
  "schema_WatermarkPodAutoscalerSpec ref = \<lparr>
     def_Schema = object_of [
       (''downscaleForbiddenWindowSeconds'', scalar None ''integer'' ''int32''),
       (''upscaleForbiddenWindowSeconds'', scalar None ''integer'' ''int32''),
       (''scaleUpLimitFactor'', reference None (ref (api_resource ''Quantity''))),
       (''upscaleDelayAboveWatermarkSeconds'', scalar None ''integer'' ''int32''),
       (''scaleDownLimitFactor'', reference None (ref (api_resource ''Quantity''))),
       (''downscaleDelayBelowWatermarkSeconds'', scalar None ''integer'' ''int32''),
       (''replicaScalingAbsoluteModulo'', scalar None ''integer'' ''int32''),
       (''convergeTowardsWatermark'', scalar None ''string'' []),
       (''tolerance'', reference None (ref (api_resource ''Quantity''))),
       (''algorithm'', scalar None ''string'' []),
       (''dryRun'', scalar None ''boolean'' []),
       (''tolerateZero'', scalar None ''boolean'' []),
       (''scaleTargetRef'', reference (Some (JObject [])) (ref (v1alpha1 ''CrossVersionObjectReference''))),
       (''metrics'', array_of [(''x-kubernetes-list-type'', ''atomic'')] (reference (Some (JObject [])) (ref (v1alpha1 ''MetricSpec'')))),
       (''recommender'', reference None (ref (v1alpha1 ''RecommenderSpec''))),
       (''minReplicas'', scalar None ''integer'' ''int32''),
       (''minAvailableReplicaPercentage'', scalar None ''integer'' ''int32''),
       (''maxReplicas'', scalar None ''integer'' ''int32''),
       (''readinessDelaySeconds'', scalar None ''integer'' ''int32'')]
       [''scaleTargetRef''],
     Dependencies = [v1alpha1 ''CrossVersionObjectReference'', v1alpha1 ''MetricSpec'', v1alpha1 ''RecommenderSpec'', api_resource ''Quantity'']\<rparr>"

definition schema_WatermarkPodAutoscalerStatus :: "(string \<Rightarrow> string) \<Rightarrow> OpenAPIDefinition" where
  "schema_WatermarkPodAutoscalerStatus ref = \<lparr>
     def_Schema = object_of [
       (''observedGeneration'', scalar None ''integer'' ''int64''),
       (''lastScaleTime'', reference None (ref (meta_v1 ''Time''))),
       (''scalingEventsCount'', scalar None ''integer'' ''int32''),
       (''currentReplicas'', scalar (Some (JInt 0)) ''integer'' ''int32''),
       (''desiredReplicas'', scalar (Some (JInt 0)) ''integer'' ''int32''),
       (''currentMetrics'', array_of [(''x-kubernetes-list-type'', ''atomic'')] (reference (Some (JObject [])) (ref (v1alpha1 ''MetricStatus'')))),
       (''conditions'', array_of [(''x-kubernetes-list-type'', ''atomic'')] (reference (Some (JObject [])) (ref (autoscaling_v2 ''HorizontalPodAutoscalerCondition'')))),
       (''lastConditionType'', scalar None ''string'' []),
       (''lastConditionState'', scalar None ''string'' [])]
       [''currentReplicas'', ''desiredReplicas''],
     Dependencies = [v1alpha1 ''MetricStatus'', autoscaling_v2 ''HorizontalPodAutoscalerCondition'', meta_v1 ''Time'']\<rparr>"

definition GetOpenAPIDefinitions :: "(string \<Rightarrow> string) \<Rightarrow> (string \<times> OpenAPIDefinition) list" where
  "GetOpenAPIDefinitions ref = [
     (v1alpha1 ''CrossVersionObjectReference'', schema_CrossVersionObjectReference ref),
     (v1alpha1 ''ExternalMetricSource'', schema_ExternalMetricSource ref),
     (v1alpha1 ''ExternalMetricStatus'', schema_ExternalMetricStatus ref),
     (v1alpha1 ''MetricSpec'', schema_MetricSpec ref),
     (v1alpha1 ''MetricStatus'', schema_MetricStatus ref),
     (v1alpha1 ''RecommenderSpec'', schema_RecommenderSpec ref),
     (v1alpha1 ''ResourceMetricSource'', schema_ResourceMetricSource ref),
     (v1alpha1 ''ResourceMetricStatus'', schema_ResourceMetricStatus ref),
     (v1alpha1 ''TLSConfig'', schema_TLSConfig ref),
     (v1alpha1 ''WatermarkPodAutoscaler'', schema_WatermarkPodAutoscaler ref),
     (v1alpha1 ''WatermarkPodAutoscalerSpec'', schema_WatermarkPodAutoscalerSpec ref),
     (v1alpha1 ''WatermarkPodAutoscalerStatus'', schema_WatermarkPodAutoscalerStatus ref)]"

end
