(* ===== verification/Api_Json.thy ===== *)
theory Api_Json
  imports Openapi
begin

text \<open>
  The JSON form of the API objects, as the field tags of \<open>apis/datadoghq/v1alpha1/watermarkpodautoscaler_types.go\<close> determine it.  Encoding: a field with
  \<open>omitempty\<close> is left out when it is false, zero, a nil pointer or an empty string, slice or map; a
  struct is always written, also with \<open>omitempty\<close>.  Decoding: an absent field or \<open>null\<close> has the zero value, and a
  value of another type, or an integer that does not fit, is an error.  The encodings of the library types (quantities, selectors, times, conditions,
  the metadata) are parameters.
\<close>

section \<open>Fields\<close>

definition always :: "string \<Rightarrow> json \<Rightarrow> string \<times> json option" where
  "always k j = (k, Some j)"

definition omit_string :: "string \<Rightarrow> string \<Rightarrow> string \<times> json option" where
  "omit_string k s = (k, if s = [] then None else Some (JString s))"

definition omit_int :: "string \<Rightarrow> int \<Rightarrow> string \<times> json option" where
  "omit_int k n = (k, if n = 0 then None else Some (JInt n))"

definition omit_bool :: "string \<Rightarrow> bool \<Rightarrow> string \<times> json option" where
  "omit_bool k b = (k, if b then Some (JBool b) else None)"

definition omit_pointer :: "string \<Rightarrow> ('a \<Rightarrow> json) \<Rightarrow> 'a option \<Rightarrow> string \<times> json option" where
  "omit_pointer k f p = (k, map_option f p)"

definition omit_slice :: "string \<Rightarrow> ('a \<Rightarrow> json) \<Rightarrow> 'a list \<Rightarrow> string \<times> json option" where
  "omit_slice k f xs = (k, if xs = [] then None else Some (JArray (map f xs)))"

definition omit_map :: "string \<Rightarrow> (string \<times> string) list \<Rightarrow> string \<times> json option" where
  "omit_map k m = (k, if m = [] then None else Some (JObject (map (\<lambda>(x, y). (x, JString y)) m)))"

lemmas field_defs = always_def omit_string_def omit_int_def omit_bool_def omit_pointer_def omit_slice_def omit_map_def

section \<open>Encoding\<close>

record json_lib =
  quantity_json :: "quantity \<Rightarrow> json"
  selector_json :: "label_selector \<Rightarrow> json"
  time_json :: "time \<Rightarrow> json"
  condition_json :: "condition \<Rightarrow> json"
  metadata_json :: "WatermarkPodAutoscaler \<Rightarrow> json"
  quantity_unjson :: "json \<Rightarrow> quantity option"
  selector_unjson :: "json \<Rightarrow> label_selector option"
  time_unjson :: "json \<Rightarrow> time option"
  condition_unjson :: "json \<Rightarrow> condition option"
  zero_quantity :: quantity

definition marshal_CrossVersionObjectReference :: "CrossVersionObjectReference \<Rightarrow> json" where
  "marshal_CrossVersionObjectReference x = JObject (present [
     always ''kind'' (JString (ref_Kind x)),
     always ''name'' (JString (ref_Name x)),
     omit_string ''apiVersion'' (ref_APIVersion x)])"

definition marshal_TLSConfig :: "TLSConfig \<Rightarrow> json" where
  "marshal_TLSConfig x = JObject (present [
     omit_string ''caFile'' (CAFile x),
     omit_string ''certFile'' (CertFile x),
     omit_string ''keyFile'' (KeyFile x),
     omit_string ''serverName'' (ServerName x),
     omit_bool ''insecureSkipVerify'' (InsecureSkipVerify x),
     omit_string ''minVersion'' (MinVersion x),
     omit_string ''maxVersion'' (MaxVersion x)])"

definition marshal_RecommenderSpec :: "json_lib \<Rightarrow> RecommenderSpec \<Rightarrow> json" where
  "marshal_RecommenderSpec l x = JObject (present [
     always ''url'' (JString (reco_URL x)),
     omit_pointer ''tlsConfig'' marshal_TLSConfig (reco_TLSConfig x),
     omit_map ''settings'' (reco_Settings x),
     omit_string ''targetType'' (reco_TargetType x),
     omit_pointer ''highWatermark'' (quantity_json l) (reco_HighWatermark x),
     omit_pointer ''lowWatermark'' (quantity_json l) (reco_LowWatermark x)])"

definition marshal_ExternalMetricSource :: "json_lib \<Rightarrow> ExternalMetricSource \<Rightarrow> json" where
  "marshal_ExternalMetricSource l x = JObject (present [
     always ''metricName'' (JString (ext_MetricName x)),
     omit_pointer ''metricSelector'' (selector_json l) (ext_MetricSelector x),
     omit_pointer ''highWatermark'' (quantity_json l) (ext_HighWatermark x),
     omit_pointer ''lowWatermark'' (quantity_json l) (ext_LowWatermark x)])"

definition marshal_ResourceMetricSource :: "json_lib \<Rightarrow> ResourceMetricSource \<Rightarrow> json" where
  "marshal_ResourceMetricSource l x = JObject (present [
     always ''name'' (JString (res_Name x)),
     omit_pointer ''metricSelector'' (selector_json l) (res_MetricSelector x),
     omit_pointer ''highWatermark'' (quantity_json l) (res_HighWatermark x),
     omit_pointer ''lowWatermark'' (quantity_json l) (res_LowWatermark x)])"

definition marshal_MetricSpec :: "json_lib \<Rightarrow> MetricSpec \<Rightarrow> json" where
  "marshal_MetricSpec l x = JObject (present [
     always ''type'' (JString (ms_Type x)),
     omit_pointer ''external'' (marshal_ExternalMetricSource l) (ms_External x),
     omit_pointer ''resource'' (marshal_ResourceMetricSource l) (ms_Resource x)])"

definition marshal_WatermarkPodAutoscalerSpec :: "json_lib \<Rightarrow> WatermarkPodAutoscalerSpec \<Rightarrow> json" where
  "marshal_WatermarkPodAutoscalerSpec l x = JObject (present [
     omit_int ''downscaleForbiddenWindowSeconds'' (DownscaleForbiddenWindowSeconds x),
     omit_int ''upscaleForbiddenWindowSeconds'' (UpscaleForbiddenWindowSeconds x),
     omit_pointer ''scaleUpLimitFactor'' (quantity_json l) (ScaleUpLimitFactor x),
     omit_int ''upscaleDelayAboveWatermarkSeconds'' (UpscaleDelayAboveWatermarkSeconds x),
     omit_pointer ''scaleDownLimitFactor'' (quantity_json l) (ScaleDownLimitFactor x),
     omit_int ''downscaleDelayBelowWatermarkSeconds'' (DownscaleDelayBelowWatermarkSeconds x),
     omit_pointer ''replicaScalingAbsoluteModulo'' JInt (ReplicaScalingAbsoluteModulo x),
     omit_string ''convergeTowardsWatermark'' (ConvergeTowardsWatermark x),
     always ''tolerance'' (quantity_json l (Tolerance x)),
     omit_string ''algorithm'' (Algorithm x),
     omit_bool ''dryRun'' (DryRun x),
     omit_bool ''tolerateZero'' (TolerateZero x),
     always ''scaleTargetRef'' (marshal_CrossVersionObjectReference (ScaleTargetRef x)),
     omit_slice ''metrics'' (marshal_MetricSpec l) (Metrics x),
     omit_pointer ''recommender'' (marshal_RecommenderSpec l) (Recommender x),
     omit_pointer ''minReplicas'' JInt (MinReplicas x),
     omit_int ''minAvailableReplicaPercentage'' (MinAvailableReplicaPercentage x),
     omit_int ''maxReplicas'' (MaxReplicas x),
     omit_int ''readinessDelaySeconds'' (ReadinessDelaySeconds x)])"

definition marshal_ExternalMetricStatus :: "json_lib \<Rightarrow> ExternalMetricStatus \<Rightarrow> json" where
  "marshal_ExternalMetricStatus l x = JObject (present [
     always ''metricName'' (JString (exs_MetricName x)),
     omit_pointer ''metricSelector'' (selector_json l) (exs_MetricSelector x),
     always ''currentValue'' (quantity_json l (exs_CurrentValue x)),
     omit_pointer ''currentAverageValue'' (quantity_json l) (exs_CurrentAverageValue x)])"

definition marshal_ResourceMetricStatus :: "json_lib \<Rightarrow> ResourceMetricStatus \<Rightarrow> json" where
  "marshal_ResourceMetricStatus l x = JObject (present [
     always ''name'' (JString (rss_Name x)),
     omit_pointer ''currentAverageUtilization'' JInt (rss_CurrentAverageUtilization x),
     always ''currentAverageValue'' (quantity_json l (rss_CurrentAverageValue x))])"

definition marshal_MetricStatus :: "json_lib \<Rightarrow> MetricStatus \<Rightarrow> json" where
  "marshal_MetricStatus l x = JObject (present [
     always ''type'' (JString (mst_Type x)),
     omit_pointer ''resource'' (marshal_ResourceMetricStatus l) (mst_Resource x),
     omit_pointer ''external'' (marshal_ExternalMetricStatus l) (mst_External x)])"

definition marshal_WatermarkPodAutoscalerStatus :: "json_lib \<Rightarrow> WatermarkPodAutoscalerStatus \<Rightarrow> json" where
  "marshal_WatermarkPodAutoscalerStatus l x = JObject (present [
     omit_pointer ''observedGeneration'' JInt (ObservedGeneration x),
     omit_pointer ''lastScaleTime'' (time_json l) (LastScaleTime x),
     omit_int ''scalingEventsCount'' (ScalingEventsCount x),
     always ''currentReplicas'' (JInt (CurrentReplicas x)),
     always ''desiredReplicas'' (JInt (DesiredReplicas x)),
     omit_slice ''currentMetrics'' (marshal_MetricStatus l) (CurrentMetrics x),
     omit_slice ''conditions'' (condition_json l) (Conditions x),
     omit_string ''lastConditionType'' (LastConditionType x),
     omit_string ''lastConditionState'' (LastConditionState x)])"

text \<open>\<open>TypeMeta\<close>, which is embedded, adds the kind and the version of the API.\<close>

definition marshal_WatermarkPodAutoscaler :: "json_lib \<Rightarrow> string \<Rightarrow> string \<Rightarrow> WatermarkPodAutoscaler \<Rightarrow> json" where
  "marshal_WatermarkPodAutoscaler l kind apiVersion x = JObject (present [
     omit_string ''kind'' kind,
     omit_string ''apiVersion'' apiVersion,
     always ''metadata'' (metadata_json l x),
     always ''spec'' (marshal_WatermarkPodAutoscalerSpec l (Spec x)),
     always ''status'' (marshal_WatermarkPodAutoscalerStatus l (Status x))])"

section \<open>The published schemas\<close>

definition definitions_of :: "(string \<Rightarrow> string) \<Rightarrow> string \<Rightarrow> schema option" where
  "definitions_of ref = map_of (map (\<lambda>(n, d). (ref n, def_Schema d)) (GetOpenAPIDefinitions ref))"

lemma v1alpha1_eq [simp]: "v1alpha1 m = v1alpha1 n \<longleftrightarrow> m = n"
  by (simp add: v1alpha1_def)

lemma v1alpha1_other [simp]:
  "meta_v1 m \<noteq> v1alpha1 n" "api_resource m \<noteq> v1alpha1 n" "autoscaling_v2 m \<noteq> v1alpha1 n"
  by (simp_all add: v1alpha1_def meta_v1_def api_resource_def autoscaling_v2_def)

text \<open>What the library's encodings conform to\<close>

definition codec_ok :: "(string \<Rightarrow> string) \<Rightarrow> (string \<Rightarrow> json \<Rightarrow> bool) \<Rightarrow> json_lib \<Rightarrow> bool" where
  "codec_ok ref foreign l \<longleftrightarrow> (\<forall>q. foreign (ref (api_resource ''Quantity'')) (quantity_json l q)) \<and>
     (\<forall>s. foreign (ref (meta_v1 ''LabelSelector'')) (selector_json l s)) \<and> (\<forall>t. foreign (ref (meta_v1 ''Time'')) (time_json l t)) \<and>
     (\<forall>c. foreign (ref (autoscaling_v2 ''HorizontalPodAutoscalerCondition'')) (condition_json l c)) \<and>
     (\<forall>w. foreign (ref (meta_v1 ''ObjectMeta'')) (metadata_json l w))"

end
