(* ===== verification/Api_Conforms.thy ===== *)
theory Api_Conforms
  imports Api_Json
begin

text \<open>
  The JSON forms of the API objects conform to the published schemas: one lemma for each type.
\<close>

lemma definitions_own:
  assumes "inj ref"
  shows "definitions_of ref (ref (v1alpha1 n)) = map_option (\<lambda>d. def_Schema (d ref)) (map_of [
     (''CrossVersionObjectReference'', schema_CrossVersionObjectReference), (''ExternalMetricSource'', schema_ExternalMetricSource),
     (''ExternalMetricStatus'', schema_ExternalMetricStatus), (''MetricSpec'', schema_MetricSpec), (''MetricStatus'', schema_MetricStatus),
     (''RecommenderSpec'', schema_RecommenderSpec), (''ResourceMetricSource'', schema_ResourceMetricSource),
     (''ResourceMetricStatus'', schema_ResourceMetricStatus), (''TLSConfig'', schema_TLSConfig),
     (''WatermarkPodAutoscaler'', schema_WatermarkPodAutoscaler), (''WatermarkPodAutoscalerSpec'', schema_WatermarkPodAutoscalerSpec),
     (''WatermarkPodAutoscalerStatus'', schema_WatermarkPodAutoscalerStatus)] n)"
  using assms by (simp add: definitions_of_def GetOpenAPIDefinitions_def inj_eq)

lemma definitions_other:
  assumes "inj ref"
  shows "definitions_of ref (ref (meta_v1 n)) = None" "definitions_of ref (ref (api_resource n)) = None"
    "definitions_of ref (ref (autoscaling_v2 n)) = None"
  using assms by (simp_all add: definitions_of_def GetOpenAPIDefinitions_def inj_eq)

lemma codec_okD:
  assumes "codec_ok ref foreign l"
  shows "foreign (ref (api_resource ''Quantity'')) (quantity_json l q)" "foreign (ref (meta_v1 ''LabelSelector'')) (selector_json l s)"
    "foreign (ref (meta_v1 ''Time'')) (time_json l t)" "foreign (ref (autoscaling_v2 ''HorizontalPodAutoscalerCondition'')) (condition_json l c)"
    "foreign (ref (meta_v1 ''ObjectMeta'')) (metadata_json l w)"
  using assms by (simp_all add: codec_ok_def)

section \<open>Fields\<close>

lemma field_keys [simp]:
  "fst (always k j) = k" "fst (omit_string k s) = k" "fst (omit_int k n) = k" "fst (omit_bool k b) = k" "fst (omit_pointer k f p) = k"
  "fst (omit_slice k g xs) = k" "fst (omit_map k m) = k"
  by (simp_all add: field_defs)

definition accepts :: "(string \<Rightarrow> schema option) \<Rightarrow> (string \<Rightarrow> json \<Rightarrow> bool) \<Rightarrow> schema option \<Rightarrow> json \<Rightarrow> bool" where
  "accepts defs foreign p j \<longleftrightarrow> (\<exists>s. p = Some s \<and> conforms defs foreign s j)"

lemma accepts_Some [conforms_simps]: "accepts defs foreign (Some s) j \<longleftrightarrow> conforms defs foreign s j"
  by (simp add: accepts_def)

lemma field_ok_simps [conforms_simps]:
  "field_ok defs foreign ps rs (always k j) \<longleftrightarrow> accepts defs foreign (map_of ps k) j"
  "field_ok defs foreign ps rs (omit_string k s) \<longleftrightarrow> (s = [] \<longrightarrow> k \<notin> set rs) \<and> (s \<noteq> [] \<longrightarrow> accepts defs foreign (map_of ps k) (JString s))"
  "field_ok defs foreign ps rs (omit_int k n) \<longleftrightarrow> (n = 0 \<longrightarrow> k \<notin> set rs) \<and> (n \<noteq> 0 \<longrightarrow> accepts defs foreign (map_of ps k) (JInt n))"
  "field_ok defs foreign ps rs (omit_bool k b) \<longleftrightarrow> (b \<longrightarrow> accepts defs foreign (map_of ps k) (JBool True)) \<and> (\<not> b \<longrightarrow> k \<notin> set rs)"
  "field_ok defs foreign ps rs (omit_pointer k f x) \<longleftrightarrow>
     (x = None \<longrightarrow> k \<notin> set rs) \<and> (\<forall>y. x = Some y \<longrightarrow> accepts defs foreign (map_of ps k) (f y))"
  "field_ok defs foreign ps rs (omit_slice k f xs) \<longleftrightarrow>
     (xs = [] \<longrightarrow> k \<notin> set rs) \<and> (xs \<noteq> [] \<longrightarrow> accepts defs foreign (map_of ps k) (JArray (map f xs)))"
  "field_ok defs foreign ps rs (omit_map k m) \<longleftrightarrow>
     (m = [] \<longrightarrow> k \<notin> set rs) \<and> (m \<noteq> [] \<longrightarrow> accepts defs foreign (map_of ps k) (JObject (map (\<lambda>(x, y). (x, JString y)) m)))"
  by (simp_all add: field_ok_def field_defs accepts_def split: option.split)

section \<open>Types\<close>

lemma CrossVersionObjectReference_conforms [conforms_simps]:
  "conforms defs foreign (def_Schema (schema_CrossVersionObjectReference ref)) (marshal_CrossVersionObjectReference x)"
  unfolding schema_CrossVersionObjectReference_def marshal_CrossVersionObjectReference_def OpenAPIDefinition.simps
  by (rule conforms_object) (simp_all add: conforms_simps)

lemma TLSConfig_conforms [conforms_simps]: "conforms defs foreign (def_Schema (schema_TLSConfig ref)) (marshal_TLSConfig x)"
  unfolding schema_TLSConfig_def marshal_TLSConfig_def OpenAPIDefinition.simps
  by (rule conforms_object) (simp_all add: conforms_simps)

text \<open>A reference to a type of the package or of the library\<close>

lemma conforms_own [conforms_simps]:
  "inj ref \<Longrightarrow> conforms (definitions_of ref) foreign (def_Schema (schema_CrossVersionObjectReference ref)) (marshal_CrossVersionObjectReference x0) \<Longrightarrow>
     conforms (definitions_of ref) foreign (reference d (ref (v1alpha1 ''CrossVersionObjectReference''))) (marshal_CrossVersionObjectReference x0)"
  "inj ref \<Longrightarrow> conforms (definitions_of ref) foreign (def_Schema (schema_TLSConfig ref)) (marshal_TLSConfig x1) \<Longrightarrow>
     conforms (definitions_of ref) foreign (reference d (ref (v1alpha1 ''TLSConfig''))) (marshal_TLSConfig x1)"
  "inj ref \<Longrightarrow> conforms (definitions_of ref) foreign (def_Schema (schema_RecommenderSpec ref)) (marshal_RecommenderSpec l x2) \<Longrightarrow>
     conforms (definitions_of ref) foreign (reference d (ref (v1alpha1 ''RecommenderSpec''))) (marshal_RecommenderSpec l x2)"
  "inj ref \<Longrightarrow> conforms (definitions_of ref) foreign (def_Schema (schema_ExternalMetricSource ref)) (marshal_ExternalMetricSource l x3) \<Longrightarrow>
     conforms (definitions_of ref) foreign (reference d (ref (v1alpha1 ''ExternalMetricSource''))) (marshal_ExternalMetricSource l x3)"
  "inj ref \<Longrightarrow> conforms (definitions_of ref) foreign (def_Schema (schema_ResourceMetricSource ref)) (marshal_ResourceMetricSource l x4) \<Longrightarrow>
     conforms (definitions_of ref) foreign (reference d (ref (v1alpha1 ''ResourceMetricSource''))) (marshal_ResourceMetricSource l x4)"
  "inj ref \<Longrightarrow> conforms (definitions_of ref) foreign (def_Schema (schema_MetricSpec ref)) (marshal_MetricSpec l x5) \<Longrightarrow>
     conforms (definitions_of ref) foreign (reference d (ref (v1alpha1 ''MetricSpec''))) (marshal_MetricSpec l x5)"
  "inj ref \<Longrightarrow> conforms (definitions_of ref) foreign (def_Schema (schema_WatermarkPodAutoscalerSpec ref)) (marshal_WatermarkPodAutoscalerSpec l x6) \<Longrightarrow>
     conforms (definitions_of ref) foreign (reference d (ref (v1alpha1 ''WatermarkPodAutoscalerSpec''))) (marshal_WatermarkPodAutoscalerSpec l x6)"
  "inj ref \<Longrightarrow> conforms (definitions_of ref) foreign (def_Schema (schema_ExternalMetricStatus ref)) (marshal_ExternalMetricStatus l x7) \<Longrightarrow>
     conforms (definitions_of ref) foreign (reference d (ref (v1alpha1 ''ExternalMetricStatus''))) (marshal_ExternalMetricStatus l x7)"
  "inj ref \<Longrightarrow> conforms (definitions_of ref) foreign (def_Schema (schema_ResourceMetricStatus ref)) (marshal_ResourceMetricStatus l x8) \<Longrightarrow>
     conforms (definitions_of ref) foreign (reference d (ref (v1alpha1 ''ResourceMetricStatus''))) (marshal_ResourceMetricStatus l x8)"
  "inj ref \<Longrightarrow> conforms (definitions_of ref) foreign (def_Schema (schema_MetricStatus ref)) (marshal_MetricStatus l x9) \<Longrightarrow>
     conforms (definitions_of ref) foreign (reference d (ref (v1alpha1 ''MetricStatus''))) (marshal_MetricStatus l x9)"
  "inj ref \<Longrightarrow> conforms (definitions_of ref) foreign (def_Schema (schema_WatermarkPodAutoscalerStatus ref)) (marshal_WatermarkPodAutoscalerStatus l x10) \<Longrightarrow>
     conforms (definitions_of ref) foreign (reference d (ref (v1alpha1 ''WatermarkPodAutoscalerStatus''))) (marshal_WatermarkPodAutoscalerStatus l x10)"
  by (rule conforms_reference(1); simp add: definitions_own)+

lemma conforms_library [conforms_simps]:
  "inj ref \<Longrightarrow> codec_ok ref foreign l \<Longrightarrow> conforms (definitions_of ref) foreign (reference d (ref (api_resource ''Quantity''))) (quantity_json l q)"
  "inj ref \<Longrightarrow> codec_ok ref foreign l \<Longrightarrow> conforms (definitions_of ref) foreign (reference d (ref (meta_v1 ''LabelSelector''))) (selector_json l s)"
  "inj ref \<Longrightarrow> codec_ok ref foreign l \<Longrightarrow> conforms (definitions_of ref) foreign (reference d (ref (meta_v1 ''Time''))) (time_json l t)"
  "inj ref \<Longrightarrow> codec_ok ref foreign l \<Longrightarrow>
     conforms (definitions_of ref) foreign (reference d (ref (autoscaling_v2 ''HorizontalPodAutoscalerCondition''))) (condition_json l c)"
  "inj ref \<Longrightarrow> codec_ok ref foreign l \<Longrightarrow> conforms (definitions_of ref) foreign (reference d (ref (meta_v1 ''ObjectMeta''))) (metadata_json l w)"
  by (rule conforms_reference(2); simp add: definitions_other codec_okD)+

lemma ExternalMetricSource_conforms [conforms_simps]:
  "inj ref \<Longrightarrow> codec_ok ref foreign l \<Longrightarrow>
     conforms (definitions_of ref) foreign (def_Schema (schema_ExternalMetricSource ref)) (marshal_ExternalMetricSource l x)"
  unfolding schema_ExternalMetricSource_def marshal_ExternalMetricSource_def OpenAPIDefinition.simps
  by (rule conforms_object) (simp_all add: conforms_simps)

lemma ResourceMetricSource_conforms [conforms_simps]:
  "inj ref \<Longrightarrow> codec_ok ref foreign l \<Longrightarrow>
     conforms (definitions_of ref) foreign (def_Schema (schema_ResourceMetricSource ref)) (marshal_ResourceMetricSource l x)"
  unfolding schema_ResourceMetricSource_def marshal_ResourceMetricSource_def OpenAPIDefinition.simps
  by (rule conforms_object) (simp_all add: conforms_simps)

lemma MetricSpec_conforms [conforms_simps]:
  "inj ref \<Longrightarrow> codec_ok ref foreign l \<Longrightarrow>
     conforms (definitions_of ref) foreign (def_Schema (schema_MetricSpec ref)) (marshal_MetricSpec l x)"
  unfolding schema_MetricSpec_def marshal_MetricSpec_def OpenAPIDefinition.simps
  by (rule conforms_object) (simp_all add: conforms_simps)

lemma ExternalMetricStatus_conforms [conforms_simps]:
  "inj ref \<Longrightarrow> codec_ok ref foreign l \<Longrightarrow>
     conforms (definitions_of ref) foreign (def_Schema (schema_ExternalMetricStatus ref)) (marshal_ExternalMetricStatus l x)"
  unfolding schema_ExternalMetricStatus_def marshal_ExternalMetricStatus_def OpenAPIDefinition.simps
  by (rule conforms_object) (simp_all add: conforms_simps)

text \<open>Values of the Go types: integers have their width, and the keys of a map are distinct.\<close>

definition recommender_typed :: "RecommenderSpec \<Rightarrow> bool" where
  "recommender_typed x \<longleftrightarrow> distinct (map fst (reco_Settings x))"

definition metric_status_typed :: "MetricStatus \<Rightarrow> bool" where
  "metric_status_typed x \<longleftrightarrow> pred_option (\<lambda>y. pred_option fits32 (rss_CurrentAverageUtilization y)) (mst_Resource x)"

definition api_typed :: "WatermarkPodAutoscaler \<Rightarrow> bool" where
  "api_typed w \<longleftrightarrow> spec_typed (Spec w) \<and> pred_option recommender_typed (Recommender (Spec w)) \<and>
     pred_option fits64 (ObservedGeneration (Status w)) \<and> fits32 (ScalingEventsCount (Status w)) \<and> fits32 (CurrentReplicas (Status w)) \<and>
     fits32 (DesiredReplicas (Status w)) \<and> list_all metric_status_typed (CurrentMetrics (Status w))"

lemma pred_option_iff: "pred_option P x \<longleftrightarrow> (\<forall>y. x = Some y \<longrightarrow> P y)"
  by (cases x) simp_all

lemma settings_map: "map fst (map (\<lambda>(x, y). (x, JString y)) m) = map fst m"
  by (induction m) auto

lemma conforms_settings [conforms_simps]:
  "distinct (map fst m) \<Longrightarrow> conforms defs foreign (map_to (scalar d ''string'' f)) (JObject (map (\<lambda>(x, y). (x, JString y)) m))"
  by (rule conforms_map) (simp only: settings_map, auto simp: conforms_simps)

lemma RecommenderSpec_conforms [conforms_simps]:
  "inj ref \<Longrightarrow> codec_ok ref foreign l \<Longrightarrow> recommender_typed x \<Longrightarrow>
     conforms (definitions_of ref) foreign (def_Schema (schema_RecommenderSpec ref)) (marshal_RecommenderSpec l x)"
  unfolding schema_RecommenderSpec_def marshal_RecommenderSpec_def OpenAPIDefinition.simps
  by (rule conforms_object) (simp, simp, auto simp: conforms_simps pred_option_iff recommender_typed_def)

lemma ResourceMetricStatus_conforms [conforms_simps]:
  "inj ref \<Longrightarrow> codec_ok ref foreign l \<Longrightarrow> pred_option fits32 (rss_CurrentAverageUtilization x) \<Longrightarrow>
     conforms (definitions_of ref) foreign (def_Schema (schema_ResourceMetricStatus ref)) (marshal_ResourceMetricStatus l x)"
  unfolding schema_ResourceMetricStatus_def marshal_ResourceMetricStatus_def OpenAPIDefinition.simps
  by (rule conforms_object) (simp, simp, auto simp: conforms_simps pred_option_iff )

lemma MetricStatus_conforms [conforms_simps]:
  "inj ref \<Longrightarrow> codec_ok ref foreign l \<Longrightarrow> metric_status_typed x \<Longrightarrow>
     conforms (definitions_of ref) foreign (def_Schema (schema_MetricStatus ref)) (marshal_MetricStatus l x)"
  unfolding schema_MetricStatus_def marshal_MetricStatus_def OpenAPIDefinition.simps
  by (rule conforms_object) (simp, simp, auto simp: conforms_simps pred_option_iff metric_status_typed_def)

lemma WatermarkPodAutoscalerSpec_conforms [conforms_simps]:
  "inj ref \<Longrightarrow> codec_ok ref foreign l \<Longrightarrow> spec_typed x \<Longrightarrow> pred_option recommender_typed (Recommender x) \<Longrightarrow>
     conforms (definitions_of ref) foreign (def_Schema (schema_WatermarkPodAutoscalerSpec ref)) (marshal_WatermarkPodAutoscalerSpec l x)"
  unfolding schema_WatermarkPodAutoscalerSpec_def marshal_WatermarkPodAutoscalerSpec_def OpenAPIDefinition.simps
  by (rule conforms_object) (simp_all add: conforms_simps pred_option_iff spec_typed_def)

lemma WatermarkPodAutoscalerStatus_conforms [conforms_simps]:
  "inj ref \<Longrightarrow> codec_ok ref foreign l \<Longrightarrow> pred_option fits64 (ObservedGeneration x) \<Longrightarrow> fits32 (ScalingEventsCount x) \<Longrightarrow> fits32 (CurrentReplicas x) \<Longrightarrow>
     fits32 (DesiredReplicas x) \<Longrightarrow> list_all metric_status_typed (CurrentMetrics x) \<Longrightarrow>
     conforms (definitions_of ref) foreign (def_Schema (schema_WatermarkPodAutoscalerStatus ref)) (marshal_WatermarkPodAutoscalerStatus l x)"
  unfolding schema_WatermarkPodAutoscalerStatus_def marshal_WatermarkPodAutoscalerStatus_def OpenAPIDefinition.simps
  by (rule conforms_object) (simp, simp, auto simp: conforms_simps pred_option_iff list_all_iff)

lemma WatermarkPodAutoscaler_conforms:
  "inj ref \<Longrightarrow> codec_ok ref foreign l \<Longrightarrow> api_typed x \<Longrightarrow>
     conforms (definitions_of ref) foreign (def_Schema (schema_WatermarkPodAutoscaler ref)) (marshal_WatermarkPodAutoscaler l kind version x)"
  unfolding schema_WatermarkPodAutoscaler_def marshal_WatermarkPodAutoscaler_def OpenAPIDefinition.simps
  by (rule conforms_object) (simp_all add: conforms_simps api_typed_def)

end
