(* ===== verification/Api_Decode.thy ===== *)
theory Api_Decode
  imports Api_Conforms Control_Loop "HOL-Library.Monad_Syntax"
begin

text \<open>
  Decoding of the API objects, and what becomes of an object that is written to the API server and read again.  A field is
  looked up by its name; the keys of an object are taken to be distinct.  The library's decoders are parameters.
\<close>

section \<open>Fields\<close>

fun get_string :: "json option \<Rightarrow> string option" where
  "get_string None = Some []"
| "get_string (Some JNull) = Some []"
| "get_string (Some (JString s)) = Some s"
| "get_string _ = None"

fun get_int :: "(int \<Rightarrow> bool) \<Rightarrow> json option \<Rightarrow> int option" where
  "get_int fits None = Some 0"
| "get_int fits (Some JNull) = Some 0"
| "get_int fits (Some (JInt n)) = (if fits n then Some n else None)"
| "get_int fits _ = None"

fun get_bool :: "json option \<Rightarrow> bool option" where
  "get_bool None = Some False"
| "get_bool (Some JNull) = Some False"
| "get_bool (Some (JBool b)) = Some b"
| "get_bool _ = None"

fun get_pointer :: "(json \<Rightarrow> 'a option) \<Rightarrow> json option \<Rightarrow> 'a option option" where
  "get_pointer f None = Some None"
| "get_pointer f (Some JNull) = Some None"
| "get_pointer f (Some j) = map_option Some (f j)"

text \<open>A struct that is absent or \<open>null\<close> keeps its zero value \<open>z\<close>.\<close>

fun get_struct :: "(json \<Rightarrow> 'a option) \<Rightarrow> 'a option \<Rightarrow> json option \<Rightarrow> 'a option" where
  "get_struct f z None = z"
| "get_struct f z (Some JNull) = z"
| "get_struct f z (Some j) = f j"

fun get_slice :: "(json \<Rightarrow> 'a option) \<Rightarrow> json option \<Rightarrow> 'a list option" where
  "get_slice f None = Some []"
| "get_slice f (Some JNull) = Some []"
| "get_slice f (Some (JArray xs)) = those (map f xs)"
| "get_slice f _ = None"

fun get_map :: "json option \<Rightarrow> (string \<times> string) list option" where
  "get_map None = Some []"
| "get_map (Some JNull) = Some []"
| "get_map (Some (JObject m)) = those (map (\<lambda>(k, v). map_option (Pair k) (get_string (Some v))) m)"
| "get_map _ = None"

fun object_fields :: "json \<Rightarrow> (string \<rightharpoonup> json) option" where
  "object_fields (JObject fs) = Some (map_of fs)"
| "object_fields _ = None"

section \<open>Types\<close>

definition unmarshal_CrossVersionObjectReference :: "json \<Rightarrow> CrossVersionObjectReference option" where
  "unmarshal_CrossVersionObjectReference j = do {
     m \<leftarrow> object_fields j;
     x0 \<leftarrow> get_string (m ''kind'');
     x1 \<leftarrow> get_string (m ''name'');
     x2 \<leftarrow> get_string (m ''apiVersion'');
     Some \<lparr>ref_Kind = x0, ref_Name = x1, ref_APIVersion = x2\<rparr>}"

definition unmarshal_TLSConfig :: "json \<Rightarrow> TLSConfig option" where
  "unmarshal_TLSConfig j = do {
     m \<leftarrow> object_fields j;
     x0 \<leftarrow> get_string (m ''caFile'');
     x1 \<leftarrow> get_string (m ''certFile'');
     x2 \<leftarrow> get_string (m ''keyFile'');
     x3 \<leftarrow> get_string (m ''serverName'');
     x4 \<leftarrow> get_bool (m ''insecureSkipVerify'');
     x5 \<leftarrow> get_string (m ''minVersion'');
     x6 \<leftarrow> get_string (m ''maxVersion'');
     Some \<lparr>CAFile = x0, CertFile = x1, KeyFile = x2, ServerName = x3, InsecureSkipVerify = x4, MinVersion = x5, MaxVersion = x6\<rparr>}"

definition unmarshal_RecommenderSpec :: "json_lib \<Rightarrow> json \<Rightarrow> RecommenderSpec option" where
  "unmarshal_RecommenderSpec l j = do {
     m \<leftarrow> object_fields j;
     x0 \<leftarrow> get_string (m ''url'');
     x1 \<leftarrow> get_pointer unmarshal_TLSConfig (m ''tlsConfig'');
     x2 \<leftarrow> get_map (m ''settings'');
     x3 \<leftarrow> get_string (m ''targetType'');
     x4 \<leftarrow> get_pointer (quantity_unjson l) (m ''highWatermark'');
     x5 \<leftarrow> get_pointer (quantity_unjson l) (m ''lowWatermark'');
     Some \<lparr>reco_URL = x0, reco_TLSConfig = x1, reco_Settings = x2, reco_TargetType = x3, reco_HighWatermark = x4, reco_LowWatermark = x5\<rparr>}"

definition unmarshal_ExternalMetricSource :: "json_lib \<Rightarrow> json \<Rightarrow> ExternalMetricSource option" where
  "unmarshal_ExternalMetricSource l j = do {
     m \<leftarrow> object_fields j;
     x0 \<leftarrow> get_string (m ''metricName'');
     x1 \<leftarrow> get_pointer (selector_unjson l) (m ''metricSelector'');
     x2 \<leftarrow> get_pointer (quantity_unjson l) (m ''highWatermark'');
     x3 \<leftarrow> get_pointer (quantity_unjson l) (m ''lowWatermark'');
     Some \<lparr>ext_MetricName = x0, ext_MetricSelector = x1, ext_HighWatermark = x2, ext_LowWatermark = x3\<rparr>}"

definition unmarshal_ResourceMetricSource :: "json_lib \<Rightarrow> json \<Rightarrow> ResourceMetricSource option" where
  "unmarshal_ResourceMetricSource l j = do {
     m \<leftarrow> object_fields j;
     x0 \<leftarrow> get_string (m ''name'');
     x1 \<leftarrow> get_pointer (selector_unjson l) (m ''metricSelector'');
     x2 \<leftarrow> get_pointer (quantity_unjson l) (m ''highWatermark'');
     x3 \<leftarrow> get_pointer (quantity_unjson l) (m ''lowWatermark'');
     Some \<lparr>res_Name = x0, res_MetricSelector = x1, res_HighWatermark = x2, res_LowWatermark = x3\<rparr>}"

definition unmarshal_MetricSpec :: "json_lib \<Rightarrow> json \<Rightarrow> MetricSpec option" where
  "unmarshal_MetricSpec l j = do {
     m \<leftarrow> object_fields j;
     x0 \<leftarrow> get_string (m ''type'');
     x1 \<leftarrow> get_pointer (unmarshal_ExternalMetricSource l) (m ''external'');
     x2 \<leftarrow> get_pointer (unmarshal_ResourceMetricSource l) (m ''resource'');
     Some \<lparr>ms_Type = x0, ms_External = x1, ms_Resource = x2\<rparr>}"

definition unmarshal_WatermarkPodAutoscalerSpec :: "json_lib \<Rightarrow> json \<Rightarrow> WatermarkPodAutoscalerSpec option" where
  "unmarshal_WatermarkPodAutoscalerSpec l j = do {
     m \<leftarrow> object_fields j;
     x0 \<leftarrow> get_int fits32 (m ''downscaleForbiddenWindowSeconds'');
     x1 \<leftarrow> get_int fits32 (m ''upscaleForbiddenWindowSeconds'');
     x2 \<leftarrow> get_pointer (quantity_unjson l) (m ''scaleUpLimitFactor'');
     x3 \<leftarrow> get_int fits32 (m ''upscaleDelayAboveWatermarkSeconds'');
     x4 \<leftarrow> get_pointer (quantity_unjson l) (m ''scaleDownLimitFactor'');
     x5 \<leftarrow> get_int fits32 (m ''downscaleDelayBelowWatermarkSeconds'');
     x6 \<leftarrow> get_pointer (\<lambda>j. get_int fits32 (Some j)) (m ''replicaScalingAbsoluteModulo'');
     x7 \<leftarrow> get_string (m ''convergeTowardsWatermark'');
     x8 \<leftarrow> get_struct (quantity_unjson l) (Some (zero_quantity l)) (m ''tolerance'');
     x9 \<leftarrow> get_string (m ''algorithm'');
     x10 \<leftarrow> get_bool (m ''dryRun'');
     x11 \<leftarrow> get_bool (m ''tolerateZero'');
     x12 \<leftarrow> get_struct unmarshal_CrossVersionObjectReference (unmarshal_CrossVersionObjectReference (JObject [])) (m ''scaleTargetRef'');
     x13 \<leftarrow> get_slice (unmarshal_MetricSpec l) (m ''metrics'');
     x14 \<leftarrow> get_pointer (unmarshal_RecommenderSpec l) (m ''recommender'');
     x15 \<leftarrow> get_pointer (\<lambda>j. get_int fits32 (Some j)) (m ''minReplicas'');
     x16 \<leftarrow> get_int fits32 (m ''minAvailableReplicaPercentage'');
     x17 \<leftarrow> get_int fits32 (m ''maxReplicas'');
     x18 \<leftarrow> get_int fits32 (m ''readinessDelaySeconds'');
     Some \<lparr>DownscaleForbiddenWindowSeconds = x0, UpscaleForbiddenWindowSeconds = x1, ScaleUpLimitFactor = x2, UpscaleDelayAboveWatermarkSeconds = x3, ScaleDownLimitFactor = x4, DownscaleDelayBelowWatermarkSeconds = x5, ReplicaScalingAbsoluteModulo = x6, ConvergeTowardsWatermark = x7, Tolerance = x8, Algorithm = x9, DryRun = x10, TolerateZero = x11, ScaleTargetRef = x12, Metrics = x13, Recommender = x14, MinReplicas = x15, MinAvailableReplicaPercentage = x16, MaxReplicas = x17, ReadinessDelaySeconds = x18\<rparr>}"

definition unmarshal_ExternalMetricStatus :: "json_lib \<Rightarrow> json \<Rightarrow> ExternalMetricStatus option" where
  "unmarshal_ExternalMetricStatus l j = do {
     m \<leftarrow> object_fields j;
     x0 \<leftarrow> get_string (m ''metricName'');
     x1 \<leftarrow> get_pointer (selector_unjson l) (m ''metricSelector'');
     x2 \<leftarrow> get_struct (quantity_unjson l) (Some (zero_quantity l)) (m ''currentValue'');
     x3 \<leftarrow> get_pointer (quantity_unjson l) (m ''currentAverageValue'');
     Some \<lparr>exs_MetricName = x0, exs_MetricSelector = x1, exs_CurrentValue = x2, exs_CurrentAverageValue = x3\<rparr>}"

definition unmarshal_ResourceMetricStatus :: "json_lib \<Rightarrow> json \<Rightarrow> ResourceMetricStatus option" where
  "unmarshal_ResourceMetricStatus l j = do {
     m \<leftarrow> object_fields j;
     x0 \<leftarrow> get_string (m ''name'');
     x1 \<leftarrow> get_pointer (\<lambda>j. get_int fits32 (Some j)) (m ''currentAverageUtilization'');
     x2 \<leftarrow> get_struct (quantity_unjson l) (Some (zero_quantity l)) (m ''currentAverageValue'');
     Some \<lparr>rss_Name = x0, rss_CurrentAverageUtilization = x1, rss_CurrentAverageValue = x2\<rparr>}"

definition unmarshal_MetricStatus :: "json_lib \<Rightarrow> json \<Rightarrow> MetricStatus option" where
  "unmarshal_MetricStatus l j = do {
     m \<leftarrow> object_fields j;
     x0 \<leftarrow> get_string (m ''type'');
     x1 \<leftarrow> get_pointer (unmarshal_ResourceMetricStatus l) (m ''resource'');
     x2 \<leftarrow> get_pointer (unmarshal_ExternalMetricStatus l) (m ''external'');
     Some \<lparr>mst_Type = x0, mst_Resource = x1, mst_External = x2\<rparr>}"

definition unmarshal_WatermarkPodAutoscalerStatus :: "json_lib \<Rightarrow> json \<Rightarrow> WatermarkPodAutoscalerStatus option" where
  "unmarshal_WatermarkPodAutoscalerStatus l j = do {
     m \<leftarrow> object_fields j;
     x0 \<leftarrow> get_pointer (\<lambda>j. get_int fits64 (Some j)) (m ''observedGeneration'');
     x1 \<leftarrow> get_pointer (time_unjson l) (m ''lastScaleTime'');
     x2 \<leftarrow> get_int fits32 (m ''scalingEventsCount'');
     x3 \<leftarrow> get_int fits32 (m ''currentReplicas'');
     x4 \<leftarrow> get_int fits32 (m ''desiredReplicas'');
     x5 \<leftarrow> get_slice (unmarshal_MetricStatus l) (m ''currentMetrics'');
     x6 \<leftarrow> get_slice (condition_unjson l) (m ''conditions'');
     x7 \<leftarrow> get_string (m ''lastConditionType'');
     x8 \<leftarrow> get_string (m ''lastConditionState'');
     Some \<lparr>ObservedGeneration = x0, LastScaleTime = x1, ScalingEventsCount = x2, CurrentReplicas = x3, DesiredReplicas = x4, CurrentMetrics = x5, Conditions = x6, LastConditionType = x7, LastConditionState = x8\<rparr>}"

section \<open>Written and read again\<close>

text \<open>
  What is documented of the library's encodings: a quantity, a selector and a condition are read back, times only to the second; none of them
  is encoded as \<open>null\<close>, except the zero time.
\<close>

definition codec_inverse :: "json_lib \<Rightarrow> bool" where
  "codec_inverse l \<longleftrightarrow> (\<forall>q. quantity_unjson l (quantity_json l q) = Some q \<and> quantity_json l q \<noteq> JNull) \<and>
     (\<forall>s. selector_unjson l (selector_json l s) = Some s \<and> selector_json l s \<noteq> JNull) \<and>
     (\<forall>t. t \<noteq> zero_time \<longrightarrow> time_unjson l (time_json l t) = Some (stamp t) \<and> time_json l t \<noteq> JNull) \<and>
     (\<forall>x. condition_unjson l (condition_json l x) = Some (x\<lparr>LastTransitionTime := stamp (LastTransitionTime x)\<rparr>))"

named_theorems decode_simps \<open>decoding of an encoded field\<close>

lemma map_of_field: "map_of (f # fs) k = (if fst f = k then Some (snd f) else map_of fs k)"
  by (cases f) simp

lemma get_not_null [decode_simps]: "j \<noteq> JNull \<Longrightarrow> get_pointer f (Some j) = map_option Some (f j)" "j \<noteq> JNull \<Longrightarrow> get_struct g z (Some j) = g j"
  by (cases j; simp)+

lemma those_map: "(\<And>x. x \<in> set xs \<Longrightarrow> f (g x) = Some (h x)) \<Longrightarrow> those (map f (map g xs)) = Some (map h xs)"
  by (induction xs) simp_all

lemma decode_fields [decode_simps]:
  "get_string (snd (always k (JString s))) = Some s" "get_int fits (snd (always k (JInt n))) = (if fits n then Some n else None)"
  "get_string (snd (omit_string k s)) = Some s" "get_bool (snd (omit_bool k b)) = Some b"
  "fits 0 \<Longrightarrow> get_int fits (snd (omit_int k n)) = (if fits n then Some n else None)" "get_map (snd (omit_map k x)) = Some x"
proof -
  have "those (map (\<lambda>(k, v). map_option (Pair k) (get_string (Some v))) (map (\<lambda>(x, y). (x, JString y)) x)) = Some x"
    by (induction x) auto
  then show "get_map (snd (omit_map k x)) = Some x" by (simp add: omit_map_def)
qed (simp_all add: field_defs)

lemma decode_struct [decode_simps]: "j \<noteq> JNull \<Longrightarrow> get_struct f z (snd (always k j)) = f j"
  by (simp add: always_def get_not_null)

lemma decode_many:
  "(\<And>y. x = Some y \<Longrightarrow> g y \<noteq> JNull \<and> f (g y) = Some (h y)) \<Longrightarrow> get_pointer f (snd (omit_pointer k g x)) = Some (map_option h x)"
  "(\<And>y. y \<in> set xs \<Longrightarrow> f (g y) = Some (h y)) \<Longrightarrow> get_slice f (snd (omit_slice k g xs)) = Some (map h xs)"
  by (cases x) (simp_all add: omit_pointer_def get_not_null omit_slice_def those_map del: map_map)

lemma decode_same [decode_simps]:
  "(\<And>y. x = Some y \<Longrightarrow> g y \<noteq> JNull \<and> f (g y) = Some y) \<Longrightarrow> get_pointer f (snd (omit_pointer k g x)) = Some x"
  "(\<And>y. y \<in> set xs \<Longrightarrow> f (g y) = Some y) \<Longrightarrow> get_slice f (snd (omit_slice k g xs)) = Some xs"
  using decode_many(1) [of x g f "\<lambda>y. y" k] decode_many(2) [of xs f g "\<lambda>y. y" k] by (simp_all add: option.map_ident)

lemma decode_object: "distinct (map fst fs) \<Longrightarrow> object_fields (JObject (present fs)) = Some (\<lambda>k. Option.bind (map_of fs k) id)"
  by (simp add: map_of_present fun_eq_iff)

declare object_fields.simps(1) [simp del]

lemma fits_zero [decode_simps]: "fits32 0" "fits64 0"
  by (simp_all add: fits32_def fits64_def)

lemma codec_inverseD [decode_simps]:
  assumes "codec_inverse l"
  shows "quantity_unjson l (quantity_json l q) = Some q" "quantity_json l q \<noteq> JNull" "selector_unjson l (selector_json l s) = Some s"
    "selector_json l s \<noteq> JNull" "t \<noteq> zero_time \<Longrightarrow> time_unjson l (time_json l t) = Some (stamp t)" "t \<noteq> zero_time \<Longrightarrow> time_json l t \<noteq> JNull"
    "condition_unjson l (condition_json l x) = Some (x\<lparr>LastTransitionTime := stamp (LastTransitionTime x)\<rparr>)"
  using assms by (simp_all add: codec_inverse_def)

lemma CrossVersionObjectReference_decoded [decode_simps]:
  "unmarshal_CrossVersionObjectReference (marshal_CrossVersionObjectReference x) = Some x" "marshal_CrossVersionObjectReference x \<noteq> JNull"
  unfolding marshal_CrossVersionObjectReference_def by (simp_all add: unmarshal_CrossVersionObjectReference_def decode_object map_of_field decode_simps)

lemma TLSConfig_decoded [decode_simps]:
  "unmarshal_TLSConfig (marshal_TLSConfig x) = Some x" "marshal_TLSConfig x \<noteq> JNull"
  unfolding marshal_TLSConfig_def by (simp_all add: unmarshal_TLSConfig_def decode_object map_of_field decode_simps)

lemma RecommenderSpec_decoded [decode_simps]:
  "codec_inverse l \<Longrightarrow> unmarshal_RecommenderSpec l (marshal_RecommenderSpec l x) = Some x" "marshal_RecommenderSpec l x \<noteq> JNull"
  unfolding marshal_RecommenderSpec_def by (simp_all add: unmarshal_RecommenderSpec_def decode_object map_of_field decode_simps)

lemma ExternalMetricSource_decoded [decode_simps]:
  "codec_inverse l \<Longrightarrow> unmarshal_ExternalMetricSource l (marshal_ExternalMetricSource l x) = Some x" "marshal_ExternalMetricSource l x \<noteq> JNull"
  unfolding marshal_ExternalMetricSource_def by (simp_all add: unmarshal_ExternalMetricSource_def decode_object map_of_field decode_simps)

lemma ResourceMetricSource_decoded [decode_simps]:
  "codec_inverse l \<Longrightarrow> unmarshal_ResourceMetricSource l (marshal_ResourceMetricSource l x) = Some x" "marshal_ResourceMetricSource l x \<noteq> JNull"
  unfolding marshal_ResourceMetricSource_def by (simp_all add: unmarshal_ResourceMetricSource_def decode_object map_of_field decode_simps)

lemma MetricSpec_decoded [decode_simps]:
  "codec_inverse l \<Longrightarrow> unmarshal_MetricSpec l (marshal_MetricSpec l x) = Some x" "marshal_MetricSpec l x \<noteq> JNull"
  unfolding marshal_MetricSpec_def by (simp_all add: unmarshal_MetricSpec_def decode_object map_of_field decode_simps)

lemma WatermarkPodAutoscalerSpec_decoded [decode_simps]:
  "codec_inverse l \<Longrightarrow> spec_typed x \<Longrightarrow> unmarshal_WatermarkPodAutoscalerSpec l (marshal_WatermarkPodAutoscalerSpec l x) = Some x" "marshal_WatermarkPodAutoscalerSpec l x \<noteq> JNull"
  unfolding marshal_WatermarkPodAutoscalerSpec_def by (simp_all add: unmarshal_WatermarkPodAutoscalerSpec_def decode_object map_of_field decode_simps spec_typed_def pred_option_iff)

lemma ExternalMetricStatus_decoded [decode_simps]:
  "codec_inverse l \<Longrightarrow> unmarshal_ExternalMetricStatus l (marshal_ExternalMetricStatus l x) = Some x" "marshal_ExternalMetricStatus l x \<noteq> JNull"
  unfolding marshal_ExternalMetricStatus_def by (simp_all add: unmarshal_ExternalMetricStatus_def decode_object map_of_field decode_simps)

lemma ResourceMetricStatus_decoded [decode_simps]:
  "codec_inverse l \<Longrightarrow> pred_option fits32 (rss_CurrentAverageUtilization x) \<Longrightarrow> unmarshal_ResourceMetricStatus l (marshal_ResourceMetricStatus l x) = Some x" "marshal_ResourceMetricStatus l x \<noteq> JNull"
  unfolding marshal_ResourceMetricStatus_def by (simp_all add: unmarshal_ResourceMetricStatus_def decode_object map_of_field decode_simps pred_option_iff)

lemma MetricStatus_decoded [decode_simps]:
  "codec_inverse l \<Longrightarrow> metric_status_typed x \<Longrightarrow> unmarshal_MetricStatus l (marshal_MetricStatus l x) = Some x" "marshal_MetricStatus l x \<noteq> JNull"
  unfolding marshal_MetricStatus_def by (simp_all add: unmarshal_MetricStatus_def decode_object map_of_field decode_simps metric_status_typed_def pred_option_iff)

text \<open>Times are kept to the second.\<close>

definition truncated :: "WatermarkPodAutoscalerStatus \<Rightarrow> WatermarkPodAutoscalerStatus" where
  "truncated st = st\<lparr>LastScaleTime := map_option stamp (LastScaleTime st),
     Conditions := map (\<lambda>c. c\<lparr>LastTransitionTime := stamp (LastTransitionTime c)\<rparr>) (Conditions st)\<rparr>"

lemma WatermarkPodAutoscalerStatus_decoded:
  assumes "codec_inverse l" "pred_option fits64 (ObservedGeneration x)" "fits32 (ScalingEventsCount x)" "fits32 (CurrentReplicas x)"
    and "fits32 (DesiredReplicas x)" "list_all metric_status_typed (CurrentMetrics x)" "LastScaleTime x \<noteq> Some zero_time"
  shows "unmarshal_WatermarkPodAutoscalerStatus l (marshal_WatermarkPodAutoscalerStatus l x) = Some (truncated x)"
proof -
  have t: "get_pointer (time_unjson l) (snd (omit_pointer ''lastScaleTime'' (time_json l) (LastScaleTime x))) = Some (map_option stamp (LastScaleTime x))"
    using assms(1,7) by (intro decode_many(1)) (auto simp: codec_inverse_def)
  have c: "get_slice (condition_unjson l) (snd (omit_slice ''conditions'' (condition_json l) (Conditions x))) =
      Some (map (\<lambda>c. c\<lparr>LastTransitionTime := stamp (LastTransitionTime c)\<rparr>) (Conditions x))"
    using assms(1) by (intro decode_many(2)) (simp add: codec_inverse_def)
  have m: "get_slice (unmarshal_MetricStatus l) (snd (omit_slice ''currentMetrics'' (marshal_MetricStatus l) (CurrentMetrics x))) = Some (CurrentMetrics x)"
    using assms(1,6) by (intro decode_same(2)) (simp add: decode_simps list_all_iff)
  show ?thesis
    unfolding marshal_WatermarkPodAutoscalerStatus_def using assms(1-5)
    by (simp add: unmarshal_WatermarkPodAutoscalerStatus_def decode_object map_of_field decode_simps t c m pred_option_iff truncated_def)
qed

end
