(* ===== verification/Heap_Copy.thy ===== *)
theory Heap_Copy
  imports Api_Types "HOL-Library.AList"
begin

text \<open>
  The API objects as they lie in memory, and what it means to copy them.  Everywhere else in the development an object is a value; here a pointer, a
  slice and a map is the address of a cell, so that sharing can be spoken of.  A copying function takes a struct with addresses and gives the struct that is written to
  its \<open>out\<close> argument and the heap with what was allocated; \<open>None\<close> stands for the dereference of an address that is outside the heap or holds
  another type.  A cell is allocated when its content is known: the program allocates it first and fills it afterwards, a difference
  that no Go program can see.  \<open>copies\<close> is the contract of all copying functions: the copy reads as the same value, and it does so in every later heap that
  agrees with this one on the cells the call has allocated.
\<close>

named_theorems copy_steps \<open>how the copies of the fields enter the proof about a struct\<close>

type_synonym addr = nat

section \<open>Structs with addresses\<close>

text \<open>A nil pointer, slice or map is \<open>None\<close>.  Quantities, selectors, times, conditions and the metadata are values: they belong to the library,
  with copying functions of their own.\<close>

record raw_RecommenderSpec =
  rr_URL :: string
  rr_TLSConfig :: "addr option"
  rr_Settings :: "addr option"
  rr_TargetType :: string
  rr_HighWatermark :: "addr option"
  rr_LowWatermark :: "addr option"

record raw_ExternalMetricSource =
  re_MetricName :: string
  re_MetricSelector :: "addr option"
  re_HighWatermark :: "addr option"
  re_LowWatermark :: "addr option"

record raw_ResourceMetricSource =
  rs_Name :: string
  rs_MetricSelector :: "addr option"
  rs_HighWatermark :: "addr option"
  rs_LowWatermark :: "addr option"

record raw_MetricSpec =
  rm_Type :: string
  rm_External :: "addr option"
  rm_Resource :: "addr option"

record raw_WatermarkPodAutoscalerSpec =
  rp_DownscaleForbiddenWindowSeconds :: int
  rp_UpscaleForbiddenWindowSeconds :: int
  rp_ScaleUpLimitFactor :: "addr option"
  rp_UpscaleDelayAboveWatermarkSeconds :: int
  rp_ScaleDownLimitFactor :: "addr option"
  rp_DownscaleDelayBelowWatermarkSeconds :: int
  rp_ReplicaScalingAbsoluteModulo :: "addr option"
  rp_ConvergeTowardsWatermark :: string
  rp_Tolerance :: quantity
  rp_Algorithm :: string
  rp_DryRun :: bool
  rp_TolerateZero :: bool
  rp_ScaleTargetRef :: CrossVersionObjectReference
  rp_Metrics :: "addr option"
  rp_Recommender :: "addr option"
  rp_MinReplicas :: "addr option"
  rp_MinAvailableReplicaPercentage :: int
  rp_MaxReplicas :: int
  rp_ReadinessDelaySeconds :: int

record raw_ExternalMetricStatus =
  rx_MetricName :: string
  rx_MetricSelector :: "addr option"
  rx_CurrentValue :: quantity
  rx_CurrentAverageValue :: "addr option"

record raw_ResourceMetricStatus =
  ry_Name :: string
  ry_CurrentAverageUtilization :: "addr option"
  ry_CurrentAverageValue :: quantity

record raw_MetricStatus =
  rt_Type :: string
  rt_Resource :: "addr option"
  rt_External :: "addr option"

record raw_WatermarkPodAutoscalerStatus =
  ru_ObservedGeneration :: "addr option"
  ru_LastScaleTime :: "addr option"
  ru_ScalingEventsCount :: int
  ru_CurrentReplicas :: int
  ru_DesiredReplicas :: int
  ru_CurrentMetrics :: "addr option"
  ru_Conditions :: "addr option"
  ru_LastConditionType :: string
  ru_LastConditionState :: string

text \<open>The metadata and the fields the code touches, as values\<close>

record object_meta =
  om_Name :: string
  om_Namespace :: string
  om_Annotations :: "(string \<times> string) list"
  om_Labels :: "(string \<times> string) list"
  om_Finalizers :: "string list"
  om_DeletionTimestamp :: "time option"

record raw_WatermarkPodAutoscaler =
  rw_TypeMeta :: "string \<times> string"
  rw_ObjectMeta :: object_meta
  rw_Spec :: raw_WatermarkPodAutoscalerSpec
  rw_Status :: raw_WatermarkPodAutoscalerStatus

record raw_WatermarkPodAutoscalerList =
  rl_TypeMeta :: "string \<times> string"
  rl_ListMeta :: string
  rl_Items :: "addr option"

section \<open>The heap\<close>

datatype cell = IntCell int | QuantityCell quantity | TimeCell time | SelectorCell label_selector | SettingsCell "(string \<times> string) list"
  | TLSCell TLSConfig | RefCell CrossVersionObjectReference | RecommenderCell raw_RecommenderSpec
  | ExternalCell raw_ExternalMetricSource | ResourceCell raw_ResourceMetricSource | MetricCell raw_MetricSpec | MetricsCell "raw_MetricSpec list"
  | SpecCell raw_WatermarkPodAutoscalerSpec | ExternalStatusCell raw_ExternalMetricStatus | ResourceStatusCell raw_ResourceMetricStatus
  | MetricStatusCell raw_MetricStatus | MetricStatusesCell "raw_MetricStatus list" | ConditionsCell "condition list"
  | StatusCell raw_WatermarkPodAutoscalerStatus | ObjectCell raw_WatermarkPodAutoscaler | ObjectsCell "raw_WatermarkPodAutoscaler list"
  | ListCell raw_WatermarkPodAutoscalerList

type_synonym heap = "cell list"

text \<open>A kind of cell: how a content becomes a cell, and how it is recognised\<close>

type_synonym 'a kind = "('a \<Rightarrow> cell) \<times> (cell \<Rightarrow> 'a option)"

definition kind_ok :: "'a kind \<Rightarrow> bool" where
  "kind_ok k \<longleftrightarrow> (\<forall>x. snd k (fst k x) = Some x)"

definition int_kind :: "int kind" where
  "int_kind = (IntCell, \<lambda>c. case c of IntCell x \<Rightarrow> Some x | _ \<Rightarrow> None)"

definition quantity_kind :: "quantity kind" where
  "quantity_kind = (QuantityCell, \<lambda>c. case c of QuantityCell x \<Rightarrow> Some x | _ \<Rightarrow> None)"

definition time_kind :: "time kind" where
  "time_kind = (TimeCell, \<lambda>c. case c of TimeCell x \<Rightarrow> Some x | _ \<Rightarrow> None)"

definition selector_kind :: "label_selector kind" where
  "selector_kind = (SelectorCell, \<lambda>c. case c of SelectorCell x \<Rightarrow> Some x | _ \<Rightarrow> None)"

definition settings_kind :: "((string \<times> string) list) kind" where
  "settings_kind = (SettingsCell, \<lambda>c. case c of SettingsCell x \<Rightarrow> Some x | _ \<Rightarrow> None)"

definition tls_kind :: "TLSConfig kind" where
  "tls_kind = (TLSCell, \<lambda>c. case c of TLSCell x \<Rightarrow> Some x | _ \<Rightarrow> None)"

definition ref_kind :: "CrossVersionObjectReference kind" where
  "ref_kind = (RefCell, \<lambda>c. case c of RefCell x \<Rightarrow> Some x | _ \<Rightarrow> None)"

definition recommender_kind :: "raw_RecommenderSpec kind" where
  "recommender_kind = (RecommenderCell, \<lambda>c. case c of RecommenderCell x \<Rightarrow> Some x | _ \<Rightarrow> None)"

definition external_kind :: "raw_ExternalMetricSource kind" where
  "external_kind = (ExternalCell, \<lambda>c. case c of ExternalCell x \<Rightarrow> Some x | _ \<Rightarrow> None)"

definition resource_kind :: "raw_ResourceMetricSource kind" where
  "resource_kind = (ResourceCell, \<lambda>c. case c of ResourceCell x \<Rightarrow> Some x | _ \<Rightarrow> None)"

definition metric_kind :: "raw_MetricSpec kind" where
  "metric_kind = (MetricCell, \<lambda>c. case c of MetricCell x \<Rightarrow> Some x | _ \<Rightarrow> None)"

definition metrics_kind :: "(raw_MetricSpec list) kind" where
  "metrics_kind = (MetricsCell, \<lambda>c. case c of MetricsCell x \<Rightarrow> Some x | _ \<Rightarrow> None)"

definition spec_kind :: "raw_WatermarkPodAutoscalerSpec kind" where
  "spec_kind = (SpecCell, \<lambda>c. case c of SpecCell x \<Rightarrow> Some x | _ \<Rightarrow> None)"

definition external_status_kind :: "raw_ExternalMetricStatus kind" where
  "external_status_kind = (ExternalStatusCell, \<lambda>c. case c of ExternalStatusCell x \<Rightarrow> Some x | _ \<Rightarrow> None)"

definition resource_status_kind :: "raw_ResourceMetricStatus kind" where
  "resource_status_kind = (ResourceStatusCell, \<lambda>c. case c of ResourceStatusCell x \<Rightarrow> Some x | _ \<Rightarrow> None)"

definition metric_status_kind :: "raw_MetricStatus kind" where
  "metric_status_kind = (MetricStatusCell, \<lambda>c. case c of MetricStatusCell x \<Rightarrow> Some x | _ \<Rightarrow> None)"

definition metric_statuses_kind :: "(raw_MetricStatus list) kind" where
  "metric_statuses_kind = (MetricStatusesCell, \<lambda>c. case c of MetricStatusesCell x \<Rightarrow> Some x | _ \<Rightarrow> None)"

definition conditions_kind :: "(condition list) kind" where
  "conditions_kind = (ConditionsCell, \<lambda>c. case c of ConditionsCell x \<Rightarrow> Some x | _ \<Rightarrow> None)"

definition status_kind :: "raw_WatermarkPodAutoscalerStatus kind" where
  "status_kind = (StatusCell, \<lambda>c. case c of StatusCell x \<Rightarrow> Some x | _ \<Rightarrow> None)"

definition object_kind :: "raw_WatermarkPodAutoscaler kind" where
  "object_kind = (ObjectCell, \<lambda>c. case c of ObjectCell x \<Rightarrow> Some x | _ \<Rightarrow> None)"

definition objects_kind :: "(raw_WatermarkPodAutoscaler list) kind" where
  "objects_kind = (ObjectsCell, \<lambda>c. case c of ObjectsCell x \<Rightarrow> Some x | _ \<Rightarrow> None)"

definition list_kind :: "raw_WatermarkPodAutoscalerList kind" where
  "list_kind = (ListCell, \<lambda>c. case c of ListCell x \<Rightarrow> Some x | _ \<Rightarrow> None)"

lemmas kind_defs = int_kind_def quantity_kind_def time_kind_def selector_kind_def settings_kind_def tls_kind_def ref_kind_def recommender_kind_def external_kind_def resource_kind_def metric_kind_def metrics_kind_def spec_kind_def external_status_kind_def resource_status_kind_def metric_status_kind_def metric_statuses_kind_def conditions_kind_def status_kind_def object_kind_def objects_kind_def list_kind_def

lemma kinds_ok [simp]:
  "kind_ok int_kind"
  "kind_ok quantity_kind"
  "kind_ok time_kind"
  "kind_ok selector_kind"
  "kind_ok settings_kind"
  "kind_ok tls_kind"
  "kind_ok ref_kind"
  "kind_ok recommender_kind"
  "kind_ok external_kind"
  "kind_ok resource_kind"
  "kind_ok metric_kind"
  "kind_ok metrics_kind"
  "kind_ok spec_kind"
  "kind_ok external_status_kind"
  "kind_ok resource_status_kind"
  "kind_ok metric_status_kind"
  "kind_ok metric_statuses_kind"
  "kind_ok conditions_kind"
  "kind_ok status_kind"
  "kind_ok object_kind"
  "kind_ok objects_kind"
  "kind_ok list_kind"
  by (simp_all add: kind_ok_def kind_defs)

definition content :: "'a kind \<Rightarrow> heap \<Rightarrow> addr \<Rightarrow> 'a option" where
  "content k h a = (if a < length h then snd k (h ! a) else None)"

section \<open>Copying functions\<close>

type_synonym 'a copier = "heap \<Rightarrow> ('a \<times> heap) option"

definition c_return :: "'a \<Rightarrow> 'a copier" where
  "c_return x = (\<lambda>h. Some (x, h))"

definition c_bind :: "'a copier \<Rightarrow> ('a \<Rightarrow> 'b copier) \<Rightarrow> 'b copier" where
  "c_bind m f = (\<lambda>h. case m h of None \<Rightarrow> None | Some (x, h') \<Rightarrow> f x h')"

definition alloc :: "cell \<Rightarrow> addr copier" where
  "alloc c = (\<lambda>h. Some (length h, h @ [c]))"

definition load :: "'a kind \<Rightarrow> addr \<Rightarrow> 'a copier" where
  "load k a = (\<lambda>h. case content k h a of None \<Rightarrow> None | Some x \<Rightarrow> Some (x, h))"

text \<open>\<open>if in != nil { *out = new(T); (*in).DeepCopyInto(*out) }\<close>\<close>

definition copy_ptr :: "'a kind \<Rightarrow> ('a \<Rightarrow> 'a copier) \<Rightarrow> addr option \<Rightarrow> addr option copier" where
  "copy_ptr k f p = (case p of None \<Rightarrow> c_return None
     | Some a \<Rightarrow> c_bind (load k a) (\<lambda>x. c_bind (f x) (\<lambda>y. c_bind (alloc (fst k y)) (\<lambda>b. c_return (Some b)))))"

text \<open>\<open>for i := range *in { (*in)[i].DeepCopyInto(&(*out)[i]) }\<close>\<close>

fun copy_each :: "('a \<Rightarrow> 'a copier) \<Rightarrow> 'a list \<Rightarrow> 'a list copier" where
  "copy_each f [] = c_return []"
| "copy_each f (x # xs) = c_bind (f x) (\<lambda>y. c_bind (copy_each f xs) (\<lambda>ys. c_return (y # ys)))"

text \<open>\<open>for key, val := range *in { (*out)[key] = val }\<close>, from the empty map\<close>

definition copy_entries :: "(string \<times> string) list \<Rightarrow> (string \<times> string) list" where
  "copy_entries m = fold (\<lambda>(k, v). AList.update k v) m []"

section \<open>Reading values\<close>

text \<open>\<open>same\<close> is how a cell without addresses reads.  A struct has a relation of its own, between the heap, the struct and
  the value; a pointer reads as an option, a slice and a map as a list, whether it is nil or empty.\<close>

definition same :: "heap \<Rightarrow> 'a \<Rightarrow> 'a \<Rightarrow> bool" where
  "same h x v \<longleftrightarrow> x = v"

definition same_map :: "heap \<Rightarrow> ('a \<times> 'b) list \<Rightarrow> ('a \<times> 'b) list \<Rightarrow> bool" where
  "same_map h x v \<longleftrightarrow> x = v \<and> distinct (map fst v)"

definition at_ptr :: "('v \<Rightarrow> bool) \<Rightarrow> 'a kind \<Rightarrow> (heap \<Rightarrow> 'a \<Rightarrow> 'v \<Rightarrow> bool) \<Rightarrow> heap \<Rightarrow> addr option \<Rightarrow> 'v \<Rightarrow> bool" where
  "at_ptr N k R h p v = (case p of None \<Rightarrow> N v | Some a \<Rightarrow> (case content k h a of None \<Rightarrow> False | Some x \<Rightarrow> R h x v))"

definition optional :: "(heap \<Rightarrow> 'a \<Rightarrow> 'v \<Rightarrow> bool) \<Rightarrow> heap \<Rightarrow> 'a \<Rightarrow> 'v option \<Rightarrow> bool" where
  "optional R h x v = (case v of None \<Rightarrow> False | Some w \<Rightarrow> R h x w)"

definition elements :: "(heap \<Rightarrow> 'a \<Rightarrow> 'v \<Rightarrow> bool) \<Rightarrow> heap \<Rightarrow> 'a list \<Rightarrow> 'v list \<Rightarrow> bool" where
  "elements R h = list_all2 (R h)"

abbreviation pointer :: "'a kind \<Rightarrow> (heap \<Rightarrow> 'a \<Rightarrow> 'v \<Rightarrow> bool) \<Rightarrow> heap \<Rightarrow> addr option \<Rightarrow> 'v option \<Rightarrow> bool" where
  "pointer k R \<equiv> at_ptr (\<lambda>v. v = None) k (optional R)"

abbreviation slice :: "'a list kind \<Rightarrow> (heap \<Rightarrow> 'a \<Rightarrow> 'v \<Rightarrow> bool) \<Rightarrow> heap \<Rightarrow> addr option \<Rightarrow> 'v list \<Rightarrow> bool" where
  "slice k R \<equiv> at_ptr (\<lambda>v. v = []) k (elements R)"

abbreviation settings_map :: "heap \<Rightarrow> addr option \<Rightarrow> (string \<times> string) list \<Rightarrow> bool" where
  "settings_map \<equiv> at_ptr (\<lambda>v. v = []) settings_kind same_map"

section \<open>The contract of a copy\<close>

definition agree :: "nat \<Rightarrow> heap \<Rightarrow> heap \<Rightarrow> bool" where
  "agree n h h' \<longleftrightarrow> length h \<le> length h' \<and> (\<forall>i. n \<le> i \<longrightarrow> i < length h \<longrightarrow> h' ! i = h ! i)"

definition fresh :: "(heap \<Rightarrow> 'a \<Rightarrow> 'v \<Rightarrow> bool) \<Rightarrow> 'v \<Rightarrow> nat \<Rightarrow> 'a \<Rightarrow> heap \<Rightarrow> bool" where
  "fresh R v n y h \<longleftrightarrow> (\<forall>h'. agree n h h' \<longrightarrow> R h' y v)"

definition yields :: "'a copier \<Rightarrow> heap \<Rightarrow> ('a \<Rightarrow> heap \<Rightarrow> bool) \<Rightarrow> bool" where
  "yields m h Q \<longleftrightarrow> (\<exists>y h'. m h = Some (y, h') \<and> prefix h h' \<and> Q y h')"

definition persistent :: "(heap \<Rightarrow> 'a \<Rightarrow> 'v \<Rightarrow> bool) \<Rightarrow> bool" where
  "persistent R \<longleftrightarrow> (\<forall>h h' x v. R h x v \<longrightarrow> prefix h h' \<longrightarrow> R h' x v)"

definition copies :: "(heap \<Rightarrow> 'a \<Rightarrow> 'v \<Rightarrow> bool) \<Rightarrow> ('a \<Rightarrow> 'a copier) \<Rightarrow> bool" where
  "copies R f \<longleftrightarrow> persistent R \<and> (\<forall>h x v. R h x v \<longrightarrow> yields (f x) h (fresh R v (length h)))"

lemma agree_later: "agree n h' h'' \<Longrightarrow> prefix h h' \<Longrightarrow> agree n h h''"
  by (auto simp: agree_def prefix_def nth_append)

lemma agree_sooner: "agree n h h' \<Longrightarrow> n \<le> m \<Longrightarrow> agree m h h'"
  by (auto simp: agree_def)

lemma fresh_later: "fresh R v m y h \<Longrightarrow> n \<le> m \<Longrightarrow> prefix h h' \<Longrightarrow> fresh R v n y h'"
  unfolding fresh_def by (blast intro: agree_later agree_sooner)

lemma persistentD: "persistent R \<Longrightarrow> R h x v \<Longrightarrow> prefix h h' \<Longrightarrow> R h' x v"
  unfolding persistent_def by blast

lemma yields_return: "Q x h \<Longrightarrow> yields (c_return x) h Q"
  by (simp add: yields_def c_return_def)

lemma copiesE:
  assumes "copies R f" "R h x v"
  obtains y h' where "f x h = Some (y, h')" "prefix h h'" "fresh R v (length h) y h'"
proof -
  have "yields (f x) h (fresh R v (length h))" using assms by (simp add: copies_def)
  then show thesis using that by (auto simp: yields_def)
qed

lemma copies_persistent: "copies R f \<Longrightarrow> persistent R"
  by (simp add: copies_def)

text \<open>One step of a copying function: the field is read in the heap at entry, and what its copy reads as is known at the exit.\<close>

lemma yields_field:
  assumes f: "copies R f" and x: "R h0 x v" and h: "prefix h0 h"
    and k: "\<And>y h1. prefix h0 h1 \<Longrightarrow> yields (k y) h1 (\<lambda>z hn. fresh R v (length h0) y hn \<longrightarrow> Q z hn)"
  shows "yields (c_bind (f x) k) h Q"
proof -
  have "R h x v" using f x h by (auto simp: copies_def intro: persistentD)
  with f obtain y h1 where y: "f x h = Some (y, h1)" "prefix h h1" "fresh R v (length h) y h1"
    by (rule copiesE)
  have "prefix h0 h1" using h y(2) by (rule prefix_order.trans)
  from k [OF this] obtain z hn where z: "k y h1 = Some (z, hn)" "prefix h1 hn" "fresh R v (length h0) y hn \<longrightarrow> Q z hn"
    unfolding yields_def by blast
  have "fresh R v (length h0) y hn"
    using y(3) prefix_length_le [OF h] z(2) by (rule fresh_later)
  moreover have "prefix h hn" using y(2) z(2) by (rule prefix_order.trans)
  ultimately show ?thesis using y(1) z by (auto simp: yields_def c_bind_def)
qed

lemma copiesI:
  assumes "persistent R" "\<And>h x v. R h x v \<Longrightarrow> yields (f x) h (fresh R v (length h))"
  shows "copies R f"
  using assms by (simp add: copies_def)

lemma content_later: "content k h a = Some x \<Longrightarrow> prefix h h' \<Longrightarrow> content k h' a = Some x"
  by (auto simp: content_def prefix_def nth_append split: if_splits)

lemma persistent_at_ptr: "persistent R \<Longrightarrow> persistent (at_ptr N k R)"
  unfolding persistent_def at_ptr_def by (auto split: option.splits dest: content_later)

lemma at_ptr_later: "at_ptr N k R h p v \<Longrightarrow> prefix h h' \<Longrightarrow> persistent R \<Longrightarrow> at_ptr N k R h' p v"
  using persistent_at_ptr by (rule persistentD)

lemma persistent_same [simp]: "persistent same"
  by (simp add: persistent_def same_def)

lemma persistent_optional [simp]: "persistent R \<Longrightarrow> persistent (optional R)"
  by (auto simp: persistent_def optional_def split: option.splits)

lemma persistent_elements [simp]: "persistent R \<Longrightarrow> persistent (elements R)"
  by (auto simp: persistent_def elements_def elim!: list_all2_mono)

lemma persistent_same_map [simp]: "persistent same_map"
  by (simp add: persistent_def same_map_def)

text \<open>A cell that is allocated after its content was copied\<close>

lemma copies_ptr:
  assumes k: "kind_ok k" and f: "copies R f"
  shows "copies (at_ptr N k R) (copy_ptr k f)"
proof (rule copiesI)
  show "persistent (at_ptr N k R)" using f by (intro persistent_at_ptr) (simp add: copies_def)
  fix h p v assume at: "at_ptr N k R h p v"
  show "yields (copy_ptr k f p) h (fresh (at_ptr N k R) v (length h))"
  proof (cases p)
    case None
    then show ?thesis using at by (auto simp: copy_ptr_def at_ptr_def fresh_def intro!: yields_return)
  next
    case (Some a)
    then obtain x where x: "content k h a = Some x" "R h x v" using at by (auto simp: at_ptr_def split: option.splits)
    obtain y h1 where y: "f x h = Some (y, h1)" "prefix h h1" "fresh R v (length h) y h1"
      using f x(2) by (rule copiesE)
    let ?h' = "h1 @ [fst k y]"
    have run: "copy_ptr k f p h = Some (Some (length h1), ?h')"
      using x(1) y(1) Some by (simp add: copy_ptr_def load_def c_bind_def alloc_def c_return_def)
    have "fresh (at_ptr N k R) v (length h) (Some (length h1)) ?h'"
      unfolding fresh_def
    proof (intro allI impI)
      fix h'' assume ag: "agree (length h) ?h' h''"
      have "R h'' y v" using y(3) agree_later [OF ag, of h1] by (auto simp: fresh_def)
      moreover have "content k h'' (length h1) = Some y"
        using ag k prefix_length_le [OF y(2)] by (auto simp: agree_def content_def kind_ok_def)
      ultimately show "at_ptr N k R h'' (Some (length h1)) v" by (simp add: at_ptr_def)
    qed
    then show ?thesis using run y(2) by (auto simp: yields_def)
  qed
qed

lemma copies_same: "(\<And>x. g x = x) \<Longrightarrow> copies same (\<lambda>x. c_return (g x))"
  by (auto simp: copies_def same_def fresh_def intro!: yields_return)

lemma fold_update_fresh:
  "distinct (map fst (acc @ m)) \<Longrightarrow> fold (\<lambda>(k, v). AList.update k v) m acc = acc @ m"
proof (induction m arbitrary: acc)
  case (Cons kv m)
  obtain k v where kv: "kv = (k, v)" by (cases kv)
  have "k \<notin> fst ` set acc" using Cons.prems kv by auto
  then have "AList.update k v acc = acc @ [(k, v)]" by (induction acc) auto
  then show ?case using Cons.IH [of "acc @ [(k, v)]"] Cons.prems kv by simp
qed simp

lemma copies_entries: "copies same_map (\<lambda>m. c_return (copy_entries m))"
  using fold_update_fresh [of "[]"]
  by (auto simp: copies_def same_map_def fresh_def copy_entries_def intro!: yields_return)

lemma copies_optional:
  assumes "copies R f" shows "copies (optional R) f"
  using assms by (fastforce simp: copies_def persistent_def optional_def yields_def fresh_def split: option.splits)

lemma copies_each:
  assumes f: "copies R f" shows "copies (elements R) (copy_each f)"
proof (rule copiesI)
  show "persistent (elements R)" using f by (simp add: copies_def)
  fix h xs vs assume "elements R h xs vs"
  then have "list_all2 (R h) xs vs" by (simp add: elements_def)
  then have "yields (copy_each f xs) h' (fresh (elements R) vs (length h))" if "prefix h h'" for h'
    using that
  proof (induction arbitrary: h' rule: list_all2_induct)
    case Nil
    show ?case by (auto simp: fresh_def elements_def intro!: yields_return)
  next
    case (Cons x xs v vs)
    show ?case
      unfolding copy_each.simps
    proof (rule yields_field [where R = R and f = f, OF f Cons.hyps(1) Cons.prems])
      fix y h1 assume "prefix h h1"
      from Cons.IH [OF this] obtain ys hn where "copy_each f xs h1 = Some (ys, hn)" "prefix h1 hn"
        "fresh (elements R) vs (length h) ys hn" unfolding yields_def by blast
      then show "yields (c_bind (copy_each f xs) (\<lambda>ys. c_return (y # ys))) h1
          (\<lambda>z hn. fresh R v (length h) y hn \<longrightarrow> fresh (elements R) (v # vs) (length h) z hn)"
        by (auto simp: yields_def c_bind_def c_return_def fresh_def elements_def)
    qed
  qed
  then show "yields (copy_each f xs) h (fresh (elements R) vs (length h))" by simp
qed

lemmas copies_pointer = copies_ptr [OF _ copies_optional]
lemmas copies_slice = copies_ptr [OF _ copies_each]

lemma copies_value: "kind_ok k \<Longrightarrow> (\<And>x. g x = x) \<Longrightarrow> copies (pointer k same) (copy_ptr k (\<lambda>x. c_return (g x)))"
  by (intro copies_pointer copies_same)

lemma copies_settings: "copies settings_map (copy_ptr settings_kind (\<lambda>m. c_return (copy_entries m)))"
  by (intro copies_ptr copies_entries) simp

section \<open>What the contract gives\<close>

text \<open>Later writes: a list of addresses and what is stored there\<close>

definition overwrite :: "(addr \<times> cell) list \<Rightarrow> heap \<Rightarrow> heap" where
  "overwrite ws h = fold (\<lambda>(a, c) h. h[a := c]) ws h"

lemma length_overwrite [simp]: "length (overwrite ws h) = length h"
  by (induction ws arbitrary: h) (auto simp: overwrite_def)

lemma overwrite_frame: "(\<And>w. w \<in> set ws \<Longrightarrow> fst w \<noteq> i) \<Longrightarrow> overwrite ws h ! i = h ! i"
  by (induction ws arbitrary: h) (force simp: overwrite_def)+

lemma agree_overwrite: "(\<forall>w \<in> set ws. fst w < n) \<Longrightarrow> agree n h (overwrite ws h)"
  by (fastforce simp: agree_def intro!: overwrite_frame)

lemma prefix_overwrite:
  assumes "prefix h h'" "\<forall>w \<in> set ws. length h \<le> fst w"
  shows "prefix h (overwrite ws h')"
proof -
  have "overwrite ws h' ! i = h ! i" if "i < length h" for i
  proof -
    have "overwrite ws h' ! i = h' ! i" using that assms(2) by (intro overwrite_frame) fastforce
    then show ?thesis using that assms(1) by (auto simp: prefix_def nth_append)
  qed
  then have "take (length h) (overwrite ws h') = h"
    using prefix_length_le [OF assms(1)] by (intro nth_equalityI) auto
  then show ?thesis by (metis take_is_prefix)
qed

lemma copies_are_independent:
  assumes f: "copies R f" and x: "R h x v"
  shows "\<exists>y h'. f x h = Some (y, h') \<and>
    (\<forall>ws. (\<forall>w \<in> set ws. fst w < length h) \<longrightarrow> R (overwrite ws h') y v) \<and>
    (\<forall>ws. (\<forall>w \<in> set ws. length h \<le> fst w) \<longrightarrow> R (overwrite ws h') x v)"
proof -
  obtain y h' where y: "f x h = Some (y, h')" "prefix h h'" "fresh R v (length h) y h'"
    using f x by (rule copiesE)
  show ?thesis
    using y copies_persistent [OF f] x by (auto simp: fresh_def intro: agree_overwrite persistentD prefix_overwrite)
qed

end
