(* ===== verification/Deepcopy.thy ===== *)
theory Deepcopy
  imports Heap_Copy
begin

text \<open>
  The functions of \<open>zz_generated.deepcopy.go\<close>, on the heap of \<open>Heap_Copy\<close>: for every type of the API, \<open>DeepCopyInto\<close> (the struct that is written
  to \<open>out\<close>), \<open>DeepCopy\<close> (the pointer that is returned) and \<open>reads_\<dots>\<close>, how the struct reads as a value of \<open>Api_Types\<close>.  The copying functions of the
  library's own types are the record \<open>copy_lib\<close>; that they return an equal value is \<open>copy_lib_ok\<close>.  For each type, \<open>copies_\<dots>\<close> is the
  contract of \<open>Heap_Copy\<close>; the collection \<open>copy_steps\<close> makes the contracts of the fields one step each of the proof about the struct.
\<close>

section \<open>Fields of the library's types\<close>

record copy_lib =
  Quantity_DeepCopy :: "quantity \<Rightarrow> quantity"
  Time_DeepCopy :: "time \<Rightarrow> time"
  LabelSelector_DeepCopyInto :: "label_selector \<Rightarrow> label_selector"
  Condition_DeepCopyInto :: "condition \<Rightarrow> condition"
  ObjectMeta_DeepCopyInto :: "object_meta \<Rightarrow> object_meta"
  ListMeta_DeepCopyInto :: "string \<Rightarrow> string"

definition copy_lib_ok :: "copy_lib \<Rightarrow> bool" where
  "copy_lib_ok L \<longleftrightarrow> (\<forall>q. Quantity_DeepCopy L q = q) \<and> (\<forall>t. Time_DeepCopy L t = t) \<and> (\<forall>l. LabelSelector_DeepCopyInto L l = l) \<and>
     (\<forall>c. Condition_DeepCopyInto L c = c) \<and> (\<forall>m. ObjectMeta_DeepCopyInto L m = m) \<and> (\<forall>m. ListMeta_DeepCopyInto L m = m)"

text \<open>\<open>x := ( *in).DeepCopy(); *out = &x\<close>, \<open>*out = new(v1.LabelSelector); ( *in).DeepCopyInto( *out)\<close> and \<open>*out = new(int32); **out = **in\<close>\<close>

definition copy_quantity :: "copy_lib \<Rightarrow> addr option \<Rightarrow> addr option copier" where
  "copy_quantity L = copy_ptr quantity_kind (\<lambda>q. c_return (Quantity_DeepCopy L q))"

definition copy_selector :: "copy_lib \<Rightarrow> addr option \<Rightarrow> addr option copier" where
  "copy_selector L = copy_ptr selector_kind (\<lambda>l. c_return (LabelSelector_DeepCopyInto L l))"

definition copy_time :: "copy_lib \<Rightarrow> addr option \<Rightarrow> addr option copier" where
  "copy_time L = copy_ptr time_kind (\<lambda>t. c_return (Time_DeepCopy L t))"

definition copy_int :: "addr option \<Rightarrow> addr option copier" where
  "copy_int = copy_ptr int_kind c_return"

definition copy_conditions :: "copy_lib \<Rightarrow> addr option \<Rightarrow> addr option copier" where
  "copy_conditions L = copy_ptr conditions_kind (copy_each (\<lambda>c. c_return (Condition_DeepCopyInto L c)))"

definition copy_settings :: "addr option \<Rightarrow> addr option copier" where
  "copy_settings = copy_ptr settings_kind (\<lambda>m. c_return (copy_entries m))"

lemma copies_quantity: "copy_lib_ok L \<Longrightarrow> copies (pointer quantity_kind same) (copy_quantity L)"
  by (simp add: copy_quantity_def copy_lib_ok_def copies_value)

lemma copies_selector: "copy_lib_ok L \<Longrightarrow> copies (pointer selector_kind same) (copy_selector L)"
  by (simp add: copy_selector_def copy_lib_ok_def copies_value)

lemma copies_time: "copy_lib_ok L \<Longrightarrow> copies (pointer time_kind same) (copy_time L)"
  by (simp add: copy_time_def copy_lib_ok_def copies_value)

lemma copies_int: "copies (pointer int_kind same) copy_int"
  using copies_value [of int_kind "\<lambda>i. i"] by (simp add: copy_int_def)

lemma copies_conditions: "copy_lib_ok L \<Longrightarrow> copies (slice conditions_kind same) (copy_conditions L)"
  unfolding copy_conditions_def by (intro copies_slice copies_same) (simp_all add: copy_lib_ok_def)

lemma copies_settings_field: "copies settings_map copy_settings"
  unfolding copy_settings_def by (rule copies_settings)

declare copies_quantity [THEN yields_field, copy_steps] copies_selector [THEN yields_field, copy_steps]
  copies_time [THEN yields_field, copy_steps] copies_int [THEN yields_field, copy_steps]
  copies_conditions [THEN yields_field, copy_steps] copies_settings_field [THEN yields_field, copy_steps] yields_return [copy_steps]

section \<open>Structs without addresses\<close>

definition DeepCopyInto_CrossVersionObjectReference :: "CrossVersionObjectReference \<Rightarrow> CrossVersionObjectReference copier" where
  "DeepCopyInto_CrossVersionObjectReference r = c_return r"

definition DeepCopy_CrossVersionObjectReference :: "addr option \<Rightarrow> addr option copier" where
  "DeepCopy_CrossVersionObjectReference = copy_ptr ref_kind DeepCopyInto_CrossVersionObjectReference"

definition DeepCopyInto_TLSConfig :: "TLSConfig \<Rightarrow> TLSConfig copier" where
  "DeepCopyInto_TLSConfig r = c_return r"

definition DeepCopy_TLSConfig :: "addr option \<Rightarrow> addr option copier" where
  "DeepCopy_TLSConfig = copy_ptr tls_kind DeepCopyInto_TLSConfig"

lemma copies_struct_values:
  "copies same DeepCopyInto_CrossVersionObjectReference" "copies same DeepCopyInto_TLSConfig"
  using copies_same [of "\<lambda>x. x"]
  by (simp_all add: copies_def DeepCopyInto_CrossVersionObjectReference_def DeepCopyInto_TLSConfig_def)

lemma copies_TLSConfig: "copies (pointer tls_kind same) (copy_ptr tls_kind c_return)"
  using copies_value [of tls_kind "\<lambda>x. x"] by simp

declare copies_TLSConfig [THEN yields_field, copy_steps]

section \<open>The metric sources and the specification\<close>

definition DeepCopyInto_ExternalMetricSource :: "copy_lib \<Rightarrow> raw_ExternalMetricSource \<Rightarrow> raw_ExternalMetricSource copier" where
  "DeepCopyInto_ExternalMetricSource L r =
     c_bind (copy_selector L (re_MetricSelector r)) (\<lambda>x1.
     c_bind (copy_quantity L (re_HighWatermark r)) (\<lambda>x2.
     c_bind (copy_quantity L (re_LowWatermark r)) (\<lambda>x3.
     c_return (r\<lparr>re_MetricSelector := x1, re_HighWatermark := x2, re_LowWatermark := x3\<rparr>))))"

definition DeepCopy_ExternalMetricSource :: "copy_lib \<Rightarrow> addr option \<Rightarrow> addr option copier" where
  "DeepCopy_ExternalMetricSource L = copy_ptr external_kind (DeepCopyInto_ExternalMetricSource L)"

definition reads_ExternalMetricSource :: "heap \<Rightarrow> raw_ExternalMetricSource \<Rightarrow> ExternalMetricSource \<Rightarrow> bool" where
  "reads_ExternalMetricSource h r v \<longleftrightarrow> re_MetricName r = ext_MetricName v \<and>
     pointer selector_kind same h (re_MetricSelector r) (ext_MetricSelector v) \<and>
     pointer quantity_kind same h (re_HighWatermark r) (ext_HighWatermark v) \<and>
     pointer quantity_kind same h (re_LowWatermark r) (ext_LowWatermark v)"

lemma persistent_ExternalMetricSource [simp]: "persistent reads_ExternalMetricSource"
  unfolding persistent_def [of reads_ExternalMetricSource] reads_ExternalMetricSource_def by (auto intro: at_ptr_later)

lemma copies_ExternalMetricSource: "copy_lib_ok L \<Longrightarrow> copies reads_ExternalMetricSource (DeepCopyInto_ExternalMetricSource L)"
  by (rule copiesI) (auto simp: DeepCopyInto_ExternalMetricSource_def reads_ExternalMetricSource_def fresh_def copy_lib_ok_def intro!: copy_steps)

definition DeepCopyInto_ResourceMetricSource :: "copy_lib \<Rightarrow> raw_ResourceMetricSource \<Rightarrow> raw_ResourceMetricSource copier" where
  "DeepCopyInto_ResourceMetricSource L r =
     c_bind (copy_selector L (rs_MetricSelector r)) (\<lambda>x1.
     c_bind (copy_quantity L (rs_HighWatermark r)) (\<lambda>x2.
     c_bind (copy_quantity L (rs_LowWatermark r)) (\<lambda>x3.
     c_return (r\<lparr>rs_MetricSelector := x1, rs_HighWatermark := x2, rs_LowWatermark := x3\<rparr>))))"

definition DeepCopy_ResourceMetricSource :: "copy_lib \<Rightarrow> addr option \<Rightarrow> addr option copier" where
  "DeepCopy_ResourceMetricSource L = copy_ptr resource_kind (DeepCopyInto_ResourceMetricSource L)"

definition reads_ResourceMetricSource :: "heap \<Rightarrow> raw_ResourceMetricSource \<Rightarrow> ResourceMetricSource \<Rightarrow> bool" where
  "reads_ResourceMetricSource h r v \<longleftrightarrow> rs_Name r = res_Name v \<and> pointer selector_kind same h (rs_MetricSelector r) (res_MetricSelector v) \<and>
     pointer quantity_kind same h (rs_HighWatermark r) (res_HighWatermark v) \<and>
     pointer quantity_kind same h (rs_LowWatermark r) (res_LowWatermark v)"

lemma persistent_ResourceMetricSource [simp]: "persistent reads_ResourceMetricSource"
  unfolding persistent_def [of reads_ResourceMetricSource] reads_ResourceMetricSource_def by (auto intro: at_ptr_later)

lemma copies_ResourceMetricSource: "copy_lib_ok L \<Longrightarrow> copies reads_ResourceMetricSource (DeepCopyInto_ResourceMetricSource L)"
  by (rule copiesI) (auto simp: DeepCopyInto_ResourceMetricSource_def reads_ResourceMetricSource_def fresh_def copy_lib_ok_def intro!: copy_steps)

lemma copies_sources:
  assumes "copy_lib_ok L"
  shows "copies (pointer external_kind reads_ExternalMetricSource) (copy_ptr external_kind (DeepCopyInto_ExternalMetricSource L))"
    and "copies (pointer resource_kind reads_ResourceMetricSource) (copy_ptr resource_kind (DeepCopyInto_ResourceMetricSource L))"
  using assms by (simp_all add: copies_pointer copies_ExternalMetricSource copies_ResourceMetricSource)

declare copies_sources [THEN yields_field, copy_steps]

definition DeepCopyInto_MetricSpec :: "copy_lib \<Rightarrow> raw_MetricSpec \<Rightarrow> raw_MetricSpec copier" where
  "DeepCopyInto_MetricSpec L r =
     c_bind (copy_ptr external_kind (DeepCopyInto_ExternalMetricSource L) (rm_External r)) (\<lambda>x1.
     c_bind (copy_ptr resource_kind (DeepCopyInto_ResourceMetricSource L) (rm_Resource r)) (\<lambda>x2.
     c_return (r\<lparr>rm_External := x1, rm_Resource := x2\<rparr>)))"

definition DeepCopy_MetricSpec :: "copy_lib \<Rightarrow> addr option \<Rightarrow> addr option copier" where
  "DeepCopy_MetricSpec L = copy_ptr metric_kind (DeepCopyInto_MetricSpec L)"

definition reads_MetricSpec :: "heap \<Rightarrow> raw_MetricSpec \<Rightarrow> MetricSpec \<Rightarrow> bool" where
  "reads_MetricSpec h r v \<longleftrightarrow> rm_Type r = ms_Type v \<and>
     pointer external_kind reads_ExternalMetricSource h (rm_External r) (ms_External v) \<and>
     pointer resource_kind reads_ResourceMetricSource h (rm_Resource r) (ms_Resource v)"

lemma persistent_MetricSpec [simp]: "persistent reads_MetricSpec"
  unfolding persistent_def [of reads_MetricSpec] reads_MetricSpec_def by (auto intro: at_ptr_later)

lemma copies_MetricSpec: "copy_lib_ok L \<Longrightarrow> copies reads_MetricSpec (DeepCopyInto_MetricSpec L)"
  by (rule copiesI) (auto simp: DeepCopyInto_MetricSpec_def reads_MetricSpec_def fresh_def copy_lib_ok_def intro!: copy_steps)

definition DeepCopyInto_RecommenderSpec :: "copy_lib \<Rightarrow> raw_RecommenderSpec \<Rightarrow> raw_RecommenderSpec copier" where
  "DeepCopyInto_RecommenderSpec L r =
     c_bind (copy_ptr tls_kind c_return (rr_TLSConfig r)) (\<lambda>x1.
     c_bind (copy_settings (rr_Settings r)) (\<lambda>x2.
     c_bind (copy_quantity L (rr_HighWatermark r)) (\<lambda>x3.
     c_bind (copy_quantity L (rr_LowWatermark r)) (\<lambda>x4.
     c_return (r\<lparr>rr_TLSConfig := x1, rr_Settings := x2, rr_HighWatermark := x3, rr_LowWatermark := x4\<rparr>)))))"

definition DeepCopy_RecommenderSpec :: "copy_lib \<Rightarrow> addr option \<Rightarrow> addr option copier" where
  "DeepCopy_RecommenderSpec L = copy_ptr recommender_kind (DeepCopyInto_RecommenderSpec L)"

definition reads_RecommenderSpec :: "heap \<Rightarrow> raw_RecommenderSpec \<Rightarrow> RecommenderSpec \<Rightarrow> bool" where
  "reads_RecommenderSpec h r v \<longleftrightarrow> rr_URL r = reco_URL v \<and> pointer tls_kind same h (rr_TLSConfig r) (reco_TLSConfig v) \<and>
     settings_map h (rr_Settings r) (reco_Settings v) \<and> rr_TargetType r = reco_TargetType v \<and>
     pointer quantity_kind same h (rr_HighWatermark r) (reco_HighWatermark v) \<and>
     pointer quantity_kind same h (rr_LowWatermark r) (reco_LowWatermark v)"

lemma persistent_RecommenderSpec [simp]: "persistent reads_RecommenderSpec"
  unfolding persistent_def [of reads_RecommenderSpec] reads_RecommenderSpec_def by (auto intro: at_ptr_later)

lemma copies_RecommenderSpec: "copy_lib_ok L \<Longrightarrow> copies reads_RecommenderSpec (DeepCopyInto_RecommenderSpec L)"
  by (rule copiesI) (auto simp: DeepCopyInto_RecommenderSpec_def reads_RecommenderSpec_def fresh_def copy_lib_ok_def intro!: copy_steps)

lemma copies_spec_fields:
  assumes "copy_lib_ok L"
  shows "copies (slice metrics_kind reads_MetricSpec) (copy_ptr metrics_kind (copy_each (DeepCopyInto_MetricSpec L)))"
    and "copies (pointer recommender_kind reads_RecommenderSpec) (copy_ptr recommender_kind (DeepCopyInto_RecommenderSpec L))"
  using assms by (simp_all add: copies_pointer copies_slice copies_MetricSpec copies_RecommenderSpec)

declare copies_spec_fields [THEN yields_field, copy_steps]

definition DeepCopyInto_WatermarkPodAutoscalerSpec :: "copy_lib \<Rightarrow> raw_WatermarkPodAutoscalerSpec \<Rightarrow> raw_WatermarkPodAutoscalerSpec copier" where
  "DeepCopyInto_WatermarkPodAutoscalerSpec L r =
     c_bind (copy_quantity L (rp_ScaleUpLimitFactor r)) (\<lambda>x1.
     c_bind (copy_quantity L (rp_ScaleDownLimitFactor r)) (\<lambda>x2.
     c_bind (copy_int (rp_ReplicaScalingAbsoluteModulo r)) (\<lambda>x3.
     c_bind (copy_ptr metrics_kind (copy_each (DeepCopyInto_MetricSpec L)) (rp_Metrics r)) (\<lambda>x4.
     c_bind (copy_ptr recommender_kind (DeepCopyInto_RecommenderSpec L) (rp_Recommender r)) (\<lambda>x5.
     c_bind (copy_int (rp_MinReplicas r)) (\<lambda>x6.
     c_return (r\<lparr>rp_ScaleUpLimitFactor := x1, rp_ScaleDownLimitFactor := x2, rp_ReplicaScalingAbsoluteModulo := x3,
       rp_Tolerance := Quantity_DeepCopy L (rp_Tolerance r), rp_ScaleTargetRef := rp_ScaleTargetRef r,
       rp_Metrics := x4, rp_Recommender := x5, rp_MinReplicas := x6\<rparr>)))))))"

definition DeepCopy_WatermarkPodAutoscalerSpec :: "copy_lib \<Rightarrow> addr option \<Rightarrow> addr option copier" where
  "DeepCopy_WatermarkPodAutoscalerSpec L = copy_ptr spec_kind (DeepCopyInto_WatermarkPodAutoscalerSpec L)"

definition reads_WatermarkPodAutoscalerSpec :: "heap \<Rightarrow> raw_WatermarkPodAutoscalerSpec \<Rightarrow> WatermarkPodAutoscalerSpec \<Rightarrow> bool" where
  "reads_WatermarkPodAutoscalerSpec h r v \<longleftrightarrow> rp_DownscaleForbiddenWindowSeconds r = DownscaleForbiddenWindowSeconds v \<and>
     rp_UpscaleForbiddenWindowSeconds r = UpscaleForbiddenWindowSeconds v \<and>
     pointer quantity_kind same h (rp_ScaleUpLimitFactor r) (ScaleUpLimitFactor v) \<and>
     rp_UpscaleDelayAboveWatermarkSeconds r = UpscaleDelayAboveWatermarkSeconds v \<and>
     pointer quantity_kind same h (rp_ScaleDownLimitFactor r) (ScaleDownLimitFactor v) \<and>
     rp_DownscaleDelayBelowWatermarkSeconds r = DownscaleDelayBelowWatermarkSeconds v \<and>
     pointer int_kind same h (rp_ReplicaScalingAbsoluteModulo r) (ReplicaScalingAbsoluteModulo v) \<and>
     rp_ConvergeTowardsWatermark r = ConvergeTowardsWatermark v \<and> rp_Tolerance r = Tolerance v \<and>
     rp_Algorithm r = Algorithm v \<and> rp_DryRun r = DryRun v \<and> rp_TolerateZero r = TolerateZero v \<and>
     rp_ScaleTargetRef r = ScaleTargetRef v \<and>
     slice metrics_kind reads_MetricSpec h (rp_Metrics r) (Metrics v) \<and>
     pointer recommender_kind reads_RecommenderSpec h (rp_Recommender r) (Recommender v) \<and>
     pointer int_kind same h (rp_MinReplicas r) (MinReplicas v) \<and>
     rp_MinAvailableReplicaPercentage r = MinAvailableReplicaPercentage v \<and>
     rp_MaxReplicas r = MaxReplicas v \<and> rp_ReadinessDelaySeconds r = ReadinessDelaySeconds v"

lemma persistent_WatermarkPodAutoscalerSpec [simp]: "persistent reads_WatermarkPodAutoscalerSpec"
  unfolding persistent_def [of reads_WatermarkPodAutoscalerSpec] reads_WatermarkPodAutoscalerSpec_def by (auto intro: at_ptr_later)

lemma copies_WatermarkPodAutoscalerSpec: "copy_lib_ok L \<Longrightarrow> copies reads_WatermarkPodAutoscalerSpec (DeepCopyInto_WatermarkPodAutoscalerSpec L)"
  by (rule copiesI) (auto simp: DeepCopyInto_WatermarkPodAutoscalerSpec_def reads_WatermarkPodAutoscalerSpec_def fresh_def copy_lib_ok_def intro!: copy_steps)

section \<open>The status\<close>

definition DeepCopyInto_ExternalMetricStatus :: "copy_lib \<Rightarrow> raw_ExternalMetricStatus \<Rightarrow> raw_ExternalMetricStatus copier" where
  "DeepCopyInto_ExternalMetricStatus L r =
     c_bind (copy_selector L (rx_MetricSelector r)) (\<lambda>x1.
     c_bind (copy_quantity L (rx_CurrentAverageValue r)) (\<lambda>x2.
     c_return (r\<lparr>rx_MetricSelector := x1, rx_CurrentValue := Quantity_DeepCopy L (rx_CurrentValue r),
       rx_CurrentAverageValue := x2\<rparr>)))"

definition DeepCopy_ExternalMetricStatus :: "copy_lib \<Rightarrow> addr option \<Rightarrow> addr option copier" where
  "DeepCopy_ExternalMetricStatus L = copy_ptr external_status_kind (DeepCopyInto_ExternalMetricStatus L)"

definition reads_ExternalMetricStatus :: "heap \<Rightarrow> raw_ExternalMetricStatus \<Rightarrow> ExternalMetricStatus \<Rightarrow> bool" where
  "reads_ExternalMetricStatus h r v \<longleftrightarrow> rx_MetricName r = exs_MetricName v \<and>
     pointer selector_kind same h (rx_MetricSelector r) (exs_MetricSelector v) \<and>
     rx_CurrentValue r = exs_CurrentValue v \<and>
     pointer quantity_kind same h (rx_CurrentAverageValue r) (exs_CurrentAverageValue v)"

lemma persistent_ExternalMetricStatus [simp]: "persistent reads_ExternalMetricStatus"
  unfolding persistent_def [of reads_ExternalMetricStatus] reads_ExternalMetricStatus_def by (auto intro: at_ptr_later)

lemma copies_ExternalMetricStatus: "copy_lib_ok L \<Longrightarrow> copies reads_ExternalMetricStatus (DeepCopyInto_ExternalMetricStatus L)"
  by (rule copiesI) (auto simp: DeepCopyInto_ExternalMetricStatus_def reads_ExternalMetricStatus_def fresh_def copy_lib_ok_def intro!: copy_steps)

definition DeepCopyInto_ResourceMetricStatus :: "copy_lib \<Rightarrow> raw_ResourceMetricStatus \<Rightarrow> raw_ResourceMetricStatus copier" where
  "DeepCopyInto_ResourceMetricStatus L r =
     c_bind (copy_int (ry_CurrentAverageUtilization r)) (\<lambda>x1.
     c_return (r\<lparr>ry_CurrentAverageUtilization := x1,
       ry_CurrentAverageValue := Quantity_DeepCopy L (ry_CurrentAverageValue r)\<rparr>))"

definition DeepCopy_ResourceMetricStatus :: "copy_lib \<Rightarrow> addr option \<Rightarrow> addr option copier" where
  "DeepCopy_ResourceMetricStatus L = copy_ptr resource_status_kind (DeepCopyInto_ResourceMetricStatus L)"

definition reads_ResourceMetricStatus :: "heap \<Rightarrow> raw_ResourceMetricStatus \<Rightarrow> ResourceMetricStatus \<Rightarrow> bool" where
  "reads_ResourceMetricStatus h r v \<longleftrightarrow> ry_Name r = rss_Name v \<and>
     pointer int_kind same h (ry_CurrentAverageUtilization r) (rss_CurrentAverageUtilization v) \<and>
     ry_CurrentAverageValue r = rss_CurrentAverageValue v"

lemma persistent_ResourceMetricStatus [simp]: "persistent reads_ResourceMetricStatus"
  unfolding persistent_def [of reads_ResourceMetricStatus] reads_ResourceMetricStatus_def by (auto intro: at_ptr_later)

lemma copies_ResourceMetricStatus: "copy_lib_ok L \<Longrightarrow> copies reads_ResourceMetricStatus (DeepCopyInto_ResourceMetricStatus L)"
  by (rule copiesI) (auto simp: DeepCopyInto_ResourceMetricStatus_def reads_ResourceMetricStatus_def fresh_def copy_lib_ok_def intro!: copy_steps)

lemma copies_metric_status_fields:
  assumes "copy_lib_ok L"
  shows "copies (pointer resource_status_kind reads_ResourceMetricStatus) (copy_ptr resource_status_kind (DeepCopyInto_ResourceMetricStatus L))"
    and "copies (pointer external_status_kind reads_ExternalMetricStatus) (copy_ptr external_status_kind (DeepCopyInto_ExternalMetricStatus L))"
  using assms by (simp_all add: copies_pointer copies_ResourceMetricStatus copies_ExternalMetricStatus)

declare copies_metric_status_fields [THEN yields_field, copy_steps]

definition DeepCopyInto_MetricStatus :: "copy_lib \<Rightarrow> raw_MetricStatus \<Rightarrow> raw_MetricStatus copier" where
  "DeepCopyInto_MetricStatus L r =
     c_bind (copy_ptr resource_status_kind (DeepCopyInto_ResourceMetricStatus L) (rt_Resource r)) (\<lambda>x1.
     c_bind (copy_ptr external_status_kind (DeepCopyInto_ExternalMetricStatus L) (rt_External r)) (\<lambda>x2.
     c_return (r\<lparr>rt_Resource := x1, rt_External := x2\<rparr>)))"

definition DeepCopy_MetricStatus :: "copy_lib \<Rightarrow> addr option \<Rightarrow> addr option copier" where
  "DeepCopy_MetricStatus L = copy_ptr metric_status_kind (DeepCopyInto_MetricStatus L)"

definition reads_MetricStatus :: "heap \<Rightarrow> raw_MetricStatus \<Rightarrow> MetricStatus \<Rightarrow> bool" where
  "reads_MetricStatus h r v \<longleftrightarrow> rt_Type r = mst_Type v \<and>
     pointer resource_status_kind reads_ResourceMetricStatus h (rt_Resource r) (mst_Resource v) \<and>
     pointer external_status_kind reads_ExternalMetricStatus h (rt_External r) (mst_External v)"

lemma persistent_MetricStatus [simp]: "persistent reads_MetricStatus"
  unfolding persistent_def [of reads_MetricStatus] reads_MetricStatus_def by (auto intro: at_ptr_later)

lemma copies_MetricStatus: "copy_lib_ok L \<Longrightarrow> copies reads_MetricStatus (DeepCopyInto_MetricStatus L)"
  by (rule copiesI) (auto simp: DeepCopyInto_MetricStatus_def reads_MetricStatus_def fresh_def copy_lib_ok_def intro!: copy_steps)

lemma copies_metric_statuses:
  "copy_lib_ok L \<Longrightarrow> copies (slice metric_statuses_kind reads_MetricStatus) (copy_ptr metric_statuses_kind (copy_each (DeepCopyInto_MetricStatus L)))"
  by (simp add: copies_slice copies_MetricStatus)

declare copies_metric_statuses [THEN yields_field, copy_steps]

definition DeepCopyInto_WatermarkPodAutoscalerStatus :: "copy_lib \<Rightarrow> raw_WatermarkPodAutoscalerStatus \<Rightarrow> raw_WatermarkPodAutoscalerStatus copier" where
  "DeepCopyInto_WatermarkPodAutoscalerStatus L r =
     c_bind (copy_int (ru_ObservedGeneration r)) (\<lambda>x1.
     c_bind (copy_time L (ru_LastScaleTime r)) (\<lambda>x2.
     c_bind (copy_ptr metric_statuses_kind (copy_each (DeepCopyInto_MetricStatus L)) (ru_CurrentMetrics r)) (\<lambda>x3.
     c_bind (copy_conditions L (ru_Conditions r)) (\<lambda>x4.
     c_return (r\<lparr>ru_ObservedGeneration := x1, ru_LastScaleTime := x2, ru_CurrentMetrics := x3, ru_Conditions := x4\<rparr>)))))"

definition DeepCopy_WatermarkPodAutoscalerStatus :: "copy_lib \<Rightarrow> addr option \<Rightarrow> addr option copier" where
  "DeepCopy_WatermarkPodAutoscalerStatus L = copy_ptr status_kind (DeepCopyInto_WatermarkPodAutoscalerStatus L)"

definition reads_WatermarkPodAutoscalerStatus :: "heap \<Rightarrow> raw_WatermarkPodAutoscalerStatus \<Rightarrow> WatermarkPodAutoscalerStatus \<Rightarrow> bool" where
  "reads_WatermarkPodAutoscalerStatus h r v \<longleftrightarrow> pointer int_kind same h (ru_ObservedGeneration r) (ObservedGeneration v) \<and>
     pointer time_kind same h (ru_LastScaleTime r) (LastScaleTime v) \<and>
     ru_ScalingEventsCount r = ScalingEventsCount v \<and> ru_CurrentReplicas r = CurrentReplicas v \<and>
     ru_DesiredReplicas r = DesiredReplicas v \<and>
     slice metric_statuses_kind reads_MetricStatus h (ru_CurrentMetrics r) (CurrentMetrics v) \<and>
     slice conditions_kind same h (ru_Conditions r) (Conditions v) \<and>
     ru_LastConditionType r = LastConditionType v \<and> ru_LastConditionState r = LastConditionState v"

lemma persistent_WatermarkPodAutoscalerStatus [simp]: "persistent reads_WatermarkPodAutoscalerStatus"
  unfolding persistent_def [of reads_WatermarkPodAutoscalerStatus] reads_WatermarkPodAutoscalerStatus_def by (auto intro: at_ptr_later)

lemma copies_WatermarkPodAutoscalerStatus: "copy_lib_ok L \<Longrightarrow> copies reads_WatermarkPodAutoscalerStatus (DeepCopyInto_WatermarkPodAutoscalerStatus L)"
  by (rule copiesI) (auto simp: DeepCopyInto_WatermarkPodAutoscalerStatus_def reads_WatermarkPodAutoscalerStatus_def fresh_def copy_lib_ok_def intro!: copy_steps)

declare copies_WatermarkPodAutoscalerSpec [THEN yields_field, copy_steps] copies_WatermarkPodAutoscalerStatus [THEN yields_field, copy_steps]

section \<open>The object and its list\<close>

definition DeepCopyInto_WatermarkPodAutoscaler :: "copy_lib \<Rightarrow> raw_WatermarkPodAutoscaler \<Rightarrow> raw_WatermarkPodAutoscaler copier" where
  "DeepCopyInto_WatermarkPodAutoscaler L r =
     c_bind (DeepCopyInto_WatermarkPodAutoscalerSpec L (rw_Spec r)) (\<lambda>sp.
     c_bind (DeepCopyInto_WatermarkPodAutoscalerStatus L (rw_Status r)) (\<lambda>st.
     c_return (r\<lparr>rw_TypeMeta := rw_TypeMeta r, rw_ObjectMeta := ObjectMeta_DeepCopyInto L (rw_ObjectMeta r), rw_Spec := sp, rw_Status := st\<rparr>)))"

definition DeepCopy_WatermarkPodAutoscaler :: "copy_lib \<Rightarrow> addr option \<Rightarrow> addr option copier" where
  "DeepCopy_WatermarkPodAutoscaler L = copy_ptr object_kind (DeepCopyInto_WatermarkPodAutoscaler L)"

text \<open>An object with its \<open>TypeMeta\<close>, which the rest of the development does not need\<close>

definition reads_WatermarkPodAutoscaler :: "heap \<Rightarrow> raw_WatermarkPodAutoscaler \<Rightarrow> (string \<times> string) \<times> WatermarkPodAutoscaler \<Rightarrow> bool" where
  "reads_WatermarkPodAutoscaler h r tv \<longleftrightarrow> (case tv of (tm, v) \<Rightarrow> rw_TypeMeta r = tm \<and>
     rw_ObjectMeta r = \<lparr>om_Name = wpa_Name v, om_Namespace = wpa_Namespace v, om_Annotations = Annotations v, om_Labels = wpa_Labels v,
       om_Finalizers = Finalizers v, om_DeletionTimestamp = DeletionTimestamp v\<rparr> \<and>
     reads_WatermarkPodAutoscalerSpec h (rw_Spec r) (Spec v) \<and> reads_WatermarkPodAutoscalerStatus h (rw_Status r) (Status v))"

lemma persistent_WatermarkPodAutoscaler [simp]: "persistent reads_WatermarkPodAutoscaler"
  unfolding persistent_def [of reads_WatermarkPodAutoscaler] reads_WatermarkPodAutoscaler_def
  by (auto intro: persistentD [OF persistent_WatermarkPodAutoscalerSpec] persistentD [OF persistent_WatermarkPodAutoscalerStatus])

lemma copies_WatermarkPodAutoscaler: "copy_lib_ok L \<Longrightarrow> copies reads_WatermarkPodAutoscaler (DeepCopyInto_WatermarkPodAutoscaler L)"
  by (rule copiesI) (auto simp: DeepCopyInto_WatermarkPodAutoscaler_def reads_WatermarkPodAutoscaler_def fresh_def copy_lib_ok_def intro!: copy_steps)

lemma copies_objects:
  "copy_lib_ok L \<Longrightarrow> copies (slice objects_kind reads_WatermarkPodAutoscaler) (copy_ptr objects_kind (copy_each (DeepCopyInto_WatermarkPodAutoscaler L)))"
  by (simp add: copies_slice copies_WatermarkPodAutoscaler)

declare copies_objects [THEN yields_field, copy_steps]

definition DeepCopyInto_WatermarkPodAutoscalerList :: "copy_lib \<Rightarrow> raw_WatermarkPodAutoscalerList \<Rightarrow> raw_WatermarkPodAutoscalerList copier" where
  "DeepCopyInto_WatermarkPodAutoscalerList L r =
     c_bind (copy_ptr objects_kind (copy_each (DeepCopyInto_WatermarkPodAutoscaler L)) (rl_Items r)) (\<lambda>items.
     c_return (r\<lparr>rl_TypeMeta := rl_TypeMeta r, rl_ListMeta := ListMeta_DeepCopyInto L (rl_ListMeta r), rl_Items := items\<rparr>))"

definition DeepCopy_WatermarkPodAutoscalerList :: "copy_lib \<Rightarrow> addr option \<Rightarrow> addr option copier" where
  "DeepCopy_WatermarkPodAutoscalerList L = copy_ptr list_kind (DeepCopyInto_WatermarkPodAutoscalerList L)"

definition reads_WatermarkPodAutoscalerList ::
  "heap \<Rightarrow> raw_WatermarkPodAutoscalerList \<Rightarrow> (string \<times> string) \<times> string \<times> ((string \<times> string) \<times> WatermarkPodAutoscaler) list \<Rightarrow> bool" where
  "reads_WatermarkPodAutoscalerList h r v \<longleftrightarrow> (case v of (tm, lm, ws) \<Rightarrow>
     rl_TypeMeta r = tm \<and> rl_ListMeta r = lm \<and> slice objects_kind reads_WatermarkPodAutoscaler h (rl_Items r) ws)"

lemma persistent_WatermarkPodAutoscalerList [simp]: "persistent reads_WatermarkPodAutoscalerList"
  unfolding persistent_def [of reads_WatermarkPodAutoscalerList] reads_WatermarkPodAutoscalerList_def by (auto intro: at_ptr_later)

lemma copies_WatermarkPodAutoscalerList: "copy_lib_ok L \<Longrightarrow> copies reads_WatermarkPodAutoscalerList (DeepCopyInto_WatermarkPodAutoscalerList L)"
  by (rule copiesI) (auto simp: DeepCopyInto_WatermarkPodAutoscalerList_def reads_WatermarkPodAutoscalerList_def fresh_def copy_lib_ok_def intro!: copy_steps)

text \<open>\<open>if c := in.DeepCopy(); c != nil { return c }; return nil\<close>: a \<open>runtime.Object\<close> is an interface value, whose address is here of one kind with the pointer's.\<close>

definition DeepCopyObject_WatermarkPodAutoscaler :: "copy_lib \<Rightarrow> addr option \<Rightarrow> addr option copier" where
  "DeepCopyObject_WatermarkPodAutoscaler L p =
     c_bind (DeepCopy_WatermarkPodAutoscaler L p) (\<lambda>c. case c of Some a \<Rightarrow> c_return (Some a) | None \<Rightarrow> c_return None)"

definition DeepCopyObject_WatermarkPodAutoscalerList :: "copy_lib \<Rightarrow> addr option \<Rightarrow> addr option copier" where
  "DeepCopyObject_WatermarkPodAutoscalerList L p =
     c_bind (DeepCopy_WatermarkPodAutoscalerList L p) (\<lambda>c. case c of Some a \<Rightarrow> c_return (Some a) | None \<Rightarrow> c_return None)"

lemma DeepCopyObject_is_DeepCopy:
  "DeepCopyObject_WatermarkPodAutoscaler L = DeepCopy_WatermarkPodAutoscaler L"
  "DeepCopyObject_WatermarkPodAutoscalerList L = DeepCopy_WatermarkPodAutoscalerList L"
  by (auto simp: fun_eq_iff DeepCopyObject_WatermarkPodAutoscaler_def DeepCopyObject_WatermarkPodAutoscalerList_def c_bind_def c_return_def
      split: option.splits prod.splits)

section \<open>The interface\<close>

text \<open>What callers rely on: a copying function that meets the contract for every library that copies its own types; one interpretation for each type\<close>

locale deep_copier =
  fixes reads :: "heap \<Rightarrow> addr option \<Rightarrow> 'v option \<Rightarrow> bool"
    and copy :: "copy_lib \<Rightarrow> addr option \<Rightarrow> addr option copier"
  assumes contract: "copy_lib_ok L \<Longrightarrow> copies reads (copy L)"
begin

lemma independent:
  assumes "copy_lib_ok L" "reads h p v"
  shows "\<exists>q h'. copy L p h = Some (q, h') \<and>
    (\<forall>ws. (\<forall>w \<in> set ws. fst w < length h) \<longrightarrow> reads (overwrite ws h') q v) \<and>
    (\<forall>ws. (\<forall>w \<in> set ws. length h \<le> fst w) \<longrightarrow> reads (overwrite ws h') p v)"
  using copies_are_independent [OF contract [OF assms(1)] assms(2)] .

end

interpretation object_copy: deep_copier "pointer object_kind reads_WatermarkPodAutoscaler" DeepCopyObject_WatermarkPodAutoscaler
  by unfold_locales (simp add: DeepCopyObject_is_DeepCopy DeepCopy_WatermarkPodAutoscaler_def copies_pointer copies_WatermarkPodAutoscaler)

interpretation list_copy: deep_copier "pointer list_kind reads_WatermarkPodAutoscalerList" DeepCopyObject_WatermarkPodAutoscalerList
  by unfold_locales (simp add: DeepCopyObject_is_DeepCopy DeepCopy_WatermarkPodAutoscalerList_def copies_pointer copies_WatermarkPodAutoscalerList)

interpretation status_copy: deep_copier "pointer status_kind reads_WatermarkPodAutoscalerStatus" DeepCopy_WatermarkPodAutoscalerStatus
  by unfold_locales (simp add: DeepCopy_WatermarkPodAutoscalerStatus_def copies_pointer copies_WatermarkPodAutoscalerStatus)

interpretation spec_copy: deep_copier "pointer spec_kind reads_WatermarkPodAutoscalerSpec" DeepCopy_WatermarkPodAutoscalerSpec
  by unfold_locales (simp add: DeepCopy_WatermarkPodAutoscalerSpec_def copies_pointer copies_WatermarkPodAutoscalerSpec)

interpretation metric_copy: deep_copier "pointer metric_kind reads_MetricSpec" DeepCopy_MetricSpec
  by unfold_locales (simp add: DeepCopy_MetricSpec_def copies_pointer copies_MetricSpec)

interpretation external_copy: deep_copier "pointer external_kind reads_ExternalMetricSource" DeepCopy_ExternalMetricSource
  by unfold_locales (simp add: DeepCopy_ExternalMetricSource_def copies_pointer copies_ExternalMetricSource)

interpretation resource_copy: deep_copier "pointer resource_kind reads_ResourceMetricSource" DeepCopy_ResourceMetricSource
  by unfold_locales (simp add: DeepCopy_ResourceMetricSource_def copies_pointer copies_ResourceMetricSource)

interpretation recommender_copy: deep_copier "pointer recommender_kind reads_RecommenderSpec" DeepCopy_RecommenderSpec
  by unfold_locales (simp add: DeepCopy_RecommenderSpec_def copies_pointer copies_RecommenderSpec)

interpretation metric_status_copy: deep_copier "pointer metric_status_kind reads_MetricStatus" DeepCopy_MetricStatus
  by unfold_locales (simp add: DeepCopy_MetricStatus_def copies_pointer copies_MetricStatus)

interpretation external_status_copy: deep_copier "pointer external_status_kind reads_ExternalMetricStatus" DeepCopy_ExternalMetricStatus
  by unfold_locales (simp add: DeepCopy_ExternalMetricStatus_def copies_pointer copies_ExternalMetricStatus)

interpretation resource_status_copy: deep_copier "pointer resource_status_kind reads_ResourceMetricStatus" DeepCopy_ResourceMetricStatus
  by unfold_locales (simp add: DeepCopy_ResourceMetricStatus_def copies_pointer copies_ResourceMetricStatus)

interpretation ref_copy: deep_copier "pointer ref_kind same" "\<lambda>_. DeepCopy_CrossVersionObjectReference"
  by unfold_locales (simp add: DeepCopy_CrossVersionObjectReference_def copies_pointer copies_struct_values)

interpretation tls_copy: deep_copier "pointer tls_kind same" "\<lambda>_. DeepCopy_TLSConfig"
  by unfold_locales (simp add: DeepCopy_TLSConfig_def copies_pointer copies_struct_values)

end
