(* ===== verification/Api_Theorems.thy ===== *)
theory Api_Theorems
  imports Api_Decode Deepcopy Samples
begin

text \<open>
  The properties of the API types: what is sent to the API server conforms to the published schema, and what is read back is what was sent, and
  a deep copy of an object is a value of its own.
\<close>

text \<open>A library whose encodings are read back\<close>

definition sample_json :: json_lib where
  "sample_json = \<lparr>
     quantity_json = (\<lambda>q. JArray [JInt (MilliValue q), JInt (Value q), JString (qty_String q)]),
     selector_json = (\<lambda>s. JArray [JObject (map (\<lambda>(k, v). (k, JString v)) (MatchLabels s)), JString (sel_String s)]),
     time_json = (\<lambda>t. JInt (stamp t)),
     condition_json = (\<lambda>c. JArray [JString (cond_Type c), JString (cond_Status c), JInt (stamp (LastTransitionTime c)), JString (Reason c), JString (Message c)]),
     metadata_json = (\<lambda>w. JObject [(''name'', JString (wpa_Name w))]),
     quantity_unjson = (\<lambda>j. case j of JArray [JInt m, JInt v, JString s] \<Rightarrow> Some \<lparr>MilliValue = m, Value = v, qty_String = s\<rparr> | _ \<Rightarrow> None),
     selector_unjson = (\<lambda>j. case j of JArray [m, JString s] \<Rightarrow>
        map_option (\<lambda>ls. \<lparr>MatchLabels = ls, sel_String = s\<rparr>) (get_map (Some m)) | _ \<Rightarrow> None),
     time_unjson = (\<lambda>j. case j of JInt t \<Rightarrow> Some t | _ \<Rightarrow> None),
     condition_unjson = (\<lambda>j. case j of JArray [JString t, JString st, JInt n, JString r, JString m] \<Rightarrow>
        Some \<lparr>cond_Type = t, cond_Status = st, LastTransitionTime = n, Reason = r, Message = m\<rparr> | _ \<Rightarrow> None),
     zero_quantity = percent 0\<rparr>"

lemma sample_json_inverse: "codec_inverse sample_json"
proof -
  have "get_map (Some (JObject (map (\<lambda>(k, v). (k, JString v)) m))) = Some m" for m
    using decode_fields(6) [of "[]" m] by (cases m) (auto simp: omit_map_def)
  then show ?thesis by (simp add: codec_inverse_def sample_json_def)
qed

lemma sample_json_ok: "codec_ok ref (\<lambda>_ _. True) sample_json"
  by (simp add: codec_ok_def)

lemma sample_api_typed: "api_typed sample_wpa"
  by (simp add: api_typed_def sample_defs spec_typed_def fits32_def)

text \<open>C26: The API objects conform to the published schemas.  Every object whose fields hold values of their Go types is encoded as JSON that conforms to the
  OpenAPI definition of its type, through all references: no field is undescribed, no required field is left out, and integers are in the range of
  their format.\<close>

theorem objects_conform:
  assumes "inj ref" "codec_ok ref foreign l" "api_typed w"
  shows "definitions_of ref (ref (v1alpha1 ''WatermarkPodAutoscaler'')) = Some (def_Schema (schema_WatermarkPodAutoscaler ref)) \<and>
    conforms (definitions_of ref) foreign (def_Schema (schema_WatermarkPodAutoscaler ref)) (marshal_WatermarkPodAutoscaler l kind version w)"
  using WatermarkPodAutoscaler_conforms [OF assms] assms(1) by (simp add: definitions_own)

theorem objects_conform_witness:
  "conforms (definitions_of (Cons CHR ''#'')) (\<lambda>_ _. True) (def_Schema (schema_WatermarkPodAutoscaler (Cons CHR ''#'')))
     (marshal_WatermarkPodAutoscaler sample_json ''WatermarkPodAutoscaler'' ''datadoghq.com/v1alpha1'' sample_wpa)"
  using objects_conform [OF _ sample_json_ok sample_api_typed, of "Cons CHR ''#''"] by simp

text \<open>C25: An object is read back from the API server as it was written, except that times are cut to the second: the specification
  exactly, and the status with its times truncated, so that the time of the last scaling event is the one that the
  forbidden windows are measured from.\<close>

theorem objects_are_read_back:
  assumes "codec_inverse l" "api_typed w" "LastScaleTime (Status w) \<noteq> Some zero_time"
  shows "unmarshal_WatermarkPodAutoscalerSpec l (marshal_WatermarkPodAutoscalerSpec l (Spec w)) = Some (Spec w) \<and>
    (\<exists>st. unmarshal_WatermarkPodAutoscalerStatus l (marshal_WatermarkPodAutoscalerStatus l (Status w)) = Some st \<and>
       st = truncated (Status w) \<and> scale_stamp (w\<lparr>Status := st\<rparr>) = scale_stamp w)"
  using assms by (auto simp: api_typed_def WatermarkPodAutoscalerSpec_decoded WatermarkPodAutoscalerStatus_decoded truncated_def scale_stamp_def
      option.map_comp comp_def)

theorem objects_are_read_back_witness:
  "unmarshal_WatermarkPodAutoscalerSpec sample_json (marshal_WatermarkPodAutoscalerSpec sample_json sample_spec) = Some sample_spec \<and>
   unmarshal_WatermarkPodAutoscalerStatus sample_json (marshal_WatermarkPodAutoscalerStatus sample_json
      (sample_status\<lparr>LastScaleTime := Some 1500000000\<rparr>)) = Some (sample_status\<lparr>LastScaleTime := Some 1000000000\<rparr>)"
proof -
  let ?w = "sample_wpa\<lparr>Status := sample_status\<lparr>LastScaleTime := Some 1500000000\<rparr>\<rparr>"
  have "api_typed ?w" using sample_api_typed by (simp add: api_typed_def sample_wpa_def)
  moreover have "truncated (sample_status\<lparr>LastScaleTime := Some 1500000000\<rparr>) = sample_status\<lparr>LastScaleTime := Some 1000000000\<rparr>"
    by (simp add: truncated_def sample_status_def stamp_def)
  ultimately show ?thesis
    using objects_are_read_back [OF sample_json_inverse, of ?w] by (auto simp: sample_wpa_def zero_time_def)
qed

section \<open>Deep copies\<close>

definition sample_copy :: copy_lib where
  "sample_copy = \<lparr>Quantity_DeepCopy = (\<lambda>q. q), Time_DeepCopy = (\<lambda>t. t), LabelSelector_DeepCopyInto = (\<lambda>l. l), Condition_DeepCopyInto = (\<lambda>c. c),
     ObjectMeta_DeepCopyInto = (\<lambda>m. m), ListMeta_DeepCopyInto = (\<lambda>m. m)\<rparr>"

text \<open>The sample object in memory, at address 9\<close>

definition sample_heap :: heap where
  "sample_heap = [IntCell 1, QuantityCell (percent 50), QuantityCell (percent 20), SelectorCell sample_selector, QuantityCell (percent 200),
     QuantityCell (percent 100),
     ExternalCell \<lparr>re_MetricName = ''queue'', re_MetricSelector = Some 3, re_HighWatermark = Some 4, re_LowWatermark = Some 5\<rparr>,
     MetricsCell [\<lparr>rm_Type = ''External'', rm_External = Some 6, rm_Resource = None\<rparr>], IntCell 3,
     ObjectCell \<lparr>rw_TypeMeta = (''WatermarkPodAutoscaler'', ''datadoghq.com/v1alpha1''),
       rw_ObjectMeta = \<lparr>om_Name = ''web'', om_Namespace = ''prod'', om_Annotations = [], om_Labels = [],
         om_Finalizers = [''finalizer.watermarkpodautoscaler.datadoghq.com''], om_DeletionTimestamp = None\<rparr>,
       rw_Spec = \<lparr>rp_DownscaleForbiddenWindowSeconds = 300, rp_UpscaleForbiddenWindowSeconds = 60, rp_ScaleUpLimitFactor = Some 1,
         rp_UpscaleDelayAboveWatermarkSeconds = 120, rp_ScaleDownLimitFactor = Some 2, rp_DownscaleDelayBelowWatermarkSeconds = 0,
         rp_ReplicaScalingAbsoluteModulo = Some 0, rp_ConvergeTowardsWatermark = ''highwatermark'', rp_Tolerance = milli 100,
         rp_Algorithm = ''average'', rp_DryRun = False, rp_TolerateZero = False,
         rp_ScaleTargetRef = \<lparr>ref_Kind = ''Deployment'', ref_Name = ''web'', ref_APIVersion = ''apps/v1''\<rparr>, rp_Metrics = Some 7,
         rp_Recommender = None, rp_MinReplicas = Some 8, rp_MinAvailableReplicaPercentage = 0, rp_MaxReplicas = 30,
         rp_ReadinessDelaySeconds = 0\<rparr>,
       rw_Status = \<lparr>ru_ObservedGeneration = None, ru_LastScaleTime = None, ru_ScalingEventsCount = 0, ru_CurrentReplicas = 10,
         ru_DesiredReplicas = 10, ru_CurrentMetrics = None, ru_Conditions = None, ru_LastConditionType = [], ru_LastConditionState = []\<rparr>\<rparr>]"

abbreviation holds_object :: "heap \<Rightarrow> addr option \<Rightarrow> ((string \<times> string) \<times> WatermarkPodAutoscaler) option \<Rightarrow> bool" where
  "holds_object \<equiv> pointer object_kind reads_WatermarkPodAutoscaler"

lemma sample_heap_object:
  "holds_object sample_heap (Some 9) (Some ((''WatermarkPodAutoscaler'', ''datadoghq.com/v1alpha1''), sample_wpa))"
  by (simp add: at_ptr_def content_def sample_heap_def kind_defs optional_def reads_WatermarkPodAutoscaler_def reads_WatermarkPodAutoscalerSpec_def
      reads_WatermarkPodAutoscalerStatus_def reads_MetricSpec_def reads_ExternalMetricSource_def elements_def same_def sample_defs)

text \<open>C27: A deep copy of an autoscaler is an object of its own.  The copy succeeds on every object in memory, reads as the same value, and
  shares no cell with the original: whatever is stored later at the addresses that were in use before, the copy reads the same, and
  whatever is stored at the new ones, the original does; a nil pointer gives nil.\<close>

theorem deep_copy_is_independent:
  assumes "copy_lib_ok L" "holds_object h p v"
  shows "\<exists>q h'. DeepCopyObject_WatermarkPodAutoscaler L p h = Some (q, h') \<and>
    (\<forall>ws. (\<forall>w \<in> set ws. fst w < length h) \<longrightarrow> holds_object (overwrite ws h') q v) \<and>
    (\<forall>ws. (\<forall>w \<in> set ws. length h \<le> fst w) \<longrightarrow> holds_object (overwrite ws h') p v)"
  using assms by (rule object_copy.independent)

theorem deep_copy_is_independent_witness:
  "\<exists>q h'. DeepCopyObject_WatermarkPodAutoscaler sample_copy (Some 9) sample_heap = Some (q, h') \<and>
    holds_object (overwrite [(8, IntCell 5)] h') q (Some ((''WatermarkPodAutoscaler'', ''datadoghq.com/v1alpha1''), sample_wpa))"
proof -
  have "copy_lib_ok sample_copy" by (simp add: copy_lib_ok_def sample_copy_def)
  from deep_copy_is_independent [OF this sample_heap_object] obtain q h' where
    "DeepCopyObject_WatermarkPodAutoscaler sample_copy (Some 9) sample_heap = Some (q, h')"
    "\<forall>ws. (\<forall>w \<in> set ws. fst w < length sample_heap) \<longrightarrow>
       holds_object (overwrite ws h') q (Some ((''WatermarkPodAutoscaler'', ''datadoghq.com/v1alpha1''), sample_wpa))" by blast
  then show ?thesis by (auto simp: sample_heap_def)
qed

end
