(* ===== verification/Spec2Isabelle.thy ===== *)
theory Spec2Isabelle
  imports Scaling_Theorems Calculator_Theorems Support_Theorems Plugin_Theorems Reconcile_Types Progress Main_Program Plugin_Commands Skeleton
    Due_Change Api_Theorems
begin

text \<open>
  WatermarkPodAutoscaler: a verification development for the controller of DataDog/watermarkpodautoscaler.

  \<^bold>\<open>The program.\<close>  The controller is a Kubernetes operator.  An object of kind \<open>WatermarkPodAutoscaler\<close> names a target (a deployment or another resource with a scale), bounds
  on its replicas, and either metrics with a low and a high watermark or a recommender service.  For every
  request \<open>Reconcile\<close> reads the object, completes and checks its specification, asks the metrics APIs or the
  recommender for a replica count, limits the count by bounds and velocity, decides whether the change is due,
  writes the scale of the target, and reports in the status of the object, in events and in Prometheus series.  Beside the controller the
  repository has a kubectl plugin that switches the dry-run mode of objects, an example recommender, and
  metrics clients taken over from Kubernetes.

  \<^bold>\<open>The theories and the sources they model\<close> (paths under \<open>src/\<close>).

  \<^item> \<open>Prelude\<close>: 32- and 64-bit integers, panics and errors as values, the state monad \<open>go\<close> with its predicate transformer \<open>wp\<close> (a postcondition for
    a normal return and one for a panic), strings, time.  \<open>Float64\<close>: the IEEE binary64 operations of the code, on rationals with rounding.  \<open>Math32\<close>:
    \<open>pkg/math32\<close>.  \<open>Util_List\<close>: \<open>pkg/util/list.go\<close> on the backing array of a slice.
  \<^item> \<open>Api_Types\<close>, \<open>Api_Default\<close>: \<open>apis/datadoghq/v1alpha1\<close>, the records of the custom resource, its defaults and its validation.
  \<^item> \<open>Json_Schema\<close> (JSON values, schemas and the relation \<open>conforms\<close>), \<open>Openapi\<close>: \<open>zz_generated.openapi.go\<close>, the published schema.  \<open>Api_Json\<close>, \<open>Api_Decode\<close>: the JSON
    form that the struct tags of \<open>watermarkpodautoscaler_types.go\<close> give the objects, written and read; \<open>Api_Conforms\<close>: one lemma for each type, that what is written conforms.
  \<^item> \<open>Heap_Copy\<close> (objects in memory, with pointers, slices and maps as addresses of cells, and the contract \<open>copies\<close>), \<open>Deepcopy\<close>: \<open>zz_generated.deepcopy.go\<close>.
  \<^item> \<open>World\<close>: the state of a worker (the object, the clock, the reads taken from outside, the TLS state, the trace of
    effects), the frame conditions (\<open>framed\<close>) and invariants (\<open>preserves\<close>) of programs.
  \<^item> \<open>Prom_Vectors\<close>, \<open>Prom_Metrics\<close>: \<open>controllers/datadoghq/metrics.go\<close>.  \<open>Conditions\<close>: the conditions and the status of the object
    (\<open>setCondition\<close>, \<open>getCondition\<close>, \<open>setStatus\<close> of the controller).
  \<^item> \<open>Rest_Metrics\<close>, \<open>Legacy_Metrics\<close>: the two clients of \<open>third_party/kubernetes/pkg/controller/podautoscaler/metrics\<close>.
  \<^item> \<open>Pods\<close>, \<open>Replica_Calculator\<close>: \<open>controllers/datadoghq/replica_calculator.go\<close>, readiness and grouping of pods, and the calculations from a metric or a recommendation to a
    proposal.
  \<^item> \<open>Tls\<close>, \<open>Tls_Cache\<close>: \<open>controllers/datadoghq/tls.go\<close>; \<open>Recommender\<close>: \<open>controllers/datadoghq/recommender.go\<close>.
  \<^item> \<open>Scaling_Rules\<close> (bounds and velocity limits), \<open>Scale_Decision\<close> (forbidden windows and delays), \<open>Compute\<close> (combining metrics) and \<open>Reconcile\<close> (the
    request): \<open>controllers/datadoghq/watermarkpodautoscaler_controller.go\<close> and \<open>finalizer.go\<close>.
  \<^item> \<open>Csv\<close>, \<open>Dryrun\<close>: \<open>cmd/kubectl-wpa/app/dryrun/dryrun.go\<close> on Go's \<open>encoding/csv\<close>.  \<open>Config\<close>: \<open>pkg/config/config.go\<close>, the default TLS settings of \<open>main.go\<close> and the log
    attributes of an object.  \<open>Setup\<close>: \<open>SetupWithManager\<close>
    and the start of the reconciler in \<open>main\<close>.  \<open>Main_Program\<close>: \<open>main\<close> itself and \<open>pkg/version\<close>.  \<open>Plugin_Commands\<close>: the
    commands, flags and client of the plugin (\<open>cmd/kubectl-wpa\<close>).  \<open>Skeleton\<close>: \<open>cmd/skeleton-recommender/main.go\<close>.
  \<^item> \<open>Reconcile_Safety\<close>, \<open>Reconcile_Results\<close>, \<open>Reconcile_Types\<close>: lemmas on whole requests.  \<open>Control_Loop\<close>: sequences of requests around the API server, as
    a step relation.  \<open>Progress\<close>, \<open>Due_Change\<close>: when a request does write the scale.  \<open>Samples\<close>: concrete objects.  \<open>Scaling_Theorems\<close>, \<open>Calculator_Theorems\<close>, \<open>Support_Theorems\<close>,
    \<open>Plugin_Theorems\<close>, \<open>Api_Theorems\<close> and this theory: the properties C1 to C40, each with an instance on a concrete input.

  \<^bold>\<open>How the code is modelled.\<close>  A Go function that touches state is a program of type \<open>world \<Rightarrow> 'a outcome \<times> world\<close>; one that does not is a
  HOL function.  A pointer that may be nil is an option and dereferencing it is \<open>deref\<close>, which panics on \<open>None\<close>; integer division by zero and slice expressions out
  of bounds panic; \<open>recover\<close> and \<open>defer\<close> are \<open>go_recover\<close> and \<open>go_finally\<close>.  An error is a value of \<open>go_error\<close> with its text and whether it says that something was
  not found.  Integers are kept to their width by \<open>int32\<close> and \<open>int64\<close>.  Floating-point operations round; the conversion of a float that does not fit its integer type
  is an unknown integer of that type, as the language leaves it open.  What is outside of the repository (the API server, the metrics APIs, the pod cache, files,
  HTTP, JSON, quantities and selectors of the Kubernetes library) is a field of a record that the definitions
  take as an argument; a reading call may answer differently each time, because it is given the number of the read.
  Calls that change something outside are recorded in \<open>trace\<close>.  A Prometheus vector that is used with labels it was not declared
  with panics in the program; the model records the call, and C11 shows that it does not happen.

  \<^bold>\<open>Interfaces.\<close>  \<open>rounding\<close> is what the arithmetic needs of rounding (interpreted by \<open>rnd_rat\<close>); \<open>condition_store\<close> what the decisions need of the
  conditions (interpreted by \<open>setCondition\<close>); \<open>metrics_client\<close> what the calculator needs of a metrics client (interpreted by the REST and
  by the Heapster client); \<open>replica_calculator\<close> what the reconciler needs of the calculator, which
  \<open>calculator_clients\<close> gives for every calculator whose clients behave (interpreted by the calculator on the REST client and the recommender client);
  \<open>deep_copier\<close> what callers need of a copying function (interpreted by those of all types).

  \<^bold>\<open>What is proved.\<close>

  \<^item> The request: it writes the scale at most once and only within bounds, velocity limits and windows (C1); the windows hold between
    requests (C2); a change that is due is made (C3); it does not panic (C7), the statuses it writes are well-typed (C12) and its labels are right (C11); a live
    object is visited again (C8); bounds are enforced at once (C10), a change is recorded (C13), an invalid specification stops (C16), a monitor blocks (C17), deletion
    releases the finalizer (C18), missing settings are filled (C19, C32).  The reconciler that \<open>main\<close> starts is one for which this is proved (C20).
  \<^item> Limits and decisions: C4, C6, C22, C24.  The conditions they rest on: C21.
  \<^item> Calculations: the proposals of the float code are the integer ones (C5), they have the right direction (C14) and capacity (C15), convergence is by
    single steps (C23), the largest proposal wins (C9), and the groups of pods are right (C28); C36 and C37 show where they are not what one expects.
  \<^item> Objects: what is sent to the server is read back (C25), up to the second to which times are cut, for which C2 allows; it conforms to the published schema
    (C26); a deep copy shares nothing with its original (C27), which is why a status or an object that the code copies first is a value in the model of the request.
  \<^item> Clients: recommendations are authentic (C29), certificates are fresh (C30), loading them ends (C31), a cached error stays (C38).  Lemmas of \<open>Support_Theorems\<close> show what the
    metrics clients return and that the two agree.
  \<^item> An object without metrics is scaled down to its minimum (C39); the series of a deleted object (C40).  The plugin: saving and restoring (C33), switching (C34), termination (C35).

  \<^bold>\<open>Bounds and fuel.\<close>  The exactness of the float code (C5, C15) is stated under \<open>exact_range\<close>: \<open>ready * usage\<close> is below \<open>2 ^ 53\<close> milli-units, where all operands are exact, watermarks are
  positive and at most \<open>2 ^ 52\<close>, and the proposal fits 32 bits.  Limits (C4, C22) are for maxima below \<open>2 ^ 30\<close>, so that doubling does not overflow; delays (C24) for
  elapsed times below \<open>2 ^ 22\<close> seconds (48 days), below which the comparison of the floats is exact.  \<open>retry_keypair\<close> recurses on the attempts left.  \<open>revert_loop\<close> has a fuel: one round
  more than the file has characters is enough for every file that can be read (C35).

  \<^bold>\<open>Choices.\<close>  \<open>sort.Slice\<close> on the conditions is a stable sort, which it is for the at most twelve elements they have.  The callbacks of the certificate cache are
  atomic steps.  One worker is modelled: requests for one object are never concurrent, as the work queue guarantees.  Positions in CSV parse errors are left out.

  Decoding takes the fields of an object by their exact names, the first of each (\<open>encoding/json\<close> also accepts other cases and takes the last; the encoder writes neither).
  A copying function allocates a cell when its content is known, where the code fills it after \<open>new\<close>: addresses are not observable.

  \<^bold>\<open>Not modelled.\<close>  The registration of the types with the scheme of the Kubernetes library (\<open>register.go\<close>, \<open>groupversion_info.go\<close>: constants that are passed to
  it); the descriptions in the schema; the parsing of flags and the dispatch of
  commands, the construction of clients, of the manager and of the pod informer inside the libraries; logging and tracing; the helpers and the metrics server
  of the end-to-end tests.
\<close>


section \<open>The deployed reconciler\<close>

text \<open>The sample reconciler is one that the process has started.\<close>

definition sample_setup :: "scale \<Rightarrow> setup_env" where
  "sample_setup sc = \<lparr>builder_Complete = None, metrics_apis = Ret (sample_api 3000000), tls_files = sample_tls, reco_services = sample_reco,
     initializePodInformer = Ret (\<lambda>_ _ _. Ret (Inr (map (\<lambda>i. sample_pod (show_nat i) ''Running'') [0..<10]))), NewClientset = None,
     discovery = (\<lambda>_ _ _. Inr [\<lparr>GroupResource = ''deployments.apps'', GroupVersion = ''apps/v1''\<rparr>]),
     NewScaleClient = Inr (\<lambda>_ _ _ _. Inr sc, \<lambda>_ _ _ _. None), K8S_CLUSTER_NAME = Some ''test''\<rparr>"

lemma sample_wired: "wired (sample_reconciler w sc)"
proof -
  have "start (sample_setup sc) \<lparr>tlsCAFile = [], tlsCertFile = [], tlsKeyFile = [], tlsInsecureSkipVerify = False, tlsServerName = []\<rparr> (sample_reconciler w sc) =
      Ret (Inr (sample_reconciler w sc))"
    by (simp add: start_def default_tls_def SetupWithManager_def sample_setup_def NewRecommenderClient_tls getClusterName_def defaultSyncPeriod_def
        sample_reconciler_def)
  then show ?thesis unfolding wired_def by blast
qed



lemma sample_scale_typed: "scale_typed sample_scale"
  by (simp add: scale_typed_def sample_scale_def fits32_def)

section \<open>Safety of a request\<close>













section \<open>A due change\<close>

text \<open>C3: A change that is due is made.  A live, valid object that is not in dry-run mode and not under a monitor, whose target is within its bounds, and for whose
  metrics the calculator has proposals: the request writes the scale, once and without a panic, with the largest proposal limited by bounds and velocity, if the
  forbidden window of the direction has passed and no delay applies (for an object without a scaling event always, even if
  the count is the current one).  Nothing that the API server answers to the other calls can prevent it.\<close>

theorem due_change_is_made:
  assumes "wired r" "Client_Get r ns name (reads s) = Inr w" "alive w" "IsDefaultWatermarkPodAutoscaler w" "CheckWPAValidity w = None" "schema_ok w"
    and "map_of (Annotations w) lifecycleControlEnabledAnnotationKey = None" "\<not> DryRun (Spec w)"
    and "resolves r w gr sc" "scale_typed sc" "\<not> edge (Spec w) sc" "scale_SpecReplicas sc = cur" "cur \<noteq> 0"
    and "ms = map fill_metric (Metrics (Spec w))" "ms \<noteq> []"
    and "list_all (\<lambda>m. 0 < p m \<and> proposes (replicaCalc r) sc (fill w) p ready out m) ms"
    and "ScaleDownLimitFactor (Spec w) = Some down" "ScaleUpLimitFactor (Spec w) = Some up"
    and "n = normalized (down_limit down cur) (up_limit up cur) (min_or_zero (Spec w)) (MaxReplicas (Spec w)) cur (Max (p ` set ms)) ready"
    and "prompt w cur n (\<not> list_ex out ms)" "\<forall>k \<ge> ticks s. timely w cur n (clock s k)"
  shows "wp (Reconcile r ns name) (\<lambda>_ s'. writes s' = writes s @ [(gr, sc\<lparr>scale_SpecReplicas := n\<rparr>)]) (\<lambda>_ _. False) s"
proof -
  from assms(1) obtain api tenv env defaults lister cluster where
    c: "replicaCalc r = calculator_itf (lib r) (NewReplicaCalculator api (GetReplicaRecommendation tenv env defaults) lister cluster)"
    by (rule wired_calculator)
  have v: "list_all metric_ok (Metrics (Spec w))" "Recommender (Spec w) = None"
    using assms(5,14,15) by (auto simp: CheckWPAValidity_None_iff valid_spec_def)
  have f: "Metrics (Spec (fill w)) = ms" "Recommender (Spec (fill w)) = None" "min_or_zero (Spec (fill w)) = min_or_zero (Spec w)"
    "ScaleDownLimitFactor (Spec (fill w)) = ScaleDownLimitFactor (Spec w)" "ScaleUpLimitFactor (Spec (fill w)) = ScaleUpLimitFactor (Spec w)"
    "MaxReplicas (Spec (fill w)) = MaxReplicas (Spec w)"
    using assms(14) v(2) by (simp_all add: fill_def min_or_zero_def)
  have settle: "settles (computeReplicas (lib r) (replicaCalc r) sc) (fill w) sc n"
    unfolding c
  proof (rule deployed.metrics_settle [where p = p and ready = ready and out = out and ms = ms])
    show "list_all filled ms" using v(1) by (auto simp: assms(14) list_all_iff fill_metric_filled)
    show "list_all (\<lambda>m. 0 < p m \<and> proposes (calculator_itf (lib r)
        (NewReplicaCalculator api (GetReplicaRecommendation tenv env defaults) lister cluster)) sc (fill w) p ready out m) ms"
      using assms(16) by (simp add: c)
  qed (use f assms(12,15,17-20) in simp_all)
  show ?thesis
    unfolding scaled_to_def [symmetric] by (rule Reconcile_due [OF assms(2-11) _ settle]) (use assms(12,13,21) in simp_all)
qed

theorem due_change_is_made_witness:
  "wp (Reconcile (sample_reconciler sample_wpa sample_scale) ''prod'' ''web'')
     (\<lambda>_ s'. writes s' = [(''deployments.apps'', sample_scale\<lparr>scale_SpecReplicas := 15\<rparr>)]) (\<lambda>_ _. False) (sample_world sample_wpa)"
proof -
  have get: "Client_Get (sample_reconciler sample_wpa sample_scale) ''prod'' ''web'' (reads (sample_world sample_wpa)) = Inr sample_wpa"
    by (simp add: sample_reconciler_def)
  have ms: "map fill_metric (Metrics (Spec sample_wpa)) = [sample_metric]"
    by (simp add: sample_defs fill_metric_def ExternalMetricSourceType_def)
  have rest: "scale_SpecReplicas sample_scale = 10" "\<not> edge (Spec sample_wpa) sample_scale" "ScaleDownLimitFactor (Spec sample_wpa) = Some (percent 20)"
    "ScaleUpLimitFactor (Spec sample_wpa) = Some (percent 50)" "min_or_zero (Spec sample_wpa) = 3" "MaxReplicas (Spec sample_wpa) = 30"
    "LastScaleTime (Status sample_wpa) = None"
    by (simp_all add: sample_defs edge_def min_or_zero_def)
  have w: "writes (sample_world sample_wpa) = []" by (simp add: sample_world_def writes_def)
  show ?thesis
    by (rule wp_mono [OF due_change_is_made [OF sample_wired get sample_objects sample_resolves sample_scale_typed rest(2,1) _ ms [symmetric] _ _ rest(3,4) refl,
          where p = "\<lambda>_. 15" and ready = 10 and out = "\<lambda>_. True"]])
      (simp_all add: sample_proposes sample_filled rest prompt_def timely_def sample_limits normalized_def lower_limit_def upper_limit_def w)
qed

section \<open>Panics and labels\<close>

text \<open>C7: A request for an object that is not being deleted never panics, whatever its specification is and whatever the
  clients, the calculator and the recommender do: a panic while the replicas are
  reconciled is recovered, and nothing around it can panic.\<close>

theorem reconcile_never_panics:
  assumes "\<And>w. Client_Get r ns name (reads s) = Inr w \<Longrightarrow> DeletionTimestamp w = None"
  shows "wp (Reconcile r ns name) (\<lambda>_ _. True) (\<lambda>_ _. False) s"
proof (cases "Client_Get r ns name (reads s)")
  case (Inl e)
  then show ?thesis by (simp add: Reconcile_def go_wp)
next
  case (Inr w)
  let ?s = "s\<lparr>reads := Suc (reads s), wpa := w\<rparr>"
  have alive: "DeletionTimestamp (wpa ?s) = None" using assms Inr by simp
  have fin: "wp (handleFinalizer r) (\<lambda>_ _. True) (\<lambda>_ _. False) ?s"
  proof -
    have "total (if \<not> ContainsString (Finalizers w) watermarkpodautoscalerFinalizer then
       go_bind (addFinalizer r) (\<lambda>e. case e of
         Some err \<Rightarrow> go_return (True, Some err)
       | None \<Rightarrow> go_return (False, None))
     else go_return (False, None))" by (intro total_intros)
    then show ?thesis using alive unfolding handleFinalizer_def wp_bind [of "go_get _"] wp_get total_def by simp
  qed
  have rest: "total (go_bind (go_get (\<lambda>s. Status (wpa s))) (\<lambda>original.
       go_bind (setCondition ScalingActive ConditionFalse ReasonFailedProcessWPA
          ''Error happened while processing the WPA'') (\<lambda>_.
       go_finally (reconcile_live r original) updateConditionsMetrics)))"
    by (intro total_intros)
  show ?thesis
    unfolding Reconcile_def wp_bind [of "go_read _"] wp_read outcome.case Inr sum.case wp_bind [of "modify_wpa _"] wp_modify_wpa
    by (rule wp_phase2 [OF fin]) (use rest in \<open>auto simp: go_wp total_def\<close>)
qed

theorem reconcile_never_panics_witness:
  "wp (Reconcile (sample_reconciler sample_wpa sample_scale) ''prod'' ''web'') (\<lambda>_ _. True) (\<lambda>_ _. False) (sample_world sample_wpa)"
  using reconcile_never_panics [of "sample_reconciler sample_wpa sample_scale" "''prod''" "''web''" "sample_world sample_wpa"]
  by (simp add: sample_reconciler_def sample_wpa_def)



section \<open>Outcomes\<close>



text \<open>C16: An object with an invalid specification is reported and left alone: the request writes no scale, emits
  the warning \<open>FailedSpecCheck\<close> with the error of the check, and is not repeated; it returns an error only if the status
  could not be written.\<close>

theorem invalid_spec_stops:
  assumes "Client_Get r ns name (reads s) = Inr w" "alive w"
    and "IsDefaultWatermarkPodAutoscaler w" "CheckWPAValidity w = Some e"
  shows "wp (Reconcile r ns name) (\<lambda>(res, err) s'. res = no_requeue \<and> writes s' = writes s \<and>
     Eventf None EventTypeWarning ReasonFailedSpecCheck (Error e) \<in> set (trace s') \<and>
     (case err of None \<Rightarrow> True | Some x \<Rightarrow> \<exists>w' n. Status_Update r w' n = Inl x)) (\<lambda>_ _. False) s"
proof -
  have v: "CheckWPAValidity (wpa (fetched w s)) = Some e" "IsDefaultWatermarkPodAutoscaler (wpa (fetched w s))"
    using assms(3,4) CheckWPAValidity_cong [of "wpa (fetched w s)" w] IsDefault_cong [of "wpa (fetched w s)" w] by simp_all
  let ?ev = "Eventf None EventTypeWarning ReasonFailedSpecCheck (Error e)"
  let ?Q = "\<lambda>(res, err) s'. res = no_requeue \<and> writes s' = writes s \<and> ?ev \<in> set (trace s') \<and>
     (case err of None \<Rightarrow> True | Some x \<Rightarrow> \<exists>w' n. Status_Update r w' n = Inl x)"
  have report: "wp (report_status r original None no_requeue) ?Q (\<lambda>_ _. False)
      (after_set t st re m ((fetched w s)\<lparr>trace := trace (fetched w s) @ [?ev]\<rparr>))" for original t st re m
    by (rule wp_mono [OF report_result])
      (use trace_after_set [of "(fetched w s)\<lparr>trace := trace (fetched w s) @ [?ev]\<rparr>" t st re m] in \<open>auto split: option.splits\<close>)
  show ?thesis
    unfolding wp_Reconcile_alive [OF assms(1,2)]
    by (rule wp_endI) (use v in \<open>auto simp: reconcile_live_def go_wp report [simplified]\<close>)
qed

theorem invalid_spec_stops_witness:
  "wp (Reconcile (sample_reconciler (sample_wpa\<lparr>Spec := sample_spec\<lparr>MaxReplicas := 2\<rparr>\<rparr>) sample_scale) ''prod'' ''web'')
     (\<lambda>(res, err) s'. res = no_requeue \<and> writes s' = []) (\<lambda>_ _. False) (sample_world sample_wpa)"
proof -
  let ?w = "sample_wpa\<lparr>Spec := sample_spec\<lparr>MaxReplicas := 2\<rparr>\<rparr>"
  obtain e where "CheckWPAValidity ?w = Some e"
    by (simp add: CheckWPAValidity_def sample_wpa_def sample_spec_def)
  then show ?thesis
    by (intro wp_mono [OF invalid_spec_stops [where w = ?w]])
      (auto simp: sample_defs sample_reconciler_def alive_def watermarkpodautoscalerFinalizer_def IsDefault_iff writes_def)
qed

text \<open>C17: With lifecycle control enabled, a monitor that is missing, has no state or is not OK blocks the
  autoscaler: no scale is written, and the request is repeated after two minutes (no monitor) or one
  (not OK), unless the status could not be written, which is an error.\<close>

theorem monitor_blocks:
  assumes "Client_Get r ns name (reads s) = Inr w" "alive w"
    and "IsDefaultWatermarkPodAutoscaler w" "CheckWPAValidity w = None"
    and "map_of (Annotations w) lifecycleControlEnabledAnnotationKey = Some v" "ParseBool v = Inr True"
    and "mon = Client_GetMonitor r (wpa_Namespace w) (wpa_Name w) (Suc (reads s))"
    and "case mon of Inl _ \<Rightarrow> True | Inr m \<Rightarrow> \<not> state_found m \<or> state_err m \<noteq> None \<or> monitorState m \<noteq> ''OK''"
  shows "wp (Reconcile r ns name) (\<lambda>(res, err) s'. writes s' = writes s \<and>
     (case err of
        None \<Rightarrow> RequeueAfter res = (case mon of Inl _ \<Rightarrow> 120 | Inr _ \<Rightarrow> 60) * 1000000000
      | Some e \<Rightarrow> res = no_requeue \<and> (\<exists>w' n. Status_Update r w' n = Inl e))) (\<lambda>_ _. False) s"
proof -
  have v: "CheckWPAValidity (wpa (fetched w s)) = None" "IsDefaultWatermarkPodAutoscaler (wpa (fetched w s))"
    using assms(3,4) CheckWPAValidity_cong [of "wpa (fetched w s)" w] IsDefault_cong [of "wpa (fetched w s)" w] by simp_all
  have report: "wp (report_status r original rel \<lparr>Requeue = False, RequeueAfter = n\<rparr>) (\<lambda>(res, err) s'. writes s' = writes s \<and>
     (case err of None \<Rightarrow> RequeueAfter res = k | Some e \<Rightarrow> res = no_requeue \<and> (\<exists>w' n. Status_Update r w' n = Inl e)))
     (\<lambda>_ _. False) s1" if "writes s1 = writes s" "n = k" for original rel n k s1
    by (rule wp_mono [OF report_result]) (use that in \<open>auto split: option.splits\<close>)
  show ?thesis
    unfolding wp_Reconcile_alive [OF assms(1,2)]
    by (rule wp_endI)
      (use v assms(5-8) in \<open>auto simp: reconcile_live_def lifecycle_enabled_def check_monitor_def monitorStatusErrorDuration_def go_wp Let_def wp_return_eq
         intro!: report split: sum.splits\<close>)
qed

theorem monitor_blocks_witness:
  "wp (Reconcile (sample_reconciler (sample_wpa\<lparr>Annotations := [(''wpa.datadoghq.com/lifecycle-control.enabled'', ''true'')]\<rparr>) sample_scale)
      ''prod'' ''web'') (\<lambda>(res, err) s'. writes s' = [] \<and> (err = None \<longrightarrow> RequeueAfter res = 120 * 1000000000)) (\<lambda>_ _. False)
     (sample_world sample_wpa)"
proof -
  let ?w = "sample_wpa\<lparr>Annotations := [(''wpa.datadoghq.com/lifecycle-control.enabled'', ''true'')]\<rparr>"
  have "CheckWPAValidity ?w = None"
    by (simp add: CheckWPAValidity_None_iff valid_spec_def metric_ok_def watermarks_ok_def sample_defs ExternalMetricSourceType_def)
  then show ?thesis
    by (intro wp_mono [OF monitor_blocks [where w = ?w and v = "''true''", OF _ _ _ _ _ _ refl]])
     (auto simp: sample_defs sample_reconciler_def alive_def watermarkpodautoscalerFinalizer_def IsDefault_iff writes_def
        lifecycleControlEnabledAnnotationKey_def ParseBool_def)
qed









end
